(* ===== verification/Prelude.thy ===== *)
theory Prelude
  imports Main "HOL-Library.Multiset" "HOL-Library.List_Lexorder" "HOL-Library.Char_ord"
begin

text \<open>
  Shared vocabulary of the development: Python exceptions as values, the sequencing of fallible
  computations, Python's \<open>sorted(set(...))\<close>, dictionaries as association lists, and the lemma
  collections the component theories add to.
\<close>

section \<open>Lemma collections\<close>

named_theorems result_simps \<open>inversion of successful and failed fallible computations\<close>
named_theorems order_free \<open>facts showing that a result does not depend on the order of its input\<close>

section \<open>Exceptions and fallible computations\<close>

text \<open>
  The built-in exceptions the sources raise or catch.  \<open>KeyError\<close> is a \<open>LookupError\<close>;
  \<open>decimal.InvalidOperation\<close>, \<open>ZeroDivisionError\<close> and \<open>OverflowError\<close> are
  \<open>ArithmeticError\<close>s; a pydantic \<open>ValidationError\<close> is a \<open>ValueError\<close>.
\<close>

datatype pyexc = KeyErr | LookupErr | ValueErr | TypeErr | ArithErr | TimeoutErr
  | ConnectionErr | RuntimeErr | OtherErr

type_synonym 'a py = "pyexc + 'a"

fun rbind :: "'e + 'a \<Rightarrow> ('a \<Rightarrow> 'e + 'b) \<Rightarrow> 'e + 'b" where
  "rbind (Inl e) f = Inl e"
| "rbind (Inr x) f = f x"

definition rmap :: "('a \<Rightarrow> 'b) \<Rightarrow> 'e + 'a \<Rightarrow> 'e + 'b" where
  "rmap f m = rbind m (\<lambda>x. Inr (f x))"

text \<open>Short-circuit conjunction of fallible tests, as Python's \<open>and\<close>: the right operand is
  evaluated (and may raise) only when the left one is true.\<close>

definition rand :: "'e + bool \<Rightarrow> 'e + bool \<Rightarrow> 'e + bool" where
  "rand m n = rbind m (\<lambda>b. if b then n else Inr False)"

definition ror :: "'e + bool \<Rightarrow> 'e + bool \<Rightarrow> 'e + bool" where
  "ror m n = rbind m (\<lambda>b. if b then Inr True else n)"

fun rtraverse :: "('a \<Rightarrow> 'e + 'b) \<Rightarrow> 'a list \<Rightarrow> 'e + 'b list" where
  "rtraverse f [] = Inr []"
| "rtraverse f (x # xs) = rbind (f x) (\<lambda>y. rbind (rtraverse f xs) (\<lambda>ys. Inr (y # ys)))"

fun rfold :: "('a \<Rightarrow> 's \<Rightarrow> 'e + 's) \<Rightarrow> 'a list \<Rightarrow> 's \<Rightarrow> 'e + 's" where
  "rfold f [] s = Inr s"
| "rfold f (x # xs) s = rbind (f x s) (rfold f xs)"

lemma rbind_eq_Inr [result_simps]: "rbind m f = Inr y \<longleftrightarrow> (\<exists>x. m = Inr x \<and> f x = Inr y)"
  by (cases m) auto

lemma rbind_eq_Inl [result_simps]:
  "rbind m f = Inl e \<longleftrightarrow> m = Inl e \<or> (\<exists>x. m = Inr x \<and> f x = Inl e)"
  by (cases m) auto

lemma rbind_InrE: "rbind m f = Inr y \<Longrightarrow> (\<And>x. m = Inr x \<Longrightarrow> f x = Inr y \<Longrightarrow> P) \<Longrightarrow> P"
  by (cases m) auto

lemma rmap_simps [simp]: "rmap f (Inl e) = Inl e" "rmap f (Inr x) = Inr (f x)"
  by (simp_all add: rmap_def)

lemma rmap_eq_Inr [result_simps]: "rmap f m = Inr y \<longleftrightarrow> (\<exists>x. m = Inr x \<and> y = f x)"
  by (cases m) auto

lemma rand_simps [simp]:
  "rand (Inl e) n = Inl e" "rand (Inr True) n = n" "rand (Inr False) n = Inr False"
  by (simp_all add: rand_def)

lemma ror_simps [simp]:
  "ror (Inl e) n = Inl e" "ror (Inr True) n = Inr True" "ror (Inr False) n = n"
  by (simp_all add: ror_def)

lemma rand_eq_True [result_simps]: "rand m n = Inr True \<longleftrightarrow> m = Inr True \<and> n = Inr True"
  by (cases m) (auto simp: rand_def)

lemma rand_Inr_bool [simp]: "rand (Inr b) n = (if b then n else Inr False)"
  by (simp add: rand_def)

lemma ror_Inr_bool [simp]: "ror (Inr b) n = (if b then Inr True else n)"
  by (simp add: ror_def)

lemma rtraverse_Inr_length: "rtraverse f xs = Inr ys \<Longrightarrow> length ys = length xs"
  by (induction xs arbitrary: ys) (auto simp: result_simps)

lemma rtraverse_all_Inr:
  "(\<And>x. x \<in> set xs \<Longrightarrow> f x = Inr (g x)) \<Longrightarrow> rtraverse f xs = Inr (map g xs)"
  by (induction xs) auto

lemma rtraverse_Inr_iff:
  "rtraverse f xs = Inr ys \<longleftrightarrow> list_all2 (\<lambda>x y. f x = Inr y) xs ys"
proof (induction xs arbitrary: ys)
  case Nil
  then show ?case by auto
next
  case (Cons x xs)
  then show ?case by (cases ys) (auto simp: result_simps)
qed

lemma rtraverse_mem: "rtraverse f xs = Inr ys \<Longrightarrow> x \<in> set xs \<Longrightarrow> \<exists>y \<in> set ys. f x = Inr y"
  by (induction xs arbitrary: ys) (auto simp: result_simps)

lemma rtraverse_from: "rtraverse f xs = Inr ys \<Longrightarrow> y \<in> set ys \<Longrightarrow> \<exists>x \<in> set xs. f x = Inr y"
  by (induction xs arbitrary: ys) (auto simp: result_simps)

section \<open>Sorting\<close>

text \<open>Python's \<open>sorted(s)\<close> of a set \<open>s\<close> that was built from the elements of \<open>xs\<close>.\<close>

definition sorted_set :: "'a::linorder list \<Rightarrow> 'a list" where
  "sorted_set xs = sort (remdups xs)"

lemma set_sorted_set [simp]: "set (sorted_set xs) = set xs"
  by (simp add: sorted_set_def)

lemma sorted_sorted_set [simp]: "sorted (sorted_set xs)"
  by (simp add: sorted_set_def)

lemma distinct_sorted_set [simp]: "distinct (sorted_set xs)"
  by (simp add: sorted_set_def)

lemma sorted_set_cong [order_free]: "set xs = set ys \<Longrightarrow> sorted_set xs = sorted_set ys"
  by (rule sorted_distinct_set_unique) simp_all

lemma sorted_set_eq_Nil [simp]: "sorted_set xs = [] \<longleftrightarrow> xs = []"
  by (metis set_empty set_sorted_set)

lemma sort_mset_cong [order_free]:
  "mset xs = mset ys \<Longrightarrow> sort xs = sort (ys :: 'a::linorder list)"
  by (rule properties_for_sort) simp_all

lemma sort_key_distinct_perm:
  fixes f :: "'a \<Rightarrow> 'b::linorder"
  assumes "mset xs = mset ys" and "distinct (map f xs)"
  shows "sort_key f xs = sort_key f ys"
proof -
  have "inj_on f (set xs)" using assms(2) by (simp add: distinct_map)
  then show ?thesis
    using assms(1) by (intro sort_key_inj_key_eq) simp_all
qed

section \<open>Dictionaries\<close>

text \<open>A Python dictionary is an association list in insertion order; \<open>map_of\<close> is the lookup and
  \<open>dict_set\<close> the item assignment, which keeps the position of a key that is already there.\<close>

type_synonym ('k, 'v) dict = "('k \<times> 'v) list"

fun dict_set :: "('k, 'v) dict \<Rightarrow> 'k \<Rightarrow> 'v \<Rightarrow> ('k, 'v) dict" where
  "dict_set [] k v = [(k, v)]"
| "dict_set ((k', v') # d) k v = (if k' = k then (k, v) # d else (k', v') # dict_set d k v)"

definition dict_setdefault :: "('k, 'v) dict \<Rightarrow> 'k \<Rightarrow> 'v \<Rightarrow> ('k, 'v) dict" where
  "dict_setdefault d k v = (if map_of d k = None then d @ [(k, v)] else d)"

definition dict_get :: "('k, 'v) dict \<Rightarrow> 'k \<Rightarrow> 'v \<Rightarrow> 'v" where
  "dict_get d k dflt = (case map_of d k of None \<Rightarrow> dflt | Some v \<Rightarrow> v)"

lemma map_of_dict_set [simp]: "map_of (dict_set d k v) = (map_of d)(k \<mapsto> v)"
  by (induction d) (auto simp: fun_eq_iff)

lemma map_of_dict_setdefault:
  "map_of (dict_setdefault d k v) = (if map_of d k = None then (map_of d)(k \<mapsto> v) else map_of d)"
  by (auto simp: dict_setdefault_def fun_eq_iff map_add_def split: option.split)

lemma dict_get_dict_set [simp]:
  "dict_get (dict_set d k v) k' dflt = (if k' = k then v else dict_get d k' dflt)"
  by (simp add: dict_get_def)

lemma keys_dict_set: "fst ` set (dict_set d k v) = insert k (fst ` set d)"
  by (induction d k v rule: dict_set.induct) (simp_all add: insert_commute)

lemma distinct_dict_set: "distinct (map fst d) \<Longrightarrow> distinct (map fst (dict_set d k v))"
  by (induction d k v rule: dict_set.induct) (simp_all add: keys_dict_set, blast)

end
