(* ===== verification/PyDecimal.thy ===== *)
theory PyDecimal
  imports Prelude Complex_Main
begin

text \<open>
  Python's \<open>decimal.Decimal\<close> in the default context (28 digits, \<open>ROUND_HALF_EVEN\<close>), as far as
  the sources use it: construction from text, addition, multiplication, division, comparison,
  \<open>quantize\<close> to six places with \<open>ROUND_HALF_UP\<close>, \<open>normalize\<close> and printing.  A finite
  decimal is a sign, a coefficient and an exponent, exactly as in \<open>Decimal.as_tuple\<close>; \<open>dval\<close>
  gives its value, and the refinement lemmas relate each operation to rational arithmetic.
  The exponent is unbounded here (the context's limits are about \<open>10\<^sup>1\<^sup>8\<close>).
\<close>

section \<open>Representation\<close>

datatype dec = Dec (dsign: bool) (dcoef: nat) (dexp: int)

datatype pydec = Finite dec | Infinite bool | NotANumber

definition dec_of_int :: "int \<Rightarrow> dec" where
  "dec_of_int n = Dec (n < 0) (nat \<bar>n\<bar>) 0"

definition signed :: "bool \<Rightarrow> nat \<Rightarrow> int" where
  "signed s c = (if s then - int c else int c)"

fun dval :: "dec \<Rightarrow> rat" where
  "dval (Dec s c e) = of_int (signed s c) * 10 powi e"

fun ndigits :: "nat \<Rightarrow> nat" where
  "ndigits n = (if n < 10 then 1 else Suc (ndigits (n div 10)))"

declare ndigits.simps [simp del]

section \<open>Rounding to the context precision\<close>

definition prec :: nat where "prec = 28"

definition div_half_even :: "nat \<Rightarrow> nat \<Rightarrow> nat" where
  "div_half_even c d = (let q = c div d; r = c mod d in
     if 2 * r < d \<or> (2 * r = d \<and> even q) then q else q + 1)"

fun fix_prec :: "dec \<Rightarrow> dec" where
  "fix_prec (Dec s c e) =
     (if ndigits c \<le> prec then Dec s c e
      else let k = ndigits c - prec; c' = div_half_even c (10 ^ k) in
        if ndigits c' \<le> prec then Dec s c' (e + int k)
        else Dec s (c' div 10) (e + int k + 1))"

section \<open>Arithmetic\<close>

text \<open>\<open>shifted e x\<close> is the signed coefficient of \<open>x\<close> at an exponent \<open>e\<close> not above its own.\<close>

fun shifted :: "int \<Rightarrow> dec \<Rightarrow> int" where
  "shifted e0 (Dec s c e) = signed s c * 10 ^ nat (e - e0)"

fun dec_add :: "dec \<Rightarrow> dec \<Rightarrow> dec" where
  "dec_add x y = (let e = min (dexp x) (dexp y); n = shifted e x + shifted e y in
     fix_prec (Dec (if n = 0 then dsign x \<and> dsign y else n < 0) (nat \<bar>n\<bar>) e))"

fun dec_mul :: "dec \<Rightarrow> dec \<Rightarrow> dec" where
  "dec_mul (Dec s1 c1 e1) (Dec s2 c2 e2) = fix_prec (Dec (s1 \<noteq> s2) (c1 * c2) (e1 + e2))"

text \<open>Unary minus rounds to the context and turns a negative zero into a positive one.\<close>

fun dec_neg :: "dec \<Rightarrow> dec" where
  "dec_neg (Dec s c e) = fix_prec (Dec (if c = 0 then False else \<not> s) c e)"

fun strip_zeros :: "nat \<Rightarrow> nat \<Rightarrow> int \<Rightarrow> nat \<times> int" where
  "strip_zeros n c e = (if n = 0 \<or> c mod 10 \<noteq> 0 then (c, e) else strip_zeros (n - 1) (c div 10) (e + 1))"

declare strip_zeros.simps [simp del]

text \<open>\<open>Decimal.__truediv__\<close>: one guard digit beyond the precision, a sticky digit when the
  quotient is inexact, and trailing zeros removed up to the ideal exponent when it is exact.\<close>

fun dec_div :: "dec \<Rightarrow> dec \<Rightarrow> dec py" where
  "dec_div (Dec s1 c1 e1) (Dec s2 c2 e2) =
     (if c2 = 0 then Inl ArithErr
      else if c1 = 0 then Inr (fix_prec (Dec (s1 \<noteq> s2) 0 (e1 - e2)))
      else let shift = int (ndigits c2) - int (ndigits c1) + int prec + 1;
               e = e1 - e2 - shift;
               n = c1 * 10 ^ nat shift; d = c2 * 10 ^ nat (- shift);
               q = n div d
           in Inr (fix_prec
                (if n mod d \<noteq> 0
                 then Dec (s1 \<noteq> s2) (if q mod 5 = 0 then q + 1 else q) e
                 else let (q', e') = strip_zeros (nat (e1 - e2 - e)) q e in Dec (s1 \<noteq> s2) q' e')))"

definition dec_le :: "dec \<Rightarrow> dec \<Rightarrow> bool" where
  "dec_le x y = (let e = min (dexp x) (dexp y) in shifted e x \<le> shifted e y)"

definition dec_lt :: "dec \<Rightarrow> dec \<Rightarrow> bool" where
  "dec_lt x y = (\<not> dec_le y x)"

definition dec_eq :: "dec \<Rightarrow> dec \<Rightarrow> bool" where
  "dec_eq x y = (dec_le x y \<and> dec_le y x)"

text \<open>\<open>quantize(Decimal("0.000001"), rounding=ROUND_HALF_UP)\<close>; a coefficient that would not fit the
  precision is an \<open>InvalidOperation\<close>.\<close>

fun quantize6 :: "dec \<Rightarrow> dec py" where
  "quantize6 (Dec s c e) =
     (let c' = (if - 6 \<le> e then c * 10 ^ nat (e + 6)
                else let d = 10 ^ nat (- 6 - e) in c div d + (if 2 * (c mod d) \<ge> d then 1 else 0))
      in if ndigits c' \<le> prec then Inr (Dec s c' (- 6)) else Inl ArithErr)"

text \<open>The built-in \<open>max(a, b)\<close> and \<open>min(a, b)\<close> keep the first argument on a tie.\<close>

definition dec_max :: "dec \<Rightarrow> dec \<Rightarrow> dec" where
  "dec_max a b = (if dec_lt a b then b else a)"

definition dec_min :: "dec \<Rightarrow> dec \<Rightarrow> dec" where
  "dec_min a b = (if dec_lt b a then b else a)"

lemmas dec_eval = ndigits.simps strip_zeros.simps prec_def div_half_even_def Let_def dec_le_def
  dec_lt_def dec_max_def dec_min_def dec_of_int_def signed_def

section \<open>Refinement to rational arithmetic\<close>

lemma dval_shifted:
  assumes "e0 \<le> dexp x"
  shows "dval x = of_int (shifted e0 x) * 10 powi e0"
proof (cases x)
  case (Dec s c e)
  with assms have "e0 \<le> e" by simp
  then have "(10::rat) powi e = 10 ^ nat (e - e0) * 10 powi e0"
    by (metis add.commute diff_add_cancel diff_ge_0_iff_ge int_nat_eq power_int_add power_int_of_nat
        zero_neq_numeral)
  with Dec show ?thesis by (simp add: algebra_simps)
qed

lemma dec_le_iff: "dec_le x y \<longleftrightarrow> dval x \<le> dval y"
proof -
  let ?e = "min (dexp x) (dexp y)"
  have "dval x = of_int (shifted ?e x) * 10 powi ?e" "dval y = of_int (shifted ?e y) * 10 powi ?e"
    by (rule dval_shifted, simp)+
  then show ?thesis by (simp add: dec_le_def Let_def)
qed

lemma dec_lt_iff: "dec_lt x y \<longleftrightarrow> dval x < dval y"
  by (auto simp: dec_lt_def dec_le_iff)

lemma dec_eq_iff: "dec_eq x y \<longleftrightarrow> dval x = dval y"
  by (auto simp: dec_eq_def dec_le_iff)

lemma dval_dec_of_int [simp]: "dval (dec_of_int n) = of_int n"
  by (simp add: dec_of_int_def signed_def)

lemma dval_max: "dval (dec_max a b) = max (dval a) (dval b)"
  by (auto simp: dec_max_def dec_lt_iff)

lemma dval_min: "dval (dec_min a b) = min (dval a) (dval b)"
  by (auto simp: dec_min_def dec_lt_iff)

section \<open>Digits and rounding\<close>

lemma ndigits_le_iff: "0 < w \<Longrightarrow> ndigits n \<le> w \<longleftrightarrow> n < 10 ^ w"
proof (induction w arbitrary: n)
  case 0
  then show ?case by simp
next
  case (Suc w)
  show ?case
  proof (cases "n < 10")
    case True
    then have "n < 10 * 10 ^ w" by (rule less_le_trans) simp
    with True show ?thesis by (simp add: ndigits.simps [of n])
  next
    case False
    then have n: "ndigits n = Suc (ndigits (n div 10))" by (simp add: ndigits.simps [of n])
    show ?thesis
    proof (cases w)
      case 0
      have "ndigits (n div 10) > 0" by (simp add: ndigits.simps [of "n div 10"])
      with 0 False n show ?thesis by simp
    next
      case (Suc v)
      then show ?thesis using Suc.IH [of "n div 10"] n by (simp add: div_less_iff_less_mult mult.commute)
    qed
  qed
qed

lemma div_half_even_le: "0 < d \<Longrightarrow> c \<le> N * d \<Longrightarrow> div_half_even c d \<le> N"
proof -
  assume d: "0 < d" and c: "c \<le> N * d"
  have q: "c div d \<le> N" using c d by (metis div_le_mono nonzero_mult_div_cancel_right not_gr0)
  show ?thesis
  proof (cases "c div d = N")
    case True
    then have "c mod d = 0" using c div_mult_mod_eq [of c d] by simp
    with True d show ?thesis by (simp add: div_half_even_def Let_def)
  next
    case False
    with q show ?thesis by (simp add: div_half_even_def Let_def)
  qed
qed

lemma dsign_fix_prec [simp]: "dsign (fix_prec x) = dsign x"
  by (cases x) (simp add: Let_def)

lemma dval_nonneg: "\<not> dsign x \<Longrightarrow> 0 \<le> dval x"
  by (cases x) (simp add: signed_def)

lemma fix_prec_id: "dcoef x < 10 ^ prec \<Longrightarrow> fix_prec x = x"
  by (cases x) (simp add: ndigits_le_iff prec_def)

lemma dval_neg_exp: "e < 0 \<Longrightarrow> dval (Dec False c e) = of_nat c / 10 ^ nat (- e)"
  by (simp add: signed_def power_int_def field_simps)

lemma pow10_le [simp]: "(of_nat c :: rat) \<le> 10 ^ m \<longleftrightarrow> c \<le> 10 ^ m"
  using of_nat_le_iff [of c "10 ^ m", where 'a = rat] by simp

lemma fix_prec_le_1:
  assumes "dval x \<le> 1" and "\<not> dsign x"
  shows "dval (fix_prec x) \<le> 1"
proof (cases x)
  case (Dec s c e)
  with assms have s: "\<not> s" by simp
  show ?thesis
  proof (cases "ndigits c \<le> prec")
    case True
    with assms Dec show ?thesis by simp
  next
    case False
    define k where "k = ndigits c - prec"
    define c' where "c' = div_half_even c (10 ^ k)"
    have big: "10 ^ prec \<le> c" using False by (simp add: ndigits_le_iff prec_def not_less)
    have e: "e < 0"
    proof (rule ccontr)
      assume "\<not> e < 0"
      then have "(1::rat) \<le> 10 powi e" by (simp add: power_int_def)
      moreover have "(1::rat) < of_nat c" using big by (simp add: prec_def)
      ultimately have "1 < of_nat c * (10::rat) powi e" 
        by (metis less_le_trans mult.right_neutral mult_left_mono of_nat_0_le_iff)
      with assms(1) s Dec show False by (simp add: signed_def)
    qed
    define m where "m = nat (- e)"
    have v: "dval (Dec False a e) = of_nat a / 10 ^ m" for a using dval_neg_exp [OF e] by (simp only: m_def)
    have cm: "c \<le> 10 ^ m"
      using assms(1) s Dec v [of c] by (simp add: divide_le_eq)
    have "ndigits c \<le> Suc m" using cm by (subst ndigits_le_iff) (simp_all add: le_less_trans)
    then have km: "k \<le> m" by (simp add: k_def prec_def)
    then have "c \<le> 10 ^ (m - k) * 10 ^ k" using cm by (simp flip: power_add)
    then have c': "c' \<le> 10 ^ (m - k)" unfolding c'_def by (intro div_half_even_le) simp_all
    have val: "dval (Dec False a (e + int k)) \<le> 1" if "a \<le> 10 ^ (m - k)" for a
    proof -
      have "dval (Dec False a (e + int k)) = of_nat a / 10 ^ (m - k)"
        proof -
        have "e + int k = - int (m - k)" using e km by (simp add: m_def)
        then show ?thesis by (simp only: dval.simps power_int_minus power_int_of_nat) (simp add: signed_def field_simps)
      qed
      then show ?thesis using that by (simp add: divide_le_eq)
    qed
    have val10: "dval (Dec False (c' div 10) (e + int k + 1)) \<le> dval (Dec False c' (e + int k))"
    proof -
      have "(10::rat) powi (e + int k + 1) = 10 * 10 powi (e + int k)" by (simp add: power_int_add)
      moreover have "of_nat (c' div 10) * (10::rat) \<le> of_nat c'"
        by (metis mult.commute of_nat_le_iff of_nat_mult of_nat_numeral times_div_less_eq_dividend)
      ultimately show ?thesis by (simp add: signed_def mult.assoc [symmetric] mult_right_mono)
    qed
    show ?thesis
      using s False val [OF c'] val10 by (simp add: Dec Let_def flip: k_def c'_def)
  qed
qed

section \<open>Division and quantisation\<close>

lemma strip_zeros_val: "strip_zeros n c e = (c', e') \<Longrightarrow> (of_nat c' :: rat) * 10 powi e' = of_nat c * 10 powi e"
proof (induction n c e arbitrary: c' e' rule: strip_zeros.induct)
  case (1 n c e)
  show ?case
  proof (cases "n = 0 \<or> c mod 10 \<noteq> 0")
    case True
    with 1 show ?thesis by (auto simp: strip_zeros.simps [of n c e])
  next
    case False
    then have "(of_nat c' :: rat) * 10 powi e' = of_nat (c div 10) * 10 powi (e + 1)"
      using 1 by (simp add: strip_zeros.simps [of n c e])
    moreover have "of_nat c = (10::rat) * of_nat (c div 10)"
      using False by (metis mod_0_imp_dvd dvd_mult_div_cancel of_nat_mult of_nat_numeral)
    ultimately show ?thesis by (simp add: power_int_add)
  qed
qed

lemma strip_zeros_power: "strip_zeros n (10 ^ n) e = (1, e + int n)"
  by (induction n arbitrary: e) (simp_all add: strip_zeros.simps [of 0] strip_zeros.simps [of "Suc n" for n])

lemma ndigits_mono: "a \<le> b \<Longrightarrow> ndigits a \<le> ndigits b"
proof -
  assume ab: "a \<le> b"
  have pos: "0 < ndigits b" by (simp add: ndigits.simps [of b])
  have "b < 10 ^ ndigits b" using pos ndigits_le_iff [of "ndigits b" b] by simp
  with ab have "a < 10 ^ ndigits b" by simp
  with pos show ?thesis by (simp add: ndigits_le_iff)
qed

text \<open>A ratio of two counts lies in the unit interval, and is exact at both ends.\<close>

lemma dec_div_unit:
  assumes "0 \<le> a" and "a \<le> b" and "0 < b"
  shows "\<exists>r. dec_div (dec_of_int a) (dec_of_int b) = Inr r \<and> \<not> dsign r \<and> 0 \<le> dval r \<and> dval r \<le> 1 \<and>
    (a = 0 \<longrightarrow> dval r = 0) \<and> (a = b \<longrightarrow> dval r = 1)"
proof (cases "a = 0")
  case True
  with assms show ?thesis by (simp add: dec_of_int_def signed_def ndigits.simps prec_def)
next
  case False
  define c1 where "c1 = nat a"
  define c2 where "c2 = nat b"
  have c: "0 < c1" "c1 \<le> c2" "0 < c2" using assms False by (simp_all add: c1_def c2_def)
  define s where "s = nat (int (ndigits c2) - int (ndigits c1) + int prec + 1)"
  have shift: "int (ndigits c2) - int (ndigits c1) + int prec + 1 = int s"
    using ndigits_mono [OF c(2)] by (simp add: s_def)
  define q where "q = c1 * 10 ^ s div c2"
  define x where "x = (if c1 * 10 ^ s mod c2 \<noteq> 0 then Dec False (if q mod 5 = 0 then q + 1 else q) (- int s)
    else let (q', e') = strip_zeros s q (- int s) in Dec False q' e')"
  have div: "dec_div (dec_of_int a) (dec_of_int b) = Inr (fix_prec x)"
    using assms False c by (simp add: dec_of_int_def c1_def [symmetric] c2_def [symmetric] Let_def shift x_def q_def)
  have scaled: "dval (Dec False m (- int s)) \<le> 1" if "m \<le> 10 ^ s" for m
    using that by (simp add: signed_def power_int_minus field_simps)
  have q: "q \<le> 10 ^ s" unfolding q_def using c
    by (metis div_le_mono mult.commute mult_le_mono1 nonzero_mult_div_cancel_left not_gr0)
  have x1: "dval x \<le> 1 \<and> \<not> dsign x"
  proof (cases "c1 * 10 ^ s mod c2 = 0")
    case True
    obtain q' e' where z: "strip_zeros s q (- int s) = (q', e')" by force
    have "dval (Dec False q' e') = dval (Dec False q (- int s))"
      using strip_zeros_val [OF z] by (simp add: signed_def)
    with scaled [OF q] show ?thesis by (simp add: x_def True z)
  next
    case False
    have "q * c2 < c1 * 10 ^ s"
      unfolding q_def using False div_mult_mod_eq [of "c1 * 10 ^ s" c2] by linarith
    also have "\<dots> \<le> c2 * 10 ^ s" using c by simp
    finally have "q + 1 \<le> 10 ^ s" by (simp add: mult.commute)
    then show ?thesis using scaled [of q] scaled [of "q + 1"] False q by (simp add: x_def)
  qed
  have eq1: "dval (fix_prec x) = 1" if "a = b"
  proof -
    from that have "c1 = c2" by (simp add: c1_def c2_def)
    then have "x = Dec False 1 0" using c by (simp add: x_def q_def strip_zeros_power)
    then show ?thesis by (simp add: ndigits.simps prec_def signed_def)
  qed
  show ?thesis
    using div x1 fix_prec_le_1 [of x] dval_nonneg [of "fix_prec x"] eq1 False by auto
qed

definition round6 :: "rat \<Rightarrow> rat" where
  "round6 v = of_int \<lfloor>v * 10 ^ 6 + 1 / 2\<rfloor> / 10 ^ 6"

lemma floor_half: "0 < d \<Longrightarrow> \<lfloor>(of_nat c / of_nat d :: rat) + 1 / 2\<rfloor> =
    int (c div d + (if 2 * (c mod d) \<ge> d then 1 else 0))"
proof -
  assume d: "0 < d"
  have "(of_nat c / of_nat d :: rat) + 1 / 2 = of_nat (2 * c + d) / of_nat (2 * d)"
    using d by (simp add: field_simps)
  then have "\<lfloor>(of_nat c / of_nat d :: rat) + 1 / 2\<rfloor> = int ((2 * c + d) div (2 * d))"
    by (simp only: floor_divide_of_nat_eq)
  also have "(2 * c + d) div (2 * d) = c div d + (if 2 * (c mod d) \<ge> d then 1 else 0)"
  proof -
    define q where "q = c div d"
    define r where "r = c mod d"
    have c: "c = q * d + r" by (simp add: q_def r_def)
    have "2 * c + d = (2 * (c mod d) + d) + c div d * (2 * d)"
      unfolding q_def [symmetric] r_def [symmetric] by (subst c) (simp add: algebra_simps)
    then have "(2 * c + d) div (2 * d) = c div d + (2 * (c mod d) + d) div (2 * d)"
      using d by (simp only: div_mult_self1 [of "2 * d"])
    moreover have "(2 * (c mod d) + d) div (2 * d) = (if 2 * (c mod d) \<ge> d then 1 else 0)"
      using d mod_less_divisor [OF d, of c] by (auto intro!: div_nat_eqI)
    ultimately show ?thesis by simp
  qed
  finally show ?thesis .
qed

lemma quantize6_unit:
  assumes "dval x \<le> 1" and "\<not> dsign x"
  shows "\<exists>r. quantize6 x = Inr r \<and> dval r = round6 (dval x) \<and> \<not> dsign r \<and> dexp r = - 6"
proof (cases x)
  case (Dec s c e)
  with assms have s: "\<not> s" by simp
  define c' where "c' = (if - 6 \<le> e then c * 10 ^ nat (e + 6)
    else let d = 10 ^ nat (- 6 - e) in c div d + (if 2 * (c mod d) \<ge> d then 1 else 0))"
  have v: "dval x = of_nat c * 10 powi e" using s Dec by (simp add: signed_def)
  have r: "\<lfloor>dval x * 10 ^ 6 + 1 / 2\<rfloor> = int c'"
  proof (cases "- 6 \<le> e")
    case True
    then have "(10::rat) powi (e + 6) = 10 ^ nat (e + 6)" by (simp add: power_int_def)
    then have "dval x * 10 ^ 6 = of_nat (c * 10 ^ nat (e + 6))" by (simp add: v power_int_add)
    then have "dval x * 10 ^ 6 + 1 / 2 = of_int (int (c * 10 ^ nat (e + 6))) + 1 / 2" by simp
    then have "\<lfloor>dval x * 10 ^ 6 + 1 / 2\<rfloor> = int (c * 10 ^ nat (e + 6))" by linarith
    with True show ?thesis by (simp add: c'_def)
  next
    case False
    define k where "k = nat (- 6 - e)"
    have e: "e = - int (k + 6)" using False by (simp add: k_def)
    have "(10::rat) powi e = 1 / (10 ^ k * 10 ^ 6)"
      unfolding e power_int_minus power_int_of_nat by (simp add: power_add field_simps)
    then have "dval x * 10 ^ 6 = of_nat c / of_nat (10 ^ k)" by (simp add: v)
    then show ?thesis using floor_half [of "10 ^ k" c] False
      by (simp add: c'_def Let_def k_def [symmetric])
  qed
  have "\<lfloor>dval x * 10 ^ 6 + 1 / 2\<rfloor> \<le> 10 ^ 6" using assms(1) by (simp add: floor_le_iff)
  then have "int c' \<le> 10 ^ 6" by (simp only: r)
  then have "c' \<le> 10 ^ 6" by simp
  then have nd: "ndigits c' \<le> prec" by (simp add: ndigits_le_iff prec_def)
  have "quantize6 x = Inr (Dec False c' (- 6))"
    using nd s by (simp add: Dec c'_def Let_def)
  moreover have "dval (Dec False c' (- 6)) = round6 (dval x)"
    unfolding round6_def r by (simp add: signed_def power_int_def field_simps)
  ultimately show ?thesis by simp
qed

lemma round6_mono: "u \<le> v \<Longrightarrow> round6 u \<le> round6 v"
  unfolding round6_def by (intro divide_right_mono) (auto intro!: floor_mono)

lemma round6_bounds [simp]: "round6 0 = 0" "round6 1 = 1"
  by (simp_all add: round6_def floor_eq_iff)

end
