(* ===== verification/PyTime.thy ===== *)
theory PyTime
  imports Prelude
begin

text \<open>
  Python's \<open>datetime\<close>, as far as the sources use it.  An aware timestamp is the instant it denotes,
  in microseconds since 0001-01-01T00:00:00 UTC; a naive one keeps its local reading.  \<open>isoformat\<close>
  prints, \<open>fromisoformat\<close> reads the calendar-date spellings (\<open>YYYY-MM-DD\<close> and \<open>YYYYMMDD\<close>, any
  separator, \<open>HH[:MM[:SS[.f+]]]\<close> with or without colons, an optional offset); the week-date
  spellings (\<open>YYYY-Www\<close>) are rejected here, no producer in the repository emits them.
\<close>

section \<open>Calendar\<close>

datatype pytime = Aware int | Naive int

definition us_per_second :: int where "us_per_second = 1000000"
definition us_per_day :: int where "us_per_day = 86400 * 1000000"

definition is_leap :: "int \<Rightarrow> bool" where
  "is_leap y \<longleftrightarrow> y mod 4 = 0 \<and> (y mod 100 \<noteq> 0 \<or> y mod 400 = 0)"

definition days_in_month :: "int \<Rightarrow> int \<Rightarrow> int" where
  "days_in_month y m = (if m = 2 then (if is_leap y then 29 else 28)
     else if m \<in> {4, 6, 9, 11} then 30 else 31)"

definition days_before_year :: "int \<Rightarrow> int" where
  "days_before_year y = (y - 1) * 365 + (y - 1) div 4 - (y - 1) div 100 + (y - 1) div 400"

definition days_before_month :: "int \<Rightarrow> int \<Rightarrow> int" where
  "days_before_month y m = sum_list (map (days_in_month y) [1..m - 1])"

definition valid_date :: "int \<Rightarrow> int \<Rightarrow> int \<Rightarrow> bool" where
  "valid_date y m d \<longleftrightarrow> 1 \<le> y \<and> y \<le> 9999 \<and> 1 \<le> m \<and> m \<le> 12 \<and> 1 \<le> d \<and> d \<le> days_in_month y m"

text \<open>Day number of a date, 0 for 0001-01-01.\<close>

definition day_number :: "int \<Rightarrow> int \<Rightarrow> int \<Rightarrow> int" where
  "day_number y m d = days_before_year y + days_before_month y m + d - 1"

definition max_instant :: int where
  "max_instant = (day_number 9999 12 31 + 1) * us_per_day - 1"

fun split_month :: "int \<Rightarrow> int \<Rightarrow> int list \<Rightarrow> int \<times> int" where
  "split_month y n [] = (12, n + 1)"
| "split_month y n (m # ms) = (if n < days_in_month y m then (m, n + 1)
     else split_month y (n - days_in_month y m) ms)"

text \<open>\<open>_ord2ymd\<close> of the standard library.\<close>

definition civil_date :: "int \<Rightarrow> int \<times> int \<times> int" where
  "civil_date k =
     (let n400 = k div 146097; r400 = k mod 146097;
          n100 = r400 div 36524; r100 = r400 mod 36524;
          n4 = r100 div 1461; r4 = r100 mod 1461;
          n1 = r4 div 365; r1 = r4 mod 365;
          y = n400 * 400 + n100 * 100 + n4 * 4 + n1 + 1
      in if n1 = 4 \<or> n100 = 4 then (y - 1, 12, 31)
         else let (m, d) = split_month y r1 [1..12] in (y, m, d))"

section \<open>Printing\<close>

definition digit_char :: "nat \<Rightarrow> char" where
  "digit_char d = char_of (48 + d)"

fun show_nat :: "nat \<Rightarrow> string" where
  "show_nat n = (if n < 10 then [digit_char n] else show_nat (n div 10) @ [digit_char (n mod 10)])"

declare show_nat.simps [simp del]

definition show_int :: "int \<Rightarrow> string" where
  "show_int n = (if n < 0 then ''-'' @ show_nat (nat (- n)) else show_nat (nat n))"

definition zfill :: "nat \<Rightarrow> int \<Rightarrow> string" where
  "zfill w n = (let s = show_nat (nat n) in replicate (w - length s) CHR ''0'' @ s)"

definition iso_local :: "char \<Rightarrow> int \<Rightarrow> string" where
  "iso_local sep t =
     (let (y, m, d) = civil_date (t div us_per_day); r = t mod us_per_day;
          s = r div us_per_second; us = r mod us_per_second
      in zfill 4 y @ ''-'' @ zfill 2 m @ ''-'' @ zfill 2 d @ [sep] @
         zfill 2 (s div 3600) @ '':'' @ zfill 2 (s div 60 mod 60) @ '':'' @ zfill 2 (s mod 60) @
         (if us = 0 then [] else ''.'' @ zfill 6 us))"

fun isoformat :: "pytime \<Rightarrow> string" where
  "isoformat (Aware t) = iso_local CHR ''T'' t @ ''+00:00''"
| "isoformat (Naive t) = iso_local CHR ''T'' t"

section \<open>Reading\<close>

definition is_digit :: "char \<Rightarrow> bool" where
  "is_digit c \<longleftrightarrow> CHR ''0'' \<le> c \<and> c \<le> CHR ''9''"

definition digit_val :: "char \<Rightarrow> nat" where
  "digit_val c = of_char c - 48"

definition read_nat :: "string \<Rightarrow> nat" where
  "read_nat s = foldl (\<lambda>n c. 10 * n + digit_val c) 0 s"

definition read_digits :: "nat \<Rightarrow> string \<Rightarrow> int py" where
  "read_digits w s = (if length s = w \<and> list_all is_digit s then Inr (int (read_nat s)) else Inl ValueErr)"

text \<open>Microseconds of a fraction: the first six digits count, the rest must be digits.\<close>

definition read_fraction :: "string \<Rightarrow> int py" where
  "read_fraction s = (if s = [] \<or> \<not> list_all is_digit s then Inl ValueErr
     else Inr (int (read_nat (take 6 s)) * 10 ^ (6 - length (take 6 s))))"

definition after_seconds :: "int \<times> int \<times> int \<Rightarrow> string \<Rightarrow> (int \<times> int \<times> int \<times> int) py" where
  "after_seconds hms s = (case hms of (h, m, sec) \<Rightarrow> (case s of
       [] \<Rightarrow> Inr (h, m, sec, 0)
     | c # cs \<Rightarrow> if c = CHR ''.'' \<or> c = CHR '','' then rmap (\<lambda>f. (h, m, sec, f)) (read_fraction cs)
                 else Inl ValueErr))"

text \<open>\<open>HH[:?MM[:?SS[{.,}f+]]]\<close>: whether colons are used is decided after the hour.\<close>

definition read_hms :: "string \<Rightarrow> (int \<times> int \<times> int \<times> int) py" where
  "read_hms s = rbind (read_digits 2 (take 2 s)) (\<lambda>h.
     let r = drop 2 s in
     if r = [] then Inr (h, 0, 0, 0)
     else let sep = (hd r = CHR '':''); r = (if sep then tl r else r) in
       rbind (read_digits 2 (take 2 r)) (\<lambda>m.
         let r = drop 2 r in
         if r = [] then Inr (h, m, 0, 0)
         else if sep \<and> hd r \<noteq> CHR '':'' then Inl ValueErr
         else let r = (if sep then tl r else r) in
           rbind (read_digits 2 (take 2 r)) (\<lambda>sec. after_seconds (h, m, sec) (drop 2 r))))"

definition hms_us :: "int \<times> int \<times> int \<times> int \<Rightarrow> int" where
  "hms_us x = (case x of (h, m, s, f) \<Rightarrow> ((h * 60 + m) * 60 + s) * us_per_second + f)"

fun index_of :: "char \<Rightarrow> string \<Rightarrow> nat option" where
  "index_of c [] = None"
| "index_of c (x # xs) = (if x = c then Some 0 else map_option Suc (index_of c xs))"

definition tz_position :: "string \<Rightarrow> nat option" where
  "tz_position s = (case index_of CHR ''-'' s of Some i \<Rightarrow> Some i
     | None \<Rightarrow> (case index_of CHR ''+'' s of Some i \<Rightarrow> Some i | None \<Rightarrow> index_of CHR ''Z'' s))"

text \<open>Time of day in microseconds and, when an offset is given, the offset in microseconds.\<close>

definition read_clock :: "string \<Rightarrow> ((int \<times> int \<times> int \<times> int) \<times> int option) py" where
  "read_clock s = (case tz_position s of
      None \<Rightarrow> rbind (read_hms s) (\<lambda>x. Inr (x, None))
    | Some i \<Rightarrow> rbind (read_hms (take i s)) (\<lambda>x.
        let z = drop (Suc i) s in
        if z = [] \<and> s ! i = CHR ''Z'' then Inr (x, Some 0)
        else if length z \<in> {0, 1, 3} then Inl ValueErr
        else rbind (read_hms z) (\<lambda>zc. let off = hms_us zc in
          if off \<ge> us_per_day then Inl ValueErr
          else Inr (x, Some (if s ! i = CHR ''-'' then - off else off)))))"

definition read_time :: "string \<Rightarrow> (int \<times> int option) py" where
  "read_time s = (if length s < 2 then Inl ValueErr else
     rbind (read_clock s) (\<lambda>((h, m, sec, f), tz).
       if h \<le> 23 \<and> m \<le> 59 \<and> sec \<le> 59 then Inr (hms_us (h, m, sec, f), tz) else Inl ValueErr))"

definition read_date :: "string \<Rightarrow> int py" where
  "read_date s =
     (let ext = (length s = 10); p = (if ext then 1 else 0) in
      if \<not> ext \<and> length s \<noteq> 8 then Inl ValueErr
      else if ext \<and> (s ! 4 \<noteq> CHR ''-'' \<or> s ! 7 \<noteq> CHR ''-'') then Inl ValueErr
      else rbind (read_digits 4 (take 4 s)) (\<lambda>y.
           rbind (read_digits 2 (take 2 (drop (4 + p) s))) (\<lambda>m.
           rbind (read_digits 2 (take 2 (drop (6 + 2 * p) s))) (\<lambda>d.
             if valid_date y m d then Inr (day_number y m d) else Inl ValueErr))))"

definition fromisoformat :: "string \<Rightarrow> pytime py" where
  "fromisoformat s = (if length s < 8 then Inl ValueErr else
     let k = (if s ! 4 = CHR ''-'' then 10 else 8) in
     rbind (read_date (take k s)) (\<lambda>day.
       if drop (Suc k) s = [] then Inr (Naive (day * us_per_day))
       else rbind (read_time (drop (Suc k) s)) (\<lambda>(t, tz).
         case tz of None \<Rightarrow> Inr (Naive (day * us_per_day + t))
         | Some off \<Rightarrow> Inr (Aware (day * us_per_day + t - off)))))"

lemmas date_eval = fromisoformat_def read_date_def read_digits_def read_nat_def is_digit_def
  digit_val_def valid_date_def day_number_def days_before_year_def days_before_month_def
  days_in_month_def is_leap_def us_per_day_def read_time_def read_clock_def tz_position_def
  read_hms_def after_seconds_def hms_us_def us_per_second_def read_fraction_def upto.simps

lemma max_instant_value: "max_instant = 315537897599999999"
  by (simp add: max_instant_def date_eval)

end
