(* ===== verification/PyVal.thy ===== *)
theory PyVal
  imports PyDecimal PyTime
begin

text \<open>
  Dynamically typed Python values, for the places where the sources handle \<open>Any\<close>: facts of
  providers, JSON columns, request payloads.  A float is kept as the decimal its \<open>repr\<close> prints
  (so \<open>Decimal(str(x))\<close> is that decimal); dictionaries have string keys and insertion order; lists
  and tuples are one constructor, the sources treat them alike.  The operations are the ones the
  sources apply, with the exception each raises on a value of the wrong kind.
\<close>

section \<open>Values\<close>

datatype pyval = VNone | VBool bool | VInt int | VFloat pydec | VDec pydec | VStr string
  | VTime pytime | VList "pyval list" | VDict "(string \<times> pyval) list"

fun truthy :: "pyval \<Rightarrow> bool" where
  "truthy VNone = False"
| "truthy (VBool b) = b"
| "truthy (VInt n) = (n \<noteq> 0)"
| "truthy (VFloat (Finite d)) = (dcoef d \<noteq> 0)"
| "truthy (VFloat _) = True"
| "truthy (VDec (Finite d)) = (dcoef d \<noteq> 0)"
| "truthy (VDec _) = True"
| "truthy (VStr s) = (s \<noteq> [])"
| "truthy (VTime _) = True"
| "truthy (VList xs) = (xs \<noteq> [])"
| "truthy (VDict d) = (d \<noteq> [])"

text \<open>\<open>v[k]\<close> with a string key: \<open>KeyError\<close> on a dictionary without it, \<open>TypeError\<close> on anything that is
  not a dictionary.  \<open>v.get(k, d)\<close> on a dictionary.\<close>

fun getitem :: "pyval \<Rightarrow> string \<Rightarrow> pyval py" where
  "getitem (VDict d) k = (case map_of d k of None \<Rightarrow> Inl KeyErr | Some v \<Rightarrow> Inr v)"
| "getitem _ k = Inl TypeErr"

text \<open>The number a value compares as: booleans are integers, floats and decimals their value.\<close>

fun numeric :: "pyval \<Rightarrow> pydec option" where
  "numeric (VBool b) = Some (Finite (dec_of_int (if b then 1 else 0)))"
| "numeric (VInt n) = Some (Finite (dec_of_int n))"
| "numeric (VFloat d) = Some d"
| "numeric (VDec d) = Some d"
| "numeric _ = None"

fun num_eq :: "pydec \<Rightarrow> pydec \<Rightarrow> bool" where
  "num_eq (Finite x) (Finite y) = dec_eq x y"
| "num_eq (Infinite a) (Infinite b) = (a = b)"
| "num_eq _ _ = False"

text \<open>Python's \<open>==\<close> on these values never raises; values of unrelated kinds are unequal.\<close>

fun py_eq :: "pyval \<Rightarrow> pyval \<Rightarrow> bool"
  and py_eq_list :: "pyval list \<Rightarrow> pyval list \<Rightarrow> bool"
  and py_eq_items :: "(string \<times> pyval) list \<Rightarrow> (string \<times> pyval) list \<Rightarrow> bool" where
  "py_eq VNone w = (w = VNone)"
| "py_eq (VBool b) w = (case numeric w of Some q \<Rightarrow> num_eq (Finite (dec_of_int (if b then 1 else 0))) q | None \<Rightarrow> False)"
| "py_eq (VInt n) w = (case numeric w of Some q \<Rightarrow> num_eq (Finite (dec_of_int n)) q | None \<Rightarrow> False)"
| "py_eq (VFloat d) w = (case numeric w of Some q \<Rightarrow> num_eq d q | None \<Rightarrow> False)"
| "py_eq (VDec d) w = (case numeric w of Some q \<Rightarrow> num_eq d q | None \<Rightarrow> False)"
| "py_eq (VStr s) w = (w = VStr s)"
| "py_eq (VTime t) w = (w = VTime t)"
| "py_eq (VList xs) w = (case w of VList ys \<Rightarrow> py_eq_list xs ys | _ \<Rightarrow> False)"
| "py_eq (VDict d) w = (case w of VDict d' \<Rightarrow> length d = length d' \<and> py_eq_items d d' | _ \<Rightarrow> False)"
| "py_eq_list [] ys = (ys = [])"
| "py_eq_list (x # xs) ys = (case ys of [] \<Rightarrow> False | y # ys' \<Rightarrow> py_eq x y \<and> py_eq_list xs ys')"
| "py_eq_items [] d' = True"
| "py_eq_items ((k, v) # d) d' =
     ((case map_of d' k of None \<Rightarrow> False | Some w \<Rightarrow> py_eq v w) \<and> py_eq_items d d')"

lemma py_eq_str_left [simp]: "py_eq (VStr s) w \<longleftrightarrow> w = VStr s"
  by simp

lemma num_eq_sym: "num_eq x y = num_eq y x"
  by (cases x; cases y) (auto simp: dec_eq_def)

section \<open>Text\<close>

definition is_space :: "char \<Rightarrow> bool" where
  "is_space c \<longleftrightarrow> c \<in> {CHR '' '', CHR 0x09, CHR 0x0A, CHR 0x0B, CHR 0x0C, CHR 0x0D, CHR 0x1C, CHR 0x1D,
     CHR 0x1E, CHR 0x1F, CHR 0x85, CHR 0xA0}"

definition strip :: "string \<Rightarrow> string" where
  "strip s = rev (dropWhile is_space (rev (dropWhile is_space s)))"

definition lower_char :: "char \<Rightarrow> char" where
  "lower_char c = (let n = of_char c :: nat in
     if (65 \<le> n \<and> n \<le> 90) \<or> (192 \<le> n \<and> n \<le> 222 \<and> n \<noteq> 215) then char_of (n + 32) else c)"

definition lower :: "string \<Rightarrow> string" where
  "lower s = map lower_char s"

text \<open>\<open>needle in text\<close>.\<close>

fun contains :: "string \<Rightarrow> string \<Rightarrow> bool" where
  "contains needle [] = (needle = [])"
| "contains needle (c # cs) = (take (length needle) (c # cs) = needle \<or> contains needle cs)"

fun replace_char :: "char \<Rightarrow> string \<Rightarrow> string \<Rightarrow> string" where
  "replace_char c r [] = []"
| "replace_char c r (x # xs) = (if x = c then r else [x]) @ replace_char c r xs"

text \<open>\<open>str.split()\<close> and \<open>sep.join\<close>.\<close>

fun split_ws_aux :: "string \<Rightarrow> string \<Rightarrow> string list" where
  "split_ws_aux acc [] = (if acc = [] then [] else [rev acc])"
| "split_ws_aux acc (c # cs) = (if is_space c then (if acc = [] then split_ws_aux [] cs
     else rev acc # split_ws_aux [] cs) else split_ws_aux (c # acc) cs)"

definition split_ws :: "string \<Rightarrow> string list" where
  "split_ws s = split_ws_aux [] s"

fun join :: "string \<Rightarrow> string list \<Rightarrow> string" where
  "join sep [] = []"
| "join sep [x] = x"
| "join sep (x # y # xs) = x @ sep @ join sep (y # xs)"

section \<open>Reading decimals\<close>

definition read_exponent :: "string \<Rightarrow> int py" where
  "read_exponent s = (let neg = (s \<noteq> [] \<and> hd s = CHR ''-'');
       ds = (if s \<noteq> [] \<and> (hd s = CHR ''-'' \<or> hd s = CHR ''+'') then tl s else s)
     in if ds = [] \<or> \<not> list_all is_digit ds then Inl ArithErr
        else Inr (if neg then - int (read_nat ds) else int (read_nat ds)))"

definition read_unsigned :: "bool \<Rightarrow> string \<Rightarrow> pydec py" where
  "read_unsigned neg s =
     (let ip = takeWhile is_digit s; r = dropWhile is_digit s;
          dot = (r \<noteq> [] \<and> hd r = CHR ''.'');
          fp = (if dot then takeWhile is_digit (tl r) else []);
          r2 = (if dot then dropWhile is_digit (tl r) else r)
      in if ip = [] \<and> fp = [] then Inl ArithErr
         else rbind (if r2 = [] then Inr 0
                     else if hd r2 \<in> {CHR ''e'', CHR ''E''} then read_exponent (tl r2) else Inl ArithErr)
              (\<lambda>e. Inr (Finite (Dec neg (read_nat (ip @ fp)) (e - int (length fp))))))"

definition is_nan_text :: "string \<Rightarrow> bool" where
  "is_nan_text s \<longleftrightarrow> (let t = (if s \<noteq> [] \<and> hd s = CHR ''s'' then tl s else s) in
     take 3 t = ''nan'' \<and> list_all is_digit (drop 3 t))"

text \<open>\<open>Decimal(text)\<close>: an unreadable text is \<open>InvalidOperation\<close>, an \<open>ArithmeticError\<close>.\<close>

definition dec_of_string :: "string \<Rightarrow> pydec py" where
  "dec_of_string s0 =
     (let s = filter (\<lambda>c. c \<noteq> CHR ''_'') (strip s0);
          neg = (s \<noteq> [] \<and> hd s = CHR ''-'');
          u = (if s \<noteq> [] \<and> (hd s = CHR ''-'' \<or> hd s = CHR ''+'') then tl s else s);
          l = lower u
      in if l = ''inf'' \<or> l = ''infinity'' then Inr (Infinite neg)
         else if is_nan_text l then Inr NotANumber
         else read_unsigned neg u)"

section \<open>Printing\<close>

definition sign_text :: "bool \<Rightarrow> string" where
  "sign_text s = (if s then ''-'' else [])"

definition zeros :: "int \<Rightarrow> string" where
  "zeros n = replicate (nat n) CHR ''0''"

text \<open>Digits \<open>ds\<close> with the decimal point after position \<open>p\<close>.\<close>

definition point_at :: "int \<Rightarrow> string \<Rightarrow> string" where
  "point_at p ds = (if p \<le> 0 then ''0.'' @ zeros (- p) @ ds
     else if p \<ge> int (length ds) then ds @ zeros (p - int (length ds))
     else take (nat p) ds @ ''.'' @ drop (nat p) ds)"

text \<open>\<open>Decimal.__str__\<close>: scientific notation for positive exponents and small numbers.\<close>

fun dec_str :: "pydec \<Rightarrow> string" where
  "dec_str (Finite (Dec s c e)) =
     (let ds = show_nat c; left = e + int (length ds); p = (if e \<le> 0 \<and> left > - 6 then left else 1)
      in sign_text s @ point_at p ds @
         (if left = p then [] else ''E'' @ (if left < p then ''-'' else ''+'') @ show_nat (nat \<bar>left - p\<bar>)))"
| "dec_str (Infinite s) = sign_text s @ ''Infinity''"
| "dec_str NotANumber = ''NaN''"

text \<open>\<open>float.__repr__\<close>, from the shortest decimal.\<close>

fun float_repr :: "pydec \<Rightarrow> string" where
  "float_repr (Finite (Dec s c e)) =
     (if c = 0 then sign_text s @ ''0.0'' else
      let (c', e') = strip_zeros (ndigits c) c e; ds = show_nat c'; p = e' + int (length ds)
      in sign_text s @
         (if - 4 < p \<and> p \<le> 16 then point_at p ds @ (if p \<ge> int (length ds) then ''.0'' else [])
          else (if length ds = 1 then ds else hd ds # CHR ''.'' # tl ds) @ ''e'' @
               (if p \<le> 0 then ''-'' else ''+'') @ zfill 2 \<bar>p - 1\<bar>))"
| "float_repr (Infinite s) = sign_text s @ ''inf''"
| "float_repr NotANumber = ''nan''"

text \<open>\<open>format(x.normalize(), "f")\<close> of a finite decimal.\<close>

definition dec_canonical :: "dec \<Rightarrow> string" where
  "dec_canonical x = (case fix_prec x of Dec s c e \<Rightarrow>
     if c = 0 then sign_text s @ ''0''
     else let (c', e') = strip_zeros (ndigits c) c e; ds = show_nat c'
          in sign_text s @ point_at (e' + int (length ds)) ds)"

definition time_str :: "pytime \<Rightarrow> string" where
  "time_str t = (case t of Aware u \<Rightarrow> iso_local CHR '' '' u @ ''+00:00'' | Naive u \<Rightarrow> iso_local CHR '' '' u)"

definition hex_digit :: "nat \<Rightarrow> char" where
  "hex_digit n = (if n < 10 then char_of (48 + n) else char_of (87 + n))"

definition repr_char :: "char \<Rightarrow> char \<Rightarrow> string" where
  "repr_char q c =
     (if c = q \<or> c = CHR 0x5C then [CHR 0x5C, c]
      else if c = CHR 0x0A then [CHR 0x5C, CHR ''n''] else if c = CHR 0x0D then [CHR 0x5C, CHR ''r'']
      else if c = CHR 0x09 then [CHR 0x5C, CHR ''t'']
      else let n = of_char c :: nat in
        if (32 \<le> n \<and> n \<le> 126) \<or> (161 \<le> n \<and> n \<noteq> 173) then [c]
        else [CHR 0x5C, CHR ''x'', hex_digit (n div 16), hex_digit (n mod 16)])"

definition repr_string :: "string \<Rightarrow> string" where
  "repr_string s = (let q = (if CHR 0x27 \<in> set s \<and> CHR 0x22 \<notin> set s then CHR 0x22 else CHR 0x27)
     in [q] @ concat (map (repr_char q) s) @ [q])"

definition repr_time :: "pytime \<Rightarrow> string" where
  "repr_time t = (let u = (case t of Aware u \<Rightarrow> u | Naive u \<Rightarrow> u);
       (y, m, d) = civil_date (u div us_per_day); r = u mod us_per_day;
       s = r div us_per_second; us = r mod us_per_second;
       tail = (if us \<noteq> 0 then [s mod 60, us] else if s mod 60 \<noteq> 0 then [s mod 60] else [])
     in ''datetime.datetime('' @ join '', '' (map show_int ([y, m, d, s div 3600, s div 60 mod 60] @ tail)) @
        (case t of Aware _ \<Rightarrow> '', tzinfo=datetime.timezone.utc'' | Naive _ \<Rightarrow> []) @ '')'')"

text \<open>\<open>str(v)\<close>, and \<open>repr(v)\<close> for the elements of a container (tuples print as lists here).\<close>

fun py_repr :: "pyval \<Rightarrow> string"
  and py_repr_list :: "pyval list \<Rightarrow> string list"
  and py_repr_items :: "(string \<times> pyval) list \<Rightarrow> string list" where
  "py_repr VNone = ''None''"
| "py_repr (VBool b) = (if b then ''True'' else ''False'')"
| "py_repr (VInt n) = show_int n"
| "py_repr (VFloat d) = float_repr d"
| "py_repr (VDec d) = ''Decimal('' @ repr_string (dec_str d) @ '')''"
| "py_repr (VStr s) = repr_string s"
| "py_repr (VTime t) = repr_time t"
| "py_repr (VList xs) = ''['' @ join '', '' (py_repr_list xs) @ '']''"
| "py_repr (VDict d) = CHR 0x7B # join '', '' (py_repr_items d) @ [CHR 0x7D]"
| "py_repr_list [] = []"
| "py_repr_list (x # xs) = py_repr x # py_repr_list xs"
| "py_repr_items [] = []"
| "py_repr_items ((k, v) # d) = (repr_string k @ '': '' @ py_repr v) # py_repr_items d"

definition py_str :: "pyval \<Rightarrow> string" where
  "py_str v = (case v of VStr s \<Rightarrow> s | VDec d \<Rightarrow> dec_str d | VTime t \<Rightarrow> time_str t | _ \<Rightarrow> py_repr v)"

section \<open>JSON text\<close>

text \<open>\<open>ensure_ascii\<close> escapes, for characters up to \<open>U+00FF\<close>.\<close>

definition json_char :: "char \<Rightarrow> string" where
  "json_char c =
     (if c = CHR 0x22 then [CHR 0x5C, CHR 0x22] else if c = CHR 0x5C then [CHR 0x5C, CHR 0x5C]
      else if c = CHR 0x0A then [CHR 0x5C, CHR ''n''] else if c = CHR 0x0D then [CHR 0x5C, CHR ''r'']
      else if c = CHR 0x09 then [CHR 0x5C, CHR ''t''] else if c = CHR 0x0C then [CHR 0x5C, CHR ''f'']
      else if c = CHR 0x08 then [CHR 0x5C, CHR ''b'']
      else let n = of_char c :: nat in
        if 32 \<le> n \<and> n \<le> 126 then [c]
        else [CHR 0x5C, CHR ''u'', CHR ''0'', CHR ''0'', hex_digit (n div 16), hex_digit (n mod 16)])"

definition json_string :: "string \<Rightarrow> string" where
  "json_string s = [CHR 0x22] @ concat (map json_char s) @ [CHR 0x22]"

definition json_float :: "pydec \<Rightarrow> string" where
  "json_float d = (case d of Finite _ \<Rightarrow> float_repr d | _ \<Rightarrow> dec_str d)"

text \<open>\<open>json.dumps(v, sort_keys=True, separators=(isep, ksep), default=str)\<close>.\<close>

fun dumps :: "string \<Rightarrow> string \<Rightarrow> pyval \<Rightarrow> string"
  and dumps_list :: "string \<Rightarrow> string \<Rightarrow> pyval list \<Rightarrow> string list"
  and dumps_items :: "string \<Rightarrow> string \<Rightarrow> (string \<times> pyval) list \<Rightarrow> (string \<times> string) list" where
  "dumps isep ksep VNone = ''null''"
| "dumps isep ksep (VBool b) = (if b then ''true'' else ''false'')"
| "dumps isep ksep (VInt n) = show_int n"
| "dumps isep ksep (VFloat d) = json_float d"
| "dumps isep ksep (VDec d) = json_string (dec_str d)"
| "dumps isep ksep (VStr s) = json_string s"
| "dumps isep ksep (VTime t) = json_string (time_str t)"
| "dumps isep ksep (VList xs) = ''['' @ join isep (dumps_list isep ksep xs) @ '']''"
| "dumps isep ksep (VDict d) = CHR 0x7B # join isep (map (\<lambda>(k, t). json_string k @ ksep @ t)
     (sort_key fst (dumps_items isep ksep d))) @ [CHR 0x7D]"
| "dumps_list isep ksep [] = []"
| "dumps_list isep ksep (x # xs) = dumps isep ksep x # dumps_list isep ksep xs"
| "dumps_items isep ksep [] = []"
| "dumps_items isep ksep ((k, v) # d) = (k, dumps isep ksep v) # dumps_items isep ksep d"

lemma dumps_list_map: "dumps_list i k xs = map (dumps i k) xs"
  by (induction xs) simp_all

lemma dumps_items_map: "dumps_items i k d = map (\<lambda>(n, v). (n, dumps i k v)) d"
  by (induction d) auto

definition dumps_compact :: "pyval \<Rightarrow> string" where
  "dumps_compact = dumps '','' '':''"

definition dumps_default :: "pyval \<Rightarrow> string" where
  "dumps_default = dumps '', '' '': ''"

end
