(* ===== verification/JsonText.thy ===== *)
theory JsonText
  imports PyVal
begin

text \<open>
  The JSON printer is a prefix code: a value's text followed by a delimiter can be cut in one way
  only.  Hence the text with one pair of separators determines the text with any other; this is
  what makes the sort key of \<open>canonical\<close> (printed with the default separators) good enough for the
  compact text that is hashed.
\<close>

section \<open>Delimited tokens\<close>

definition delims :: "char set" where
  "delims = {CHR '','', CHR '']'', CHR 0x7D}"

definition delimited :: "string \<Rightarrow> bool" where
  "delimited r \<longleftrightarrow> r = [] \<or> hd r \<in> delims"

lemma token_cancel:
  assumes "w @ r = w' @ r'" and "set w \<inter> delims = {}" and "set w' \<inter> delims = {}"
    and "delimited r" and "delimited r'"
  shows "w = w' \<and> r = r'"
proof -
  have *: "takeWhile (\<lambda>c. c \<notin> delims) (u @ s) = u" if "set u \<inter> delims = {}" "delimited s" for u s
  proof (cases s)
    case Nil
    with that show ?thesis by (auto simp: takeWhile_eq_all_conv)
  next
    case (Cons a as)
    with that show ?thesis
      by (simp add: delimited_def takeWhile_append disjoint_iff)
  qed
  have "w = w'" using * [of w r] * [of w' r'] assms by metis
  with assms(1) show ?thesis by simp
qed

text \<open>Characters that a number, \<open>null\<close>, \<open>true\<close> or \<open>false\<close> can hold.\<close>

definition bare_char :: "char \<Rightarrow> bool" where
  "bare_char c \<longleftrightarrow> c \<in> set ''0123456789-+.eInfityNaulrs''"

definition bare :: "string \<Rightarrow> bool" where
  "bare s \<longleftrightarrow> (\<forall>c \<in> set s. bare_char c)"

lemma bare_simps [simp]: "bare []" "bare (c # s) \<longleftrightarrow> bare_char c \<and> bare s"
  "bare (s @ t) \<longleftrightarrow> bare s \<and> bare t" "bare (replicate n c) \<longleftrightarrow> n = 0 \<or> bare_char c"
  by (auto simp: bare_def)

lemma bare_parts [simp]: "bare s \<Longrightarrow> bare (take n s)" "bare s \<Longrightarrow> bare (drop n s)"
  "bare s \<Longrightarrow> bare (tl s)"
  by (auto simp: bare_def dest: in_set_takeD in_set_dropD list.set_sel(2) split: list.splits)
    (cases s; auto)

lemma bare_letters [simp]: "bare_char CHR ''0''" "bare_char CHR ''-''" "bare_char CHR ''+''"
  "bare_char CHR ''.''" "bare_char CHR ''e''" "bare_char CHR ''I''" "bare_char CHR ''n''"
  "bare_char CHR ''f''" "bare_char CHR ''i''" "bare_char CHR ''t''" "bare_char CHR ''y''"
  "bare_char CHR ''N''" "bare_char CHR ''a''" "bare_char CHR ''u''" "bare_char CHR ''l''"
  "bare_char CHR ''r''" "bare_char CHR ''s''"
  by (simp_all add: bare_char_def)

lemma bare_digit: "d \<le> 9 \<Longrightarrow> bare_char (digit_char d)"
proof -
  assume "d \<le> 9"
  then have "d = 0 \<or> d = 1 \<or> d = 2 \<or> d = 3 \<or> d = 4 \<or> d = 5 \<or> d = 6 \<or> d = 7 \<or> d = 8 \<or> d = 9"
    by presburger
  then show ?thesis
    by (elim disjE) (simp_all add: digit_char_def bare_char_def char_of_eq_iff)
qed

lemma show_nat_bare [simp]: "bare (show_nat n)"
proof (induction n rule: show_nat.induct)
  case (1 n)
  have "n mod 10 \<le> 9" by (simp add: less_Suc_eq_le [symmetric])
  with 1 show ?case by (cases "n < 10") (simp_all add: show_nat.simps [of n] bare_digit)
qed

lemma show_nat_nonempty [simp]: "show_nat n \<noteq> []"
  by (simp add: show_nat.simps [of n])

lemma bare_hd [simp]: "bare s \<Longrightarrow> s \<noteq> [] \<Longrightarrow> bare_char (hd s)"
  by (cases s) simp_all

lemma text_bare [simp]: "bare (show_int n)" "bare (sign_text s)" "bare (zeros k)" "bare (zfill w n)"
  "bare ds \<Longrightarrow> bare (point_at p ds)"
  by (simp_all add: show_int_def sign_text_def zeros_def zfill_def Let_def point_at_def)

lemma float_bare [simp]: "bare (float_repr (Finite x))"
proof (cases x)
  case (Dec s c e)
  obtain c' e' where z: "strip_zeros (ndigits c) c e = (c', e')" by force
  show ?thesis
    unfolding Dec float_repr.simps z Let_def prod.case by (simp split: if_split)
qed

lemma json_float_bare [simp]: "bare (json_float d)"
  by (cases d) (simp_all add: json_float_def)

lemma delim_not_bare: "c \<in> delims \<Longrightarrow> \<not> bare_char c"
  unfolding delims_def by (elim insertE emptyE) (simp_all add: bare_char_def)

lemma bare_delims: "bare s \<Longrightarrow> set s \<inter> delims = {}"
  by (auto simp: bare_def dest: delim_not_bare)

section \<open>Quoted tokens\<close>

lemma json_char_cases: "(\<exists>d. json_char c = [d] \<and> d \<noteq> CHR 0x22 \<and> d \<noteq> CHR 0x5C) \<or>
    (\<exists>d. json_char c = [CHR 0x5C, d] \<and> d \<noteq> CHR ''u'') \<or>
    (\<exists>d e. json_char c = [CHR 0x5C, CHR ''u'', CHR ''0'', CHR ''0'', d, e])"
  by (simp add: json_char_def Let_def)

lemma json_char_cancel: "json_char c @ u = json_char d @ v \<Longrightarrow> json_char c = json_char d \<and> u = v"
  using json_char_cases [of c] json_char_cases [of d] by (elim disjE exE conjE) simp_all

lemma json_char_no_quote: "json_char c @ u \<noteq> CHR 0x22 # v"
  using json_char_cases [of c] by (elim disjE exE conjE) simp_all

lemma quoted_cancel: "concat (map json_char s) @ CHR 0x22 # r = concat (map json_char t) @ CHR 0x22 # r' \<Longrightarrow>
    concat (map json_char s) = concat (map json_char t) \<and> r = r'"
proof (induction s arbitrary: t)
  case Nil
  then show ?case using json_char_no_quote by (cases t) (simp_all, metis)
next
  case (Cons c s)
  have "t \<noteq> []" using Cons.prems json_char_no_quote by auto
  then obtain d t' where t: "t = d # t'" by (cases t) auto
  with Cons.prems have "json_char c @ concat (map json_char s) @ CHR 0x22 # r =
      json_char d @ concat (map json_char t') @ CHR 0x22 # r'" by simp
  from json_char_cancel [OF this] Cons.IH show ?case by (simp add: t)
qed

lemma json_string_cancel: "json_string s @ r = json_string t @ r' \<Longrightarrow> json_string s = json_string t \<and> r = r'"
  using quoted_cancel [of s r t r'] by (simp add: json_string_def)

section \<open>Sequences of tokens\<close>

text \<open>\<open>reads f g x\<close>: the text \<open>f x\<close>, followed by a delimiter, determines \<open>g x\<close> and the rest.\<close>

definition reads :: "('a \<Rightarrow> string) \<Rightarrow> ('a \<Rightarrow> string) \<Rightarrow> 'a \<Rightarrow> bool" where
  "reads f g x \<longleftrightarrow> (\<forall>y r r'. delimited r \<longrightarrow> delimited r' \<longrightarrow> f x @ r = f y @ r' \<longrightarrow> g x = g y \<and> r = r')"

lemma readsD: "reads f g x \<Longrightarrow> f x @ r = f y @ r' \<Longrightarrow> delimited r \<Longrightarrow> delimited r' \<Longrightarrow> g x = g y \<and> r = r'"
  by (auto simp: reads_def)

definition starts_ok :: "('a \<Rightarrow> string) \<Rightarrow> bool" where
  "starts_ok f \<longleftrightarrow> (\<forall>x. \<exists>c w. f x = c # w \<and> c \<notin> delims)"

definition rest_text :: "string \<Rightarrow> string list \<Rightarrow> string" where
  "rest_text i ts = concat (map (\<lambda>t. i @ t) ts)"

lemma join_rest: "join i (t # ts) = t @ rest_text i ts"
  by (induction ts arbitrary: t) (simp_all add: rest_text_def)

lemma delimited_rest: "i = CHR '','' # i0 \<Longrightarrow> c \<in> delims \<Longrightarrow> delimited (rest_text i ts @ c # r)"
  by (cases ts) (simp_all add: rest_text_def delimited_def delims_def)

lemma rest_cancel:
  assumes "\<forall>x \<in> set xs. reads f g x" and "i = CHR '','' # i0" and "c \<in> delims" "c \<noteq> CHR '',''"
    and "rest_text i (map f xs) @ c # r = rest_text i (map f ys) @ c # r'"
  shows "map g xs = map g ys \<and> r = r'"
  using assms(1,5)
proof (induction xs arbitrary: ys)
  case Nil
  then show ?case using assms(2,4) by (cases ys) (simp_all add: rest_text_def)
next
  case (Cons x xs)
  obtain y ys' where ys: "ys = y # ys'"
    using Cons.prems assms(2,4) by (cases ys) (simp_all add: rest_text_def)
  have "f x @ rest_text i (map f xs) @ c # r = f y @ rest_text i (map f ys') @ c # r'"
    using Cons.prems by (simp add: ys rest_text_def)
  then have "g x = g y \<and> rest_text i (map f xs) @ c # r = rest_text i (map f ys') @ c # r'"
    using Cons.prems(1) by (intro readsD [of f g]) (simp_all add: delimited_rest [OF assms(2,3)])
  with Cons.IH [of ys'] Cons.prems(1) show ?case by (simp add: ys)
qed

lemma join_cancel:
  assumes "\<forall>x \<in> set xs. reads f g x" and "starts_ok f" and "i = CHR '','' # i0"
    and "c \<in> delims" "c \<noteq> CHR '',''"
    and "join i (map f xs) @ c # r = join i (map f ys) @ c # r'"
  shows "map g xs = map g ys \<and> r = r'"
proof (cases xs)
  case Nil
  have "ys = []"
  proof (rule ccontr)
    assume "ys \<noteq> []"
    then obtain y ys' where "ys = y # ys'" by (cases ys) auto
    moreover obtain d w where "f y = d # w" "d \<notin> delims"
      using assms(2) unfolding starts_ok_def by blast
    ultimately show False using assms(4,6) Nil by (simp add: join_rest)
  qed
  with Nil assms(6) show ?thesis by simp
next
  case (Cons x xs')
  obtain d w where d: "f x = d # w" "d \<notin> delims"
    using assms(2) unfolding starts_ok_def by blast
  obtain y ys' where ys: "ys = y # ys'"
    using assms(4,6) Cons d by (cases ys) (auto simp: join_rest)
  have "f x @ rest_text i (map f xs') @ c # r = f y @ rest_text i (map f ys') @ c # r'"
    using assms(6) by (simp add: Cons ys join_rest)
  then have *: "g x = g y \<and> rest_text i (map f xs') @ c # r = rest_text i (map f ys') @ c # r'"
    using assms(1) Cons by (intro readsD [of f g]) (simp_all add: delimited_rest [OF assms(3,4)])
  with rest_cancel [of xs' f g i i0 c r ys' r'] assms Cons show ?thesis by (simp add: ys)
qed

section \<open>The printer is a prefix code\<close>

lemma sort_key_fst_map:
  "sort_key fst (map (\<lambda>p. (fst p, f (snd p))) d) = map (\<lambda>p. (fst p, f (snd p))) (sort_key fst d)"
proof -
  have ins: "insort_key fst (n, f v) (map (\<lambda>p. (fst p, f (snd p))) ys) =
      map (\<lambda>p. (fst p, f (snd p))) (insort_key fst (n, v) ys)" for n v ys
    by (induction ys) auto
  have "foldr (insort_key fst) (map (\<lambda>p. (fst p, f (snd p))) d) [] =
      map (\<lambda>p. (fst p, f (snd p))) (foldr (insort_key fst) d [])"
    by (induction d) (auto simp: ins)
  then show ?thesis by (simp add: sort_key_def)
qed

lemma dumps_VDict: "dumps i k (VDict d) =
    CHR 0x7B # join i (map (\<lambda>p. json_string (fst p) @ k @ dumps i k (snd p)) (sort_key fst d)) @ [CHR 0x7D]"
  by (simp add: dumps_items_map case_prod_unfold sort_key_fst_map o_def)

lemma dumps_VList: "dumps i k (VList xs) = CHR ''['' # join i (map (dumps i k) xs) @ [CHR '']'']"
  by (simp add: dumps_list_map)

datatype shape = Bare | Quoted | ListShape | DictShape

fun shape_of :: "pyval \<Rightarrow> shape" where
  "shape_of (VDec _) = Quoted"
| "shape_of (VStr _) = Quoted"
| "shape_of (VTime _) = Quoted"
| "shape_of (VList _) = ListShape"
| "shape_of (VDict _) = DictShape"
| "shape_of _ = Bare"

fun quoted_text :: "pyval \<Rightarrow> string" where
  "quoted_text (VDec d) = dec_str d"
| "quoted_text (VStr s) = s"
| "quoted_text (VTime t) = time_str t"
| "quoted_text _ = []"

lemma dumps_Quoted: "shape_of v = Quoted \<Longrightarrow> dumps i k v = json_string (quoted_text v)"
  by (cases v) simp_all

lemma point_at_nonempty: "ds \<noteq> [] \<Longrightarrow> point_at p ds \<noteq> []"
  by (simp add: point_at_def)

lemma json_float_nonempty: "json_float d \<noteq> []"
proof (cases d)
  case (Finite x)
  obtain s c e where x: "x = Dec s c e" by (cases x)
  obtain c' e' where z: "strip_zeros (ndigits c) c e = (c', e')" by force
  show ?thesis
    unfolding Finite json_float_def pydec.case x float_repr.simps z Let_def prod.case
    by (simp add: point_at_nonempty)
qed (simp_all add: json_float_def)

lemma dumps_Bare: "shape_of v = Bare \<Longrightarrow> bare (dumps i k v) \<and> dumps i k v \<noteq> []"
  by (cases v) (simp_all add: json_float_nonempty show_int_def)

lemma dumps_Bare_cong: "shape_of v = Bare \<Longrightarrow> dumps i k v = dumps i' k' v"
  by (cases v) simp_all

text \<open>The first character tells the shape.\<close>

lemma dumps_head: "\<exists>c w. dumps i k v = c # w \<and> (case shape_of v of Bare \<Rightarrow> bare_char c
    | Quoted \<Rightarrow> c = CHR 0x22 | ListShape \<Rightarrow> c = CHR ''['' | DictShape \<Rightarrow> c = CHR 0x7B)"
proof (cases "shape_of v")
  case Bare
  with dumps_Bare [of v i k] show ?thesis by (cases "dumps i k v") simp_all
next
  case Quoted
  then show ?thesis by (simp add: dumps_Quoted json_string_def)
qed (cases v; simp)+

lemma not_bare_heads [simp]: "\<not> bare_char CHR 0x22" "\<not> bare_char CHR ''[''" "\<not> bare_char CHR 0x7B"
  by (simp_all add: bare_char_def)

lemma starts_ok_dumps: "starts_ok (dumps i k)"
  unfolding starts_ok_def
proof
  fix v
  obtain c w where "dumps i k v = c # w" and c: "case shape_of v of Bare \<Rightarrow> bare_char c
    | Quoted \<Rightarrow> c = CHR 0x22 | ListShape \<Rightarrow> c = CHR ''['' | DictShape \<Rightarrow> c = CHR 0x7B"
    using dumps_head [of i k v] by blast
  moreover have "c \<notin> delims"
    using c delim_not_bare [of c] by (cases "shape_of v") (auto simp: delims_def)
  ultimately show "\<exists>c w. dumps i k v = c # w \<and> c \<notin> delims" by blast
qed

lemma same_shape: "dumps i k x @ r = dumps i k y @ r' \<Longrightarrow> shape_of x = shape_of y"
proof -
  assume eq: "dumps i k x @ r = dumps i k y @ r'"
  let ?ok = "\<lambda>s c. case s of Bare \<Rightarrow> bare_char c | Quoted \<Rightarrow> c = CHR 0x22
    | ListShape \<Rightarrow> c = CHR ''['' | DictShape \<Rightarrow> c = CHR 0x7B"
  obtain c w where c: "dumps i k x = c # w" "?ok (shape_of x) c" using dumps_head [of i k x] by blast
  obtain d w' where d: "dumps i k y = d # w'" "?ok (shape_of y) d" using dumps_head [of i k y] by blast
  have "c = d" using eq c(1) d(1) by simp
  with c(2) d(2) show ?thesis by (cases "shape_of x"; cases "shape_of y") simp_all
qed

lemma reads_item:
  assumes "reads (dumps i k) (dumps i' k') (snd p)"
  shows "reads (\<lambda>p. json_string (fst p) @ k @ dumps i k (snd p))
    (\<lambda>p. json_string (fst p) @ k' @ dumps i' k' (snd p)) p"
  unfolding reads_def
proof (intro allI impI)
  fix q r r'
  assume dl: "delimited r" "delimited r'"
    and eq: "(json_string (fst p) @ k @ dumps i k (snd p)) @ r = (json_string (fst q) @ k @ dumps i k (snd q)) @ r'"
  then have "json_string (fst p) = json_string (fst q) \<and>
      k @ dumps i k (snd p) @ r = k @ dumps i k (snd q) @ r'"
    by (intro json_string_cancel) (simp only: append_assoc)
  moreover from this have "dumps i' k' (snd p) = dumps i' k' (snd q) \<and> r = r'"
    using readsD [OF assms _ dl] by simp
  ultimately show "json_string (fst p) @ k' @ dumps i' k' (snd p) =
      json_string (fst q) @ k' @ dumps i' k' (snd q) \<and> r = r'" by simp
qed

lemma scalar_cancel:
  assumes "dumps i k x @ r = dumps i k y @ r'" and "shape_of x \<in> {Bare, Quoted}"
    and "delimited r" and "delimited r'"
  shows "dumps i' k' x = dumps i' k' y \<and> r = r'"
proof (cases "shape_of x = Bare")
  case True
  then have y: "shape_of y = Bare" using same_shape [OF assms(1)] by simp
  have "dumps i k x = dumps i k y \<and> r = r'"
    using assms True y by (intro token_cancel) (simp_all add: dumps_Bare bare_delims)
  then show ?thesis using dumps_Bare_cong True y by metis
next
  case False
  then have q: "shape_of x = Quoted" "shape_of y = Quoted"
    using assms(2) same_shape [OF assms(1)] by auto
  with assms(1) show ?thesis by (auto simp: dumps_Quoted dest: json_string_cancel)
qed

lemma reads_scalar: "shape_of x \<in> {Bare, Quoted} \<Longrightarrow> reads (dumps i k) (dumps i' k') x"
  unfolding reads_def using scalar_cancel by blast

lemma dumps_reads: "i = CHR '','' # i0 \<Longrightarrow> reads (dumps i k) (dumps i' k') x"
proof (induction x)
  case (VList xs)
  show ?case
    unfolding reads_def
  proof (intro allI impI)
    fix y r r'
    assume eq: "dumps i k (VList xs) @ r = dumps i k y @ r'"
    then obtain ys where y: "y = VList ys" using same_shape [OF eq] by (cases y) simp_all
    have "map (dumps i' k') xs = map (dumps i' k') ys \<and> r = r'"
      using eq VList by (intro join_cancel [of xs "dumps i k" _ i i0 "CHR '']''"])
        (simp_all add: y dumps_VList starts_ok_dumps delims_def del: dumps.simps)
    then show "dumps i' k' (VList xs) = dumps i' k' y \<and> r = r'" by (simp add: y dumps_VList del: dumps.simps)
  qed
next
  case (VDict d)
  let ?f = "\<lambda>p. json_string (fst p) @ k @ dumps i k (snd p)"
  let ?g = "\<lambda>p. json_string (fst p) @ k' @ dumps i' k' (snd p)"
  have good: "\<forall>p \<in> set (sort_key fst d). reads ?f ?g p"
    using VDict by (auto intro!: reads_item)
  have st: "starts_ok ?f" by (simp add: starts_ok_def json_string_def delims_def)
  show ?case
    unfolding reads_def
  proof (intro allI impI)
    fix y r r'
    assume eq: "dumps i k (VDict d) @ r = dumps i k y @ r'"
    then obtain d' where y: "y = VDict d'" using same_shape [OF eq] by (cases y) simp_all
    have "map ?g (sort_key fst d) = map ?g (sort_key fst d') \<and> r = r'"
      using eq VDict.prems by (intro join_cancel [OF good st, of i i0 "CHR 0x7D"])
        (simp_all add: y dumps_VDict delims_def del: dumps.simps)
    then show "dumps i' k' (VDict d) = dumps i' k' y \<and> r = r'" by (simp add: y dumps_VDict del: dumps.simps)
  qed
qed (simp_all add: reads_scalar del: dumps.simps)

text \<open>The text with the default separators determines the compact text.\<close>

lemma dumps_default_compact: "dumps_default x = dumps_default y \<Longrightarrow> dumps_compact x = dumps_compact y"
  using dumps_reads [of "'', ''" "'' ''" "'': ''" "'',''" "'':''" x]
  by (auto simp: reads_def delimited_def dumps_default_def dumps_compact_def)

end
