(* ===== verification/Controls.thy ===== *)
theory Controls
  imports JsonText
begin

text \<open>
  \<open>app/domain/controls.py\<close>: the versioned control contracts and the canonical form and digest all
  integrity checks use.  Every pydantic model is a record, its validators a predicate
  \<open>valid_...\<close> (construction fails exactly when the predicate is false), and
  \<open>dump_...\<close> is its \<open>model_dump\<close>.  \<open>AwareDatetime\<close> fields are instants (\<^typ>\<open>int\<close>
  microseconds).  SHA-256 is the parameter \<open>sha\<close>, the only opaque part of \<open>digest\<close>.
\<close>

section \<open>Canonical form and digest\<close>

definition CONTROL_GRAPH_VERSION :: string where
  "CONTROL_GRAPH_VERSION = ''duplicate-card-controls-v1''"

text \<open>\<open>utc\<close>: a naive timestamp is a \<open>ValueError\<close>, an instant outside years 1 to 9999 an
  \<open>OverflowError\<close> of \<open>astimezone\<close>.\<close>

fun utc :: "pytime \<Rightarrow> int py" where
  "utc (Naive t) = Inl ValueErr"
| "utc (Aware t) = (if 0 \<le> t \<and> t \<le> max_instant then Inr t else Inl ArithErr)"

fun canonical :: "pyval \<Rightarrow> pyval py"
  and canonical_list :: "pyval list \<Rightarrow> pyval list py"
  and canonical_items :: "(string \<times> pyval) list \<Rightarrow> (string \<times> pyval) list py" where
  "canonical VNone = Inr VNone"
| "canonical (VBool b) = Inr (VBool b)"
| "canonical (VInt n) = Inr (VInt n)"
| "canonical (VFloat d) = (case d of Finite _ \<Rightarrow> Inr (VFloat d) | _ \<Rightarrow> Inl ValueErr)"
| "canonical (VDec d) = (case d of Finite x \<Rightarrow> Inr (VStr (dec_canonical x)) | _ \<Rightarrow> Inl ValueErr)"
| "canonical (VStr s) = Inr (VStr s)"
| "canonical (VTime t) = rmap (\<lambda>u. VStr (isoformat (Aware u))) (utc t)"
| "canonical (VList xs) = rmap (\<lambda>ys. VList (sort_key dumps_default ys)) (canonical_list xs)"
| "canonical (VDict d) = rmap (\<lambda>c. VDict (sort_key fst c)) (canonical_items d)"
| "canonical_list [] = Inr []"
| "canonical_list (x # xs) = rbind (canonical x) (\<lambda>y. rmap ((#) y) (canonical_list xs))"
| "canonical_items [] = Inr []"
| "canonical_items ((k, v) # d) = rbind (canonical v) (\<lambda>w. rmap ((#) (k, w)) (canonical_items d))"

definition digest :: "(string \<Rightarrow> string) \<Rightarrow> pyval \<Rightarrow> string py" where
  "digest sha v = rmap (\<lambda>c. sha (dumps_compact c)) (canonical v)"

section \<open>Small dump helpers\<close>

definition VStrs :: "string list \<Rightarrow> pyval" where
  "VStrs xs = VList (map VStr xs)"

definition VOpt :: "('a \<Rightarrow> pyval) \<Rightarrow> 'a option \<Rightarrow> pyval" where
  "VOpt f x = (case x of None \<Rightarrow> VNone | Some y \<Rightarrow> f y)"

text \<open>Pydantic's JSON spelling of a UTC timestamp and of a decimal.\<close>

definition json_time :: "int \<Rightarrow> pyval" where
  "json_time t = VStr (iso_local CHR ''T'' t @ ''Z'')"

definition dump_time :: "bool \<Rightarrow> int \<Rightarrow> pyval" where
  "dump_time json t = (if json then json_time t else VTime (Aware t))"

definition dump_dec :: "bool \<Rightarrow> dec \<Rightarrow> pyval" where
  "dump_dec json x = (if json then VStr (dec_str (Finite x)) else VDec (Finite x))"

definition score_ok :: "dec \<Rightarrow> bool" where
  "score_ok x \<longleftrightarrow> dec_le (Dec False 0 0) x \<and> dec_le x (Dec False 1 0)"

lemma score_ok_iff: "score_ok x \<longleftrightarrow> 0 \<le> dval x \<and> dval x \<le> 1"
  by (simp add: score_ok_def dec_le_iff signed_def)

section \<open>Evidence contract\<close>

datatype ev_state = Validated | Unknown | Invalid | Unavailable

fun ev_state_text :: "ev_state \<Rightarrow> string" where
  "ev_state_text Validated = ''validated''"
| "ev_state_text Unknown = ''unknown''"
| "ev_state_text Invalid = ''invalid''"
| "ev_state_text Unavailable = ''unavailable''"

record evidence_requirement =
  requirement_id :: string
  req_kinds :: "string list"
  req_mandatory :: bool
  minimum_count :: int
  req_weight :: int
  maximum_age_seconds :: "int option"
  accepted_states :: "ev_state list"

definition valid_requirement :: "evidence_requirement \<Rightarrow> bool" where
  "valid_requirement r \<longleftrightarrow> requirement_id r \<noteq> [] \<and> req_kinds r \<noteq> [] \<and> 1 \<le> minimum_count r \<and>
     1 \<le> req_weight r \<and> (\<forall>a \<in> set_option (maximum_age_seconds r). 0 \<le> a) \<and>
     set (accepted_states r) \<subseteq> {Validated}"

record evidence_contract =
  ec_version :: string
  requirements :: "evidence_requirement list"
  conflict_fields :: "string list"

definition default_conflict_fields :: "string list" where
  "default_conflict_fields =
     [''account_ref'', ''customer_ref'', ''currency'', ''transaction_ref'', ''status'', ''amount'']"

definition valid_contract :: "evidence_contract \<Rightarrow> bool" where
  "valid_contract c \<longleftrightarrow> ec_version c \<noteq> [] \<and> requirements c \<noteq> [] \<and>
     list_all valid_requirement (requirements c) \<and> distinct (map requirement_id (requirements c))"

definition dump_requirement :: "evidence_requirement \<Rightarrow> pyval" where
  "dump_requirement r = VDict [(''requirement_id'', VStr (requirement_id r)),
     (''kinds'', VStrs (req_kinds r)), (''mandatory'', VBool (req_mandatory r)),
     (''minimum_count'', VInt (minimum_count r)), (''weight'', VInt (req_weight r)),
     (''maximum_age_seconds'', VOpt VInt (maximum_age_seconds r)),
     (''accepted_states'', VStrs (map ev_state_text (accepted_states r)))]"

definition dump_contract :: "evidence_contract \<Rightarrow> pyval" where
  "dump_contract c = VDict [(''version'', VStr (ec_version c)),
     (''requirements'', VList (map dump_requirement (requirements c))),
     (''conflict_fields'', VStrs (conflict_fields c))]"

section \<open>Eligibility profile\<close>

record policy_mapping =
  pm_document_id :: string
  pm_version :: string
  pm_family :: string
  pm_dispute_type :: string

record eligibility_profile =
  ep_version :: string
  ep_family :: string
  mappings :: "policy_mapping list"

definition valid_mapping :: "policy_mapping \<Rightarrow> bool" where
  "valid_mapping m \<longleftrightarrow> pm_document_id m \<noteq> [] \<and> pm_version m \<noteq> [] \<and> pm_family m \<noteq> [] \<and>
     pm_dispute_type m \<noteq> []"

definition valid_eligibility :: "eligibility_profile \<Rightarrow> bool" where
  "valid_eligibility p \<longleftrightarrow> ep_version p \<noteq> [] \<and> ep_family p \<noteq> [] \<and> mappings p \<noteq> [] \<and>
     list_all valid_mapping (mappings p)"

definition dump_mapping :: "policy_mapping \<Rightarrow> pyval" where
  "dump_mapping m = VDict [(''document_id'', VStr (pm_document_id m)), (''version'', VStr (pm_version m)),
     (''family'', VStr (pm_family m)), (''dispute_type'', VStr (pm_dispute_type m))]"

definition dump_eligibility :: "eligibility_profile \<Rightarrow> pyval" where
  "dump_eligibility p = VDict [(''version'', VStr (ep_version p)), (''family'', VStr (ep_family p)),
     (''mappings'', VList (map dump_mapping (mappings p)))]"

section \<open>Rules\<close>

datatype rule_handler = HEligibility | HTimeline | HEvidence | HPolicy | HDuplicate | HRemediation

fun handler_text :: "rule_handler \<Rightarrow> string" where
  "handler_text HEligibility = ''eligibility''"
| "handler_text HTimeline = ''timeline''"
| "handler_text HEvidence = ''evidence''"
| "handler_text HPolicy = ''policy''"
| "handler_text HDuplicate = ''duplicate''"
| "handler_text HRemediation = ''remediation''"

record rule_definition =
  rd_rule_id :: string
  rd_version :: string
  rd_handler :: rule_handler
  rd_order :: int
  rd_mandatory :: bool
  rd_dispute_type :: string
  rd_effective_from :: int
  rd_effective_to :: "int option"
  rd_parameters :: "(string \<times> pydec) list"
  rd_policy_refs :: "string list"

definition expected_parameters :: "rule_handler \<Rightarrow> string set" where
  "expected_parameters h = (case h of HTimeline \<Rightarrow> {''filing_days''} | HDuplicate \<Rightarrow> {''window_seconds''} | _ \<Rightarrow> {})"

definition parameter_ok :: "pydec \<Rightarrow> bool" where
  "parameter_ok v = (case v of Finite d \<Rightarrow> dec_le (Dec False 0 0) d | _ \<Rightarrow> False)"

definition valid_rule :: "rule_definition \<Rightarrow> bool" where
  "valid_rule r \<longleftrightarrow> rd_rule_id r \<noteq> [] \<and> rd_version r \<noteq> [] \<and> 0 \<le> rd_order r \<and> rd_policy_refs r \<noteq> [] \<and>
     fst ` set (rd_parameters r) = expected_parameters (rd_handler r) \<and>
     list_all (\<lambda>(k, v). parameter_ok v) (rd_parameters r) \<and>
     (\<forall>e \<in> set_option (rd_effective_to r). rd_effective_from r \<le> e)"

record rule_set =
  rs_version :: string
  rs_rules :: "rule_definition list"
  disposition_version :: string

definition all_handlers :: "rule_handler set" where
  "all_handlers = {HEligibility, HTimeline, HEvidence, HPolicy, HDuplicate, HRemediation}"

definition valid_rule_set :: "rule_set \<Rightarrow> bool" where
  "valid_rule_set s \<longleftrightarrow> rs_version s \<noteq> [] \<and> rs_rules s \<noteq> [] \<and> list_all valid_rule (rs_rules s) \<and>
     disposition_version s = ''duplicate-disposition-v1'' \<and>
     distinct (map rd_rule_id (rs_rules s)) \<and> distinct (map rd_order (rs_rules s)) \<and>
     set (map rd_handler (rs_rules s)) = all_handlers"

definition dump_rule :: "rule_definition \<Rightarrow> pyval" where
  "dump_rule r = VDict [(''rule_id'', VStr (rd_rule_id r)), (''version'', VStr (rd_version r)),
     (''handler'', VStr (handler_text (rd_handler r))), (''order'', VInt (rd_order r)),
     (''mandatory'', VBool (rd_mandatory r)), (''dispute_type'', VStr (rd_dispute_type r)),
     (''effective_from'', dump_time False (rd_effective_from r)),
     (''effective_to'', VOpt (dump_time False) (rd_effective_to r)),
     (''parameters'', VDict (map (\<lambda>(k, v). (k, VDec v)) (rd_parameters r))),
     (''policy_refs'', VStrs (rd_policy_refs r))]"

definition dump_rule_set :: "rule_set \<Rightarrow> pyval" where
  "dump_rule_set s = VDict [(''version'', VStr (rs_version s)), (''rules'', VList (map dump_rule (rs_rules s))),
     (''disposition_version'', VStr (disposition_version s))]"

section \<open>Confidence configuration\<close>

record confidence_config =
  cc_version :: string
  formula :: string
  weights :: "(string \<times> dec) list"
  penalties :: "(string \<times> dec) list"
  cc_threshold :: dec
  decimal_places :: int
  rounding :: string

definition weight_sum :: "(string \<times> dec) list \<Rightarrow> dec" where
  "weight_sum ws = foldl dec_add (Dec False 0 0) (map snd ws)"

definition valid_confidence :: "confidence_config \<Rightarrow> bool" where
  "valid_confidence c \<longleftrightarrow> cc_version c \<noteq> [] \<and> formula c = ''weighted-penalties-v1'' \<and>
     decimal_places c = 6 \<and> rounding c = ''ROUND_HALF_UP'' \<and>
     distinct (map fst (weights c)) \<and> distinct (map fst (penalties c)) \<and>
     list_all (\<lambda>(k, w). score_ok w) (weights c) \<and> list_all (\<lambda>(k, w). score_ok w) (penalties c) \<and>
     score_ok (cc_threshold c) \<and>
     fst ` set (weights c) = {''classification'', ''evidence'', ''policy'', ''rules''} \<and>
     fst ` set (penalties c) = {''conflicts'', ''tools''} \<and>
     dec_eq (weight_sum (weights c)) (Dec False 1 0)"

definition dump_confidence_config :: "bool \<Rightarrow> confidence_config \<Rightarrow> pyval" where
  "dump_confidence_config json c = VDict [(''version'', VStr (cc_version c)), (''formula'', VStr (formula c)),
     (''weights'', VDict (map (\<lambda>(k, w). (k, dump_dec json w)) (weights c))),
     (''penalties'', VDict (map (\<lambda>(k, w). (k, dump_dec json w)) (penalties c))),
     (''threshold'', dump_dec json (cc_threshold c)), (''decimal_places'', VInt (decimal_places c)),
     (''rounding'', VStr (rounding c))]"

section \<open>Control profile\<close>

record control_profile =
  profile_id :: string
  cp_version :: string
  environment :: string
  synthetic :: bool
  cp_approval_ref :: string
  cp_effective_from :: int
  cp_effective_to :: "int option"
  cp_dispute_type :: string
  cp_product :: string
  channels :: "string list"
  jurisdictions :: "string list"
  cp_evidence :: evidence_contract
  cp_eligibility :: eligibility_profile
  cp_rules :: rule_set
  cp_confidence :: confidence_config

definition mapping_ref :: "policy_mapping \<Rightarrow> string" where
  "mapping_ref m = pm_document_id m @ '':'' @ pm_version m"

definition valid_profile :: "control_profile \<Rightarrow> bool" where
  "valid_profile p \<longleftrightarrow> profile_id p \<noteq> [] \<and> cp_version p \<noteq> [] \<and> environment p \<noteq> [] \<and>
     cp_approval_ref p \<noteq> [] \<and> cp_product p \<noteq> [] \<and> channels p \<noteq> [] \<and> jurisdictions p \<noteq> [] \<and>
     valid_contract (cp_evidence p) \<and> valid_eligibility (cp_eligibility p) \<and>
     valid_rule_set (cp_rules p) \<and> valid_confidence (cp_confidence p) \<and>
     (\<forall>e \<in> set_option (cp_effective_to p). cp_effective_from p \<le> e) \<and>
     (synthetic p \<longrightarrow> environment p \<in> {''local'', ''test''}) \<and>
     (\<forall>r \<in> set (rs_rules (cp_rules p)).
        set (rd_policy_refs r) \<subseteq> set (map mapping_ref (mappings (cp_eligibility p))))"

definition dump_profile :: "control_profile \<Rightarrow> pyval" where
  "dump_profile p = VDict [(''profile_id'', VStr (profile_id p)), (''version'', VStr (cp_version p)),
     (''environment'', VStr (environment p)), (''synthetic'', VBool (synthetic p)),
     (''approval_ref'', VStr (cp_approval_ref p)), (''effective_from'', dump_time False (cp_effective_from p)),
     (''effective_to'', VOpt (dump_time False) (cp_effective_to p)),
     (''dispute_type'', VStr (cp_dispute_type p)), (''product'', VStr (cp_product p)),
     (''channels'', VStrs (channels p)), (''jurisdictions'', VStrs (jurisdictions p)),
     (''evidence'', dump_contract (cp_evidence p)), (''eligibility'', dump_eligibility (cp_eligibility p)),
     (''rules'', dump_rule_set (cp_rules p)), (''confidence'', dump_confidence_config False (cp_confidence p))]"

section \<open>Assessment, execution and evaluation results\<close>

record evidence_item =
  reference :: string
  ev_kind :: string
  checksum :: string
  ev_state :: ev_state
  source_as_of :: "int option"
  subject :: "string option"
  attributes :: "(string \<times> string) list"

definition dump_item :: "bool \<Rightarrow> evidence_item \<Rightarrow> pyval" where
  "dump_item json i = VDict [(''reference'', VStr (reference i)), (''kind'', VStr (ev_kind i)),
     (''checksum'', VStr (checksum i)), (''state'', VStr (ev_state_text (ev_state i))),
     (''source_as_of'', VOpt (dump_time json) (source_as_of i)), (''subject'', VOpt VStr (subject i)),
     (''attributes'', VDict (map (\<lambda>(k, v). (k, VStr v)) (attributes i)))]"

record evidence_assessment =
  ea_contract_version :: string
  snapshot_hash :: string
  required :: "string list"
  available :: "string list"
  missing :: "string list"
  stale :: "string list"
  invalid :: "string list"
  conflicting :: "string list"
  satisfaction :: "(string \<times> string list) list"
  ea_reasons :: "string list"
  ea_score :: dec
  mandatory_complete :: bool

definition dump_assessment :: "bool \<Rightarrow> evidence_assessment \<Rightarrow> pyval" where
  "dump_assessment json a = VDict [(''contract_version'', VStr (ea_contract_version a)),
     (''snapshot_hash'', VStr (snapshot_hash a)), (''required'', VStrs (required a)),
     (''available'', VStrs (available a)), (''missing'', VStrs (missing a)), (''stale'', VStrs (stale a)),
     (''invalid'', VStrs (invalid a)), (''conflicting'', VStrs (conflicting a)),
     (''satisfaction'', VDict (map (\<lambda>(k, v). (k, VStrs v)) (satisfaction a))),
     (''reasons'', VStrs (ea_reasons a)), (''score'', dump_dec json (ea_score a)),
     (''mandatory_complete'', VBool (mandatory_complete a))]"

datatype rule_outcome = Passed | Failed | NotApplicable | Indeterminate | RuleError

fun outcome_text :: "rule_outcome \<Rightarrow> string" where
  "outcome_text Passed = ''PASS''"
| "outcome_text Failed = ''FAIL''"
| "outcome_text NotApplicable = ''NOT_APPLICABLE''"
| "outcome_text Indeterminate = ''INDETERMINATE''"
| "outcome_text RuleError = ''ERROR''"

record rule_result =
  rr_rule_id :: string
  rr_version :: string
  outcome :: rule_outcome
  reason_code :: string
  rr_mandatory :: bool
  fact_refs :: "string list"
  rr_policy_refs :: "string list"
  config_ref :: string

definition dump_rule_result :: "rule_result \<Rightarrow> pyval" where
  "dump_rule_result r = VDict [(''rule_id'', VStr (rr_rule_id r)), (''version'', VStr (rr_version r)),
     (''outcome'', VStr (outcome_text (outcome r))), (''reason_code'', VStr (reason_code r)),
     (''mandatory'', VBool (rr_mandatory r)), (''fact_refs'', VStrs (fact_refs r)),
     (''policy_refs'', VStrs (rr_policy_refs r)), (''config_ref'', VStr (config_ref r))]"

datatype disposition = DuplicateSupported | DuplicateNotSupported | AlreadyRemediated | ReviewRequired

fun disposition_text :: "disposition \<Rightarrow> string" where
  "disposition_text DuplicateSupported = ''DUPLICATE_SUPPORTED''"
| "disposition_text DuplicateNotSupported = ''DUPLICATE_NOT_SUPPORTED''"
| "disposition_text AlreadyRemediated = ''ALREADY_REMEDIATED''"
| "disposition_text ReviewRequired = ''REVIEW_REQUIRED''"

record rule_execution =
  ruleset_version :: string
  facts_hash :: string
  results :: "rule_result list"
  candidate :: disposition
  blocked :: bool

definition dump_execution :: "rule_execution \<Rightarrow> pyval" where
  "dump_execution x = VDict [(''ruleset_version'', VStr (ruleset_version x)), (''facts_hash'', VStr (facts_hash x)),
     (''results'', VList (map dump_rule_result (results x))),
     (''candidate'', VStr (disposition_text (candidate x))), (''blocked'', VBool (blocked x))]"

record confidence_factor =
  raw :: "string option"
  normalized :: dec
  cf_weight :: dec
  contribution :: dec
  source_ref :: string
  valid_signal :: bool

definition dump_factor :: "confidence_factor \<Rightarrow> pyval" where
  "dump_factor f = VDict [(''raw'', VOpt VStr (raw f)), (''normalized'', dump_dec True (normalized f)),
     (''weight'', dump_dec True (cf_weight f)), (''contribution'', dump_dec True (contribution f)),
     (''source_ref'', VStr (source_ref f)), (''valid'', VBool (valid_signal f))]"

record confidence_evaluation =
  ce_config_version :: string
  factors :: "(string \<times> confidence_factor) list"
  ce_score :: dec
  ce_threshold :: dec
  ce_reasons :: "string list"
  ready :: bool
  pins :: pyval

definition dump_evaluation :: "confidence_evaluation \<Rightarrow> pyval" where
  "dump_evaluation e = VDict [(''config_version'', VStr (ce_config_version e)),
     (''factors'', VDict (map (\<lambda>(k, f). (k, dump_factor f)) (factors e))),
     (''score'', dump_dec True (ce_score e)), (''threshold'', dump_dec True (ce_threshold e)),
     (''reasons'', VStrs (ce_reasons e)), (''ready'', VBool (ready e)), (''pins'', pins e)]"

section \<open>Re-evaluation and evaluation bundle\<close>

record reevaluation_request =
  rq_prior_evaluation_id :: string
  rq_reason :: string
  retain_pins :: bool

definition valid_reevaluation :: "reevaluation_request \<Rightarrow> bool" where
  "valid_reevaluation r \<longleftrightarrow> length (rq_prior_evaluation_id r) = 36 \<and> 1 \<le> length (rq_reason r) \<and>
     length (rq_reason r) \<le> 240"

record evaluation_bundle =
  eb_case_id :: string
  eb_workflow_id :: string
  eb_state_version :: int
  evaluated_at :: int
  eb_profile_id :: "string option"
  eb_profile_version :: "string option"
  eb_profile_hash :: "string option"
  inputs_hash :: string
  classification_hash :: string
  evidence_hash :: string
  eb_facts_hash :: string
  versions :: "(string \<times> string) list"
  eb_prior_evaluation_id :: "string option"
  reevaluation_reason :: "string option"

definition dump_bundle :: "evaluation_bundle \<Rightarrow> pyval" where
  "dump_bundle b = VDict [(''case_id'', VStr (eb_case_id b)), (''workflow_id'', VStr (eb_workflow_id b)),
     (''state_version'', VInt (eb_state_version b)), (''graph_version'', VStr CONTROL_GRAPH_VERSION),
     (''evaluated_at'', dump_time False (evaluated_at b)), (''profile_id'', VOpt VStr (eb_profile_id b)),
     (''profile_version'', VOpt VStr (eb_profile_version b)), (''profile_hash'', VOpt VStr (eb_profile_hash b)),
     (''inputs_hash'', VStr (inputs_hash b)), (''classification_hash'', VStr (classification_hash b)),
     (''evidence_hash'', VStr (evidence_hash b)), (''facts_hash'', VStr (eb_facts_hash b)),
     (''versions'', VDict (map (\<lambda>(k, v). (k, VStr v)) (versions b))),
     (''prior_evaluation_id'', VOpt VStr (eb_prior_evaluation_id b)),
     (''reevaluation_reason'', VOpt VStr (reevaluation_reason b))]"

section \<open>The digest does not depend on the order of a collection\<close>

lemma canonical_list_traverse: "canonical_list xs = rtraverse canonical xs"
  by (induction xs) (simp_all add: rmap_def)

lemma rtraverse_perm:
  assumes "mset xs = mset ys" and "rtraverse f xs = Inr us"
  shows "\<exists>vs. rtraverse f ys = Inr vs \<and> mset us = mset vs"
proof -
  define g where "g x = (case f x of Inr y \<Rightarrow> y | Inl _ \<Rightarrow> undefined)" for x
  have ok: "f x = Inr (g x)" if "x \<in> set xs" for x
  proof -
    from assms(2) that obtain y where "f x = Inr y"
      by (auto simp: rtraverse_Inr_iff list_all2_conv_all_nth in_set_conv_nth)
    then show ?thesis by (simp add: g_def)
  qed
  have "us = map g xs" using assms(2) rtraverse_all_Inr [of xs f g] ok by simp
  moreover have "rtraverse f ys = Inr (map g ys)"
    using ok mset_eq_setD [OF assms(1)] by (intro rtraverse_all_Inr) simp
  ultimately show ?thesis using assms(1) by (metis mset_map)
qed

lemma map_sort_key: "map f (sort_key f xs) = sort (map f xs)"
  by (rule properties_for_sort [symmetric]) simp_all

lemma map_determined: "(\<And>x y. f x = f y \<Longrightarrow> g x = g y) \<Longrightarrow> map f xs = map f ys \<Longrightarrow> map g xs = map g ys"
proof (induction xs arbitrary: ys)
  case Nil
  from Nil.prems(2) show ?case by simp
next
  case (Cons x xs)
  from Cons.prems(2) obtain y zs where ys: "ys = y # zs" "f x = f y" "map f xs = map f zs"
    by (cases ys) auto
  have "g x = g y" by (rule Cons.prems(1)) (rule ys(2))
  moreover have "map g xs = map g zs" by (rule Cons.IH [OF Cons.prems(1) ys(3)])
  ultimately show ?case by (simp add: ys(1))
qed

lemma compact_sorted_perm:
  assumes "mset us = mset vs"
  shows "dumps_compact (VList (sort_key dumps_default us)) = dumps_compact (VList (sort_key dumps_default vs))"
proof -
  have "map dumps_default (sort_key dumps_default us) = map dumps_default (sort_key dumps_default vs)"
    unfolding map_sort_key using assms by (intro sort_mset_cong) simp
  then have "map dumps_compact (sort_key dumps_default us) = map dumps_compact (sort_key dumps_default vs)"
    using map_determined [of dumps_default dumps_compact] dumps_default_compact by blast
  then show ?thesis by (simp add: dumps_compact_def dumps_VList del: dumps.simps)
qed

lemma digest_VList_perm [order_free]:
  assumes "mset xs = mset ys" and "digest sha (VList xs) = Inr h"
  shows "digest sha (VList ys) = Inr h"
proof -
  obtain us where us: "rtraverse canonical xs = Inr us"
    and h: "h = sha (dumps_compact (VList (sort_key dumps_default us)))"
    using assms(2) by (auto simp: digest_def canonical_list_traverse result_simps)
  obtain vs where "rtraverse canonical ys = Inr vs" "mset us = mset vs"
    using rtraverse_perm [OF assms(1) us] by blast
  then show ?thesis
    by (simp add: digest_def canonical_list_traverse h compact_sorted_perm [of us vs])
qed

section \<open>When the canonical form exists\<close>

fun hashable :: "pyval \<Rightarrow> bool"
  and hashable_list :: "pyval list \<Rightarrow> bool"
  and hashable_items :: "(string \<times> pyval) list \<Rightarrow> bool" where
  "hashable (VFloat d) = (case d of Finite _ \<Rightarrow> True | _ \<Rightarrow> False)"
| "hashable (VDec d) = (case d of Finite _ \<Rightarrow> True | _ \<Rightarrow> False)"
| "hashable (VTime t) = (case t of Aware u \<Rightarrow> 0 \<le> u \<and> u \<le> max_instant | Naive _ \<Rightarrow> False)"
| "hashable (VList xs) = hashable_list xs"
| "hashable (VDict d) = hashable_items d"
| "hashable VNone = True" | "hashable (VBool b) = True" | "hashable (VInt n) = True" | "hashable (VStr s) = True"
| "hashable_list [] = True"
| "hashable_list (x # xs) = (hashable x \<and> hashable_list xs)"
| "hashable_items [] = True"
| "hashable_items ((k, v) # d) = (hashable v \<and> hashable_items d)"

lemma canonical_total: "hashable v \<Longrightarrow> \<exists>c. canonical v = Inr c"
  "hashable_list xs \<Longrightarrow> \<exists>c. canonical_list xs = Inr c"
  "hashable_items d \<Longrightarrow> \<exists>c. canonical_items d = Inr c"
proof (induction v and xs and d rule: canonical_canonical_list_canonical_items.induct)
  case (7 t)
  then show ?case by (cases t) simp_all
qed (auto split: pydec.splits)

lemma canonical_only_hashable: "canonical v = Inr c \<Longrightarrow> hashable v"
  "canonical_list xs = Inr cs \<Longrightarrow> hashable_list xs"
  "canonical_items d = Inr ds \<Longrightarrow> hashable_items d"
proof (induction v and xs and d arbitrary: c and cs and ds rule: canonical_canonical_list_canonical_items.induct)
  case (7 t)
  then show ?case by (cases t) (auto split: if_splits)
qed (auto simp: result_simps split: pydec.splits)

lemma digest_total: "hashable v \<Longrightarrow> \<exists>h. digest sha v = Inr h"
  using canonical_total(1) by (fastforce simp: digest_def)

lemma digest_const: "hashable v \<Longrightarrow> digest (\<lambda>_. h) v = Inr h"
  using canonical_total(1) by (fastforce simp: digest_def)

lemma hashable_list_all: "hashable_list xs \<longleftrightarrow> (\<forall>x \<in> set xs. hashable x)"
  by (induction xs) auto

lemma hashable_items_all: "hashable_items d \<longleftrightarrow> (\<forall>(k, v) \<in> set d. hashable v)"
  by (induction d) auto

lemma hashable_helpers [simp]: "hashable (VStrs xs)" "hashable (VOpt VStr o1)" "hashable (VOpt VInt o2)"
  by (auto simp: VStrs_def VOpt_def hashable_list_all split: option.splits)

end
