(* ===== verification/Evidence.thy ===== *)
theory Evidence
  imports Controls
begin

text \<open>
  \<open>app/services/evidence_completeness.py\<close>: the evidence gate.  The two loops of \<open>assess\<close> are folds
  over an accumulator record; Python sets are lists whose order and repetitions \<open>sorted_set\<close>
  removes at the end.  An age is compared in microseconds; the source compares the float
  \<open>total_seconds()\<close>, which orders against whole seconds the same way for ages below 2^33 seconds.
\<close>

section \<open>Conflicts between items\<close>

definition fields_conflict :: "string list \<Rightarrow> evidence_item \<Rightarrow> evidence_item \<Rightarrow> bool" where
  "fields_conflict fs l r \<longleftrightarrow> list_ex (\<lambda>k. case (map_of (attributes l) k, map_of (attributes r) k) of
     (Some a, Some b) \<Rightarrow> a \<noteq> b | _ \<Rightarrow> False) fs"

definition items_conflict :: "string list \<Rightarrow> evidence_item \<Rightarrow> evidence_item \<Rightarrow> bool" where
  "items_conflict fs l r \<longleftrightarrow> subject l \<notin> {None, Some []} \<and> subject l = subject r \<and> fields_conflict fs l r"

fun conflict_refs :: "string list \<Rightarrow> evidence_item list \<Rightarrow> string list" where
  "conflict_refs fs [] = []"
| "conflict_refs fs (l # rest) =
     concat (map (\<lambda>r. if items_conflict fs l r then [reference l, reference r] else []) rest) @
     conflict_refs fs rest"

section \<open>One item under one requirement\<close>

record item_acc =
  accepted :: "(string \<times> string) list"
  ia_invalid :: "string list"
  ia_stale :: "string list"
  ia_reasons :: "string list"

fun state_upper :: "ev_state \<Rightarrow> string" where
  "state_upper Validated = ''VALIDATED''"
| "state_upper Unknown = ''UNKNOWN''"
| "state_upper Invalid = ''INVALID''"
| "state_upper Unavailable = ''UNAVAILABLE''"

datatype verdict = BadState | BadTime | TooOld | Conflicting | Accept

definition item_verdict :: "int \<Rightarrow> string list \<Rightarrow> evidence_requirement \<Rightarrow> evidence_item \<Rightarrow> verdict" where
  "item_verdict clock conflicts req i =
     (if ev_state i \<notin> set (accepted_states req) \<or> checksum i = [] then BadState
      else let final = (if reference i \<in> set conflicts then Conflicting else Accept) in
        case maximum_age_seconds req of
          None \<Rightarrow> final
        | Some limit \<Rightarrow> (case source_as_of i of
              None \<Rightarrow> BadTime
            | Some t \<Rightarrow> if t > clock then BadTime
                else if clock - t > limit * us_per_second then TooOld else final))"

definition assess_item :: "int \<Rightarrow> string list \<Rightarrow> evidence_requirement \<Rightarrow> evidence_item \<Rightarrow> item_acc \<Rightarrow> item_acc" where
  "assess_item clock conflicts req i a = (let tag = '':'' @ requirement_id req in
     case item_verdict clock conflicts req i of
       BadState \<Rightarrow> a\<lparr>ia_invalid := ia_invalid a @ [reference i],
                     ia_reasons := ia_reasons a @ [''EVIDENCE_'' @ state_upper (ev_state i) @ tag]\<rparr>
     | BadTime \<Rightarrow> a\<lparr>ia_invalid := ia_invalid a @ [reference i],
                    ia_reasons := ia_reasons a @ [''INVALID_SOURCE_TIME'' @ tag]\<rparr>
     | TooOld \<Rightarrow> a\<lparr>ia_stale := ia_stale a @ [reference i],
                   ia_reasons := ia_reasons a @ [''STALE_EVIDENCE'' @ tag]\<rparr>
     | Conflicting \<Rightarrow> a\<lparr>ia_reasons := ia_reasons a @ [''CONFLICTING_EVIDENCE'' @ tag]\<rparr>
     | Accept \<Rightarrow> a\<lparr>accepted := dict_setdefault (accepted a) (checksum i) (reference i)\<rparr>)"

section \<open>One requirement\<close>

record assess_acc =
  aa_satisfaction :: "(string \<times> string list) list"
  aa_missing :: "string list"
  aa_stale :: "string list"
  aa_invalid :: "string list"
  aa_reasons :: "string list"
  earned :: int
  aa_complete :: bool

definition matching_items :: "evidence_requirement \<Rightarrow> evidence_item list \<Rightarrow> evidence_item list" where
  "matching_items req items = filter (\<lambda>i. ev_kind i \<in> set (req_kinds req)) items"

definition scan_items :: "int \<Rightarrow> string list \<Rightarrow> evidence_requirement \<Rightarrow> evidence_item list \<Rightarrow> item_acc" where
  "scan_items clock conflicts req items =
     fold (assess_item clock conflicts req) (sort_key reference (matching_items req items))
       \<lparr>accepted = [], ia_invalid = [], ia_stale = [], ia_reasons = []\<rparr>"

definition assess_requirement ::
  "int \<Rightarrow> string list \<Rightarrow> evidence_item list \<Rightarrow> evidence_requirement \<Rightarrow> assess_acc \<Rightarrow> assess_acc" where
  "assess_requirement clock conflicts items req a =
     (let ia = scan_items clock conflicts req items;
          refs = sort (map snd (accepted ia));
          satisfied = (int (length refs) \<ge> minimum_count req);
          absent = (matching_items req items = [])
      in a\<lparr>aa_satisfaction := dict_set (aa_satisfaction a) (requirement_id req) (if satisfied then refs else []),
           aa_missing := aa_missing a @ (if absent then [requirement_id req] else []),
           aa_stale := aa_stale a @ ia_stale ia,
           aa_invalid := aa_invalid a @ ia_invalid ia,
           aa_reasons := aa_reasons a @ ia_reasons ia @
             (if absent then [''MISSING_EVIDENCE:'' @ requirement_id req] else []),
           earned := earned a + (if satisfied then req_weight req else 0),
           aa_complete := aa_complete a \<and> (satisfied \<or> \<not> req_mandatory req)\<rparr>)"

section \<open>The assessment\<close>

definition completeness_score :: "int \<Rightarrow> int \<Rightarrow> dec py" where
  "completeness_score got weight_total = rbind (dec_div (dec_of_int got) (dec_of_int weight_total)) quantize6"

definition run_requirements :: "int \<Rightarrow> string list \<Rightarrow> evidence_item list \<Rightarrow> evidence_requirement list \<Rightarrow> assess_acc" where
  "run_requirements clock conflicts items reqs = fold (assess_requirement clock conflicts items) reqs
     \<lparr>aa_satisfaction = [], aa_missing = [], aa_stale = [], aa_invalid = [], aa_reasons = [],
      earned = 0, aa_complete = True\<rparr>"

definition assess ::
  "(string \<Rightarrow> string) \<Rightarrow> evidence_contract \<Rightarrow> evidence_item list \<Rightarrow> pytime \<Rightarrow> evidence_assessment py" where
  "assess sha contract items as_of =
     rbind (utc as_of) (\<lambda>clock.
       let conflicts = conflict_refs (conflict_fields contract) items;
           a = run_requirements clock conflicts items (requirements contract)
       in rbind (digest sha (VList (map (dump_item False) items))) (\<lambda>h.
          rbind (completeness_score (earned a) (sum_list (map req_weight (requirements contract)))) (\<lambda>score.
          Inr \<lparr>ea_contract_version = ec_version contract, snapshot_hash = h,
               required = map requirement_id (requirements contract),
               available = sorted_set (map reference (filter (\<lambda>i. ev_state i \<noteq> Unavailable) items)),
               missing = sort (aa_missing a), stale = sorted_set (aa_stale a),
               invalid = sorted_set (aa_invalid a), conflicting = sorted_set conflicts,
               satisfaction = aa_satisfaction a, ea_reasons = sorted_set (aa_reasons a),
               ea_score = score, mandatory_complete = (aa_complete a \<and> conflicts = [])\<rparr>)))"

section \<open>Conflicts: which references\<close>

lemma fields_conflict_iff: "fields_conflict fs l r \<longleftrightarrow>
    (\<exists>k \<in> set fs. \<exists>a b. map_of (attributes l) k = Some a \<and> map_of (attributes r) k = Some b \<and> a \<noteq> b)"
proof -
  have "(case (map_of (attributes l) k, map_of (attributes r) k) of (Some a, Some b) \<Rightarrow> a \<noteq> b | _ \<Rightarrow> False)
      \<longleftrightarrow> (\<exists>a b. map_of (attributes l) k = Some a \<and> map_of (attributes r) k = Some b \<and> a \<noteq> b)" for k
    by (cases "map_of (attributes l) k"; cases "map_of (attributes r) k") simp_all
  then show ?thesis by (simp add: fields_conflict_def list_ex_iff)
qed

lemma items_conflict_sym: "items_conflict fs l r \<longleftrightarrow> items_conflict fs r l"
  unfolding items_conflict_def fields_conflict_iff by metis

lemma items_conflict_irrefl [simp]: "\<not> items_conflict fs i i"
  by (simp add: items_conflict_def fields_conflict_iff)

text \<open>The pair loop reports the references of every item in conflict with some other item.\<close>

lemma set_conflict_refs: "set (conflict_refs fs items) =
    {reference l | l. l \<in> set items \<and> (\<exists>r \<in> set items. items_conflict fs l r)}"
proof (induction items)
  case Nil
  then show ?case by simp
next
  case (Cons x rest)
  have head: "set (concat (map (\<lambda>r. if items_conflict fs x r then [reference x, reference r] else []) rest)) =
      {reference l | l. (l = x \<and> (\<exists>r \<in> set rest. items_conflict fs x r)) \<or> (l \<in> set rest \<and> items_conflict fs l x)}"
    by (auto simp: items_conflict_sym split: if_splits)
  show ?case by (auto simp: Cons head items_conflict_sym)
qed

lemma conflict_refs_cong [order_free]:
  "set items = set items' \<Longrightarrow> set (conflict_refs fs items) = set (conflict_refs fs items')"
  by (simp add: set_conflict_refs)

section \<open>What the item loop accepts\<close>

definition admissible :: "int \<Rightarrow> string list \<Rightarrow> evidence_requirement \<Rightarrow> evidence_item \<Rightarrow> bool" where
  "admissible clock conflicts req i \<longleftrightarrow> ev_kind i \<in> set (req_kinds req) \<and>
     ev_state i \<in> set (accepted_states req) \<and> checksum i \<noteq> [] \<and> reference i \<notin> set conflicts \<and>
     (\<forall>limit \<in> set_option (maximum_age_seconds req). \<exists>t. source_as_of i = Some t \<and> t \<le> clock \<and>
        clock - t \<le> limit * us_per_second)"

lemma verdict_Accept: "item_verdict clock conflicts req i = Accept \<and> ev_kind i \<in> set (req_kinds req) \<longleftrightarrow>
    admissible clock conflicts req i"
  by (auto simp: item_verdict_def admissible_def Let_def split: option.splits if_splits)

lemma verdict_cong: "set conflicts = set conflicts' \<Longrightarrow>
    item_verdict clock conflicts req i = item_verdict clock conflicts' req i"
  by (simp add: item_verdict_def)

definition first_refs :: "evidence_item list \<Rightarrow> (string \<times> string) list \<Rightarrow> (string \<times> string) list" where
  "first_refs xs d = fold (\<lambda>i d. dict_setdefault d (checksum i) (reference i)) xs d"

lemma accepted_fold: "accepted (fold (assess_item clock conflicts req) xs a) =
    first_refs (filter (\<lambda>i. item_verdict clock conflicts req i = Accept) xs) (accepted a)"
  by (induction xs arbitrary: a)
    (auto simp: first_refs_def assess_item_def Let_def split: verdict.splits)

lemma map_of_first_refs: "map_of (first_refs xs d) c = (case map_of d c of Some r \<Rightarrow> Some r
    | None \<Rightarrow> map_option reference (find (\<lambda>i. checksum i = c) xs))"
  by (induction xs arbitrary: d)
    (auto simp: first_refs_def map_of_dict_setdefault split: option.splits)

lemma distinct_first_refs: "distinct (map fst d) \<Longrightarrow> distinct (map fst (first_refs xs d))"
proof (induction xs arbitrary: d)
  case Nil
  then show ?case by (simp add: first_refs_def)
next
  case (Cons i xs)
  have "distinct (map fst (dict_setdefault d (checksum i) (reference i)))"
    using Cons.prems by (auto simp: dict_setdefault_def map_of_eq_None_iff)
  from Cons.IH [OF this] show ?case by (simp add: first_refs_def)
qed

lemma find_sorted_Min:
  assumes "sorted (map f xs)" and "find P xs = Some i"
  shows "f i = Min (f ` {j \<in> set xs. P j})"
proof -
  have "i \<in> set xs" "P i" using assms(2) by (auto simp: find_Some_iff)
  moreover have "f i \<le> f j" if "j \<in> set xs" "P j" for j
    using assms that by (induction xs) (auto split: if_splits)
  ultimately show ?thesis by (intro Min_eqI [symmetric]) auto
qed

text \<open>The reference kept for a checksum, stated on the set of admissible items.\<close>

definition kept_ref :: "evidence_item set \<Rightarrow> string \<Rightarrow> string" where
  "kept_ref S c = Min (reference ` {i \<in> S. checksum i = c})"

lemma mset_values_of_map:
  assumes "distinct (map fst d)" and "\<And>k v. (k, v) \<in> set d \<Longrightarrow> v = g k"
  shows "mset (map snd d) = image_mset g (mset_set (fst ` set d))"
proof -
  have "map snd d = map g (map fst d)" using assms(2) by (induction d) auto
  then show ?thesis using assms(1) by (metis list.set_map mset_map mset_set_set)
qed

definition admissible_items ::
  "int \<Rightarrow> string list \<Rightarrow> evidence_requirement \<Rightarrow> evidence_item list \<Rightarrow> evidence_item set" where
  "admissible_items clock conflicts req items = {i \<in> set items. admissible clock conflicts req i}"

lemma finite_admissible [simp]: "finite (admissible_items clock conflicts req items)"
  by (simp add: admissible_items_def)

lemma scan_accepted:
  fixes clock conflicts req items
  defines "S \<equiv> admissible_items clock conflicts req items"
  defines "d \<equiv> accepted (scan_items clock conflicts req items)"
  shows "mset (map snd d) = image_mset (kept_ref S) (mset_set (checksum ` S))"
proof -
  define xs where "xs = filter (\<lambda>i. item_verdict clock conflicts req i = Accept)
    (sort_key reference (matching_items req items))"
  have S: "set xs = S"
    by (auto simp: xs_def S_def admissible_items_def matching_items_def simp flip: verdict_Accept)
  have d: "d = first_refs xs []"
    by (simp add: d_def scan_items_def accepted_fold xs_def)
  have dist: "distinct (map fst d)" by (simp add: d distinct_first_refs)
  have srt: "sorted (map reference xs)"
    unfolding xs_def by (intro sorted_filter) simp
  have get: "map_of d c = map_option reference (find (\<lambda>i. checksum i = c) xs)" for c
    by (simp add: d map_of_first_refs)
  have "c \<in> dom (map_of d) \<longleftrightarrow> c \<in> checksum ` S" for c
    using find_None_iff [of "\<lambda>i. checksum i = c" xs]
    by (cases "find (\<lambda>i. checksum i = c) xs") (auto simp: get S [symmetric] image_iff)
  then have keys: "fst ` set d = checksum ` S"
    by (simp add: dom_map_of_conv_image_fst [symmetric] set_eq_iff)
  have "v = kept_ref S c" if "(c, v) \<in> set d" for c v
  proof -
    have "map_of d c = Some v" using that dist by simp
    then obtain i where "find (\<lambda>i. checksum i = c) xs = Some i" "v = reference i"
      by (auto simp: get)
    with find_sorted_Min [OF srt] show ?thesis by (simp add: kept_ref_def S)
  qed
  from mset_values_of_map [OF dist this] show ?thesis by (simp add: keys)
qed

lemma length_accepted: "length (accepted (scan_items clock conflicts req items)) =
    card (checksum ` admissible_items clock conflicts req items)"
  using arg_cong [OF scan_accepted, of size] by simp

section \<open>The requirement loop\<close>

definition satisfied_by :: "int \<Rightarrow> string list \<Rightarrow> evidence_item list \<Rightarrow> evidence_requirement \<Rightarrow> bool" where
  "satisfied_by clock conflicts items req \<longleftrightarrow>
     minimum_count req \<le> int (card (checksum ` admissible_items clock conflicts req items))"

definition kept_refs :: "int \<Rightarrow> string list \<Rightarrow> evidence_item list \<Rightarrow> evidence_requirement \<Rightarrow> string list" where
  "kept_refs clock conflicts items req = (let S = admissible_items clock conflicts req items in
     sorted_list_of_multiset (image_mset (kept_ref S) (mset_set (checksum ` S))))"

lemma sort_accepted: "sort (map snd (accepted (scan_items clock conflicts req items))) =
    kept_refs clock conflicts items req"
  by (metis kept_refs_def scan_accepted sorted_list_of_multiset_mset)

lemma length_kept_refs: "length (kept_refs clock conflicts items req) =
    card (checksum ` admissible_items clock conflicts req items)"
  by (simp add: length_accepted flip: sort_accepted)

lemma assess_requirement_simps [simp]:
  "aa_complete (assess_requirement clock conflicts items req a) \<longleftrightarrow>
     aa_complete a \<and> (satisfied_by clock conflicts items req \<or> \<not> req_mandatory req)"
  "earned (assess_requirement clock conflicts items req a) =
     earned a + (if satisfied_by clock conflicts items req then req_weight req else 0)"
  "aa_satisfaction (assess_requirement clock conflicts items req a) =
     dict_set (aa_satisfaction a) (requirement_id req)
       (if satisfied_by clock conflicts items req then kept_refs clock conflicts items req else [])"
  "aa_missing (assess_requirement clock conflicts items req a) =
     aa_missing a @ (if matching_items req items = [] then [requirement_id req] else [])"
  by (simp_all add: assess_requirement_def Let_def sort_accepted satisfied_by_def length_kept_refs length_accepted)

lemma complete_run: "aa_complete (fold (assess_requirement clock conflicts items) reqs a) \<longleftrightarrow>
    aa_complete a \<and> (\<forall>r \<in> set reqs. req_mandatory r \<longrightarrow> satisfied_by clock conflicts items r)"
  by (induction reqs arbitrary: a) auto

lemma earned_run: "earned (fold (assess_requirement clock conflicts items) reqs a) =
    earned a + sum_list (map req_weight (filter (satisfied_by clock conflicts items) reqs))"
  by (induction reqs arbitrary: a) auto

lemma satisfaction_run:
  assumes "distinct (map requirement_id reqs)" and "r \<in> set reqs"
  shows "map_of (aa_satisfaction (fold (assess_requirement clock conflicts items) reqs a)) (requirement_id r) =
    Some (if satisfied_by clock conflicts items r then kept_refs clock conflicts items r else [])"
proof -
  have keep: "k \<notin> requirement_id ` set rs \<Longrightarrow>
      map_of (aa_satisfaction (fold (assess_requirement clock conflicts items) rs a)) k =
      map_of (aa_satisfaction a) k" for rs a k
    by (induction rs arbitrary: a) auto
  show ?thesis using assms
  proof (induction reqs arbitrary: a)
    case Nil
    then show ?case by simp
  next
    case (Cons q qs)
    then show ?case by (cases "r = q") (auto simp: keep)
  qed
qed

section \<open>Independence of the order of the items\<close>

lemma matching_mset: "mset items = mset items' \<Longrightarrow>
    mset (matching_items req items) = mset (matching_items req items')"
  by (simp add: matching_items_def)

lemma admissible_cong: "set conflicts = set conflicts' \<Longrightarrow> set items = set items' \<Longrightarrow>
    admissible_items clock conflicts req items = admissible_items clock conflicts' req items'"
  by (simp add: admissible_items_def admissible_def)

fun verdict_reasons :: "evidence_requirement \<Rightarrow> evidence_item \<Rightarrow> verdict \<Rightarrow> string list" where
  "verdict_reasons req i BadState = [''EVIDENCE_'' @ state_upper (ev_state i) @ '':'' @ requirement_id req]"
| "verdict_reasons req i BadTime = [''INVALID_SOURCE_TIME'' @ '':'' @ requirement_id req]"
| "verdict_reasons req i TooOld = [''STALE_EVIDENCE'' @ '':'' @ requirement_id req]"
| "verdict_reasons req i Conflicting = [''CONFLICTING_EVIDENCE'' @ '':'' @ requirement_id req]"
| "verdict_reasons req i Accept = []"

lemma set_item_fold:
  fixes clock conflicts req
  defines "v \<equiv> item_verdict clock conflicts req"
  shows
  "set (ia_invalid (fold (assess_item clock conflicts req) xs a)) =
     set (ia_invalid a) \<union> reference ` {i \<in> set xs. v i \<in> {BadState, BadTime}}"
  "set (ia_stale (fold (assess_item clock conflicts req) xs a)) =
     set (ia_stale a) \<union> reference ` {i \<in> set xs. v i = TooOld}"
  "set (ia_reasons (fold (assess_item clock conflicts req) xs a)) =
     set (ia_reasons a) \<union> (\<Union>i \<in> set xs. set (verdict_reasons req i (v i)))"
  unfolding v_def
  by (induction xs arbitrary: a) (auto simp: assess_item_def Let_def split: verdict.splits)

lemma set_scan:
  fixes clock conflicts req items
  defines "v \<equiv> item_verdict clock conflicts req" and "M \<equiv> {i \<in> set items. ev_kind i \<in> set (req_kinds req)}"
  shows
  "set (ia_invalid (scan_items clock conflicts req items)) = reference ` {i \<in> M. v i \<in> {BadState, BadTime}}"
  "set (ia_stale (scan_items clock conflicts req items)) = reference ` {i \<in> M. v i = TooOld}"
  "set (ia_reasons (scan_items clock conflicts req items)) = (\<Union>i \<in> M. set (verdict_reasons req i (v i)))"
  by (simp_all add: scan_items_def set_item_fold matching_items_def v_def M_def)

text \<open>Two accumulators that can only differ in the order of the sets they collect.\<close>

definition acc_agree :: "assess_acc \<Rightarrow> assess_acc \<Rightarrow> bool" where
  "acc_agree a b \<longleftrightarrow> aa_satisfaction a = aa_satisfaction b \<and> aa_missing a = aa_missing b \<and>
     set (aa_stale a) = set (aa_stale b) \<and> set (aa_invalid a) = set (aa_invalid b) \<and>
     set (aa_reasons a) = set (aa_reasons b) \<and> earned a = earned b \<and> aa_complete a = aa_complete b"

definition same_evidence :: "string list \<Rightarrow> evidence_item list \<Rightarrow> string list \<Rightarrow> evidence_item list \<Rightarrow> bool" where
  "same_evidence c items c' items' \<longleftrightarrow> set c = set c' \<and> set items = set items'"

lemma verdict_same: "same_evidence c items c' items' \<Longrightarrow> item_verdict clock c = item_verdict clock c'"
  by (intro ext verdict_cong) (simp add: same_evidence_def)

lemma scan_sets_same: "same_evidence c items c' items' \<Longrightarrow>
    set (ia_invalid (scan_items clock c req items)) = set (ia_invalid (scan_items clock c' req items')) \<and>
    set (ia_stale (scan_items clock c req items)) = set (ia_stale (scan_items clock c' req items')) \<and>
    set (ia_reasons (scan_items clock c req items)) = set (ia_reasons (scan_items clock c' req items'))"
  by (simp add: set_scan verdict_same) (simp add: same_evidence_def)

lemma matching_same: "same_evidence c items c' items' \<Longrightarrow>
    matching_items req items = [] \<longleftrightarrow> matching_items req items' = []"
  by (auto simp: matching_items_def filter_empty_conv same_evidence_def)

lemma satisfied_same: "same_evidence c items c' items' \<Longrightarrow>
    satisfied_by clock c items = satisfied_by clock c' items'"
  by (intro ext) (simp add: satisfied_by_def same_evidence_def admissible_cong [of c c' items items'])

lemma kept_refs_same: "same_evidence c items c' items' \<Longrightarrow>
    kept_refs clock c items = kept_refs clock c' items'"
  by (intro ext) (simp add: kept_refs_def same_evidence_def admissible_cong [of c c' items items'])

lemma requirement_agree:
  assumes "same_evidence c items c' items'" and "acc_agree a b"
  shows "acc_agree (assess_requirement clock c items req a) (assess_requirement clock c' items' req b)"
proof -
  note same = satisfied_same [OF assms(1)] kept_refs_same [OF assms(1)] matching_same [OF assms(1)]
    scan_sets_same [OF assms(1)]
  have "set (aa_stale (assess_requirement clock c items req a)) = set (aa_stale (assess_requirement clock c' items' req b))"
    "set (aa_invalid (assess_requirement clock c items req a)) = set (aa_invalid (assess_requirement clock c' items' req b))"
    "set (aa_reasons (assess_requirement clock c items req a)) = set (aa_reasons (assess_requirement clock c' items' req b))"
    using assms(2) same(3,4) by (simp_all add: acc_agree_def assess_requirement_def Let_def)
  then show ?thesis using assms(2) by (simp add: acc_agree_def same)
qed

lemma run_agree: "same_evidence c items c' items' \<Longrightarrow>
    acc_agree (run_requirements clock c items reqs) (run_requirements clock c' items' reqs)"
proof -
  assume same: "same_evidence c items c' items'"
  have "acc_agree a b \<Longrightarrow> acc_agree (fold (assess_requirement clock c items) reqs a)
      (fold (assess_requirement clock c' items') reqs b)" for a b
    by (induction reqs arbitrary: a b) (simp_all add: requirement_agree [OF same])
  then show ?thesis by (simp add: run_requirements_def acc_agree_def)
qed

section \<open>Inversion of an assessment\<close>

definition conflict_free :: "string list \<Rightarrow> evidence_item list \<Rightarrow> bool" where
  "conflict_free fs items \<longleftrightarrow> (\<forall>l \<in> set items. \<forall>r \<in> set items. \<not> items_conflict fs l r)"

lemma conflict_refs_Nil: "conflict_refs fs items = [] \<longleftrightarrow> conflict_free fs items"
proof -
  have "conflict_refs fs items = [] \<longleftrightarrow> set (conflict_refs fs items) = {}" by simp
  then show ?thesis unfolding set_conflict_refs by (auto simp: conflict_free_def)
qed

lemma assess_Inr:
  assumes "assess sha contract items (Aware t) = Inr a"
  defines "c \<equiv> conflict_refs (conflict_fields contract) items"
  defines "acc \<equiv> run_requirements t c items (requirements contract)"
  shows "mandatory_complete a \<longleftrightarrow> aa_complete acc \<and> c = []"
    and "conflicting a = sorted_set c" and "satisfaction a = aa_satisfaction acc"
    and "completeness_score (earned acc) (sum_list (map req_weight (requirements contract))) = Inr (ea_score a)"
  using assms(1) by (auto simp: assess_def result_simps Let_def c_def acc_def split: if_splits)

section \<open>A pilot contract and file of evidence\<close>

text \<open>Two requirements in the style of the pilot fixture: any customer document, and a provider
  snapshot no older than a day.\<close>

definition pilot_requirement :: "string \<Rightarrow> string list \<Rightarrow> int option \<Rightarrow> evidence_requirement" where
  "pilot_requirement rid kinds age = \<lparr>requirement_id = rid, req_kinds = kinds, req_mandatory = True,
     minimum_count = 1, req_weight = 1, maximum_age_seconds = age, accepted_states = [Validated]\<rparr>"

definition pilot_contract :: evidence_contract where
  "pilot_contract = \<lparr>ec_version = ''v1'', requirements =
     [pilot_requirement ''doc'' [''receipt''] None, pilot_requirement ''disputed'' [''disputed''] (Some 86400)],
     conflict_fields = [''amount'']\<rparr>"

definition pilot_receipt :: evidence_item where
  "pilot_receipt = \<lparr>reference = ''e1'', ev_kind = ''receipt'', checksum = ''c1'', ev_state = Validated,
     source_as_of = None, subject = None, attributes = []\<rparr>"

definition pilot_snapshot :: evidence_item where
  "pilot_snapshot = \<lparr>reference = ''p1'', ev_kind = ''disputed'', checksum = ''c2'', ev_state = Validated,
     source_as_of = Some 0, subject = Some ''transaction:t1'', attributes = [(''amount'', ''49.99'')]\<rparr>"

lemmas pilot_defs = pilot_contract_def pilot_requirement_def pilot_receipt_def pilot_snapshot_def

lemma pilot_valid: "valid_contract pilot_contract"
  by (simp add: valid_contract_def valid_requirement_def pilot_defs)

section \<open>The gate\<close>

lemma completeness_unit:
  assumes "0 \<le> got" and "got \<le> all" and "0 < all"
  shows "\<exists>s. completeness_score got all = Inr s \<and> 0 \<le> dval s \<and> dval s \<le> 1 \<and> dexp s = - 6 \<and>
    (got = 0 \<longrightarrow> dval s = 0) \<and> (got = all \<longrightarrow> dval s = 1)"
proof -
  obtain r where r: "dec_div (dec_of_int got) (dec_of_int all) = Inr r" "\<not> dsign r" "0 \<le> dval r" "dval r \<le> 1"
    "got = 0 \<longrightarrow> dval r = 0" "got = all \<longrightarrow> dval r = 1" using dec_div_unit [OF assms] by blast
  obtain s where "quantize6 r = Inr s" "dval s = round6 (dval r)" "dexp s = - 6"
    using quantize6_unit [OF r(4,2)] by blast
  moreover have "0 \<le> round6 (dval r)" "round6 (dval r) \<le> 1"
    using round6_mono [OF r(3)] round6_mono [OF r(4)] by simp_all
  ultimately show ?thesis using r by (auto simp: completeness_score_def)
qed

lemma positive_sum: "xs \<noteq> [] \<Longrightarrow> \<forall>x \<in> set xs. 1 \<le> (w x :: int) \<Longrightarrow> 0 < sum_list (map w xs)"
  by (induction xs rule: list_nonempty_induct) auto

lemma weights_pos: "valid_contract c \<Longrightarrow> 0 < sum_list (map req_weight (requirements c))"
  by (intro positive_sum) (auto simp: valid_contract_def valid_requirement_def list_all_iff)

lemma assess_complete:
  assumes "assess sha contract items (Aware t) = Inr a"
  shows "mandatory_complete a \<longleftrightarrow> conflict_free (conflict_fields contract) items \<and>
    (\<forall>r \<in> set (requirements contract). req_mandatory r \<longrightarrow> satisfied_by t [] items r)"
  using assess_Inr(1) [OF assms] conflict_refs_Nil [of "conflict_fields contract" items]
  by (auto simp: run_requirements_def complete_run)

lemma hashable_items_ok:
  assumes "\<forall>i \<in> set items. \<forall>u \<in> set_option (source_as_of i). 0 \<le> u \<and> u \<le> max_instant"
  shows "hashable (VList (map (dump_item False) items))"
  using assms by (fastforce simp: hashable_list_all dump_item_def hashable_items_all VOpt_def dump_time_def
      split: option.splits)

lemma sum_filter_bounds:
  fixes w :: "'a \<Rightarrow> int"
  assumes "\<forall>x \<in> set xs. 1 \<le> w x"
  shows "0 \<le> sum_list (map w (filter P xs))" "sum_list (map w (filter P xs)) \<le> sum_list (map w xs)"
  using assms by (induction xs) auto

lemma assess_some:
  assumes "valid_contract contract" and "0 \<le> t" and "t \<le> max_instant"
    and "\<forall>i \<in> set items. \<forall>u \<in> set_option (source_as_of i). 0 \<le> u \<and> u \<le> max_instant"
  obtains a where "assess sha contract items (Aware t) = Inr a" and "0 \<le> dval (ea_score a)"
    and "dval (ea_score a) \<le> 1" and "dexp (ea_score a) = - 6"
    and "(\<forall>r \<in> set (requirements contract). satisfied_by t (conflict_refs (conflict_fields contract) items) items r)
      \<Longrightarrow> dval (ea_score a) = 1"
proof -
  define c where "c = conflict_refs (conflict_fields contract) items"
  define all where "all = sum_list (map req_weight (requirements contract))"
  define acc where "acc = run_requirements t c items (requirements contract)"
  have w: "\<forall>r \<in> set (requirements contract). 1 \<le> req_weight r"
    using assms(1) by (auto simp: valid_contract_def valid_requirement_def list_all_iff)
  have got: "earned acc = sum_list (map req_weight (filter (satisfied_by t c items) (requirements contract)))"
    by (simp add: acc_def run_requirements_def earned_run)
  obtain s where s: "completeness_score (earned acc) all = Inr s" "0 \<le> dval s" "dval s \<le> 1" "dexp s = - 6"
    "earned acc = all \<longrightarrow> dval s = 1"
    using completeness_unit [of "earned acc" all] weights_pos [OF assms(1)] sum_filter_bounds [OF w]
    unfolding got all_def by blast
  obtain h where h: "digest sha (VList (map (dump_item False) items)) = Inr h"
    using digest_total [OF hashable_items_ok [OF assms(4)]] by blast
  obtain a where a: "assess sha contract items (Aware t) = Inr a" "ea_score a = s"
    using h s(1) assms(2,3) by (fastforce simp: assess_def Let_def c_def acc_def all_def)
  have "dval s = 1" if "\<forall>r \<in> set (requirements contract). satisfied_by t c items r"
  proof -
    have "filter (satisfied_by t c items) (requirements contract) = requirements contract"
      using that by (simp add: filter_id_conv)
    then show ?thesis using s(5) by (simp add: got all_def)
  qed
  with a s show thesis by (intro that [of a]) (simp_all add: c_def)
qed

text \<open>The pilot file at the epoch: both requirements are met.\<close>

abbreviation pilot_items :: "evidence_item list" where
  "pilot_items \<equiv> [pilot_receipt, pilot_snapshot]"

lemma pilot_assessed: "\<exists>a. assess sha pilot_contract pilot_items (Aware 0) = Inr a"
proof -
  have times: "\<forall>i \<in> set pilot_items. \<forall>u \<in> set_option (source_as_of i). 0 \<le> u \<and> u \<le> max_instant"
    by (simp add: pilot_receipt_def pilot_snapshot_def max_instant_value)
  have "(0::int) \<le> max_instant" by (simp add: max_instant_value)
  then show ?thesis using assess_some [OF pilot_valid order_refl _ times, of sha] by blast
qed

section \<open>Properties\<close>

text \<open>C7: the evidence gate opens exactly when no two items conflict and every mandatory requirement is
  met by at least its minimum count of distinct documents that are of an accepted kind and state, carry a
  checksum and are fresh.\<close>

theorem evidence_gate_exact:
  assumes "assess sha contract items (Aware t) = Inr a"
  shows "mandatory_complete a \<longleftrightarrow> conflict_free (conflict_fields contract) items \<and>
    (\<forall>r \<in> set (requirements contract). req_mandatory r \<longrightarrow>
       minimum_count r \<le> int (card (checksum ` {i \<in> set items. admissible t [] r i})))"
  using assess_complete [OF assms] by (simp add: satisfied_by_def admissible_items_def)

theorem evidence_gate_exact_witness:
  "\<exists>a. assess (\<lambda>_. ''h'') pilot_contract pilot_items (Aware 0) = Inr a \<and>
    (mandatory_complete a \<longleftrightarrow> conflict_free [''amount''] pilot_items \<and>
    (\<forall>r \<in> set (requirements pilot_contract). req_mandatory r \<longrightarrow>
       minimum_count r \<le> int (card (checksum ` {i \<in> set pilot_items. admissible 0 [] r i}))))"
proof -
  obtain a where a: "assess (\<lambda>_. ''h'') pilot_contract pilot_items (Aware 0) = Inr a"
    using pilot_assessed by blast
  with evidence_gate_exact [OF a] show ?thesis by (simp add: pilot_contract_def)
qed

text \<open>C8: every reference recorded as satisfying a requirement belongs to a validated item of the
  file, of an accepted kind, with a checksum, fresh and in no conflict; and a requirement with recorded
  references has at least its minimum count of them.\<close>

theorem satisfaction_sound:
  assumes "assess sha contract items (Aware t) = Inr a" and "valid_contract contract"
    and "r \<in> set (requirements contract)"
  shows "\<exists>refs. map_of (satisfaction a) (requirement_id r) = Some refs \<and>
    (refs \<noteq> [] \<longrightarrow> minimum_count r \<le> int (length refs)) \<and>
    (\<forall>ref \<in> set refs. ref \<notin> set (conflicting a) \<and> (\<exists>i \<in> set items. reference i = ref \<and>
       ev_state i = Validated \<and> admissible t (conflicting a) r i))"
proof -
  define c where "c = conflict_refs (conflict_fields contract) items"
  define S where "S = admissible_items t c r items"
  have conf: "conflicting a = sorted_set c" using assess_Inr(2) [OF assms(1)] by (simp add: c_def)
  have ids: "distinct (map requirement_id (requirements contract))"
    using assms(2) by (simp add: valid_contract_def)
  have sat: "map_of (satisfaction a) (requirement_id r) =
      Some (if satisfied_by t c items r then kept_refs t c items r else [])"
    using assess_Inr(3) [OF assms(1)] satisfaction_run [OF ids assms(3)]
    by (simp add: c_def run_requirements_def)
  have mem: "\<exists>i \<in> S. reference i = ref" if ref: "ref \<in> set (kept_refs t c items r)" for ref
  proof -
    from ref obtain k where k: "k \<in> checksum ` S" "ref = kept_ref S k"
      by (auto simp: kept_refs_def S_def Let_def)
    have "finite S" by (simp add: S_def)
    then have "kept_ref S k \<in> reference ` {i \<in> S. checksum i = k}"
      unfolding kept_ref_def using k(1) by (intro Min_in) auto
    with k(2) show ?thesis by auto
  qed
  have valid: "set (accepted_states r) \<subseteq> {Validated}"
    using assms(2,3) by (auto simp: valid_contract_def valid_requirement_def list_all_iff)
  have adm: "admissible t (conflicting a) r i \<and> i \<in> set items \<and> ev_state i = Validated \<and>
      reference i \<notin> set (conflicting a)" if "i \<in> S" for i
    using that valid by (auto simp: S_def admissible_items_def admissible_def conf)
  show ?thesis
    using mem adm by (fastforce simp: sat satisfied_by_def length_kept_refs)
qed

theorem satisfaction_sound_witness:
  "\<exists>a refs. assess (\<lambda>_. ''h'') pilot_contract pilot_items (Aware 0) = Inr a \<and>
    map_of (satisfaction a) ''doc'' = Some refs \<and> (refs \<noteq> [] \<longrightarrow> 1 \<le> length refs)"
proof -
  obtain a where a: "assess (\<lambda>_. ''h'') pilot_contract pilot_items (Aware 0) = Inr a"
    using pilot_assessed by blast
  have "pilot_requirement ''doc'' [''receipt''] None \<in> set (requirements pilot_contract)"
    by (simp add: pilot_contract_def)
  from satisfaction_sound [OF a pilot_valid this] show ?thesis
    using a by (auto simp: pilot_requirement_def)
qed

text \<open>C9: the assessment, its snapshot hash included, does not depend on the order in which the
  evidence is presented.\<close>

theorem assess_order_independent:
  assumes "mset items = mset items'" and "assess sha contract items as_of = Inr a"
  shows "assess sha contract items' as_of = Inr a"
proof -
  define c where "c = conflict_refs (conflict_fields contract) items"
  define c' where "c' = conflict_refs (conflict_fields contract) items'"
  obtain t where t: "utc as_of = Inr t" using assms(2) by (auto simp: assess_def result_simps)
  have sets: "set items = set items'" "set c = set c'"
    unfolding c_def c'_def using mset_eq_setD [OF assms(1)] by - (assumption, rule conflict_refs_cong)
  obtain h where h: "digest sha (VList (map (dump_item False) items)) = Inr h"
    using assms(2) by (auto simp: assess_def result_simps Let_def)
  have h': "digest sha (VList (map (dump_item False) items')) = Inr h"
    by (rule digest_VList_perm [OF _ h]) (simp add: assms(1))
  have avail: "sorted_set (map reference (filter (\<lambda>i. ev_state i \<noteq> Unavailable) items)) =
      sorted_set (map reference (filter (\<lambda>i. ev_state i \<noteq> Unavailable) items'))"
    by (rule sorted_set_cong) (simp add: sets(1))
  have conf: "sorted_set c = sorted_set c'" "c = [] \<longleftrightarrow> c' = []"
    using sorted_set_cong [OF sets(2)] sets(2) by - (assumption, metis set_empty)
  define A where "A = run_requirements t c items (requirements contract)"
  define B where "B = run_requirements t c' items' (requirements contract)"
  have run: "acc_agree A B" unfolding A_def B_def by (rule run_agree) (simp add: same_evidence_def sets)
  then have "sorted_set (aa_stale A) = sorted_set (aa_stale B)" "sorted_set (aa_invalid A) = sorted_set (aa_invalid B)"
    "sorted_set (aa_reasons A) = sorted_set (aa_reasons B)"
    unfolding acc_agree_def by (blast intro: sorted_set_cong)+
  with run have "assess sha contract items' as_of = assess sha contract items as_of"
    unfolding acc_agree_def
    by (simp only: assess_def t rbind.simps Let_def h h' avail conf
        flip: c_def c'_def A_def B_def)
  then show ?thesis using assms(2) by simp
qed

theorem assess_order_independent_witness:
  "\<exists>a. assess (\<lambda>_. ''h'') pilot_contract pilot_items (Aware 0) = Inr a \<and>
    assess (\<lambda>_. ''h'') pilot_contract [pilot_snapshot, pilot_receipt] (Aware 0) = Inr a"
proof -
  obtain a where a: "assess (\<lambda>_. ''h'') pilot_contract pilot_items (Aware 0) = Inr a"
    using pilot_assessed by blast
  from assess_order_independent [OF _ a, of "[pilot_snapshot, pilot_receipt]"] a show ?thesis by auto
qed



end
