(* ===== verification/Providers.thy ===== *)
theory Providers
  imports Controls
begin

text \<open>
  \<open>app/adapters/synthetic_providers.py\<close> and \<open>app/adapters/control_context.py\<close>: the record tables of
  the synthetic bank, its lookups, and the adapter that turns provider records into authoritative facts
  and evidence items.  A provider is a record of its operations, so that \<open>acquire\<close> is stated for every
  provider; what an honest one promises is the locale \<open>banking_provider\<close>.  Clock readings and SHA-256
  are parameters.
\<close>

section \<open>Provider records\<close>

record provider_record =
  provider_name :: string
  record_type :: string
  source_record_ref :: string
  pr_facts :: "(string, pyval) dict"
  response_hash :: string
  source_version :: string
  retrieved_at :: pytime
  pr_source_as_of :: "pytime option"

record banking =
  get_customer :: "pyval \<Rightarrow> provider_record py"
  get_account :: "pyval \<Rightarrow> pyval \<Rightarrow> provider_record py"
  get_transaction :: "pyval \<Rightarrow> provider_record py"
  get_merchant :: "pyval \<Rightarrow> provider_record py"
  get_settlement :: "pyval \<Rightarrow> provider_record py"
  get_refund :: "pyval \<Rightarrow> provider_record py"

section \<open>The synthetic bank\<close>

type_synonym fact_table = "(string, (string, pyval) dict) dict"

definition CUSTOMERS :: fact_table where
  "CUSTOMERS = [
     (''cust_1001'', [(''customer_ref'', VStr ''cust_1001''), (''display_name'', VStr ''Synthetic Customer 1001''), (''segment'', VStr ''retail'')])]"

definition ACCOUNTS :: fact_table where
  "ACCOUNTS = [
     (''acct_2001'', [(''account_ref'', VStr ''acct_2001''), (''customer_ref'', VStr ''cust_1001''), (''product'', VStr ''card''),
       (''status'', VStr ''active'')])]"

definition TRANSACTIONS :: fact_table where
  "TRANSACTIONS = [
     (''txn_3002'', [(''transaction_ref'', VStr ''txn_3002''), (''account_ref'', VStr ''acct_2001''), (''merchant_ref'', VStr ''mrc_4001''),
       (''settlement_ref'', VStr ''stl_5002''), (''refund_ref'', VStr ''rfd_6002''), (''amount'', VStr ''49.99''),
       (''currency'', VStr ''USD''), (''authorized_at'', VStr ''2026-08-28T10:17:00Z''), (''network_status'', VStr ''settled'')]),
     (''txn_3001'', [(''transaction_ref'', VStr ''txn_3001''), (''account_ref'', VStr ''acct_2001''), (''merchant_ref'', VStr ''mrc_4001''),
       (''settlement_ref'', VStr ''stl_5001''), (''refund_ref'', VStr ''rfd_6001''), (''amount'', VStr ''49.99''),
       (''currency'', VStr ''USD''), (''authorized_at'', VStr ''2026-08-28T10:15:00Z''), (''network_status'', VStr ''settled''),
       (''possible_duplicate_ref'', VStr ''txn_3002'')])]"

definition MERCHANTS :: fact_table where
  "MERCHANTS = [
     (''mrc_4001'', [(''merchant_ref'', VStr ''mrc_4001''), (''merchant_name'', VStr ''Synthetic Books''), (''category_code'', VStr ''5942''),
       (''country'', VStr ''US'')])]"

definition SETTLEMENTS :: fact_table where
  "SETTLEMENTS = [
     (''stl_5002'', [(''settlement_ref'', VStr ''stl_5002''), (''transaction_ref'', VStr ''txn_3002''), (''status'', VStr ''settled''),
       (''settled_at'', VStr ''2026-08-29T02:00:00Z'')]),
     (''stl_5001'', [(''settlement_ref'', VStr ''stl_5001''), (''transaction_ref'', VStr ''txn_3001''), (''status'', VStr ''settled''),
       (''settled_at'', VStr ''2026-08-29T02:00:00Z'')])]"

definition REFUNDS :: fact_table where
  "REFUNDS = [
     (''rfd_6002'', [(''refund_ref'', VStr ''rfd_6002''), (''transaction_ref'', VStr ''txn_3002''), (''status'', VStr ''not_refunded''),
       (''amount'', VStr ''0.00''), (''currency'', VStr ''USD'')]),
     (''rfd_6001'', [(''refund_ref'', VStr ''rfd_6001''), (''transaction_ref'', VStr ''txn_3001''), (''status'', VStr ''not_refunded''),
       (''amount'', VStr ''0.00''), (''currency'', VStr ''USD'')])]"

definition SYNTHETIC_VERSION :: string where
  "SYNTHETIC_VERSION = ''synthetic-phase-002-v1''"

text \<open>What the bank object is built from: the hash, its snapshot time and the clock.\<close>

record synth_env =
  se_sha :: "string \<Rightarrow> string"
  se_as_of :: pytime
  se_now :: pytime

definition payload_hash :: "(string \<Rightarrow> string) \<Rightarrow> (string, pyval) dict \<Rightarrow> string" where
  "payload_hash sha payload = sha (dumps_compact (VDict (sort_key fst payload)))"

definition synth_result :: "synth_env \<Rightarrow> string \<Rightarrow> string \<Rightarrow> string \<Rightarrow> (string, pyval) dict \<Rightarrow> provider_record" where
  "synth_result env pname rtype ref payload = \<lparr>provider_name = pname, record_type = rtype,
     source_record_ref = ref, pr_facts = payload, response_hash = payload_hash (se_sha env) payload,
     source_version = SYNTHETIC_VERSION, retrieved_at = se_now env, pr_source_as_of = Some (se_as_of env)\<rparr>"

text \<open>A dictionary subscript with an untyped key: an unhashable key is a \<open>TypeError\<close>, an unknown one a
  \<open>SyntheticProviderError\<close> (a \<open>LookupError\<close>).\<close>

definition synth_lookup :: "synth_env \<Rightarrow> string \<Rightarrow> string \<Rightarrow> fact_table \<Rightarrow> pyval \<Rightarrow> provider_record py" where
  "synth_lookup env pname rtype records key = (case key of
     VStr ref \<Rightarrow> (case map_of records ref of
        None \<Rightarrow> Inl LookupErr | Some payload \<Rightarrow> Inr (synth_result env pname rtype ref payload))
   | VList _ \<Rightarrow> Inl TypeErr | VDict _ \<Rightarrow> Inl TypeErr | _ \<Rightarrow> Inl LookupErr)"

fun first_owned :: "pyval \<Rightarrow> fact_table \<Rightarrow> (string \<times> (string, pyval) dict) option" where
  "first_owned customer [] = None"
| "first_owned customer ((ref, account) # rest) =
     (if py_eq (dict_get account ''customer_ref'' VNone) customer then Some (ref, account)
      else first_owned customer rest)"

definition synth_account :: "synth_env \<Rightarrow> pyval \<Rightarrow> pyval \<Rightarrow> provider_record py" where
  "synth_account env aref customer =
     (let fallback = (case first_owned customer ACCOUNTS of
            Some (ref, account) \<Rightarrow> Inr (synth_result env ''SyntheticAccountProvider'' ''account'' ref account)
          | None \<Rightarrow> Inl LookupErr)
      in case aref of
         VStr ref \<Rightarrow> (case map_of ACCOUNTS ref of
              Some account \<Rightarrow> Inr (synth_result env ''SyntheticAccountProvider'' ''account'' ref account)
            | None \<Rightarrow> fallback)
       | VList _ \<Rightarrow> Inl TypeErr | VDict _ \<Rightarrow> Inl TypeErr | _ \<Rightarrow> fallback)"

definition synthetic_bank :: "synth_env \<Rightarrow> banking" where
  "synthetic_bank env = \<lparr>
     get_customer = synth_lookup env ''SyntheticCustomerProvider'' ''customer'' CUSTOMERS,
     get_account = synth_account env,
     get_transaction = synth_lookup env ''SyntheticTransactionProvider'' ''transaction'' TRANSACTIONS,
     get_merchant = synth_lookup env ''SyntheticMerchantProvider'' ''merchant'' MERCHANTS,
     get_settlement = synth_lookup env ''SyntheticSettlementProvider'' ''settlement'' SETTLEMENTS,
     get_refund = synth_lookup env ''SyntheticRefundProvider'' ''refund'' REFUNDS\<rparr>"

definition collect_context :: "banking \<Rightarrow> pyval \<Rightarrow> pyval \<Rightarrow> pyval \<Rightarrow> provider_record list py" where
  "collect_context bank customer_ref account_ref transaction_ref =
     rbind (get_customer bank customer_ref) (\<lambda>customer.
     rbind (get_account bank account_ref customer_ref) (\<lambda>account.
     rbind (get_transaction bank transaction_ref) (\<lambda>transaction.
     rbind (getitem (VDict (pr_facts transaction)) ''merchant_ref'') (\<lambda>m.
     rbind (get_merchant bank (VStr (py_str m))) (\<lambda>merchant.
     rbind (getitem (VDict (pr_facts transaction)) ''settlement_ref'') (\<lambda>s.
     rbind (get_settlement bank (VStr (py_str s))) (\<lambda>settlement.
     rbind (getitem (VDict (pr_facts transaction)) ''refund_ref'') (\<lambda>r.
     rbind (get_refund bank (VStr (py_str r))) (\<lambda>refund.
     Inr [customer, account, transaction, merchant, settlement, refund])))))))))"

section \<open>The context adapter\<close>

record acquisition =
  aq_named :: "(string, pyval) dict"
  aq_references :: "string list"
  aq_records :: "pyval list"
  aq_errors :: "string list"
  aq_items :: "evidence_item list"

text \<open>The integrity checks before a record is admitted.\<close>

definition checked_record ::
  "(string \<Rightarrow> string) \<Rightarrow> provider_record py \<Rightarrow> pyval py \<Rightarrow> provider_record py" where
  "checked_record sha operation expected =
     rbind operation (\<lambda>r. rbind expected (\<lambda>e.
       if e \<noteq> VNone \<and> \<not> py_eq (VStr (source_record_ref r)) e then Inl ValueErr
       else if \<not> py_eq (dict_get (pr_facts r) (record_type r @ ''_ref'') VNone) (VStr (source_record_ref r))
         then Inl ValueErr
       else rbind (digest sha (VDict (pr_facts r))) (\<lambda>h.
         if h \<noteq> response_hash r then Inl ValueErr else Inr r)))"

definition record_reference :: "provider_record \<Rightarrow> string" where
  "record_reference r = provider_name r @ '':'' @ source_record_ref r @ '':'' @ source_version r"

definition record_entry :: "string \<Rightarrow> provider_record \<Rightarrow> pyval" where
  "record_entry name r = VDict [(''reference'', VStr (record_reference r)), (''name'', VStr name),
     (''source_version'', VStr (source_version r)), (''response_hash'', VStr (response_hash r)),
     (''source_as_of'', VOpt (\<lambda>t. VStr (isoformat t)) (pr_source_as_of r)),
     (''retrieved_at'', VStr (isoformat (retrieved_at r))), (''facts'', VDict (pr_facts r))]"

text \<open>\<open>EvidenceItem\<close> demands an aware \<open>source_as_of\<close>.\<close>

fun aware_only :: "pytime option \<Rightarrow> int option py" where
  "aware_only None = Inr None"
| "aware_only (Some (Aware t)) = Inr (Some t)"
| "aware_only (Some (Naive t)) = Inl ValueErr"

definition record_item :: "string \<Rightarrow> provider_record \<Rightarrow> evidence_item py" where
  "record_item name r = rmap (\<lambda>t. \<lparr>reference = record_reference r, ev_kind = name,
     checksum = response_hash r, ev_state = Validated, source_as_of = t,
     subject = Some (record_type r @ '':'' @ source_record_ref r),
     attributes = map (\<lambda>(k, v). (k, py_str v)) (pr_facts r)\<rparr>) (aware_only (pr_source_as_of r))"

definition unavailable_item :: "string \<Rightarrow> evidence_item" where
  "unavailable_item name = \<lparr>reference = ''unavailable:'' @ name, ev_kind = name, checksum = [],
     ev_state = Unavailable, source_as_of = None, subject = None, attributes = []\<rparr>"

definition provider_failure :: "pyexc \<Rightarrow> bool" where
  "provider_failure e \<longleftrightarrow> e \<in> {LookupErr, TimeoutErr, ConnectionErr, ValueErr, KeyErr}"

definition provider_error :: "string \<Rightarrow> string" where
  "provider_error name = ''PROVIDER_UNAVAILABLE:'' @ name"

definition mark_unavailable :: "string \<Rightarrow> acquisition \<Rightarrow> acquisition" where
  "mark_unavailable name s = s\<lparr>aq_named := dict_set (aq_named s) name (VDict []),
     aq_errors := aq_errors s @ [provider_error name],
     aq_items := aq_items s @ [unavailable_item name]\<rparr>"

text \<open>The facts, the reference and the record entry are written before the item is built, so they stay
  when its construction fails.\<close>

definition capture ::
  "(string \<Rightarrow> string) \<Rightarrow> string \<Rightarrow> provider_record py \<Rightarrow> pyval py \<Rightarrow> acquisition \<Rightarrow> acquisition py" where
  "capture sha name operation expected s =
     (case checked_record sha operation expected of
        Inl e \<Rightarrow> if provider_failure e then Inr (mark_unavailable name s) else Inl e
      | Inr r \<Rightarrow> (let s' = s\<lparr>aq_named := dict_set (aq_named s) name (VDict (pr_facts r)),
                            aq_references := aq_references s @ [record_reference r],
                            aq_records := aq_records s @ [record_entry name r]\<rparr>
          in case record_item name r of
               Inl e \<Rightarrow> if provider_failure e then Inr (mark_unavailable name s') else Inl e
             | Inr i \<Rightarrow> Inr (s'\<lparr>aq_items := aq_items s' @ [i]\<rparr>)))"

definition named_ref :: "acquisition \<Rightarrow> string \<Rightarrow> string \<Rightarrow> pyval py" where
  "named_ref s name key = rbind (getitem (VDict (aq_named s)) name) (\<lambda>v. getitem v key)"

definition base_facts :: "(string, pyval) dict \<Rightarrow> acquisition \<Rightarrow> (string, pyval) dict py" where
  "base_facts case_facts s =
     rbind (getitem (VDict case_facts) ''customer_ref'') (\<lambda>c.
     rbind (getitem (VDict case_facts) ''dispute_type'') (\<lambda>d.
     rbind (getitem (VDict case_facts) ''submitted_at'') (\<lambda>t.
     Inr ([(''customer_ref'', c), (''dispute_type'', d), (''submitted_at'', t),
       (''references'', VStrs (aq_references s)), (''provider_records'', VList (aq_records s)),
       (''provider_errors'', VStrs (aq_errors s)), (''required_operations'', VInt 8)] @ aq_named s))))"

definition capture_ref ::
  "(string \<Rightarrow> string) \<Rightarrow> (pyval \<Rightarrow> provider_record py) \<Rightarrow> string \<Rightarrow> string \<Rightarrow> string \<Rightarrow> acquisition \<Rightarrow> acquisition py" where
  "capture_ref sha get name from key s =
     capture sha name (rbind (named_ref s from key) get) (named_ref s from key) s"

definition acquire ::
  "(string \<Rightarrow> string) \<Rightarrow> banking \<Rightarrow> (string, pyval) dict \<Rightarrow> ((string, pyval) dict \<times> evidence_item list) py" where
  "acquire sha bank case_facts =
     (let s0 = \<lparr>aq_named = [], aq_references = [], aq_records = [], aq_errors = [], aq_items = []\<rparr>;
          aref = dict_get case_facts ''account_ref'' VNone;
          tref = getitem (VDict case_facts) ''transaction_ref''
      in rbind (base_facts case_facts s0) (\<lambda>_.
         rbind (capture sha ''account'' (rbind (getitem (VDict case_facts) ''customer_ref'')
                  (get_account bank aref)) (Inr aref) s0) (\<lambda>s1.
         rbind (capture sha ''disputed'' (rbind tref (get_transaction bank)) tref s1) (\<lambda>s2.
         rbind (capture_ref sha (get_transaction bank) ''candidate'' ''disputed'' ''possible_duplicate_ref'' s2) (\<lambda>s3.
         rbind (capture_ref sha (get_merchant bank) ''merchant'' ''disputed'' ''merchant_ref'' s3) (\<lambda>s4.
         rbind (capture_ref sha (get_settlement bank) ''disputed_settlement'' ''disputed'' ''settlement_ref'' s4) (\<lambda>s5.
         rbind (capture_ref sha (get_refund bank) ''disputed_refund'' ''disputed'' ''refund_ref'' s5) (\<lambda>s6.
         rbind (capture_ref sha (get_settlement bank) ''candidate_settlement'' ''candidate'' ''settlement_ref'' s6) (\<lambda>s7.
         rbind (capture_ref sha (get_refund bank) ''candidate_refund'' ''candidate'' ''refund_ref'' s7) (\<lambda>s8.
         rbind (base_facts case_facts s8) (\<lambda>facts. Inr (facts, aq_items s8))))))))))))"

section \<open>What an admitted item guarantees\<close>

text \<open>A record with intact lineage: it names itself and its hash is the digest of its facts.\<close>

definition intact :: "(string \<Rightarrow> string) \<Rightarrow> provider_record \<Rightarrow> bool" where
  "intact sha r \<longleftrightarrow> py_eq (dict_get (pr_facts r) (record_type r @ ''_ref'') VNone) (VStr (source_record_ref r)) \<and>
     digest sha (VDict (pr_facts r)) = Inr (response_hash r)"

definition item_backed :: "(string \<Rightarrow> string) \<Rightarrow> (string \<Rightarrow> pyval option) \<Rightarrow> string list \<Rightarrow> evidence_item \<Rightarrow> bool" where
  "item_backed sha facts errors i \<longleftrightarrow>
     (\<exists>r. intact sha r \<and> record_item (ev_kind i) r = Inr i \<and> facts (ev_kind i) = Some (VDict (pr_facts r))) \<or>
     i = unavailable_item (ev_kind i) \<and> facts (ev_kind i) = Some (VDict []) \<and>
       provider_error (ev_kind i) \<in> set errors"

definition acquisition_inv :: "(string \<Rightarrow> string) \<Rightarrow> acquisition \<Rightarrow> bool" where
  "acquisition_inv sha s \<longleftrightarrow> (\<forall>i \<in> set (aq_items s). item_backed sha (map_of (aq_named s)) (aq_errors s) i) \<and>
     aq_errors s = map (\<lambda>i. provider_error (ev_kind i)) (filter (\<lambda>i. ev_state i = Unavailable) (aq_items s))"

lemma checked_record_intact: "checked_record sha operation expected = Inr r \<Longrightarrow> intact sha r"
  by (auto simp: checked_record_def intact_def result_simps split: if_splits)

lemma record_item_kind: "record_item name r = Inr i \<Longrightarrow> ev_kind i = name \<and> ev_state i = Validated"
  by (auto simp: record_item_def result_simps)

lemma unavailable_kind [simp]: "ev_kind (unavailable_item name) = name"
  "ev_state (unavailable_item name) = Unavailable"
  by (simp_all add: unavailable_item_def)

lemma item_backed_keep:
  assumes "item_backed sha (map_of d) es i" and "name \<noteq> ev_kind i" and "set es \<subseteq> set es'"
  shows "item_backed sha ((map_of d)(name \<mapsto> v)) es' i"
  using assms by (auto simp: item_backed_def)

lemma item_backed_new:
  "intact sha r \<Longrightarrow> record_item name r = Inr i \<Longrightarrow> item_backed sha (d(name \<mapsto> VDict (pr_facts r))) es i"
  using record_item_kind [of name r i] by (auto simp: item_backed_def)

lemma capture_inv:
  assumes "capture sha name operation expected s = Inr s'" and "acquisition_inv sha s"
    and "name \<notin> ev_kind ` set (aq_items s)"
  shows "acquisition_inv sha s' \<and> map ev_kind (aq_items s') = map ev_kind (aq_items s) @ [name]"
proof (cases "\<exists>r i. checked_record sha operation expected = Inr r \<and> record_item name r = Inr i")
  case True
  then obtain r i where ok: "checked_record sha operation expected = Inr r" "record_item name r = Inr i" by blast
  note new = item_backed_new [OF checked_record_intact [OF ok(1)] ok(2)]
  have "\<forall>j \<in> set (aq_items s). name \<noteq> ev_kind j" using assms(3) by auto
  then have "\<forall>j \<in> set (aq_items s). item_backed sha ((map_of (aq_named s))(name \<mapsto> VDict (pr_facts r))) (aq_errors s) j"
    using assms(2) item_backed_keep [of sha "aq_named s" "aq_errors s" _ name "aq_errors s"]
    by (auto simp: acquisition_inv_def)
  then show ?thesis using assms(1,2) record_item_kind [OF ok(2)] new
    by (auto simp: capture_def ok Let_def acquisition_inv_def)
next
  case False
  then have upd: "map_of (aq_named s') = (map_of (aq_named s))(name \<mapsto> VDict [])"
    and s': "aq_errors s' = aq_errors s @ [provider_error name]" "aq_items s' = aq_items s @ [unavailable_item name]"
    using assms(1) by (auto simp: capture_def Let_def mark_unavailable_def split: sum.splits if_splits)
  have old: "\<forall>j \<in> set (aq_items s). item_backed sha (map_of (aq_named s)) (aq_errors s) j \<and> name \<noteq> ev_kind j"
    using assms(2,3) unfolding acquisition_inv_def by blast
  have "\<forall>j \<in> set (aq_items s). item_backed sha ((map_of (aq_named s))(name \<mapsto> VDict []))
      (aq_errors s @ [provider_error name]) j"
    using old by (intro ballI item_backed_keep [where es = "aq_errors s"]) auto
  moreover have "item_backed sha ((map_of (aq_named s))(name \<mapsto> VDict [])) (aq_errors s @ [provider_error name])
      (unavailable_item name)" by (simp add: item_backed_def)
  ultimately show ?thesis using assms(2) by (simp add: s' acquisition_inv_def upd)
qed

definition operation_names :: "string list" where
  "operation_names = [''account'', ''disputed'', ''candidate'', ''merchant'', ''disputed_settlement'',
     ''disputed_refund'', ''candidate_settlement'', ''candidate_refund'']"

definition captured :: "(string \<Rightarrow> string) \<Rightarrow> nat \<Rightarrow> acquisition \<Rightarrow> bool" where
  "captured sha n s \<longleftrightarrow> acquisition_inv sha s \<and> map ev_kind (aq_items s) = take n operation_names"

lemma capture_next:
  assumes "captured sha n s" and "capture sha (operation_names ! n) operation expected s = Inr s'" and "n < 8"
  shows "captured sha (Suc n) s'"
proof -
  have len: "n < length operation_names" using assms(3) by (simp add: operation_names_def)
  have "distinct operation_names" by (simp add: operation_names_def)
  then have "operation_names ! n \<notin> set (take n operation_names)"
    using len by (simp add: in_set_conv_nth) (metis len less_trans nat_less_le nth_eq_iff_index_eq)
  then have "operation_names ! n \<notin> ev_kind ` set (aq_items s)"
    using assms(1) by (metis captured_def list.set_map)
  from capture_inv [OF assms(2) _ this] show ?thesis
    using assms(1) len by (simp add: captured_def take_Suc_conv_app_nth)
qed

lemma capture_chain:
  "captured sha 0 s \<Longrightarrow> capture sha ''account'' m e s = Inr s' \<Longrightarrow> captured sha 1 s'"
  "captured sha 1 s \<Longrightarrow> capture sha ''disputed'' m e s = Inr s' \<Longrightarrow> captured sha 2 s'"
  "captured sha 2 s \<Longrightarrow> capture sha ''candidate'' m e s = Inr s' \<Longrightarrow> captured sha 3 s'"
  "captured sha 3 s \<Longrightarrow> capture sha ''merchant'' m e s = Inr s' \<Longrightarrow> captured sha 4 s'"
  "captured sha 4 s \<Longrightarrow> capture sha ''disputed_settlement'' m e s = Inr s' \<Longrightarrow> captured sha 5 s'"
  "captured sha 5 s \<Longrightarrow> capture sha ''disputed_refund'' m e s = Inr s' \<Longrightarrow> captured sha 6 s'"
  "captured sha 6 s \<Longrightarrow> capture sha ''candidate_settlement'' m e s = Inr s' \<Longrightarrow> captured sha 7 s'"
  "captured sha 7 s \<Longrightarrow> capture sha ''candidate_refund'' m e s = Inr s' \<Longrightarrow> captured sha 8 s'"
  using capture_next [of sha 0 s m e s'] capture_next [of sha 1 s m e s'] capture_next [of sha 2 s m e s']
    capture_next [of sha 3 s m e s'] capture_next [of sha 4 s m e s'] capture_next [of sha 5 s m e s']
    capture_next [of sha 6 s m e s'] capture_next [of sha 7 s m e s']
  by (simp_all add: operation_names_def eval_nat_numeral)

lemma acquire_captured:
  assumes "acquire sha bank case_facts = Inr (facts, items)"
  obtains s where "captured sha 8 s" and "items = aq_items s" and "base_facts case_facts s = Inr facts"
proof -
  have start: "captured sha 0 \<lparr>aq_named = [], aq_references = [], aq_records = [], aq_errors = [], aq_items = []\<rparr>"
    by (simp add: captured_def acquisition_inv_def)
  show thesis
    using assms unfolding acquire_def capture_ref_def Let_def
    apply (elim rbind_InrE)
    apply (rule that)
      apply (rule capture_chain, rule capture_chain, rule capture_chain, rule capture_chain,
        rule capture_chain, rule capture_chain, rule capture_chain, rule capture_chain, rule start)
            apply (assumption+)[8]
     apply simp_all
    done
qed

lemma base_facts_lookup:
  assumes "base_facts case_facts s = Inr facts"
  shows "n \<in> set operation_names \<Longrightarrow> map_of facts n = map_of (aq_named s) n"
    and "map_of facts ''provider_errors'' = Some (VStrs (aq_errors s))"
    and "map_of facts ''references'' = Some (VStrs (aq_references s))"
  using assms by (auto simp: base_facts_def result_simps operation_names_def)

section \<open>Honest providers\<close>

text \<open>The contract of a banking provider: a lookup by reference answers the record of that reference,
  intact and with an aware snapshot time.\<close>

definition honest_lookup :: "(string \<Rightarrow> string) \<Rightarrow> (pyval \<Rightarrow> provider_record py) \<Rightarrow> bool" where
  "honest_lookup sha get \<longleftrightarrow> (\<forall>key r. get key = Inr r \<longrightarrow>
     key = VStr (source_record_ref r) \<and> intact sha r \<and> (\<exists>t. pr_source_as_of r = Some (Aware t)))"

locale banking_provider =
  fixes sha :: "string \<Rightarrow> string" and bank :: banking
  assumes transactions: "honest_lookup sha (get_transaction bank)"
    and merchants: "honest_lookup sha (get_merchant bank)"
    and settlements: "honest_lookup sha (get_settlement bank)"
    and refunds: "honest_lookup sha (get_refund bank)"
begin

lemma checked_honest: "honest_lookup sha get \<Longrightarrow> get key = Inr r \<Longrightarrow> checked_record sha (get key) (Inr key) = Inr r"
  by (auto simp: honest_lookup_def checked_record_def intact_def)

text \<open>A lookup that answers is admitted: the adapter never rejects an honest provider.\<close>

lemma honest_admitted:
  assumes "honest_lookup sha get" and "named_ref s from key = Inr v" and "get v = Inr r"
  shows "\<exists>s' i. capture_ref sha get name from key s = Inr s' \<and> aq_errors s' = aq_errors s \<and>
    aq_items s' = aq_items s @ [i] \<and> record_item name r = Inr i \<and>
    aq_named s' = dict_set (aq_named s) name (VDict (pr_facts r)) \<and>
    aq_references s' = aq_references s @ [record_reference r] \<and> aq_records s' = aq_records s @ [record_entry name r]"
proof -
  obtain t where t: "pr_source_as_of r = Some (Aware t)" using assms(1,3) by (auto simp: honest_lookup_def)
  have "checked_record sha (get v) (Inr v) = Inr r" by (rule checked_honest [OF assms(1,3)])
  then show ?thesis by (simp add: capture_ref_def capture_def assms(2) Let_def record_item_def t)
qed

lemmas transaction_admitted = honest_admitted [OF transactions]
lemmas merchant_admitted = honest_admitted [OF merchants]
lemmas settlement_admitted = honest_admitted [OF settlements]
lemmas refund_admitted = honest_admitted [OF refunds]

end

text \<open>The synthetic bank keeps the contract: its tables are keyed by the reference each record states,
  hold text only, and are hashed in the very form the digest uses.\<close>

definition synth_env_at :: "(string \<Rightarrow> string) \<Rightarrow> int \<Rightarrow> pytime \<Rightarrow> synth_env" where
  "synth_env_at sha t now = \<lparr>se_sha = sha, se_as_of = Aware t, se_now = now\<rparr>"

definition all_text :: "(string, pyval) dict \<Rightarrow> bool" where
  "all_text d \<longleftrightarrow> list_all (\<lambda>(k, v). case v of VStr _ \<Rightarrow> True | _ \<Rightarrow> False) d"

lemma digest_text: "all_text d \<Longrightarrow> digest sha (VDict d) = Inr (payload_hash sha d)"
proof -
  assume "all_text d"
  then have "canonical_items d = Inr d"
    by (induction d) (auto simp: all_text_def split: pyval.splits)
  then show ?thesis by (simp add: digest_def payload_hash_def del: dumps.simps)
qed

definition honest_table :: "string \<Rightarrow> fact_table \<Rightarrow> bool" where
  "honest_table rtype tab \<longleftrightarrow> list_all (\<lambda>(ref, d). all_text d \<and> map_of d (rtype @ ''_ref'') = Some (VStr ref)) tab"

lemma honest_synth: "honest_table rtype tab \<Longrightarrow> honest_lookup sha (synth_lookup (synth_env_at sha t now) p rtype tab)"
  unfolding honest_lookup_def
proof (intro allI impI)
  fix key r
  assume tab: "honest_table rtype tab" and got: "synth_lookup (synth_env_at sha t now) p rtype tab key = Inr r"
  then obtain ref d where d: "key = VStr ref" "map_of tab ref = Some d"
      "r = synth_result (synth_env_at sha t now) p rtype ref d"
    by (auto simp: synth_lookup_def split: pyval.splits option.splits)
  from map_of_SomeD [OF d(2)] tab have "all_text d" "map_of d (rtype @ ''_ref'') = Some (VStr ref)"
    by (auto simp: honest_table_def list_all_iff)
  then show "key = VStr (source_record_ref r) \<and> intact sha r \<and> (\<exists>t. pr_source_as_of r = Some (Aware t))"
    by (simp add: d synth_result_def synth_env_at_def intact_def digest_text dict_get_def)
qed

interpretation synth: banking_provider sha "synthetic_bank (synth_env_at sha t now)" for sha t now
  by unfold_locales
    (simp_all add: synthetic_bank_def honest_synth honest_table_def all_text_def TRANSACTIONS_def MERCHANTS_def
      SETTLEMENTS_def REFUNDS_def)

section \<open>The pilot case\<close>

definition pilot_case :: "(string, pyval) dict" where
  "pilot_case = [(''customer_ref'', VStr ''cust_1001''), (''account_ref'', VStr ''acct_2001''),
     (''transaction_ref'', VStr ''txn_3001''), (''dispute_type'', VStr ''duplicate_card_transaction''),
     (''submitted_at'', VStr ''2026-09-01T00:00:00+00:00''), (''channel'', VStr ''web'')]"

definition row :: "fact_table \<Rightarrow> string \<Rightarrow> (string, pyval) dict" where
  "row tab ref = dict_get tab ref []"

definition pilot_named :: "(string, pyval) dict" where
  "pilot_named = [(''account'', VDict (row ACCOUNTS ''acct_2001'')), (''disputed'', VDict (row TRANSACTIONS ''txn_3001'')),
     (''candidate'', VDict (row TRANSACTIONS ''txn_3002'')), (''merchant'', VDict (row MERCHANTS ''mrc_4001'')),
     (''disputed_settlement'', VDict (row SETTLEMENTS ''stl_5001'')), (''disputed_refund'', VDict (row REFUNDS ''rfd_6001'')),
     (''candidate_settlement'', VDict (row SETTLEMENTS ''stl_5002'')), (''candidate_refund'', VDict (row REFUNDS ''rfd_6002''))]"

definition pilot_facts :: "pyval \<Rightarrow> pyval \<Rightarrow> (string, pyval) dict" where
  "pilot_facts refs recs = [(''customer_ref'', VStr ''cust_1001''), (''dispute_type'', VStr ''duplicate_card_transaction''),
     (''submitted_at'', VStr ''2026-09-01T00:00:00+00:00''), (''references'', refs), (''provider_records'', recs),
     (''provider_errors'', VStrs []), (''required_operations'', VInt 8)] @ pilot_named"

lemmas synth_tables = ACCOUNTS_def TRANSACTIONS_def MERCHANTS_def SETTLEMENTS_def REFUNDS_def

definition admit :: "string \<Rightarrow> provider_record \<Rightarrow> acquisition \<Rightarrow> acquisition" where
  "admit name r s = s\<lparr>aq_named := dict_set (aq_named s) name (VDict (pr_facts r)),
     aq_references := aq_references s @ [record_reference r], aq_records := aq_records s @ [record_entry name r],
     aq_items := aq_items s @ [projr (record_item name r)]\<rparr>"

lemma admit_simps [simp]: "aq_named (admit name r s) = dict_set (aq_named s) name (VDict (pr_facts r))"
  "aq_errors (admit name r s) = aq_errors s" "aq_items (admit name r s) = aq_items s @ [projr (record_item name r)]"
  by (simp_all add: admit_def)

lemma synth_item_validated [simp]:
  "ev_state (projr (record_item name (synth_result (synth_env_at sha t now) p rtype ref d))) = Validated"
  "pr_facts (synth_result env p rtype ref d) = d"
  by (simp_all add: record_item_def synth_result_def synth_env_at_def)

lemma capture_synth:
  assumes "all_text d" and "map_of d (rtype @ ''_ref'') = Some (VStr ref)"
  shows "capture sha name (Inr (synth_result (synth_env_at sha t now) p rtype ref d)) (Inr (VStr ref)) s =
    Inr (admit name (synth_result (synth_env_at sha t now) p rtype ref d) s)"
  by (simp add: capture_def checked_record_def synth_result_def synth_env_at_def dict_get_def
      assms digest_text Let_def record_item_def admit_def)

lemma pilot_lookups:
  "synth_account env (VStr ''acct_2001'') c =
     Inr (synth_result env ''SyntheticAccountProvider'' ''account'' ''acct_2001'' (row ACCOUNTS ''acct_2001''))"
  "ref \<in> {''txn_3001'', ''txn_3002''} \<Longrightarrow> synth_lookup env p rtype TRANSACTIONS (VStr ref) = Inr (synth_result env p rtype ref (row TRANSACTIONS ref))"
  "synth_lookup env p rtype MERCHANTS (VStr ''mrc_4001'') = Inr (synth_result env p rtype ''mrc_4001'' (row MERCHANTS ''mrc_4001''))"
  "ref \<in> {''stl_5001'', ''stl_5002''} \<Longrightarrow> synth_lookup env p rtype SETTLEMENTS (VStr ref) = Inr (synth_result env p rtype ref (row SETTLEMENTS ref))"
  "ref \<in> {''rfd_6001'', ''rfd_6002''} \<Longrightarrow> synth_lookup env p rtype REFUNDS (VStr ref) = Inr (synth_result env p rtype ref (row REFUNDS ref))"
  by (auto simp: synth_account_def synth_lookup_def Let_def row_def dict_get_def synth_tables)

lemma pilot_rows:
  "all_text (row ACCOUNTS ''acct_2001'')" "map_of (row ACCOUNTS ''acct_2001'') ''account_ref'' = Some (VStr ''acct_2001'')"
  "all_text (row MERCHANTS ''mrc_4001'')" "map_of (row MERCHANTS ''mrc_4001'') ''merchant_ref'' = Some (VStr ''mrc_4001'')"
  "ref \<in> {''txn_3001'', ''txn_3002''} \<Longrightarrow> all_text (row TRANSACTIONS ref) \<and> map_of (row TRANSACTIONS ref) ''transaction_ref'' = Some (VStr ref)
     \<and> map_of (row TRANSACTIONS ref) ''merchant_ref'' = Some (VStr ''mrc_4001'')"
  "map_of (row TRANSACTIONS ''txn_3001'') ''possible_duplicate_ref'' = Some (VStr ''txn_3002'')"
  "map_of (row TRANSACTIONS ''txn_3001'') ''settlement_ref'' = Some (VStr ''stl_5001'')"
  "map_of (row TRANSACTIONS ''txn_3001'') ''refund_ref'' = Some (VStr ''rfd_6001'')"
  "map_of (row TRANSACTIONS ''txn_3002'') ''settlement_ref'' = Some (VStr ''stl_5002'')"
  "map_of (row TRANSACTIONS ''txn_3002'') ''refund_ref'' = Some (VStr ''rfd_6002'')"
  "ref \<in> {''stl_5001'', ''stl_5002''} \<Longrightarrow> all_text (row SETTLEMENTS ref) \<and> map_of (row SETTLEMENTS ref) ''settlement_ref'' = Some (VStr ref)"
  "ref \<in> {''rfd_6001'', ''rfd_6002''} \<Longrightarrow> all_text (row REFUNDS ref) \<and> map_of (row REFUNDS ref) ''refund_ref'' = Some (VStr ref)"
  by (auto simp: row_def dict_get_def synth_tables all_text_def)

lemma pilot_acquired: "\<exists>refs recs items. acquire sha (synthetic_bank (synth_env_at sha t now)) pilot_case =
    Inr (pilot_facts refs recs, items) \<and> (\<forall>i \<in> set items. ev_state i = Validated)"
  by (simp add: acquire_def base_facts_def pilot_case_def synthetic_bank_def capture_synth pilot_lookups pilot_rows
    dict_get_def [of _ "''account_ref''"] Let_def capture_ref_def named_ref_def pilot_facts_def pilot_named_def)

section \<open>Properties\<close>

text \<open>C14: whatever the provider does, an acquisition that returns holds one item per required operation;
  a validated item is backed by an intact record whose facts are the ones handed to the rules, and every
  other operation is recorded as unavailable with empty facts and a provider error.\<close>

theorem acquire_sound:
  assumes "acquire sha bank case_facts = Inr (facts, items)"
  shows "map ev_kind items = operation_names \<and>
    (\<exists>errors. map_of facts ''provider_errors'' = Some (VStrs errors) \<and>
       errors = map (provider_error \<circ> ev_kind) (filter (\<lambda>i. ev_state i = Unavailable) items) \<and>
       (\<forall>i \<in> set items. item_backed sha (map_of facts) errors i))"
proof -
  obtain s where s: "captured sha 8 s" "items = aq_items s" "base_facts case_facts s = Inr facts"
    using acquire_captured [OF assms] by blast
  then have kinds: "map ev_kind items = operation_names" by (simp add: captured_def operation_names_def)
  have inv: "acquisition_inv sha s" using s(1) by (simp add: captured_def)
  have "item_backed sha (map_of facts) (aq_errors s) i" if i: "i \<in> set items" for i
  proof -
    have "ev_kind i \<in> set operation_names" using i by (simp flip: kinds)
    with base_facts_lookup(1) [OF s(3)] have "map_of facts (ev_kind i) = map_of (aq_named s) (ev_kind i)" by blast
    moreover have "item_backed sha (map_of (aq_named s)) (aq_errors s) i"
      using inv i s(2) unfolding acquisition_inv_def by blast
    ultimately show ?thesis by (simp add: item_backed_def)
  qed
  moreover have "aq_errors s = map (provider_error \<circ> ev_kind) (filter (\<lambda>i. ev_state i = Unavailable) items)"
    using inv s(2) by (simp add: acquisition_inv_def)
  ultimately show ?thesis using kinds base_facts_lookup(2) [OF s(3)] by blast
qed

theorem acquire_sound_witness:
  "\<exists>facts items. acquire (\<lambda>_. ''h'') (synthetic_bank (synth_env_at (\<lambda>_. ''h'') 0 (Aware 0))) pilot_case =
    Inr (facts, items) \<and> length items = 8 \<and> map_of facts ''provider_errors'' = Some (VStrs [])"
proof -
  obtain refs recs items where a: "acquire (\<lambda>_. ''h'') (synthetic_bank (synth_env_at (\<lambda>_. ''h'') 0 (Aware 0))) pilot_case =
      Inr (pilot_facts refs recs, items)" using pilot_acquired by blast
  from acquire_sound [OF a] have "length (map ev_kind items) = length operation_names" by simp
  with a show ?thesis by (simp add: operation_names_def pilot_facts_def)
qed

text \<open>C15: a transaction of the synthetic bank is admitted whenever the facts refer to it: the adapter
  raises no error, and the facts and one validated item are those of the table row.\<close>

theorem synthetic_transaction_admitted:
  assumes "map_of TRANSACTIONS k = Some d" and "named_ref s from key = Inr (VStr k)"
  shows "\<exists>s' i. capture_ref sha (get_transaction (synthetic_bank (synth_env_at sha t now))) name from key s = Inr s' \<and>
    aq_errors s' = aq_errors s \<and> aq_named s' = dict_set (aq_named s) name (VDict d) \<and>
    aq_items s' = aq_items s @ [i] \<and> ev_kind i = name \<and> ev_state i = Validated"
proof -
  define r where "r = synth_result (synth_env_at sha t now) ''SyntheticTransactionProvider'' ''transaction'' k d"
  have "get_transaction (synthetic_bank (synth_env_at sha t now)) (VStr k) = Inr r"
    by (simp add: synthetic_bank_def synth_lookup_def assms(1) r_def)
  from synth.transaction_admitted [OF assms(2) this, of name] record_item_kind [of name r]
  show ?thesis by (auto simp: r_def)
qed

theorem synthetic_transaction_admitted_witness:
  "\<exists>s'. capture_ref (\<lambda>_. ''h'') (get_transaction (synthetic_bank (synth_env_at (\<lambda>_. ''h'') 0 (Aware 0)))) ''candidate'' ''disputed''
     ''possible_duplicate_ref'' \<lparr>aq_named = pilot_named, aq_references = [], aq_records = [], aq_errors = [], aq_items = []\<rparr> = Inr s' \<and>
     aq_errors s' = []"
proof -
  have "map_of TRANSACTIONS ''txn_3002'' = Some (row TRANSACTIONS ''txn_3002'')"
    by (simp add: row_def dict_get_def synth_tables)
  from synthetic_transaction_admitted [OF this,
      of "\<lparr>aq_named = pilot_named, aq_references = [], aq_records = [], aq_errors = [], aq_items = []\<rparr>" "''disputed''"
        "''possible_duplicate_ref''" "\<lambda>_. ''h''" 0 "Aware 0" "''candidate''"]
  show ?thesis by (auto simp: named_ref_def pilot_named_def pilot_rows)
qed

end
