(* ===== verification/Rules.thy ===== *)
theory Rules
  imports Evidence Providers
begin

text \<open>
  \<open>app/services/rules_engine.py\<close>: the pure rule handlers and \<open>RulesEngine.execute\<close>.  Facts are a
  dictionary of untyped values, so every subscript may raise; the handlers are written with the
  short-circuit operators of the prelude, in the source's evaluation order, and \<open>rule_outcome_of\<close>
  is the \<open>try\<close>/\<open>except\<close> around them.  A difference of two instants becomes a decimal with six
  places, which is what \<open>Decimal(str(total_seconds()))\<close> denotes for spans below 10^15 microseconds.
\<close>

section \<open>Reading facts\<close>

definition instant :: "pyval \<Rightarrow> int py" where
  "instant v = rbind (fromisoformat (replace_char CHR ''Z'' ''+00:00'' (py_str v))) utc"

definition money :: "pyval \<Rightarrow> dec py" where
  "money v = rbind (dec_of_string (py_str v)) (\<lambda>d. case d of
     Finite x \<Rightarrow> if dec_lt x (Dec False 0 0) then Inl ValueErr else Inr x
   | _ \<Rightarrow> Inl ValueErr)"

definition seconds_dec :: "int \<Rightarrow> dec" where
  "seconds_dec us = Dec (us < 0) (nat \<bar>us\<bar>) (- 6)"

definition item_eq :: "pyval \<Rightarrow> string \<Rightarrow> pyval \<Rightarrow> string \<Rightarrow> bool py" where
  "item_eq a k b k' = rbind (getitem a k) (\<lambda>x. rbind (getitem b k') (\<lambda>y. Inr (py_eq x y)))"

definition item_is :: "pyval \<Rightarrow> string \<Rightarrow> string \<Rightarrow> bool py" where
  "item_is a k s = rmap (\<lambda>x. py_eq x (VStr s)) (getitem a k)"

definition rnot :: "bool py \<Rightarrow> bool py" where
  "rnot m = rmap Not m"

fun texts_ok :: "pyval \<Rightarrow> string list \<Rightarrow> bool py" where
  "texts_ok t [] = Inr True"
| "texts_ok t (k # ks) = rbind (getitem t k) (\<lambda>v. case v of
     VStr s \<Rightarrow> if strip s = [] then Inr False else texts_ok t ks
   | _ \<Rightarrow> Inr False)"

definition transaction_keys :: "string list" where
  "transaction_keys = [''transaction_ref'', ''account_ref'', ''merchant_ref'', ''currency'', ''authorized_at'']"

section \<open>Parameters of a rule\<close>

definition parameter :: "rule_definition \<Rightarrow> string \<Rightarrow> pydec py" where
  "parameter rule k = (case map_of (rd_parameters rule) k of None \<Rightarrow> Inl KeyErr | Some v \<Rightarrow> Inr v)"

definition pydec_scale :: "pydec \<Rightarrow> int \<Rightarrow> pydec" where
  "pydec_scale p n = (case p of Finite d \<Rightarrow> Finite (dec_mul d (dec_of_int n)) | _ \<Rightarrow> p)"

text \<open>An ordering comparison with a NaN is an \<open>InvalidOperation\<close>.\<close>

definition dec_le_py :: "dec \<Rightarrow> pydec \<Rightarrow> bool py" where
  "dec_le_py x p = (case p of Finite y \<Rightarrow> Inr (dec_le x y) | Infinite neg \<Rightarrow> Inr (\<not> neg)
     | NotANumber \<Rightarrow> Inl ArithErr)"

section \<open>Handlers\<close>

definition result_of :: "bool \<Rightarrow> string \<Rightarrow> string \<Rightarrow> rule_outcome \<times> string" where
  "result_of value passed failed = (if value then (Passed, passed) else (Failed, failed))"

definition eligibility_test :: "(string, pyval) dict \<Rightarrow> pyval \<Rightarrow> pyval \<Rightarrow> bool py" where
  "eligibility_test facts first second =
     rbind (getitem (VDict facts) ''account'') (\<lambda>account.
       rand (item_eq account ''customer_ref'' (VDict facts) ''customer_ref'')
      (rand (item_eq account ''account_ref'' first ''account_ref'')
      (rand (item_eq first ''account_ref'' second ''account_ref'')
      (rand (item_is account ''status'' ''active'')
      (rand (item_is account ''product'' ''card'')
            (rnot (item_eq first ''transaction_ref'' second ''transaction_ref'')))))))"

definition timeline_test :: "rule_definition \<Rightarrow> (string, pyval) dict \<Rightarrow> pyval \<Rightarrow> bool py" where
  "timeline_test rule facts first =
     rbind (rbind (getitem (VDict facts) ''submitted_at'') instant) (\<lambda>s.
     rbind (rbind (getitem first ''authorized_at'') instant) (\<lambda>a.
       let seconds = seconds_dec (s - a) in
       rand (Inr (dec_le (Dec False 0 0) seconds))
            (rbind (parameter rule ''filing_days'') (\<lambda>p. dec_le_py seconds (pydec_scale p 86400)))))"

fun items_eq :: "pyval \<Rightarrow> pyval \<Rightarrow> string list \<Rightarrow> bool py" where
  "items_eq a b [] = Inr True"
| "items_eq a b (k # ks) = rand (item_eq a k b k) (items_eq a b ks)"

definition duplicate_test :: "rule_definition \<Rightarrow> pyval \<Rightarrow> pyval \<Rightarrow> bool py" where
  "duplicate_test rule first second =
     rbind (rand (items_eq first second [''account_ref'', ''merchant_ref'', ''currency''])
                 (rnot (item_eq first ''transaction_ref'' second ''transaction_ref''))) (\<lambda>same.
     rbind (rbind (getitem first ''authorized_at'') instant) (\<lambda>a.
     rbind (rbind (getitem second ''authorized_at'') instant) (\<lambda>b.
       rand (Inr same)
      (rand (rbind (rbind (getitem first ''amount'') money) (\<lambda>x.
             rbind (rbind (getitem second ''amount'') money) (\<lambda>y. Inr (dec_eq x y))))
            (rbind (parameter rule ''window_seconds'') (dec_le_py (seconds_dec \<bar>a - b\<bar>)))))))"

datatype remedy = RemedyConflict | RemedyUnresolved | Remedied | NotRemedied

definition remedy_of :: "(string, pyval) dict \<Rightarrow> string \<Rightarrow> pyval \<Rightarrow> remedy py" where
  "remedy_of facts name transaction =
     rbind (getitem (VDict facts) (name @ ''_settlement'')) (\<lambda>settlement.
     rbind (getitem (VDict facts) (name @ ''_refund'')) (\<lambda>refund.
     rbind (ror (rnot (item_eq settlement ''transaction_ref'' transaction ''transaction_ref''))
           (ror (rnot (item_eq refund ''transaction_ref'' transaction ''transaction_ref''))
                (rnot (item_eq refund ''currency'' transaction ''currency'')))) (\<lambda>mixed.
       if mixed then Inr RemedyConflict else
       rbind (rbind (getitem refund ''amount'') money) (\<lambda>amount.
       rbind (rbind (getitem transaction ''amount'') money) (\<lambda>full.
       rbind (ror (item_is settlement ''status'' ''reversed'')
             (rand (item_is refund ''status'' ''refunded'') (Inr (dec_eq amount full)))) (\<lambda>done.
         if done then Inr Remedied else
         rbind (ror (rnot (item_is settlement ''status'' ''settled''))
               (ror (rnot (item_is refund ''status'' ''not_refunded''))
                    (Inr (\<not> dec_eq amount (Dec False 0 0))))) (\<lambda>unsettled.
           Inr (if unsettled then RemedyUnresolved else NotRemedied))))))))"

fun remediation_loop :: "(string, pyval) dict \<Rightarrow> (string \<times> pyval) list \<Rightarrow> bool \<Rightarrow> (rule_outcome \<times> string) py" where
  "remediation_loop facts [] remedied =
     Inr (if remedied then (Failed, ''ALREADY_REMEDIATED'') else (Passed, ''NO_EXISTING_REMEDIATION''))"
| "remediation_loop facts ((name, transaction) # rest) remedied =
     rbind (remedy_of facts name transaction) (\<lambda>r. case r of
       RemedyConflict \<Rightarrow> Inr (Indeterminate, ''CONFLICTING_REMEDIATION_FACTS'')
     | RemedyUnresolved \<Rightarrow> Inr (Indeterminate, ''UNRESOLVED_REMEDIATION'')
     | Remedied \<Rightarrow> remediation_loop facts rest True
     | NotRemedied \<Rightarrow> remediation_loop facts rest remedied)"

text \<open>The guards all fact handlers share, then the handler.\<close>

definition with_pair :: "(string, pyval) dict \<Rightarrow> (pyval \<Rightarrow> pyval \<Rightarrow> (rule_outcome \<times> string) py) \<Rightarrow> (rule_outcome \<times> string) py" where
  "with_pair facts k =
     rbind (getitem (VDict facts) ''disputed'') (\<lambda>first.
     rbind (getitem (VDict facts) ''candidate'') (\<lambda>second.
       if \<not> truthy first \<or> \<not> truthy second then Inr (Indeterminate, ''MISSING_AUTHORITATIVE_FACTS'')
       else rbind (rand (texts_ok first transaction_keys) (texts_ok second transaction_keys)) (\<lambda>ok.
         if \<not> ok then Inr (Indeterminate, ''INVALID_AUTHORITATIVE_FACTS'')
         else rbind (item_eq first ''transaction_ref'' second ''transaction_ref'') (\<lambda>same.
           if same then Inr (Indeterminate, ''NO_DISTINCT_TRANSACTION_PAIR'') else k first second))))"

definition evaluate_rule ::
  "rule_definition \<Rightarrow> (string, pyval) dict \<Rightarrow> evidence_assessment \<Rightarrow> string list \<Rightarrow> (rule_outcome \<times> string) py" where
  "evaluate_rule rule facts evidence policy_refs = (case rd_handler rule of
     HEvidence \<Rightarrow> Inr (if mandatory_complete evidence then (Passed, ''MANDATORY_EVIDENCE_COMPLETE'')
        else (Indeterminate, ''MANDATORY_EVIDENCE_INCOMPLETE''))
   | HPolicy \<Rightarrow> Inr (if set (rd_policy_refs rule) \<subseteq> set policy_refs then (Passed, ''CITED_POLICY_ADMITTED'')
        else (Indeterminate, ''POLICY_PROFILE_MISMATCH''))
   | HEligibility \<Rightarrow> with_pair facts (\<lambda>first second. rmap
        (\<lambda>b. result_of b ''ELIGIBLE_CARD_PAIR'' ''INELIGIBLE_CARD_PAIR'') (eligibility_test facts first second))
   | HTimeline \<Rightarrow> with_pair facts (\<lambda>first second. rmap
        (\<lambda>b. result_of b ''WITHIN_FILING_WINDOW'' ''OUTSIDE_FILING_WINDOW'') (timeline_test rule facts first))
   | HDuplicate \<Rightarrow> with_pair facts (\<lambda>first second. rmap
        (\<lambda>b. result_of b ''DUPLICATE_PAIR_MATCH'' ''DUPLICATE_PAIR_NONMATCH'') (duplicate_test rule first second))
   | HRemediation \<Rightarrow> with_pair facts (\<lambda>first second.
        remediation_loop facts [(''disputed'', first), (''candidate'', second)] False))"

section \<open>Execution\<close>

definition caught :: "pyexc \<Rightarrow> rule_outcome \<times> string" where
  "caught e = (case e of
     KeyErr \<Rightarrow> (Indeterminate, ''MISSING_AUTHORITATIVE_FACTS'')
   | ValueErr \<Rightarrow> (Indeterminate, ''INVALID_AUTHORITATIVE_FACTS'')
   | TypeErr \<Rightarrow> (Indeterminate, ''INVALID_AUTHORITATIVE_FACTS'')
   | ArithErr \<Rightarrow> (Indeterminate, ''INVALID_AUTHORITATIVE_FACTS'')
   | _ \<Rightarrow> (RuleError, ''RULE_EXECUTION_ERROR''))"

definition rule_effective :: "rule_definition \<Rightarrow> int \<Rightarrow> bool" where
  "rule_effective rule t \<longleftrightarrow> rd_effective_from rule \<le> t \<and> (\<forall>e \<in> set_option (rd_effective_to rule). t \<le> e)"

definition rule_applies :: "rule_definition \<Rightarrow> (string, pyval) dict \<Rightarrow> bool" where
  "rule_applies rule facts \<longleftrightarrow> py_eq (VStr (rd_dispute_type rule)) (dict_get facts ''dispute_type'' VNone)"

definition rule_outcome_of ::
  "rule_definition \<Rightarrow> (string, pyval) dict \<Rightarrow> evidence_assessment \<Rightarrow> string list \<Rightarrow> int \<Rightarrow> rule_outcome \<times> string" where
  "rule_outcome_of rule facts evidence policy_refs t =
     (if \<not> rule_effective rule t then (RuleError, ''RULE_VERSION_NOT_EFFECTIVE'')
      else if \<not> rule_applies rule facts then (NotApplicable, ''RULE_NOT_APPLICABLE'')
      else case evaluate_rule rule facts evidence policy_refs of Inl e \<Rightarrow> caught e | Inr r \<Rightarrow> r)"

text \<open>Iterating \<open>facts.get("references", [])\<close>.\<close>

definition iterate :: "pyval \<Rightarrow> pyval list py" where
  "iterate v = (case v of VList xs \<Rightarrow> Inr xs | VStr s \<Rightarrow> Inr (map (\<lambda>c. VStr [c]) s)
     | VDict d \<Rightarrow> Inr (map (VStr \<circ> fst) d) | _ \<Rightarrow> Inl TypeErr)"

definition sorted_refs :: "(string, pyval) dict \<Rightarrow> string list py" where
  "sorted_refs facts = rmap (\<lambda>xs. sort (map py_str xs)) (iterate (dict_get facts ''references'' (VList [])))"

definition run_rule ::
  "string \<Rightarrow> (string, pyval) dict \<Rightarrow> evidence_assessment \<Rightarrow> string list \<Rightarrow> int \<Rightarrow> rule_definition \<Rightarrow> rule_result py" where
  "run_rule version facts evidence policy_refs t rule =
     (let (out, reason) = rule_outcome_of rule facts evidence policy_refs t in
      rmap (\<lambda>refs. \<lparr>rr_rule_id = rd_rule_id rule, rr_version = rd_version rule, outcome = out,
         reason_code = reason, rr_mandatory = rd_mandatory rule, fact_refs = refs,
         rr_policy_refs = rd_policy_refs rule, config_ref = version\<rparr>) (sorted_refs facts))"

definition is_blocked :: "evidence_assessment \<Rightarrow> rule_result list \<Rightarrow> bool" where
  "is_blocked evidence rs \<longleftrightarrow> conflicting evidence \<noteq> [] \<or>
     list_ex (\<lambda>r. rr_mandatory r \<and> outcome r \<in> {Indeterminate, RuleError}) rs \<or>
     \<not> list_ex (\<lambda>r. outcome r \<noteq> NotApplicable) rs"

definition candidate_of :: "bool \<Rightarrow> rule_result list \<Rightarrow> disposition" where
  "candidate_of blk rs =
     (if blk then ReviewRequired
      else if list_ex (\<lambda>r. reason_code r = ''ALREADY_REMEDIATED'') rs then AlreadyRemediated
      else if list_ex (\<lambda>r. outcome r = Failed) rs then DuplicateNotSupported
      else DuplicateSupported)"

definition execution_input ::
  "(string, pyval) dict \<Rightarrow> evidence_assessment \<Rightarrow> string list \<Rightarrow> int \<Rightarrow> pyval" where
  "execution_input facts evidence policy_refs t = VDict [(''facts'', VDict facts),
     (''evidence'', dump_assessment False evidence), (''policy_refs'', VStrs policy_refs),
     (''as_of'', VTime (Aware t))]"

definition execute ::
  "(string \<Rightarrow> string) \<Rightarrow> rule_set \<Rightarrow> (string, pyval) dict \<Rightarrow> evidence_assessment \<Rightarrow> string list \<Rightarrow> pytime
    \<Rightarrow> rule_execution py" where
  "execute sha ruleset facts evidence policy_refs as_of =
     rbind (utc as_of) (\<lambda>t.
     rbind (rtraverse (run_rule (rs_version ruleset) facts evidence policy_refs t)
              (sort_key rd_order (rs_rules ruleset))) (\<lambda>rs.
     rbind (digest sha (execution_input facts evidence policy_refs t)) (\<lambda>h.
       let blk = is_blocked evidence rs in
       Inr \<lparr>ruleset_version = rs_version ruleset, facts_hash = h, results = rs,
            candidate = candidate_of blk rs, blocked = blk\<rparr>)))"

section \<open>Inversion of an execution\<close>

lemma execute_Inr:
  assumes "execute sha rs facts ev prefs as_of = Inr x"
  obtains t where "as_of = Aware t" and "utc as_of = Inr t"
    and "rtraverse (run_rule (rs_version rs) facts ev prefs t) (sort_key rd_order (rs_rules rs)) = Inr (results x)"
    and "blocked x = is_blocked ev (results x)" and "candidate x = candidate_of (blocked x) (results x)"
proof -
  obtain t where t: "utc as_of = Inr t" using assms by (auto simp: execute_def result_simps)
  then have "as_of = Aware t" by (cases as_of) (auto split: if_splits)
  with t assms show thesis by (intro that [of t]) (auto simp: execute_def result_simps Let_def)
qed

text \<open>The result recorded for a rule.\<close>

lemma run_rule_Inr: "run_rule v facts ev prefs t rule = Inr r \<Longrightarrow>
    (outcome r, reason_code r) = rule_outcome_of rule facts ev prefs t \<and>
    rr_mandatory r = rd_mandatory rule \<and> rr_rule_id r = rd_rule_id rule \<and> rr_version r = rd_version rule \<and>
    rr_policy_refs r = rd_policy_refs rule"
  by (auto simp: run_rule_def result_simps split: prod.splits)

lemma result_of_rule:
  assumes "rtraverse (run_rule v facts ev prefs t) (sort_key rd_order rules) = Inr rs" and "rule \<in> set rules"
  obtains r where "r \<in> set rs" and "(outcome r, reason_code r) = rule_outcome_of rule facts ev prefs t"
    and "rr_mandatory r = rd_mandatory rule"
proof -
  have "rule \<in> set (sort_key rd_order rules)" using assms(2) by simp
  from rtraverse_mem [OF assms(1) this] obtain r
    where "r \<in> set rs" "run_rule v facts ev prefs t rule = Inr r" by blast
  with run_rule_Inr show thesis by (intro that [of r]) (blast+)
qed

text \<open>Handlers never answer \<open>NOT_APPLICABLE\<close>; only the scope test does.\<close>

definition handler_outcome :: "rule_outcome \<Rightarrow> bool" where
  "handler_outcome out \<longleftrightarrow> out \<in> {Passed, Failed, Indeterminate}"

lemma handler_outcomes [simp]: "handler_outcome Passed" "handler_outcome Failed"
  "handler_outcome Indeterminate" "\<not> handler_outcome NotApplicable" "\<not> handler_outcome RuleError"
  "handler_outcome (fst (result_of b p f))"
  by (simp_all add: handler_outcome_def result_of_def)

lemma remediation_loop_outcome: "remediation_loop facts ts d = Inr r \<Longrightarrow> handler_outcome (fst r)"
  by (induction facts ts d rule: remediation_loop.induct) (auto simp: result_simps split: remedy.splits, metis remedy.exhaust)

lemma with_pair_outcome:
  "with_pair facts k = Inr r \<Longrightarrow> (\<And>a b s. k a b = Inr s \<Longrightarrow> handler_outcome (fst s)) \<Longrightarrow>
    handler_outcome (fst r)"
  by (cases r) (auto simp: with_pair_def result_simps split: if_splits)

lemma rmap_result_outcome: "rmap (\<lambda>b. result_of b p f) m = Inr r \<Longrightarrow> handler_outcome (fst r)"
  by (auto simp: rmap_eq_Inr)

lemma evaluate_rule_outcome: "evaluate_rule rule facts ev prefs = Inr r \<Longrightarrow> handler_outcome (fst r)"
  by (cases "rd_handler rule")
    (auto simp: evaluate_rule_def simp del: remediation_loop.simps
      intro: remediation_loop_outcome rmap_result_outcome with_pair_outcome split: if_splits)

lemma rule_outcome_applies:
  "rule_applies rule facts \<Longrightarrow> fst (rule_outcome_of rule facts ev prefs t) \<noteq> NotApplicable"
  using evaluate_rule_outcome [of rule facts ev prefs]
  by (auto simp: rule_outcome_of_def caught_def split: sum.splits pyexc.splits)

text \<open>A mandatory rule that could not be decided blocks; so an unblocked execution has decided it.\<close>

lemma unblocked_decided:
  assumes "execute sha rs facts ev prefs as_of = Inr x" and "\<not> blocked x"
    and "rule \<in> set (rs_rules rs)" and "rd_mandatory rule" and "as_of = Aware t"
  shows "fst (rule_outcome_of rule facts ev prefs t) \<in> {Passed, Failed, NotApplicable}"
proof -
  from assms(1) obtain u where u: "as_of = Aware u"
    "rtraverse (run_rule (rs_version rs) facts ev prefs u) (sort_key rd_order (rs_rules rs)) = Inr (results x)"
    "blocked x = is_blocked ev (results x)" by (elim execute_Inr)
  with assms(5) have "u = t" by simp
  with u obtain r where r: "r \<in> set (results x)" "(outcome r, reason_code r) = rule_outcome_of rule facts ev prefs t"
    "rr_mandatory r = rd_mandatory rule" using result_of_rule [OF _ assms(3)] by metis
  from r(1,3) assms(2,4) u(3) have "outcome r \<notin> {Indeterminate, RuleError}"
    by (auto simp: is_blocked_def list_ex_iff)
  moreover have "fst (rule_outcome_of rule facts ev prefs t) = outcome r" using r(2) by (metis fst_conv)
  ultimately show ?thesis by (cases "outcome r") auto
qed

lemma supported_passed:
  assumes "execute sha rs facts ev prefs as_of = Inr x" and "candidate x = DuplicateSupported"
    and "rule \<in> set (rs_rules rs)" and "rd_mandatory rule" and "as_of = Aware t" and "rule_applies rule facts"
  shows "fst (rule_outcome_of rule facts ev prefs t) = Passed"
proof -
  from assms(1) obtain u where u: "as_of = Aware u"
    "rtraverse (run_rule (rs_version rs) facts ev prefs u) (sort_key rd_order (rs_rules rs)) = Inr (results x)"
    "candidate x = candidate_of (blocked x) (results x)" by (elim execute_Inr)
  have nb: "\<not> blocked x" using u(3) assms(2) by (auto simp: candidate_of_def split: if_splits)
  obtain r where r: "r \<in> set (results x)" "(outcome r, reason_code r) = rule_outcome_of rule facts ev prefs t"
    using result_of_rule [OF _ assms(3)] u(1,2) assms(5) by (metis pytime.inject(1))
  have "outcome r \<noteq> Failed" using u(3) assms(2) r(1) by (auto simp: candidate_of_def list_ex_iff split: if_splits)
  moreover have "fst (rule_outcome_of rule facts ev prefs t) = outcome r" using r(2) by (metis fst_conv)
  moreover have "fst (rule_outcome_of rule facts ev prefs t) \<noteq> NotApplicable"
    using rule_outcome_applies [OF assms(6)] by blast
  ultimately show ?thesis using unblocked_decided [OF assms(1) nb assms(3,4,5)] by auto
qed

section \<open>What the fact handlers decide\<close>

lemma texts_ok_True: "texts_ok t ks = Inr True \<longleftrightarrow> (\<forall>k \<in> set ks. \<exists>s. getitem t k = Inr (VStr s) \<and> strip s \<noteq> [])"
  by (induction ks) (auto simp: result_simps split: pyval.split_asm if_splits)

lemma dval_seconds_dec: "dval (seconds_dec us) = of_int us / 10 ^ 6"
  by (simp add: seconds_dec_def signed_def power_int_def field_simps)

lemma getitem_VDict: "getitem (VDict d) k = Inr v \<longleftrightarrow> map_of d k = Some v"
  by (simp split: option.splits)

text \<open>Both records carry the same text under a key.\<close>

definition same_text :: "pyval \<Rightarrow> pyval \<Rightarrow> string \<Rightarrow> bool" where
  "same_text a b k \<longleftrightarrow> (\<exists>s. getitem a k = Inr (VStr s) \<and> getitem b k = Inr (VStr s))"

lemma item_eq_texts: "getitem a k = Inr (VStr s) \<Longrightarrow> item_eq a k b k = Inr True \<longleftrightarrow> same_text a b k"
  by (auto simp: item_eq_def same_text_def result_simps)

text \<open>A usable pair: two complete records of different transactions.\<close>

definition distinct_pair :: "(string, pyval) dict \<Rightarrow> pyval \<Rightarrow> pyval \<Rightarrow> bool" where
  "distinct_pair facts a b \<longleftrightarrow> map_of facts ''disputed'' = Some a \<and> map_of facts ''candidate'' = Some b \<and>
     truthy a \<and> truthy b \<and>
     (\<forall>k \<in> set transaction_keys. (\<exists>s. getitem a k = Inr (VStr s) \<and> strip s \<noteq> []) \<and>
        (\<exists>s. getitem b k = Inr (VStr s) \<and> strip s \<noteq> [])) \<and>
     \<not> same_text a b ''transaction_ref''"

lemma with_pair_Passed:
  assumes "with_pair facts k = Inr (Passed, reason)"
  obtains a b where "distinct_pair facts a b" and "k a b = Inr (Passed, reason)"
proof -
  from assms obtain a b where ab: "map_of facts ''disputed'' = Some a" "map_of facts ''candidate'' = Some b"
    "truthy a" "truthy b" "texts_ok a transaction_keys = Inr True" "texts_ok b transaction_keys = Inr True"
    "item_eq a ''transaction_ref'' b ''transaction_ref'' = Inr False" "k a b = Inr (Passed, reason)"
    by (auto simp: with_pair_def rbind_eq_Inr getitem_VDict rand_eq_True simp del: getitem.simps split: if_splits)
  have "\<not> same_text a b ''transaction_ref''"
  proof
    assume same: "same_text a b ''transaction_ref''"
    then obtain s where "getitem a ''transaction_ref'' = Inr (VStr s)" by (auto simp: same_text_def)
    from item_eq_texts [OF this, of b] same ab(7) show False by simp
  qed
  with ab show thesis by (intro that [of a b]) (auto simp: distinct_pair_def texts_ok_True)
qed

definition amount_of :: "pyval \<Rightarrow> dec \<Rightarrow> bool" where
  "amount_of a x \<longleftrightarrow> (\<exists>v. getitem a ''amount'' = Inr v \<and> money v = Inr x)"

definition authorized :: "pyval \<Rightarrow> int \<Rightarrow> bool" where
  "authorized a i \<longleftrightarrow> (\<exists>v. getitem a ''authorized_at'' = Inr v \<and> instant v = Inr i)"

lemma money_nonneg: "money v = Inr x \<Longrightarrow> 0 \<le> dval x"
proof -
  assume "money v = Inr x"
  then obtain d where "(case d of Finite x \<Rightarrow> if dec_lt x (Dec False 0 0) then Inl ValueErr else Inr x
      | _ \<Rightarrow> Inl ValueErr) = Inr x" by (auto simp: money_def rbind_eq_Inr)
  then show ?thesis by (cases d) (auto simp: dec_lt_iff signed_def split: if_splits)
qed

lemma duplicate_test_True:
  assumes "duplicate_test rule a b = Inr True" and "distinct_pair facts a b"
  shows "\<exists>x y i j w. (\<forall>k \<in> {''account_ref'', ''merchant_ref'', ''currency''}. same_text a b k) \<and>
    amount_of a x \<and> amount_of b y \<and> dval x = dval y \<and> authorized a i \<and> authorized b j \<and>
    parameter rule ''window_seconds'' = Inr w \<and> dec_le_py (seconds_dec \<bar>i - j\<bar>) w = Inr True"
proof -
  have texts: "\<exists>s. getitem a k = Inr (VStr s)" if "k \<in> set transaction_keys" for k
    using that assms(2) unfolding distinct_pair_def by blast
  from assms(1) obtain i j x y w where
    eqs: "item_eq a ''account_ref'' b ''account_ref'' = Inr True" "item_eq a ''merchant_ref'' b ''merchant_ref'' = Inr True"
      "item_eq a ''currency'' b ''currency'' = Inr True"
    and rest: "authorized a i" "authorized b j" "amount_of a x" "amount_of b y" "dec_eq x y"
      "parameter rule ''window_seconds'' = Inr w" "dec_le_py (seconds_dec \<bar>i - j\<bar>) w = Inr True"
    by (auto simp: duplicate_test_def authorized_def amount_of_def rbind_eq_Inr rand_eq_True
        simp del: getitem.simps split: if_splits)
  have "same_text a b k" if k: "k \<in> {''account_ref'', ''merchant_ref'', ''currency''}" for k
  proof -
    obtain s where "getitem a k = Inr (VStr s)" using k texts [of k] by (auto simp: transaction_keys_def)
    moreover have "item_eq a k b k = Inr True" using k eqs by blast
    ultimately show ?thesis using item_eq_texts by blast
  qed
  then have "\<forall>k \<in> {''account_ref'', ''merchant_ref'', ''currency''}. same_text a b k" by blast
  moreover have "dval x = dval y" using rest(5) by (simp add: dec_eq_iff)
  ultimately show ?thesis using rest by blast
qed

lemma outcome_Passed:
  assumes "fst (rule_outcome_of rule facts ev prefs t) = Passed" and "rule_applies rule facts"
  obtains reason where "rule_effective rule t" and "evaluate_rule rule facts ev prefs = Inr (Passed, reason)"
proof -
  from assms have eff: "rule_effective rule t" by (auto simp: rule_outcome_of_def split: if_splits)
  have "fst (caught e) \<noteq> Passed" for e by (simp add: caught_def split: pyexc.split)
  with assms eff obtain r where "evaluate_rule rule facts ev prefs = Inr r" "fst r = Passed"
    by (auto simp: rule_outcome_of_def split: sum.splits)
  with eff show thesis by (cases r) (auto intro: that)
qed

lemma result_of_Passed [simp]: "result_of b p f = (Passed, reason) \<longleftrightarrow> b \<and> reason = p"
  "(Passed, reason) = result_of b p f \<longleftrightarrow> b \<and> reason = p"
  by (auto simp: result_of_def)

text \<open>A passing fact handler: the pair it was decided on, and the test it passed.\<close>

lemma fact_handler_Passed:
  assumes "fst (rule_outcome_of rule facts ev prefs t) = Passed" and "rule_applies rule facts"
  shows "rd_handler rule = HDuplicate \<Longrightarrow> \<exists>a b. distinct_pair facts a b \<and> duplicate_test rule a b = Inr True"
    and "rd_handler rule = HTimeline \<Longrightarrow> \<exists>a b. distinct_pair facts a b \<and> timeline_test rule facts a = Inr True"
    and "rd_handler rule = HEligibility \<Longrightarrow> \<exists>a b. distinct_pair facts a b \<and> eligibility_test facts a b = Inr True"
    and "rd_handler rule = HRemediation \<Longrightarrow> \<exists>a b reason. distinct_pair facts a b \<and>
      remediation_loop facts [(''disputed'', a), (''candidate'', b)] False = Inr (Passed, reason)"
    and "rd_handler rule = HEvidence \<Longrightarrow> mandatory_complete ev"
    and "rd_handler rule = HPolicy \<Longrightarrow> set (rd_policy_refs rule) \<subseteq> set prefs"
proof -
  obtain reason where r: "evaluate_rule rule facts ev prefs = Inr (Passed, reason)"
    using outcome_Passed [OF assms] by blast
  show "rd_handler rule = HDuplicate \<Longrightarrow> \<exists>a b. distinct_pair facts a b \<and> duplicate_test rule a b = Inr True"
    "rd_handler rule = HTimeline \<Longrightarrow> \<exists>a b. distinct_pair facts a b \<and> timeline_test rule facts a = Inr True"
    "rd_handler rule = HEligibility \<Longrightarrow> \<exists>a b. distinct_pair facts a b \<and> eligibility_test facts a b = Inr True"
    "rd_handler rule = HRemediation \<Longrightarrow> \<exists>a b reason. distinct_pair facts a b \<and>
      remediation_loop facts [(''disputed'', a), (''candidate'', b)] False = Inr (Passed, reason)"
    using r by (auto simp: evaluate_rule_def rmap_eq_Inr simp del: remediation_loop.simps elim!: with_pair_Passed) blast+
  show "rd_handler rule = HEvidence \<Longrightarrow> mandatory_complete ev"
    "rd_handler rule = HPolicy \<Longrightarrow> set (rd_policy_refs rule) \<subseteq> set prefs"
    using r by (auto simp: evaluate_rule_def split: if_splits)
qed

lemma distinct_pair_unique: "distinct_pair facts a b \<Longrightarrow> distinct_pair facts a' b' \<Longrightarrow> a' = a \<and> b' = b"
  by (simp add: distinct_pair_def)

section \<open>Remediation\<close>

text \<open>A transaction with no remedy: settled, not refunded, and the refund record is for it and for nothing.\<close>

definition unremedied :: "(string, pyval) dict \<Rightarrow> string \<Rightarrow> pyval \<Rightarrow> bool" where
  "unremedied facts name txn \<longleftrightarrow> (\<exists>st rf x.
     map_of facts (name @ ''_settlement'') = Some st \<and> map_of facts (name @ ''_refund'') = Some rf \<and>
     getitem st ''status'' = Inr (VStr ''settled'') \<and> getitem rf ''status'' = Inr (VStr ''not_refunded'') \<and>
     item_eq st ''transaction_ref'' txn ''transaction_ref'' = Inr True \<and>
     item_eq rf ''transaction_ref'' txn ''transaction_ref'' = Inr True \<and>
     item_eq rf ''currency'' txn ''currency'' = Inr True \<and>
     amount_of rf x \<and> dval x = 0)"

lemma rnot_eq [result_simps]: "rnot m = Inr b \<longleftrightarrow> m = Inr (\<not> b)"
  by (cases m) (auto simp: rnot_def)

lemma ror_eq_False [result_simps]: "ror m n = Inr False \<longleftrightarrow> m = Inr False \<and> n = Inr False"
  by (cases m) (auto simp: ror_def)

lemma item_is_True: "item_is a k s = Inr True \<longleftrightarrow> (\<exists>v. getitem a k = Inr v \<and> py_eq v (VStr s))"
  by (auto simp: item_is_def rmap_eq_Inr)

lemma py_eq_VStr: "py_eq v (VStr s) \<longleftrightarrow> v = VStr s"
  by (cases v) (auto split: pydec.splits)

lemma remedy_NotRemedied: "remedy_of facts name txn = Inr NotRemedied \<Longrightarrow> unremedied facts name txn"
  unfolding remedy_of_def unremedied_def amount_of_def
  by (auto simp: rbind_eq_Inr getitem_VDict ror_eq_False rnot_eq item_is_True py_eq_VStr dec_eq_iff signed_def
      simp del: getitem.simps split: if_splits)

lemma remediation_Passed: "remediation_loop facts ts d = Inr (Passed, reason) \<Longrightarrow>
    \<not> d \<and> (\<forall>(name, txn) \<in> set ts. unremedied facts name txn)"
proof (induction facts ts d rule: remediation_loop.induct)
  case (1 facts remedied)
  then show ?case by (simp split: if_splits)
next
  case (2 facts name txn rest remedied)
  from 2(3) obtain r where r: "remedy_of facts name txn = Inr r" by (auto simp: rbind_eq_Inr)
  then show ?case using 2 by (cases r) (auto simp: remedy_NotRemedied)
qed

end
