(* ===== verification/PilotRules.thy ===== *)
theory PilotRules
  imports Rules
begin

text \<open>
  The pilot profile of \<open>app/fixtures/controls-v1.json\<close> run on the synthetic bank's duplicate pair: the
  concrete execution the witnesses of the rule properties use.
\<close>

section \<open>The pilot rule set on the pilot facts\<close>

definition pilot_rule :: "string \<Rightarrow> rule_handler \<Rightarrow> int \<Rightarrow> (string \<times> pydec) list \<Rightarrow> rule_definition" where
  "pilot_rule rid h n params = \<lparr>rd_rule_id = rid, rd_version = ''1'', rd_handler = h, rd_order = n,
     rd_mandatory = True, rd_dispute_type = ''duplicate_card_transaction'',
     rd_effective_from = 63902822400000000, rd_effective_to = None, rd_parameters = params,
     rd_policy_refs = [''POL-DUP-CARD-CONTROLS:2026.09'']\<rparr>"

definition pilot_rule_set :: rule_set where
  "pilot_rule_set = \<lparr>rs_version = ''duplicate-card-rules-v1'', rs_rules = [
     pilot_rule ''DUP-1'' HEligibility 0 [],
     pilot_rule ''DUP-2'' HTimeline 1 [(''filing_days'', Finite (Dec False 120 0))],
     pilot_rule ''DUP-3'' HEvidence 2 [], pilot_rule ''DUP-4'' HPolicy 3 [],
     pilot_rule ''DUP-5'' HDuplicate 4 [(''window_seconds'', Finite (Dec False 300 0))],
     pilot_rule ''DUP-6'' HRemediation 5 []], disposition_version = ''duplicate-disposition-v1''\<rparr>"

definition pilot_now :: int where "pilot_now = 63924000000000000"

definition pilot_assessment :: evidence_assessment where
  "pilot_assessment = \<lparr>ea_contract_version = ''duplicate-card-evidence-v1'', snapshot_hash = ''h'', required = [],
     available = [], missing = [], stale = [], invalid = [], conflicting = [], satisfaction = [],
     ea_reasons = [], ea_score = Dec False 1000000 (- 6), mandatory_complete = True\<rparr>"

abbreviation pilot_input :: "(string, pyval) dict" where
  "pilot_input \<equiv> pilot_facts (VList []) (VList [])"

abbreviation pilot_policy :: "string list" where
  "pilot_policy \<equiv> [''POL-DUP-CARD-CONTROLS:2026.09'']"

lemma pilot_rule_fields [simp]:
  "rd_handler (pilot_rule rid h n ps) = h" "rd_mandatory (pilot_rule rid h n ps)" "rd_order (pilot_rule rid h n ps) = n"
  "rd_parameters (pilot_rule rid h n ps) = ps" "rule_effective (pilot_rule rid h n ps) pilot_now"
  "rule_applies (pilot_rule rid h n ps) (pilot_facts refs recs)"
  "rd_policy_refs (pilot_rule rid h n ps) = pilot_policy"
  by (simp_all add: pilot_rule_def rule_effective_def pilot_now_def rule_applies_def pilot_facts_def dict_get_def)

lemma pilot_named_rows:
  "map_of (pilot_facts refs recs) ''disputed'' = Some (VDict (row TRANSACTIONS ''txn_3001''))"
  "map_of (pilot_facts refs recs) ''candidate'' = Some (VDict (row TRANSACTIONS ''txn_3002''))"
  "map_of (pilot_facts refs recs) ''account'' = Some (VDict (row ACCOUNTS ''acct_2001''))"
  "map_of (pilot_facts refs recs) ''disputed_settlement'' = Some (VDict (row SETTLEMENTS ''stl_5001''))"
  "map_of (pilot_facts refs recs) ''candidate_settlement'' = Some (VDict (row SETTLEMENTS ''stl_5002''))"
  "map_of (pilot_facts refs recs) ''disputed_refund'' = Some (VDict (row REFUNDS ''rfd_6001''))"
  "map_of (pilot_facts refs recs) ''candidate_refund'' = Some (VDict (row REFUNDS ''rfd_6002''))"
  "map_of (pilot_facts refs recs) ''customer_ref'' = Some (VStr ''cust_1001'')"
  "map_of (pilot_facts refs recs) ''submitted_at'' = Some (VStr ''2026-09-01T00:00:00+00:00'')"
  by (simp_all add: pilot_facts_def pilot_named_def)

lemma pilot_transaction_rows:
  "map_of (row TRANSACTIONS ''txn_3001'') ''transaction_ref'' = Some (VStr ''txn_3001'')"
  "map_of (row TRANSACTIONS ''txn_3002'') ''transaction_ref'' = Some (VStr ''txn_3002'')"
  "ref \<in> {''txn_3001'', ''txn_3002''} \<Longrightarrow> map_of (row TRANSACTIONS ref) ''account_ref'' = Some (VStr ''acct_2001'') \<and>
     map_of (row TRANSACTIONS ref) ''merchant_ref'' = Some (VStr ''mrc_4001'') \<and>
     map_of (row TRANSACTIONS ref) ''currency'' = Some (VStr ''USD'') \<and>
     map_of (row TRANSACTIONS ref) ''amount'' = Some (VStr ''49.99'') \<and> row TRANSACTIONS ref \<noteq> []"
  "map_of (row TRANSACTIONS ''txn_3001'') ''authorized_at'' = Some (VStr ''2026-08-28T10:15:00Z'')"
  "map_of (row TRANSACTIONS ''txn_3002'') ''authorized_at'' = Some (VStr ''2026-08-28T10:17:00Z'')"
  by (auto simp: row_def dict_get_def TRANSACTIONS_def)

lemma pilot_other_rows:
  "map_of (row ACCOUNTS ''acct_2001'') ''customer_ref'' = Some (VStr ''cust_1001'')"
  "map_of (row ACCOUNTS ''acct_2001'') ''account_ref'' = Some (VStr ''acct_2001'')"
  "map_of (row ACCOUNTS ''acct_2001'') ''status'' = Some (VStr ''active'')"
  "map_of (row ACCOUNTS ''acct_2001'') ''product'' = Some (VStr ''card'')"
  "map_of (row SETTLEMENTS ''stl_5001'') ''transaction_ref'' = Some (VStr ''txn_3001'')"
  "map_of (row SETTLEMENTS ''stl_5002'') ''transaction_ref'' = Some (VStr ''txn_3002'')"
  "ref \<in> {''stl_5001'', ''stl_5002''} \<Longrightarrow> map_of (row SETTLEMENTS ref) ''status'' = Some (VStr ''settled'')"
  "map_of (row REFUNDS ''rfd_6001'') ''transaction_ref'' = Some (VStr ''txn_3001'')"
  "map_of (row REFUNDS ''rfd_6002'') ''transaction_ref'' = Some (VStr ''txn_3002'')"
  "ref \<in> {''rfd_6001'', ''rfd_6002''} \<Longrightarrow> map_of (row REFUNDS ref) ''status'' = Some (VStr ''not_refunded'') \<and>
     map_of (row REFUNDS ref) ''amount'' = Some (VStr ''0.00'') \<and> map_of (row REFUNDS ref) ''currency'' = Some (VStr ''USD'')"
  by (auto simp: row_def dict_get_def synth_tables)

lemmas pilot_data = pilot_named_rows pilot_transaction_rows pilot_other_rows

lemma instant_text: "replace_char CHR ''Z'' ''+00:00'' s = s' \<Longrightarrow> fromisoformat s' = Inr (Aware t) \<Longrightarrow>
    0 \<le> t \<Longrightarrow> t \<le> 315537897599999999 \<Longrightarrow> instant (VStr s) = Inr t"
  by (simp add: instant_def py_str_def max_instant_value)

lemma pilot_times:
  "fromisoformat ''2026-08-28T10:15:00+00:00'' = Inr (Aware 63923508900000000)"
  "fromisoformat ''2026-08-28T10:17:00+00:00'' = Inr (Aware 63923509020000000)"
  "fromisoformat ''2026-09-01T00:00:00+00:00'' = Inr (Aware 63923817600000000)"
  by (simp_all add: date_eval)

lemma pilot_instants:
  "instant (VStr ''2026-08-28T10:15:00Z'') = Inr 63923508900000000"
  "instant (VStr ''2026-08-28T10:17:00Z'') = Inr 63923509020000000"
  "instant (VStr ''2026-09-01T00:00:00+00:00'') = Inr 63923817600000000"
  by (rule instant_text [OF _ pilot_times(1)], simp_all) (rule instant_text [OF _ pilot_times(2)], simp_all,
    rule instant_text [OF _ pilot_times(3)], simp_all)

lemma pilot_money: "money (VStr ''49.99'') = Inr (Dec False 4999 (- 2))" "money (VStr ''0.00'') = Inr (Dec False 0 (- 2))"
proof -
  have "dec_of_string ''49.99'' = Inr (Finite (Dec False 4999 (- 2)))" "dec_of_string ''0.00'' = Inr (Finite (Dec False 0 (- 2)))"
    by (simp_all add: dec_of_string_def strip_def is_space_def lower_def lower_char_def is_nan_text_def
      read_unsigned_def is_digit_def Let_def of_char_def read_nat_def digit_val_def)
  then show "money (VStr ''49.99'') = Inr (Dec False 4999 (- 2))" "money (VStr ''0.00'') = Inr (Dec False 0 (- 2))"
    by (simp_all add: money_def py_str_def dec_lt_iff signed_def)
qed

lemma pilot_texts: "ref \<in> {''txn_3001'', ''txn_3002''} \<Longrightarrow> texts_ok (VDict (row TRANSACTIONS ref)) transaction_keys = Inr True"
  by (auto simp: transaction_keys_def pilot_transaction_rows strip_def is_space_def)

lemma pilot_pair: "with_pair (pilot_facts refs recs) k =
    k (VDict (row TRANSACTIONS ''txn_3001'')) (VDict (row TRANSACTIONS ''txn_3002''))"
  by (simp add: with_pair_def pilot_data pilot_texts item_eq_def)

lemma pilot_outcomes:
  "rd_handler r = HEligibility \<Longrightarrow> evaluate_rule r (pilot_facts refs recs) ev prefs = Inr (Passed, ''ELIGIBLE_CARD_PAIR'')"
  "rd_handler r = HTimeline \<Longrightarrow> rd_parameters r = [(''filing_days'', Finite (Dec False 120 0))] \<Longrightarrow>
     evaluate_rule r (pilot_facts refs recs) ev prefs = Inr (Passed, ''WITHIN_FILING_WINDOW'')"
  "rd_handler r = HDuplicate \<Longrightarrow> rd_parameters r = [(''window_seconds'', Finite (Dec False 300 0))] \<Longrightarrow>
     evaluate_rule r (pilot_facts refs recs) ev prefs = Inr (Passed, ''DUPLICATE_PAIR_MATCH'')"
  "rd_handler r = HRemediation \<Longrightarrow> evaluate_rule r (pilot_facts refs recs) ev prefs = Inr (Passed, ''NO_EXISTING_REMEDIATION'')"
     apply (simp add: evaluate_rule_def pilot_pair eligibility_test_def item_eq_def item_is_def rnot_def pilot_data result_of_def)
    apply (simp add: evaluate_rule_def pilot_pair timeline_test_def pilot_data result_of_def pilot_instants parameter_def
      pydec_scale_def dec_le_py_def dec_le_iff seconds_dec_def dec_of_int_def signed_def ndigits_le_iff prec_def Let_def)
   apply (simp add: evaluate_rule_def pilot_pair duplicate_test_def item_eq_def rnot_def pilot_data result_of_def pilot_instants
      parameter_def pilot_money dec_le_py_def dec_le_iff dec_eq_iff seconds_dec_def signed_def)
  apply (simp add: evaluate_rule_def pilot_pair remedy_of_def item_eq_def item_is_def rnot_def pilot_data pilot_money
      dec_eq_iff signed_def)
  done

lemma pilot_run: "r \<in> set (rs_rules pilot_rule_set) \<Longrightarrow>
    \<exists>reason. rule_outcome_of r (pilot_facts refs recs) pilot_assessment pilot_policy pilot_now = (Passed, reason) \<and>
      reason \<noteq> ''ALREADY_REMEDIATED''"
  by (auto simp: pilot_rule_set_def rule_outcome_of_def pilot_outcomes)
    (simp_all add: evaluate_rule_def pilot_assessment_def)

lemma pilot_rule_count: "length (rs_rules pilot_rule_set) = 6"
  by (simp add: pilot_rule_set_def)

lemma pilot_hashable: "hashable (execution_input pilot_input pilot_assessment pilot_policy pilot_now)"
  by (simp add: execution_input_def dump_assessment_def pilot_assessment_def pilot_now_def max_instant_value
    VStrs_def dump_dec_def pilot_facts_def pilot_named_def row_def dict_get_def synth_tables)

lemma pilot_executed: "\<exists>x. execute (\<lambda>_. ''h'') pilot_rule_set pilot_input pilot_assessment pilot_policy (Aware pilot_now) =
    Inr x \<and> candidate x = DuplicateSupported"
proof -
  define rs where "rs = sort_key rd_order (rs_rules pilot_rule_set)"
  define res where "res r = \<lparr>rr_rule_id = rd_rule_id r, rr_version = rd_version r,
      outcome = fst (rule_outcome_of r pilot_input pilot_assessment pilot_policy pilot_now),
      reason_code = snd (rule_outcome_of r pilot_input pilot_assessment pilot_policy pilot_now),
      rr_mandatory = rd_mandatory r, fact_refs = [], rr_policy_refs = rd_policy_refs r,
      config_ref = rs_version pilot_rule_set\<rparr>" for r
  have refs: "sorted_refs pilot_input = Inr []"
    by (simp add: sorted_refs_def dict_get_def pilot_facts_def iterate_def)
  have run: "rtraverse (run_rule (rs_version pilot_rule_set) pilot_input pilot_assessment pilot_policy pilot_now) rs =
      Inr (map res rs)"
    by (rule rtraverse_all_Inr) (simp add: run_rule_def refs res_def split: prod.split)
  have passed: "outcome (res r) = Passed \<and> reason_code (res r) \<noteq> ''ALREADY_REMEDIATED''" if "r \<in> set rs" for r
    using that pilot_run [of r "VList []" "VList []"] by (auto simp: rs_def res_def)
  have ne: "rs \<noteq> []" by (simp add: rs_def pilot_rule_set_def)
  have "is_blocked pilot_assessment (map res rs) = False" "candidate_of False (map res rs) = DuplicateSupported"
    using passed ne by (auto simp: is_blocked_def candidate_of_def list_ex_iff pilot_assessment_def)
  then show ?thesis
    using run digest_const [OF pilot_hashable, of "''h''"]
    by (simp add: execute_def pilot_now_def max_instant_value rs_def Let_def)
qed

end
