(* ===== verification/Store.thy ===== *)
theory Store
  imports Controls
begin

text \<open>
  \<open>app/adapters/models.py\<close>: every table as a record of its columns, and the database as a record of
  tables, each a list of rows in insertion order.  A JSON column is a \<^typ>\<open>pyval\<close>; a nullable one an
  option; a \<open>DateTime(timezone=True)\<close> the service always writes in UTC an instant in microseconds,
  and one that the code normalises after reading (SQLite drops the zone) a \<^typ>\<open>pytime\<close>.
  Relationships and indexes have no value of their own; the unique ones are the invariant
  \<open>keys_unique\<close>.
\<close>

section \<open>Control records\<close>

record config_row =
  cg_config_id :: string
  cg_profile_id :: string
  cg_version :: string
  cg_environment :: string
  cg_content_hash :: string
  cg_payload :: control_profile
  cg_regression :: pyval
  cg_actor_ref :: string
  cg_created_at :: int

record evaluation_row =
  el_evaluation_id :: string
  el_workflow_id :: string
  el_case_id :: string
  el_state_version :: int
  el_config_id :: "string option"
  el_prior_evaluation_id :: "string option"
  el_bundle :: evaluation_bundle
  el_facts :: "(string, pyval) dict"
  el_evidence :: "evidence_item list"
  el_classification :: pyval
  el_channel :: string
  el_bundle_hash :: string
  el_correlation_id :: string
  el_actor_ref :: string
  el_created_at :: int

datatype stage = StEvidence | StPolicy | StRules | StConfidence

fun stage_text :: "stage \<Rightarrow> string" where
  "stage_text StEvidence = ''evidence''"
| "stage_text StPolicy = ''policy''"
| "stage_text StRules = ''rules''"
| "stage_text StConfidence = ''confidence''"

text \<open>What a stage stores: the result of its service, of the policy stage a free-form dictionary.\<close>

datatype stage_value = EvidenceResult evidence_assessment | PolicyResult "(string \<times> pyval) list"
  | RulesResult rule_execution | ConfidenceResult confidence_evaluation

fun dump_stage :: "stage_value \<Rightarrow> pyval" where
  "dump_stage (EvidenceResult a) = dump_assessment True a"
| "dump_stage (PolicyResult d) = VDict d"
| "dump_stage (RulesResult x) = dump_execution x"
| "dump_stage (ConfidenceResult c) = dump_evaluation c"

text \<open>The four stage tables have the same columns; the row carries its table.\<close>

record stage_row =
  sg_stage :: stage
  sg_result_id :: string
  sg_evaluation_id :: string
  sg_result :: stage_value
  sg_result_hash :: string
  sg_correlation_id :: string
  sg_created_at :: int

record review_row =
  rv_request_id :: string
  rv_evaluation_id :: string
  rv_kind :: string
  rv_required_role :: string
  rv_reasons :: "string list"
  rv_required_items :: "string list"
  rv_correlation_id :: string
  rv_created_at :: int

record fulfillment_row =
  fu_request_id :: string
  fu_evaluation_id :: string
  fu_created_at :: int

record validation_row =
  va_evidence_id :: string
  va_checksum :: string
  va_status :: string
  va_provenance :: string
  va_created_at :: int

section \<open>Cases\<close>

record case_row =
  ca_case_id :: string
  ca_customer_ref :: string
  ca_account_ref :: "string option"
  ca_transaction_ref :: string
  ca_channel :: string
  ca_channel_metadata :: pyval
  ca_dispute_type :: string
  ca_description :: string
  ca_status :: string
  ca_correlation_id :: string
  ca_state_version :: int
  ca_submitted_at :: pytime
  ca_opened_at :: int
  ca_closed_at :: "int option"
  ca_created_at :: int
  ca_updated_at :: int

record idempotency_row =
  id_operation :: string
  id_key :: string
  id_fingerprint :: string
  id_case_id :: "string option"
  id_response :: "pyval option"
  id_status_code :: int
  id_correlation_id :: string
  id_replay_count :: int
  id_last_replayed_at :: "int option"
  id_created_at :: int

record timeline_row =
  tl_entry_id :: string
  tl_case_id :: string
  tl_event_type :: string
  tl_message :: string
  tl_actor :: string
  tl_source :: string
  tl_audit_event_id :: "string option"
  tl_correlation_id :: string
  tl_occurred_at :: int

record evidence_row =
  ed_evidence_id :: string
  ed_case_id :: string
  ed_evidence_type :: string
  ed_file_name :: string
  ed_object_ref :: "string option"
  ed_content_type :: string
  ed_size_bytes :: int
  ed_checksum_sha256 :: string
  ed_source :: string
  ed_status :: string
  ed_uploader_ref :: string
  ed_correlation_id :: string
  ed_registered_at :: int

record context_row =
  cx_context_id :: string
  cx_case_id :: string
  cx_provider_name :: string
  cx_source_record_ref :: string
  cx_record_type :: string
  cx_payload :: "(string, pyval) dict"
  cx_response_hash :: string
  cx_response_version :: string
  cx_correlation_id :: string
  cx_retrieved_at :: pytime

record audit_row =
  au_event_id :: string
  au_case_id :: string
  au_event_type :: string
  au_actor_type :: string
  au_actor_ref :: string
  au_source :: string
  au_object_ref :: "string option"
  au_before_hash :: "string option"
  au_after_hash :: "string option"
  au_state_version :: int
  au_metadata :: pyval
  au_correlation_id :: string
  au_created_at :: int

section \<open>Workflows\<close>

text \<open>\<open>WorkflowState\<close> of \<open>app/services/workflow_graph.py\<close>, the content of a checkpoint's
  \<open>state_json\<close>: keys that may be absent are options, free-form values are \<^typ>\<open>pyval\<close>.\<close>

record wf_state =
  ws_control_evaluation_id :: "string option"
  ws_schema_version :: string
  ws_case_id :: string
  ws_workflow_id :: string
  ws_graph_version :: string
  ws_state_version :: int
  ws_correlation_id :: string
  ws_current_node :: string
  ws_status :: string
  ws_interrupt :: "(string, pyval) dict"
  ws_summaries :: "(string, pyval) dict"
  ws_side_effects :: "string list"
  ws_telemetry :: "pyval list"
  ws_errors :: "pyval list"
  ws_case :: "(string, pyval) dict option"
  ws_resume :: "(string, pyval) dict option"

definition state_entries :: "wf_state \<Rightarrow> (string, pyval) dict" where
  "state_entries s =
     (case ws_control_evaluation_id s of None \<Rightarrow> [] | Some e \<Rightarrow> [(''control_evaluation_id'', VStr e)]) @
     [(''schema_version'', VStr (ws_schema_version s)), (''case_id'', VStr (ws_case_id s)),
      (''workflow_id'', VStr (ws_workflow_id s)), (''graph_version'', VStr (ws_graph_version s)),
      (''state_version'', VInt (ws_state_version s)), (''correlation_id'', VStr (ws_correlation_id s)),
      (''current_node'', VStr (ws_current_node s)), (''status'', VStr (ws_status s)),
      (''interrupt'', VDict (ws_interrupt s)), (''stage_summaries'', VDict (ws_summaries s)),
      (''side_effect_keys'', VStrs (ws_side_effects s)), (''node_telemetry'', VList (ws_telemetry s)),
      (''errors'', VList (ws_errors s))] @
     (case ws_case s of None \<Rightarrow> [] | Some c \<Rightarrow> [(''case'', VDict c)]) @
     (case ws_resume s of None \<Rightarrow> [] | Some r \<Rightarrow> [(''resume_payload'', VDict r)])"

record run_row =
  wr_workflow_id :: string
  wr_case_id :: string
  wr_graph_version :: string
  wr_status :: string
  wr_current_node :: string
  wr_state_version :: int
  wr_checkpoint_seq :: int
  wr_interrupt_reason :: "string option"
  wr_telemetry :: "(string, pyval) dict"
  wr_correlation_id :: string
  wr_started_by :: string
  wr_started_at :: int
  wr_updated_at :: int
  wr_completed_at :: "int option"

record checkpoint_row =
  ck_checkpoint_id :: string
  ck_workflow_id :: string
  ck_case_id :: string
  ck_seq :: int
  ck_state_version :: int
  ck_current_node :: string
  ck_status :: string
  ck_state :: wf_state
  ck_state_hash :: string
  ck_interrupt_reason :: "string option"
  ck_side_effects :: "string list"
  ck_telemetry :: "(string, pyval) dict"
  ck_correlation_id :: string
  ck_created_at :: int

section \<open>Policies\<close>

record ingestion_row =
  ig_run_id :: string
  ig_status :: string
  ig_actor_ref :: string
  ig_source :: string
  ig_parser_version :: string
  ig_chunking_config_hash :: string
  ig_embedding_model :: string
  ig_embedding_config_hash :: string
  ig_retrieval_index_config_hash :: string
  ig_correlation_id :: string
  ig_validation_errors :: "pyval list"
  ig_telemetry :: "(string, pyval) dict"
  ig_created_at :: int
  ig_completed_at :: "int option"

record document_row =
  do_pk :: int
  do_document_id :: string
  do_version :: string
  do_title :: string
  do_status :: string
  do_approval_ref :: string
  do_source_identity :: string
  do_source_checksum :: string
  do_effective_from :: pytime
  do_effective_to :: "pytime option"
  do_product :: string
  do_channel :: string
  do_jurisdiction :: string
  do_source_type :: string
  do_content :: string
  do_run_id :: string
  do_correlation_id :: string
  do_created_at :: int

record chunk_row =
  ch_pk :: int
  ch_chunk_id :: string
  ch_document_pk :: int
  ch_document_id :: string
  ch_version :: string
  ch_section :: string
  ch_status :: string
  ch_effective_from :: pytime
  ch_effective_to :: "pytime option"
  ch_product :: string
  ch_channel :: string
  ch_jurisdiction :: string
  ch_content :: string
  ch_source_checksum :: string
  ch_chunk_hash :: string
  ch_parser_version :: string
  ch_chunking_config_hash :: string
  ch_embedding_model :: string
  ch_embedding_config_hash :: string
  ch_embedding_vector :: string
  ch_vector_ready :: bool
  ch_lexical_ready :: bool
  ch_run_id :: string
  ch_correlation_id :: string
  ch_created_at :: int

record corpus_row =
  co_version_id :: string
  co_corpus_version :: string
  co_run_id :: string
  co_index_version :: string
  co_is_active :: bool
  co_promoted_by :: string
  co_correlation_id :: string
  co_promoted_at :: int

record policy_evaluation_row =
  pe_evaluation_id :: string
  pe_run_id :: string
  pe_corpus_version :: string
  pe_index_version :: string
  pe_passed :: bool
  pe_metrics :: "(string, pyval) dict"
  pe_failures :: "pyval list"
  pe_correlation_id :: string
  pe_evaluated_at :: int

record policy_audit_row =
  pa_event_id :: string
  pa_run_id :: "string option"
  pa_document_id :: "string option"
  pa_version :: "string option"
  pa_checksum :: "string option"
  pa_event_type :: string
  pa_actor_ref :: string
  pa_source :: string
  pa_decision_status :: string
  pa_metadata :: "(string, pyval) dict"
  pa_correlation_id :: string
  pa_created_at :: int

section \<open>The database\<close>

record store =
  configs :: "config_row list"
  evaluations :: "evaluation_row list"
  stage_results :: "stage_row list"
  reviews :: "review_row list"
  fulfillments :: "fulfillment_row list"
  validations :: "validation_row list"
  cases :: "case_row list"
  idempotency :: "idempotency_row list"
  timeline :: "timeline_row list"
  evidence_rows :: "evidence_row list"
  contexts :: "context_row list"
  audits :: "audit_row list"
  runs :: "run_row list"
  checkpoints :: "checkpoint_row list"
  ingestions :: "ingestion_row list"
  documents :: "document_row list"
  chunks :: "chunk_row list"
  corpora :: "corpus_row list"
  policy_evaluations :: "policy_evaluation_row list"
  policy_audits :: "policy_audit_row list"

definition empty_store :: store where
  "empty_store = \<lparr>configs = [], evaluations = [], stage_results = [], reviews = [], fulfillments = [],
     validations = [], cases = [], idempotency = [], timeline = [], evidence_rows = [], contexts = [],
     audits = [], runs = [], checkpoints = [], ingestions = [], documents = [], chunks = [], corpora = [],
     policy_evaluations = [], policy_audits = []\<rparr>"

text \<open>The primary keys and unique indexes.\<close>

definition config_key :: "config_row \<Rightarrow> string \<times> string" where
  "config_key r = (cg_profile_id r, cg_version r)"

definition evaluation_key :: "evaluation_row \<Rightarrow> string \<times> int" where
  "evaluation_key r = (el_workflow_id r, el_state_version r)"

definition stage_key :: "stage_row \<Rightarrow> stage \<times> string" where
  "stage_key r = (sg_stage r, sg_evaluation_id r)"

definition review_key :: "review_row \<Rightarrow> string \<times> string" where
  "review_key r = (rv_evaluation_id r, rv_kind r)"

definition idempotency_key :: "idempotency_row \<Rightarrow> string \<times> string" where
  "idempotency_key r = (id_operation r, id_key r)"

definition checkpoint_key :: "checkpoint_row \<Rightarrow> string \<times> int" where
  "checkpoint_key r = (ck_workflow_id r, ck_seq r)"

definition document_key :: "document_row \<Rightarrow> string \<times> string" where
  "document_key r = (do_document_id r, do_version r)"

definition keys_unique :: "store \<Rightarrow> bool" where
  "keys_unique s \<longleftrightarrow> distinct (map config_key (configs s)) \<and> distinct (map evaluation_key (evaluations s)) \<and>
     distinct (map stage_key (stage_results s)) \<and> distinct (map review_key (reviews s)) \<and>
     distinct (map fu_request_id (fulfillments s)) \<and> distinct (map ca_case_id (cases s)) \<and>
     distinct (map idempotency_key (idempotency s)) \<and> distinct (map wr_workflow_id (runs s)) \<and>
     distinct (map checkpoint_key (checkpoints s)) \<and> distinct (map document_key (documents s)) \<and>
     distinct (map ch_chunk_id (chunks s)) \<and> distinct (map co_corpus_version (corpora s))"

lemma keys_unique_empty: "keys_unique empty_store"
  by (simp add: keys_unique_def empty_store_def)

end
