(* ===== verification/Session.thy ===== *)
theory Session
  imports Store
begin

text \<open>
  A database session as the services use it: computations that may raise, over a world of the store, the
  supply of \<open>uuid4()\<close> values, the clock and the object that walks the control stages.  \<open>transact\<close> is \<open>with db.begin_nested(): ...; db.commit()\<close>
  with \<open>rollback()\<close> in the exception handler: on an exception the store is what it was.  What the
  process reads from outside (hashing, identifiers, clocks, settings, the bank) is the environment.
  The session does not autoflush (\<open>core/database.py\<close>), so a unique index is checked where the code
  flushes; in this model it is checked where the row is added, which no caller can tell apart
  because a failed operation is rolled back as a whole.
\<close>

section \<open>Exceptions, environment and world\<close>

datatype exc = Py pyexc | Integrity | AuditWrite | WorkflowAudit | StateValidation | IdempotencyConflict
  | OptimisticLock | WorkflowConflict | WorkflowRunNotFound | CaseNotFound | ControlConfiguration string
  | PolicyVersionConflict | PolicyRunNotFound | PolicyValidation "pyval list" | PolicyAuthorization | RetrievalAudit
  | ToolAuthorization string string

record env =
  en_sha :: "string \<Rightarrow> string"
  en_uuid :: "nat \<Rightarrow> string"
  en_clock :: "nat \<Rightarrow> int"
  en_latency :: "nat \<Rightarrow> int"
  en_app_env :: string
  en_sqlite :: bool
  en_audit_fails :: bool
  en_policy_audit_fails :: bool

text \<open>The attributes of the \<open>ControlWorkflow\<close> object in use: the evaluation, the profile and the moment.\<close>

record control_memory =
  cm_evaluation :: "evaluation_row option"
  cm_profile :: "control_profile option"
  cm_at :: int

record world =
  db :: store
  ids_used :: nat
  ticks :: nat
  memory :: control_memory

type_synonym 'a app = "env \<Rightarrow> world \<Rightarrow> (exc + 'a) \<times> world"

section \<open>Combinators\<close>

definition ret :: "'a \<Rightarrow> 'a app" where
  "ret x = (\<lambda>e w. (Inr x, w))"

definition raise :: "exc \<Rightarrow> 'a app" where
  "raise x = (\<lambda>e w. (Inl x, w))"

definition bnd :: "'a app \<Rightarrow> ('a \<Rightarrow> 'b app) \<Rightarrow> 'b app" where
  "bnd m f = (\<lambda>e w. case m e w of (Inl x, w') \<Rightarrow> (Inl x, w') | (Inr a, w') \<Rightarrow> f a e w')"

definition andthen :: "'a app \<Rightarrow> 'b app \<Rightarrow> 'b app" where
  "andthen m n = bnd m (\<lambda>_. n)"

definition of_py :: "'a py \<Rightarrow> 'a app" where
  "of_py m = (case m of Inl x \<Rightarrow> raise (Py x) | Inr a \<Rightarrow> ret a)"

definition ask :: "(env \<Rightarrow> 'a) \<Rightarrow> 'a app" where
  "ask f = (\<lambda>e w. (Inr (f e), w))"

definition look :: "(store \<Rightarrow> 'a) \<Rightarrow> 'a app" where
  "look f = (\<lambda>e w. (Inr (f (db w)), w))"

definition modify :: "(store \<Rightarrow> store) \<Rightarrow> unit app" where
  "modify g = (\<lambda>e w. (Inr (), w\<lparr>db := g (db w)\<rparr>))"

definition uuid4 :: "string app" where
  "uuid4 = (\<lambda>e w. (Inr (en_uuid e (ids_used w)), w\<lparr>ids_used := Suc (ids_used w)\<rparr>))"

definition utc_now :: "int app" where
  "utc_now = (\<lambda>e w. (Inr (en_clock e (ticks w)), w\<lparr>ticks := Suc (ticks w)\<rparr>))"

definition recall :: "(control_memory \<Rightarrow> 'a) \<Rightarrow> 'a app" where
  "recall f = (\<lambda>e w. (Inr (f (memory w)), w))"

definition memorize :: "(control_memory \<Rightarrow> control_memory) \<Rightarrow> unit app" where
  "memorize f = (\<lambda>e w. (Inr (), w\<lparr>memory := f (memory w)\<rparr>))"

definition elapsed_ms :: "int app" where
  "elapsed_ms = (\<lambda>e w. (Inr (en_latency e (ticks w)), w\<lparr>ticks := Suc (ticks w)\<rparr>))"

definition require :: "bool \<Rightarrow> exc \<Rightarrow> unit app" where
  "require b x = (if b then ret () else raise x)"

definition transact :: "'a app \<Rightarrow> 'a app" where
  "transact m = (\<lambda>e w. case m e w of (Inl x, w') \<Rightarrow> (Inl x, w'\<lparr>db := db w\<rparr>) | (Inr a, w') \<Rightarrow> (Inr a, w'))"

text \<open>An \<open>except\<close> clause that turns some exceptions into others.\<close>

definition rename_exc :: "(exc \<Rightarrow> exc) \<Rightarrow> 'a app \<Rightarrow> 'a app" where
  "rename_exc h m = (\<lambda>e w. case m e w of (Inl x, w') \<Rightarrow> (Inl (h x), w') | (Inr a, w') \<Rightarrow> (Inr a, w'))"

text \<open>An \<open>except\<close> clause that goes on with a value; what the body wrote stays.\<close>

definition handle :: "'a app \<Rightarrow> (exc \<Rightarrow> 'a app option) \<Rightarrow> 'a app" where
  "handle m h = (\<lambda>e w. case m e w of
     (Inl x, w') \<Rightarrow> (case h x of None \<Rightarrow> (Inl x, w') | Some n \<Rightarrow> n e w') | (Inr a, w') \<Rightarrow> (Inr a, w'))"

fun each :: "('a \<Rightarrow> unit app) \<Rightarrow> 'a list \<Rightarrow> unit app" where
  "each f [] = ret ()"
| "each f (x # xs) = andthen (f x) (each f xs)"

fun collect :: "('a \<Rightarrow> 'b app) \<Rightarrow> 'a list \<Rightarrow> 'b list app" where
  "collect f [] = ret []"
| "collect f (x # xs) = bnd (f x) (\<lambda>y. bnd (collect f xs) (\<lambda>ys. ret (y # ys)))"

lemmas app_defs = ret_def raise_def ask_def look_def modify_def uuid4_def utc_now_def elapsed_ms_def recall_def memorize_def

section \<open>Inversion\<close>

named_theorems app_simps \<open>when a computation of the session returns a value\<close>

lemma ret_run [app_simps]: "ret x e w = (Inr y, w') \<longleftrightarrow> y = x \<and> w' = w"
  by (auto simp: ret_def)

lemma raise_run [app_simps]: "raise x e w = (Inr y, w') \<longleftrightarrow> False"
  by (simp add: raise_def)

lemma bnd_run [app_simps]:
  "bnd m f e w = (Inr y, w'') \<longleftrightarrow> (\<exists>a w'. m e w = (Inr a, w') \<and> f a e w' = (Inr y, w''))"
  by (cases "m e w") (auto simp: bnd_def split: sum.splits)

lemma andthen_run [app_simps]:
  "andthen m n e w = (Inr y, w'') \<longleftrightarrow> (\<exists>a w'. m e w = (Inr a, w') \<and> n e w' = (Inr y, w''))"
  by (simp add: andthen_def bnd_run)

lemma of_py_run [app_simps]: "of_py m e w = (Inr y, w') \<longleftrightarrow> m = Inr y \<and> w' = w"
  by (cases m) (auto simp: of_py_def raise_def ret_def)

lemma ask_run [app_simps]: "ask f e w = (Inr y, w') \<longleftrightarrow> y = f e \<and> w' = w"
  by (auto simp: ask_def)

lemma look_run [app_simps]: "look f e w = (Inr y, w') \<longleftrightarrow> y = f (db w) \<and> w' = w"
  by (auto simp: look_def)

lemma modify_run [app_simps]: "modify g e w = (Inr y, w') \<longleftrightarrow> w' = w\<lparr>db := g (db w)\<rparr>"
  by (auto simp: modify_def)

lemma uuid4_run [app_simps]:
  "uuid4 e w = (Inr y, w') \<longleftrightarrow> y = en_uuid e (ids_used w) \<and> w' = w\<lparr>ids_used := Suc (ids_used w)\<rparr>"
  by (auto simp: uuid4_def)

lemma utc_now_run [app_simps]:
  "utc_now e w = (Inr y, w') \<longleftrightarrow> y = en_clock e (ticks w) \<and> w' = w\<lparr>ticks := Suc (ticks w)\<rparr>"
  by (auto simp: utc_now_def)

lemma elapsed_run [app_simps]:
  "elapsed_ms e w = (Inr y, w') \<longleftrightarrow> y = en_latency e (ticks w) \<and> w' = w\<lparr>ticks := Suc (ticks w)\<rparr>"
  by (auto simp: elapsed_ms_def)

lemma recall_run [app_simps]: "recall f e w = (Inr y, w') \<longleftrightarrow> y = f (memory w) \<and> w' = w"
  by (auto simp: recall_def)

lemma memorize_run [app_simps]: "memorize f e w = (Inr y, w') \<longleftrightarrow> w' = w\<lparr>memory := f (memory w)\<rparr>"
  by (auto simp: memorize_def)

lemma require_run [app_simps]: "require b x e w = (Inr y, w') \<longleftrightarrow> b \<and> w' = w"
  by (auto simp: require_def ret_def raise_def)

lemma transact_run [app_simps]: "transact m e w = (Inr y, w') \<longleftrightarrow> m e w = (Inr y, w')"
  by (cases "m e w") (auto simp: transact_def split: sum.splits)

lemma rename_run [app_simps]: "rename_exc h m e w = (Inr y, w') \<longleftrightarrow> m e w = (Inr y, w')"
  by (cases "m e w") (auto simp: rename_exc_def split: sum.splits)

text \<open>Elimination of a successful sequence, for chains that are too long for rewriting.\<close>

lemma bnd_InrE:
  assumes "bnd m f e w = (Inr y, w'')"
  obtains a w' where "m e w = (Inr a, w')" and "f a e w' = (Inr y, w'')"
  using assms by (auto simp: bnd_run)

lemma andthen_InrE:
  assumes "andthen m n e w = (Inr y, w'')"
  obtains a w' where "m e w = (Inr a, w')" and "n e w' = (Inr y, w'')"
  using assms by (auto simp: andthen_run)

section \<open>Preservation\<close>

text \<open>\<open>maintains Q m\<close>: the property \<open>Q\<close> of the environment and the store survives \<open>m\<close>, whether it returns or
  raises; \<open>preserves P m\<close> is the case that does not look at the environment.\<close>

definition maintains :: "(env \<Rightarrow> store \<Rightarrow> bool) \<Rightarrow> 'a app \<Rightarrow> bool" where
  "maintains Q m \<longleftrightarrow> (\<forall>e w. Q e (db w) \<longrightarrow> Q e (db (snd (m e w))))"

abbreviation preserves :: "(store \<Rightarrow> bool) \<Rightarrow> 'a app \<Rightarrow> bool" where
  "preserves P \<equiv> maintains (\<lambda>_. P)"

named_theorems preserved \<open>computations that preserve a property of the store\<close>

lemma preserves_pure [preserved, simp]: "maintains Q (ret v)" "maintains Q (raise x)" "maintains Q (of_py m)"
  "maintains Q (ask f)" "maintains Q (look g)" "maintains Q uuid4" "maintains Q utc_now" "maintains Q elapsed_ms"
  "maintains Q (require b x)" "maintains Q (recall h)" "maintains Q (memorize k)"
  by (auto simp: maintains_def of_py_def require_def app_defs split: sum.splits)

lemma preserves_bnd [preserved]:
  assumes "maintains Q m" and "\<And>a. maintains Q (f a)"
  shows "maintains Q (bnd m f)"
  unfolding maintains_def
proof (intro allI impI)
  fix e :: env and w :: world
  assume "Q e (db w)"
  with assms(1) have "Q e (db (snd (m e w)))" by (simp add: maintains_def)
  with assms(2) show "Q e (db (snd (bnd m f e w)))"
    by (auto simp: maintains_def bnd_def split: prod.splits sum.splits)
qed

lemma preserves_andthen [preserved]: "maintains Q m \<Longrightarrow> maintains Q n \<Longrightarrow> maintains Q (andthen m n)"
  unfolding andthen_def by (rule preserves_bnd)

lemma preserves_modify: "(\<And>e s. Q e s \<Longrightarrow> Q e (g s)) \<Longrightarrow> maintains Q (modify g)"
  by (simp add: maintains_def modify_def)

lemma preserves_transact [preserved]: "maintains Q m \<Longrightarrow> maintains Q (transact m)"
  by (auto simp: maintains_def transact_def split: prod.splits sum.splits) (metis snd_conv)

lemma preserves_rename [preserved]: "maintains Q m \<Longrightarrow> maintains Q (rename_exc h m)"
  by (auto simp: maintains_def rename_exc_def split: prod.splits sum.splits) (metis snd_conv)+

lemma preserves_handle [preserved]:
  assumes "maintains Q m" and "\<And>x n. h x = Some n \<Longrightarrow> maintains Q n"
  shows "maintains Q (handle m h)"
  unfolding maintains_def
proof (intro allI impI)
  fix e :: env and w :: world
  assume "Q e (db w)"
  with assms(1) have "Q e (db (snd (m e w)))" by (simp add: maintains_def)
  with assms(2) show "Q e (db (snd (handle m h e w)))"
    by (auto simp: maintains_def handle_def split: prod.splits sum.splits option.splits)
qed

lemma preserves_if [preserved]: "maintains Q m \<Longrightarrow> maintains Q n \<Longrightarrow> maintains Q (if b then m else n)"
  by simp

lemma preserves_case_option [preserved]:
  "maintains Q m \<Longrightarrow> (\<And>x. maintains Q (f x)) \<Longrightarrow> maintains Q (case v of None \<Rightarrow> m | Some x \<Rightarrow> f x)"
  by (simp split: option.split)

lemma preserves_each [preserved]: "(\<And>x. maintains Q (f x)) \<Longrightarrow> maintains Q (each f xs)"
  by (induction xs) (simp_all add: preserves_andthen)

lemma preserves_collect [preserved]: "(\<And>x. maintains Q (f x)) \<Longrightarrow> maintains Q (collect f xs)"
  by (induction xs) (auto intro!: preserves_bnd)

text \<open>A computation that raises inside a transaction leaves the store as it was.\<close>

lemma transact_rollback: "transact m e w = (Inl x, w') \<Longrightarrow> db w' = db w"
  by (auto simp: transact_def split: prod.splits sum.splits)

text \<open>Read-only computations.\<close>

definition readonly :: "'a app \<Rightarrow> bool" where
  "readonly m \<longleftrightarrow> (\<forall>e w. db (snd (m e w)) = db w)"

lemma readonly_pure [simp]: "readonly (ret v)" "readonly (raise x)" "readonly (of_py m)" "readonly (ask f)"
  "readonly (look g)" "readonly uuid4" "readonly utc_now" "readonly elapsed_ms" "readonly (require b x)"
  "readonly (recall h)" "readonly (memorize k)"
  by (auto simp: readonly_def of_py_def require_def app_defs split: sum.splits)

lemma readonly_bnd: "readonly m \<Longrightarrow> (\<And>a. readonly (f a)) \<Longrightarrow> readonly (bnd m f)"
  unfolding readonly_def bnd_def by (auto split: prod.split sum.split) (metis snd_conv)+

lemma readonly_collect: "(\<And>x. readonly (f x)) \<Longrightarrow> readonly (collect f xs)"
  by (induction xs) (auto intro!: readonly_bnd)

lemma readonly_run: "readonly m \<Longrightarrow> m e w = (r, w') \<Longrightarrow> db w' = db w"
  by (metis readonly_def snd_conv)

section \<open>Tables\<close>

text \<open>\<open>scalar(select(...).where(...))\<close> is \<open>List.find\<close>; an update of the rows that satisfy a condition is
  \<open>update_where\<close>; adding a row checks a unique key.\<close>

definition update_where :: "('r \<Rightarrow> bool) \<Rightarrow> ('r \<Rightarrow> 'r) \<Rightarrow> 'r list \<Rightarrow> 'r list" where
  "update_where p f = map (\<lambda>r. if p r then f r else r)"

definition key_free :: "('r \<Rightarrow> 'k) \<Rightarrow> 'r list \<Rightarrow> 'r \<Rightarrow> bool" where
  "key_free key rows r \<longleftrightarrow> key r \<notin> key ` set rows"

lemma distinct_snoc_free: "distinct (map key rows) \<Longrightarrow> key_free key rows r \<Longrightarrow> distinct (map key (rows @ [r]))"
  by (auto simp: key_free_def)

lemma update_where_keys: "(\<And>r. key (f r) = key r) \<Longrightarrow> map key (update_where p f rows) = map key rows"
  by (simp add: update_where_def)

lemma length_update_where [simp]: "length (update_where p f rows) = length rows"
  by (simp add: update_where_def)

lemma set_update_where: "set (update_where p f rows) = (\<lambda>r. if p r then f r else r) ` set rows"
  by (simp add: update_where_def)

end
