(* ===== verification/Tables.thy ===== *)
theory Tables
  imports Session
begin

text \<open>
  The contract the repositories have with a table of the store: a component of the store that can be
  updated by itself and a key no two rows share.  Its lemmas (a row is found under its key after it was
  added, other keys are untouched, the key stays unique) are proved once and interpreted for every table
  with a primary key or a unique index.
\<close>

section \<open>A keyed table\<close>

definition row_by :: "('r \<Rightarrow> 'k) \<Rightarrow> 'k \<Rightarrow> 'r list \<Rightarrow> 'r option" where
  "row_by key k rows = find (\<lambda>r. key r = k) rows"

lemma row_by_Some: "row_by key k rows = Some r \<Longrightarrow> r \<in> set rows \<and> key r = k"
  by (auto simp: row_by_def find_Some_iff)

lemma row_by_None: "row_by key k rows = None \<longleftrightarrow> k \<notin> key ` set rows"
  by (auto simp: row_by_def find_None_iff)

lemma row_by_unique: "distinct (map key rows) \<Longrightarrow> r \<in> set rows \<Longrightarrow> row_by key (key r) rows = Some r"
  by (induction rows) (auto simp: row_by_def rev_image_eqI)

lemma row_by_snoc: "row_by key k (rows @ [r]) = (case row_by key k rows of Some x \<Rightarrow> Some x
    | None \<Rightarrow> if key r = k then Some r else None)"
  by (induction rows) (auto simp: row_by_def)

lemma row_by_update: "(\<And>r. key (f r) = key r) \<Longrightarrow>
    row_by key k (update_where p f rows) = map_option (\<lambda>r. if p r then f r else r) (row_by key k rows)"
  by (induction rows) (auto simp: row_by_def update_where_def)

text \<open>Adding a row where the unique index allows it.\<close>

definition insert_row ::
  "(store \<Rightarrow> 'r list) \<Rightarrow> (('r list \<Rightarrow> 'r list) \<Rightarrow> store \<Rightarrow> store) \<Rightarrow> ('r \<Rightarrow> 'k) \<Rightarrow> 'r \<Rightarrow> unit app" where
  "insert_row rows upd key r = bnd (look (\<lambda>s. key_free key (rows s) r)) (\<lambda>free.
     andthen (require free Integrity) (modify (upd (\<lambda>t. t @ [r]))))"

definition append_row :: "(('r list \<Rightarrow> 'r list) \<Rightarrow> store \<Rightarrow> store) \<Rightarrow> 'r \<Rightarrow> unit app" where
  "append_row upd r = modify (upd (\<lambda>t. t @ [r]))"

definition change_rows :: "(('r list \<Rightarrow> 'r list) \<Rightarrow> store \<Rightarrow> store) \<Rightarrow> ('r \<Rightarrow> bool) \<Rightarrow> ('r \<Rightarrow> 'r) \<Rightarrow> unit app" where
  "change_rows upd p f = modify (upd (update_where p f))"

lemma insert_row_run [app_simps]: "insert_row rows upd key r e w = (Inr u, w') \<longleftrightarrow>
    key_free key (rows (db w)) r \<and> w' = w\<lparr>db := upd (\<lambda>t. t @ [r]) (db w)\<rparr>"
  by (auto simp: insert_row_def app_simps)

lemma append_row_run [app_simps]: "append_row upd r e w = (Inr u, w') \<longleftrightarrow> w' = w\<lparr>db := upd (\<lambda>t. t @ [r]) (db w)\<rparr>"
  by (simp add: append_row_def app_simps)

lemma change_rows_run [app_simps]:
  "change_rows upd p f e w = (Inr u, w') \<longleftrightarrow> w' = w\<lparr>db := upd (update_where p f) (db w)\<rparr>"
  by (simp add: change_rows_def app_simps)

locale keyed_table =
  fixes rows :: "store \<Rightarrow> 'r list"
    and upd :: "('r list \<Rightarrow> 'r list) \<Rightarrow> store \<Rightarrow> store"
    and key :: "'r \<Rightarrow> 'k"
  assumes rows_upd: "rows (upd f s) = f (rows s)"
begin

lemma found_after_insert:
  assumes "insert_row rows upd key r e w = (Inr u, w')"
  shows "row_by key (key r) (rows (db w')) = Some r"
  using assms by (simp add: insert_row_run rows_upd row_by_snoc key_free_def flip: row_by_None split: option.split)

lemma others_after_insert:
  assumes "insert_row rows upd key r e w = (Inr u, w')" and "k \<noteq> key r"
  shows "row_by key k (rows (db w')) = row_by key k (rows (db w))"
  using assms by (auto simp: insert_row_run rows_upd row_by_snoc split: option.split)

lemma insert_taken: "row_by key (key r) (rows (db w)) = Some r' \<Longrightarrow> insert_row rows upd key r e w = (Inl Integrity, w)"
proof -
  assume "row_by key (key r) (rows (db w)) = Some r'"
  then have "\<not> key_free key (rows (db w)) r" by (metis key_free_def option.distinct(1) row_by_None)
  then show ?thesis by (simp add: insert_row_def bnd_def andthen_def look_def require_def raise_def)
qed

lemma unique_insert: "preserves (\<lambda>s. distinct (map key (rows s))) (insert_row rows upd key r)"
  by (auto simp: maintains_def insert_row_def bnd_def andthen_def look_def require_def raise_def ret_def
      modify_def rows_upd key_free_def)

lemma unique_change:
  assumes "\<And>r. key (f r) = key r"
  shows "preserves (\<lambda>s. distinct (map key (rows s))) (change_rows upd p f)"
  by (simp add: maintains_def change_rows_def modify_def rows_upd update_where_keys assms)

lemma found_after_change:
  assumes "\<And>r. key (f r) = key r" and "change_rows upd p f e w = (Inr u, w')"
  shows "row_by key k (rows (db w')) = map_option (\<lambda>r. if p r then f r else r) (row_by key k (rows (db w)))"
  using assms(2) by (simp add: change_rows_run rows_upd row_by_update assms(1))

end

interpretation config_table: keyed_table configs configs_update config_key by unfold_locales simp
interpretation evaluation_table: keyed_table evaluations evaluations_update evaluation_key by unfold_locales simp
interpretation stage_table: keyed_table stage_results stage_results_update stage_key by unfold_locales simp
interpretation review_table: keyed_table reviews reviews_update review_key by unfold_locales simp
interpretation fulfillment_table: keyed_table fulfillments fulfillments_update fu_request_id by unfold_locales simp
interpretation case_table: keyed_table cases cases_update ca_case_id by unfold_locales simp
interpretation idempotency_table: keyed_table idempotency idempotency_update idempotency_key by unfold_locales simp
interpretation run_table: keyed_table runs runs_update wr_workflow_id by unfold_locales simp
interpretation checkpoint_table: keyed_table checkpoints checkpoints_update checkpoint_key by unfold_locales simp
interpretation document_table: keyed_table documents documents_update document_key by unfold_locales simp
interpretation chunk_table: keyed_table chunks chunks_update ch_chunk_id by unfold_locales simp
interpretation corpus_table: keyed_table corpora corpora_update co_corpus_version by unfold_locales simp

end
