(* ===== verification/Schemas.thy ===== *)
theory Schemas
  imports Store
begin

text \<open>
  \<open>app/domain/schemas.py\<close>: the enumerations, the case, evidence and workflow requests with their
  validators, the response models (a dump of the row they are read from, in \<open>model_dump(mode="json")\<close>
  form), the check of a workflow state before it is stored, and the parser of \<open>If-Match\<close>.
\<close>

section \<open>Case life cycle\<close>

datatype case_status = Draft | Submitted | ManualProcessing | Closed

fun case_status_text :: "case_status \<Rightarrow> string" where
  "case_status_text Draft = ''Draft''"
| "case_status_text Submitted = ''Submitted''"
| "case_status_text ManualProcessing = ''Manual Processing''"
| "case_status_text Closed = ''Closed''"

fun allowed_transitions :: "case_status \<Rightarrow> case_status list" where
  "allowed_transitions Draft = [Submitted]"
| "allowed_transitions Submitted = []"
| "allowed_transitions ManualProcessing = []"
| "allowed_transitions Closed = []"

definition validate_case_transition :: "case_status \<Rightarrow> case_status \<Rightarrow> unit py" where
  "validate_case_transition current target =
     (if target \<notin> set (allowed_transitions current) then Inl ValueErr else Inr ())"

section \<open>Enumerations of the requests\<close>

datatype dispute_type = DuplicateCard | FailedUpi | AtmDebit

fun dispute_type_text :: "dispute_type \<Rightarrow> string" where
  "dispute_type_text DuplicateCard = ''duplicate_card_transaction''"
| "dispute_type_text FailedUpi = ''failed_upi_transfer''"
| "dispute_type_text AtmDebit = ''atm_debit_without_cash''"

datatype channel = Web | Mobile | Analyst | PartnerApi

fun channel_text :: "channel \<Rightarrow> string" where
  "channel_text Web = ''web''"
| "channel_text Mobile = ''mobile''"
| "channel_text Analyst = ''analyst''"
| "channel_text PartnerApi = ''partner_api''"

datatype evidence_type = Receipt | TransactionRecord | CustomerStatement | OtherEvidence

fun evidence_type_text :: "evidence_type \<Rightarrow> string" where
  "evidence_type_text Receipt = ''receipt''"
| "evidence_type_text TransactionRecord = ''transaction_record''"
| "evidence_type_text CustomerStatement = ''customer_statement''"
| "evidence_type_text OtherEvidence = ''other''"

section \<open>Requests\<close>

record evidence_in =
  ei_evidence_type :: evidence_type
  ei_file_name :: string
  ei_object_ref :: "string option"
  ei_content_type :: string
  ei_size_bytes :: int
  ei_checksum_sha256 :: string
  ei_source :: string
  ei_uploader_ref :: string

definition sized :: "nat \<Rightarrow> nat \<Rightarrow> string \<Rightarrow> bool" where
  "sized lo hi s \<longleftrightarrow> lo \<le> length s \<and> length s \<le> hi"

definition is_lower :: "char \<Rightarrow> bool" where
  "is_lower c \<longleftrightarrow> CHR ''a'' \<le> c \<and> c \<le> CHR ''z''"

definition is_upper :: "char \<Rightarrow> bool" where
  "is_upper c \<longleftrightarrow> CHR ''A'' \<le> c \<and> c \<le> CHR ''Z''"

definition is_hex :: "char \<Rightarrow> bool" where
  "is_hex c \<longleftrightarrow> is_digit c \<or> (CHR ''a'' \<le> c \<and> c \<le> CHR ''f'') \<or> (CHR ''A'' \<le> c \<and> c \<le> CHR ''F'')"

definition hex64 :: "string \<Rightarrow> bool" where
  "hex64 s \<longleftrightarrow> length s = 64 \<and> list_all is_hex s"

definition media_char :: "char \<Rightarrow> bool" where
  "media_char c \<longleftrightarrow> is_lower c \<or> is_digit c \<or> c \<in> {CHR ''.'', CHR ''+'', CHR ''-''}"

text \<open>\<open>^[a-z0-9.+-]+/[a-z0-9.+-]+$\<close>; the class has no slash.\<close>

definition media_type :: "string \<Rightarrow> bool" where
  "media_type s = (let a = takeWhile media_char s; r = dropWhile media_char s in
     a \<noteq> [] \<and> r \<noteq> [] \<and> hd r = CHR ''/'' \<and> tl r \<noteq> [] \<and> list_all media_char (tl r))"

definition ref_text :: "string \<Rightarrow> bool" where
  "ref_text s \<longleftrightarrow> list_all (\<lambda>c. is_lower c \<or> is_upper c \<or> is_digit c \<or> c = CHR ''_'' \<or> c = CHR ''-'') s \<and> sized 1 80 s"

definition valid_evidence_in :: "evidence_in \<Rightarrow> bool" where
  "valid_evidence_in r \<longleftrightarrow> sized 1 255 (ei_file_name r) \<and> (\<forall>o1 \<in> set_option (ei_object_ref r). sized 0 500 o1) \<and>
     media_type (ei_content_type r) \<and> length (ei_content_type r) \<le> 120 \<and> 0 < ei_size_bytes r \<and>
     hex64 (ei_checksum_sha256 r) \<and> sized 1 80 (ei_source r) \<and> sized 1 80 (ei_uploader_ref r)"

definition normalize_evidence_in :: "evidence_in \<Rightarrow> evidence_in" where
  "normalize_evidence_in r = r\<lparr>ei_checksum_sha256 := lower (ei_checksum_sha256 r)\<rparr>"

definition dump_evidence_in :: "evidence_in \<Rightarrow> pyval" where
  "dump_evidence_in r = VDict [(''evidence_type'', VStr (evidence_type_text (ei_evidence_type r))),
     (''file_name'', VStr (ei_file_name r)), (''object_ref'', VOpt VStr (ei_object_ref r)),
     (''content_type'', VStr (ei_content_type r)), (''size_bytes'', VInt (ei_size_bytes r)),
     (''checksum_sha256'', VStr (ei_checksum_sha256 r)), (''source'', VStr (ei_source r)),
     (''uploader_ref'', VStr (ei_uploader_ref r))]"

record create_case_request =
  cq_customer_ref :: string
  cq_account_ref :: "string option"
  cq_transaction_ref :: string
  cq_channel :: channel
  cq_channel_metadata :: pyval
  cq_description :: string
  cq_dispute_type :: dispute_type
  cq_submitted_at :: "int option"
  cq_evidence :: "evidence_in list"

definition valid_create_case :: "create_case_request \<Rightarrow> bool" where
  "valid_create_case r \<longleftrightarrow> ref_text (cq_customer_ref r) \<and> (\<forall>a \<in> set_option (cq_account_ref r). ref_text a) \<and>
     ref_text (cq_transaction_ref r) \<and> sized 10 4000 (cq_description r) \<and> list_all valid_evidence_in (cq_evidence r)"

text \<open>\<open>normalize_submitted_at\<close> (and the two like it for policies): a naive time is taken as UTC.\<close>

fun normalize_time :: "pytime \<Rightarrow> int py" where
  "normalize_time (Naive t) = Inr t"
| "normalize_time (Aware t) = utc (Aware t)"

definition dump_create_case :: "create_case_request \<Rightarrow> pyval" where
  "dump_create_case r = VDict [(''customer_ref'', VStr (cq_customer_ref r)),
     (''account_ref'', VOpt VStr (cq_account_ref r)), (''transaction_ref'', VStr (cq_transaction_ref r)),
     (''channel'', VStr (channel_text (cq_channel r))), (''channel_metadata'', cq_channel_metadata r),
     (''description'', VStr (cq_description r)), (''dispute_type'', VStr (dispute_type_text (cq_dispute_type r))),
     (''submitted_at'', VOpt json_time (cq_submitted_at r)),
     (''evidence_metadata'', VList (map dump_evidence_in (cq_evidence r)))]"

record start_request =
  sr_case_id :: string
  sr_actor_ref :: string
  sr_graph_version :: string

definition dump_start_request :: "start_request \<Rightarrow> pyval" where
  "dump_start_request r = VDict [(''case_id'', VStr (sr_case_id r)), (''actor_ref'', VStr (sr_actor_ref r)),
     (''graph_version'', VStr (sr_graph_version r))]"

definition valid_start_request :: "start_request \<Rightarrow> bool" where
  "valid_start_request r \<longleftrightarrow> sized 1 100 (sr_actor_ref r) \<and> sized 1 80 (sr_graph_version r)"

record resume_request =
  rm_reevaluation :: "reevaluation_request option"
  rm_actor_ref :: string
  rm_resume_reason :: string
  rm_resume_payload :: "(string, pyval) dict"

definition dump_reevaluation :: "reevaluation_request \<Rightarrow> pyval" where
  "dump_reevaluation r = VDict [(''prior_evaluation_id'', VStr (rq_prior_evaluation_id r)),
     (''reason'', VStr (rq_reason r)), (''retain_pins'', VBool (retain_pins r))]"

definition dump_resume_request :: "resume_request \<Rightarrow> pyval" where
  "dump_resume_request r = VDict [(''reevaluation'', VOpt dump_reevaluation (rm_reevaluation r)),
     (''actor_ref'', VStr (rm_actor_ref r)), (''resume_reason'', VStr (rm_resume_reason r)),
     (''resume_payload'', VDict (rm_resume_payload r))]"

definition valid_resume_request :: "resume_request \<Rightarrow> bool" where
  "valid_resume_request r \<longleftrightarrow> (\<forall>q \<in> set_option (rm_reevaluation r). valid_reevaluation q) \<and>
     sized 1 100 (rm_actor_ref r) \<and> sized 1 120 (rm_resume_reason r)"

section \<open>Response models\<close>

fun json_pytime :: "pytime \<Rightarrow> pyval" where
  "json_pytime (Aware t) = json_time t"
| "json_pytime (Naive t) = VStr (iso_local CHR ''T'' t)"

definition dump_evidence_out :: "evidence_row \<Rightarrow> pyval" where
  "dump_evidence_out r = VDict [(''evidence_id'', VStr (ed_evidence_id r)), (''case_id'', VStr (ed_case_id r)),
     (''evidence_type'', VStr (ed_evidence_type r)), (''file_name'', VStr (ed_file_name r)),
     (''object_ref'', VOpt VStr (ed_object_ref r)), (''content_type'', VStr (ed_content_type r)),
     (''size_bytes'', VInt (ed_size_bytes r)), (''checksum_sha256'', VStr (ed_checksum_sha256 r)),
     (''source'', VStr (ed_source r)), (''status'', VStr (ed_status r)), (''uploader_ref'', VStr (ed_uploader_ref r)),
     (''correlation_id'', VStr (ed_correlation_id r)), (''registered_at'', json_time (ed_registered_at r))]"

definition dump_context_out :: "context_row \<Rightarrow> pyval" where
  "dump_context_out r = VDict [(''provider_context_id'', VStr (cx_context_id r)),
     (''provider_name'', VStr (cx_provider_name r)), (''source_record_ref'', VStr (cx_source_record_ref r)),
     (''record_type'', VStr (cx_record_type r)), (''payload_json'', VDict (cx_payload r)),
     (''response_hash'', VStr (cx_response_hash r)), (''response_version'', VStr (cx_response_version r)),
     (''correlation_id'', VStr (cx_correlation_id r)), (''retrieved_at'', json_pytime (cx_retrieved_at r))]"

definition dump_timeline_out :: "timeline_row \<Rightarrow> pyval" where
  "dump_timeline_out r = VDict [(''timeline_entry_id'', VStr (tl_entry_id r)), (''case_id'', VStr (tl_case_id r)),
     (''event_type'', VStr (tl_event_type r)), (''message'', VStr (tl_message r)), (''actor'', VStr (tl_actor r)),
     (''source'', VStr (tl_source r)), (''audit_event_id'', VOpt VStr (tl_audit_event_id r)),
     (''correlation_id'', VStr (tl_correlation_id r)), (''occurred_at'', json_time (tl_occurred_at r))]"

definition dump_audit_out :: "audit_row \<Rightarrow> pyval" where
  "dump_audit_out r = VDict [(''audit_event_id'', VStr (au_event_id r)), (''case_id'', VStr (au_case_id r)),
     (''event_type'', VStr (au_event_type r)), (''actor_type'', VStr (au_actor_type r)),
     (''actor_ref'', VStr (au_actor_ref r)), (''source'', VStr (au_source r)),
     (''object_ref'', VOpt VStr (au_object_ref r)), (''before_hash'', VOpt VStr (au_before_hash r)),
     (''after_hash'', VOpt VStr (au_after_hash r)), (''state_version'', VInt (au_state_version r)),
     (''event_metadata'', au_metadata r), (''correlation_id'', VStr (au_correlation_id r)),
     (''created_at'', json_time (au_created_at r))]"

definition summary_entries :: "case_row \<Rightarrow> (string, pyval) dict" where
  "summary_entries c = [(''case_id'', VStr (ca_case_id c)), (''customer_ref'', VStr (ca_customer_ref c)),
     (''account_ref'', VOpt VStr (ca_account_ref c)), (''transaction_ref'', VStr (ca_transaction_ref c)),
     (''channel'', VStr (ca_channel c)), (''dispute_type'', VStr (ca_dispute_type c)),
     (''status'', VStr (ca_status c)), (''correlation_id'', VStr (ca_correlation_id c)),
     (''state_version'', VInt (ca_state_version c)), (''opened_at'', json_time (ca_opened_at c)),
     (''updated_at'', json_time (ca_updated_at c)), (''closed_at'', VOpt json_time (ca_closed_at c))]"

record case_response =
  cr_case :: case_row
  cr_timeline :: "timeline_row list"
  cr_evidence :: "evidence_row list"
  cr_context :: "context_row list"
  cr_audits :: "audit_row list"
  cr_replay_count :: int

definition dump_case_response :: "case_response \<Rightarrow> (string, pyval) dict" where
  "dump_case_response r = summary_entries (cr_case r) @
     [(''channel_metadata'', ca_channel_metadata (cr_case r)), (''description'', VStr (ca_description (cr_case r))),
      (''submitted_at'', json_pytime (ca_submitted_at (cr_case r))),
      (''created_at'', json_time (ca_created_at (cr_case r))),
      (''timeline'', VList (map dump_timeline_out (cr_timeline r))),
      (''evidence_metadata'', VList (map dump_evidence_out (cr_evidence r))),
      (''provider_context'', VList (map dump_context_out (cr_context r))),
      (''audit_events'', VList (map dump_audit_out (cr_audits r))),
      (''idempotency_replay_count'', VInt (cr_replay_count r))]"

definition dump_registration :: "evidence_row \<Rightarrow> int \<Rightarrow> bool \<Rightarrow> (string, pyval) dict" where
  "dump_registration ev version was_replayed = [(''evidence'', dump_evidence_out ev), (''state_version'', VInt version),
     (''replayed'', VBool was_replayed)]"

text \<open>\<open>WorkflowResponse\<close> with its parts, in the order of the fields.\<close>

definition dump_checkpoint_out :: "checkpoint_row \<Rightarrow> pyval" where
  "dump_checkpoint_out c = VDict [(''checkpoint_id'', VStr (ck_checkpoint_id c)), (''checkpoint_seq'', VInt (ck_seq c)),
     (''state_version'', VInt (ck_state_version c)), (''current_node'', VStr (ck_current_node c)),
     (''status'', VStr (ck_status c)), (''state_hash'', VStr (ck_state_hash c)),
     (''interrupt_reason'', VOpt VStr (ck_interrupt_reason c)), (''side_effect_keys'', VStrs (ck_side_effects c)),
     (''telemetry'', VDict (ck_telemetry c)), (''correlation_id'', VStr (ck_correlation_id c)),
     (''created_at'', json_time (ck_created_at c))]"

definition telemetry_fields :: "string list" where
  "telemetry_fields = [''case_id'', ''workflow_id'', ''graph_version'', ''current_node'', ''state_version'',
     ''correlation_id'', ''node_count'', ''checkpoint_count'', ''interrupt_count'', ''retry_count'', ''status'',
     ''latency_ms'']"

text \<open>\<open>WorkflowTelemetryOut\<close> ignores keys it does not know.\<close>

definition dump_telemetry_out :: "(string, pyval) dict \<Rightarrow> pyval" where
  "dump_telemetry_out t = VDict (map (\<lambda>k. (k, dict_get t k (VInt 0))) telemetry_fields)"

definition dump_interrupt_out :: "(string, pyval) dict \<Rightarrow> pyval" where
  "dump_interrupt_out i = VDict [(''required'', VBool (truthy (dict_get i ''required'' (VBool False)))),
     (''reason'', dict_get i ''reason'' VNone), (''message'', dict_get i ''message'' VNone),
     (''resume_requirements'', dict_get i ''resume_requirements'' (VList []))]"

record workflow_response =
  wp_run :: run_row
  wp_checkpoint :: "checkpoint_row option"
  wp_replayed :: bool

definition response_state :: "workflow_response \<Rightarrow> (string, pyval) dict" where
  "response_state r = (case wp_checkpoint r of None \<Rightarrow> [] | Some c \<Rightarrow> state_entries (ck_state c))"

definition dict_at :: "(string, pyval) dict \<Rightarrow> string \<Rightarrow> (string, pyval) dict" where
  "dict_at d k = (case map_of d k of Some (VDict v) \<Rightarrow> v | _ \<Rightarrow> [])"

definition dump_workflow_response :: "workflow_response \<Rightarrow> (string, pyval) dict" where
  "dump_workflow_response r =
     [(''workflow_id'', VStr (wr_workflow_id (wp_run r))), (''case_id'', VStr (wr_case_id (wp_run r))),
      (''status'', VStr (wr_status (wp_run r))), (''current_node'', VStr (wr_current_node (wp_run r))),
      (''state_version'', VInt (wr_state_version (wp_run r))), (''graph_version'', VStr (wr_graph_version (wp_run r))),
      (''correlation_id'', VStr (wr_correlation_id (wp_run r))),
      (''checkpoint'', VOpt dump_checkpoint_out (wp_checkpoint r)),
      (''interrupt'', dump_interrupt_out (dict_at (response_state r) ''interrupt'')),
      (''stage_summaries'', VDict (dict_at (response_state r) ''stage_summaries'')),
      (''error_metadata'', dict_get (response_state r) ''errors'' (VList [])),
      (''telemetry'', dump_telemetry_out (wr_telemetry (wp_run r))), (''replayed'', VBool (wp_replayed r))]"

section \<open>The check of a workflow state\<close>

definition forbidden_keys :: "string list" where
  "forbidden_keys = [''provider_payloads'', ''raw_provider_payload'', ''raw_provider_payloads'', ''hidden_reasoning'',
     ''evidence_binary'', ''evidence_binaries'', ''secret'', ''secrets'', ''token'', ''tokens'']"

fun collect_keys :: "pyval \<Rightarrow> string list"
  and collect_keys_list :: "pyval list \<Rightarrow> string list"
  and collect_keys_items :: "(string \<times> pyval) list \<Rightarrow> string list" where
  "collect_keys (VDict d) = collect_keys_items d"
| "collect_keys (VList xs) = collect_keys_list xs"
| "collect_keys VNone = []" | "collect_keys (VBool b) = []" | "collect_keys (VInt n) = []"
| "collect_keys (VFloat d) = []" | "collect_keys (VDec d) = []" | "collect_keys (VStr s) = []"
| "collect_keys (VTime t) = []"
| "collect_keys_list [] = []"
| "collect_keys_list (x # xs) = collect_keys x @ collect_keys_list xs"
| "collect_keys_items [] = []"
| "collect_keys_items ((k, v) # d) = lower k # collect_keys v @ collect_keys_items d"

definition validate_workflow_state_payload :: "(string, pyval) dict \<Rightarrow> (string, pyval) dict py" where
  "validate_workflow_state_payload state =
     (if length (py_str (VDict state)) > 20000 then Inl ValueErr
      else if list_ex (\<lambda>k. k \<in> set forbidden_keys) (collect_keys (VDict state)) then Inl ValueErr
      else Inr state)"

section \<open>If-Match\<close>

text \<open>\<open>(?:W/)?"?(\d+)"?\<close> matched against the whole stripped text.\<close>

definition parse_if_match :: "string \<Rightarrow> int py" where
  "parse_if_match value =
     (let s = strip value;
          s1 = (if take 2 s = ''W/'' then drop 2 s else s);
          s2 = (if s1 \<noteq> [] \<and> hd s1 = CHR 0x22 then tl s1 else s1);
          ds = takeWhile is_digit s2; rest = dropWhile is_digit s2
      in if ds = [] \<or> rest \<notin> {[], [CHR 0x22]} then Inl ValueErr
         else if read_nat ds < 1 then Inl ValueErr else Inr (int (read_nat ds)))"

section \<open>Lemmas\<close>

text \<open>A key at any depth of a value.\<close>

inductive key_occurs :: "string \<Rightarrow> pyval \<Rightarrow> bool" where
  here: "(k, v) \<in> set d \<Longrightarrow> key_occurs k (VDict d)"
| in_dict: "(k', v) \<in> set d \<Longrightarrow> key_occurs k v \<Longrightarrow> key_occurs k (VDict d)"
| in_list: "v \<in> set xs \<Longrightarrow> key_occurs k v \<Longrightarrow> key_occurs k (VList xs)"

lemma collect_keys_list_mem: "v \<in> set xs \<Longrightarrow> set (collect_keys v) \<subseteq> set (collect_keys_list xs)"
  by (induction xs) auto

lemma collect_keys_items_mem: "(k, v) \<in> set d \<Longrightarrow> lower k \<in> set (collect_keys_items d) \<and>
    set (collect_keys v) \<subseteq> set (collect_keys_items d)"
  by (induction d) auto

lemma key_occurs_collected: "key_occurs k v \<Longrightarrow> lower k \<in> set (collect_keys v)"
proof (induction rule: key_occurs.induct)
  case (here k v d)
  then show ?case using collect_keys_items_mem by simp
next
  case (in_dict k' v d k)
  then show ?case using collect_keys_items_mem [of k' v d] by auto
next
  case (in_list v xs k)
  then show ?case using collect_keys_list_mem [of v xs] by auto
qed

lemma digit_char_code: "d \<le> 9 \<Longrightarrow> (of_char (digit_char d) :: nat) = 48 + d"
  by (simp add: digit_char_def)

lemma digit_char_neq: "d \<le> 9 \<Longrightarrow> of_char c < (48 :: nat) \<or> 57 < (of_char c :: nat) \<Longrightarrow> digit_char d \<noteq> c"
  using digit_char_code [of d] by auto

lemma digit_char_props:
  assumes "d \<le> 9"
  shows "is_digit (digit_char d)" and "digit_val (digit_char d) = d" and "\<not> is_space (digit_char d)"
    and "digit_char d \<noteq> CHR 0x22" and "digit_char d \<noteq> CHR ''W''"
  using digit_char_code [OF assms] digit_char_neq [OF assms] assms
  by (simp_all add: is_digit_def less_eq_char_def digit_val_def is_space_def)

lemma show_nat_cases:
  "n < 10 \<Longrightarrow> show_nat n = [digit_char n]"
  "\<not> n < 10 \<Longrightarrow> show_nat n = show_nat (n div 10) @ [digit_char (n mod 10)]"
  by (simp_all add: show_nat.simps [of n])

text \<open>Every property of digits holds of the digits of a number.\<close>

lemma show_nat_all: "(\<And>d. d \<le> 9 \<Longrightarrow> P (digit_char d)) \<Longrightarrow> list_all P (show_nat n)"
proof (induction n rule: show_nat.induct)
  case (1 n)
  then show ?case by (cases "n < 10") (simp_all add: show_nat_cases)
qed

lemma read_nat_snoc: "read_nat (s @ [c]) = 10 * read_nat s + digit_val c"
  by (simp add: read_nat_def)

lemma read_show_nat: "read_nat (show_nat n) = n"
proof (induction n rule: show_nat.induct)
  case (1 n)
  then show ?case
    by (cases "n < 10") (simp_all add: show_nat_cases read_nat_snoc digit_char_props, simp add: read_nat_def digit_char_props)
qed

lemma strip_id: "list_all (\<lambda>c. \<not> is_space c) s \<Longrightarrow> strip s = s"
proof -
  assume a: "list_all (\<lambda>c. \<not> is_space c) s"
  then have "list_all (\<lambda>c. \<not> is_space c) (rev s)" by simp
  moreover have "list_all (\<lambda>c. \<not> is_space c) t \<Longrightarrow> dropWhile is_space t = t" for t by (cases t) simp_all
  ultimately show ?thesis using a by (simp add: strip_def)
qed

lemma span_digits: "list_all is_digit ds \<Longrightarrow> r = [] \<or> \<not> is_digit (hd r) \<Longrightarrow>
    takeWhile is_digit (ds @ r) = ds \<and> dropWhile is_digit (ds @ r) = r"
  by (induction ds) (cases r, auto)

lemma parse_digits:
  assumes "list_all is_digit ds" and "ds \<noteq> []" and "hd ds \<noteq> CHR ''W''" and "hd ds \<noteq> CHR 0x22"
    and "list_all (\<lambda>c. \<not> is_space c) ds" and "1 \<le> read_nat ds"
    and "p \<in> {[], [CHR 0x22], ''W/'', ''W/'' @ [CHR 0x22]}" and "r \<in> {[], [CHR 0x22]}"
  shows "parse_if_match (p @ ds @ r) = Inr (int (read_nat ds))"
proof -
  have s: "strip (p @ ds @ r) = p @ ds @ r" using assms(5,7,8) by (intro strip_id) (auto simp: is_space_def)
  have "r = [] \<or> \<not> is_digit (hd r)" using assms(8) by (auto simp: is_digit_def)
  note sp = span_digits [OF assms(1) this]
  define x where "x = ds @ r"
  have x: "x \<noteq> []" "hd x \<noteq> CHR 0x22" "take 2 x \<noteq> ''W/''" "take 2 (CHR 0x22 # x) \<noteq> ''W/''"
    using assms(2-4) by (cases ds; simp add: x_def)+
  have sx: "strip (p @ x) = p @ x" using s by (simp add: x_def)
  have "p = [] \<or> p = [CHR 0x22] \<or> p = ''W/'' \<or> p = ''W/'' @ [CHR 0x22]" using assms(7) by blast
  moreover have "(dropWhile is_digit x \<notin> {[], [CHR 0x22]}) = False" "takeWhile is_digit x = ds"
    using sp assms(8) by (simp_all add: x_def)
  ultimately have "parse_if_match (p @ x) = Inr (int (read_nat ds))"
    by (elim disjE) (use assms(2,6) sx x in \<open>simp_all add: parse_if_match_def Let_def del: dropWhile_eq_Nil_conv\<close>)
  then show ?thesis by (simp add: x_def)
qed

section \<open>Properties\<close>





end
