(* ===== verification/CaseRepos.thy ===== *)
theory CaseRepos
  imports Tables Schemas Providers
begin

text \<open>
  \<open>app/adapters/repositories.py\<close>, the repositories of cases: idempotency records, cases, evidence
  metadata, provider context, audit events and the timeline.
\<close>

section \<open>Idempotency records\<close>

definition idem_get :: "string \<Rightarrow> string \<Rightarrow> idempotency_row option app" where
  "idem_get operation key = look (\<lambda>s. row_by idempotency_key (operation, key) (idempotency s))"

definition mark_replayed :: "idempotency_row \<Rightarrow> int \<Rightarrow> unit app" where
  "mark_replayed record moment = change_rows idempotency_update (\<lambda>r. idempotency_key r = idempotency_key record)
     (\<lambda>r. r\<lparr>id_replay_count := id_replay_count r + 1, id_last_replayed_at := Some moment\<rparr>)"

definition idem_add ::
  "string \<Rightarrow> string \<Rightarrow> string \<Rightarrow> string \<Rightarrow> pyval \<Rightarrow> int \<Rightarrow> string \<Rightarrow> int \<Rightarrow> unit app" where
  "idem_add operation key fingerprint case_id response status correlation now =
     insert_row idempotency idempotency_update idempotency_key
       \<lparr>id_operation = operation, id_key = key, id_fingerprint = fingerprint, id_case_id = Some case_id,
        id_response = Some response, id_status_code = status, id_correlation_id = correlation,
        id_replay_count = 0, id_last_replayed_at = None, id_created_at = now\<rparr>"

definition replay_count_for_case :: "string \<Rightarrow> int app" where
  "replay_count_for_case case_id = look (\<lambda>s. sum_list (map id_replay_count
     (filter (\<lambda>r. id_case_id r = Some case_id) (idempotency s))))"

section \<open>Cases\<close>

definition add_case :: "create_case_request \<Rightarrow> string \<Rightarrow> int \<Rightarrow> case_row app" where
  "add_case request correlation now = bnd uuid4 (\<lambda>cid.
     let c = \<lparr>ca_case_id = cid, ca_customer_ref = cq_customer_ref request, ca_account_ref = cq_account_ref request,
       ca_transaction_ref = cq_transaction_ref request, ca_channel = channel_text (cq_channel request),
       ca_channel_metadata = cq_channel_metadata request,
       ca_dispute_type = dispute_type_text (cq_dispute_type request), ca_description = cq_description request,
       ca_status = case_status_text Submitted, ca_correlation_id = correlation, ca_state_version = 1,
       ca_submitted_at = Aware (case cq_submitted_at request of None \<Rightarrow> now | Some t \<Rightarrow> t),
       ca_opened_at = now, ca_closed_at = None, ca_created_at = now, ca_updated_at = now\<rparr>
     in andthen (insert_row cases cases_update ca_case_id c) (ret c))"

definition case_get :: "string \<Rightarrow> case_row option app" where
  "case_get case_id = look (\<lambda>s. row_by ca_case_id case_id (cases s))"

definition matches :: "'a option \<Rightarrow> ('a \<Rightarrow> bool) \<Rightarrow> bool" where
  "matches x p = (case x of None \<Rightarrow> True | Some y \<Rightarrow> p y)"

record case_filter =
  fl_status :: "string option"
  fl_customer_ref :: "string option"
  fl_transaction_ref :: "string option"
  fl_channel :: "string option"
  fl_opened_from :: "int option"
  fl_opened_to :: "int option"

definition selected :: "case_filter \<Rightarrow> case_row \<Rightarrow> bool" where
  "selected f c \<longleftrightarrow> matches (fl_status f) (\<lambda>x. ca_status c = x) \<and>
     matches (fl_customer_ref f) (\<lambda>x. ca_customer_ref c = x) \<and>
     matches (fl_transaction_ref f) (\<lambda>x. ca_transaction_ref c = x) \<and>
     matches (fl_channel f) (\<lambda>x. ca_channel c = x) \<and>
     matches (fl_opened_from f) (\<lambda>t. t \<le> ca_opened_at c) \<and> matches (fl_opened_to f) (\<lambda>t. ca_opened_at c \<le> t)"

text \<open>A sort by several columns is a stable sort by the last column first.\<close>

definition list_cases :: "case_filter \<Rightarrow> case_row list app" where
  "list_cases f = look (\<lambda>s. sort_key (\<lambda>c. - ca_opened_at c) (sort_key ca_case_id (filter (selected f) (cases s))))"

definition increment_version :: "string \<Rightarrow> int \<Rightarrow> int \<Rightarrow> int app" where
  "increment_version case_id expected now =
     (let hit = (\<lambda>c. ca_case_id c = case_id \<and> ca_state_version c = expected) in
      bnd (look (\<lambda>s. length (filter hit (cases s)))) (\<lambda>n.
      andthen (change_rows cases_update hit (\<lambda>c. c\<lparr>ca_state_version := ca_state_version c + 1, ca_updated_at := now\<rparr>))
      (andthen (require (n = 1) OptimisticLock) (ret (expected + 1)))))"

definition case_count :: "int app" where
  "case_count = look (\<lambda>s. int (length (cases s)))"

section \<open>Evidence metadata and provider context\<close>

definition add_evidence :: "string \<Rightarrow> evidence_in \<Rightarrow> string \<Rightarrow> int \<Rightarrow> evidence_row app" where
  "add_evidence case_id ev correlation now = bnd uuid4 (\<lambda>eid.
     let r = \<lparr>ed_evidence_id = eid, ed_case_id = case_id, ed_evidence_type = evidence_type_text (ei_evidence_type ev),
       ed_file_name = ei_file_name ev, ed_object_ref = ei_object_ref ev, ed_content_type = ei_content_type ev,
       ed_size_bytes = ei_size_bytes ev, ed_checksum_sha256 = ei_checksum_sha256 ev, ed_source = ei_source ev,
       ed_status = ''registered'', ed_uploader_ref = ei_uploader_ref ev, ed_correlation_id = correlation,
       ed_registered_at = now\<rparr>
     in andthen (append_row evidence_rows_update r) (ret r))"

definition case_evidence :: "string \<Rightarrow> store \<Rightarrow> evidence_row list" where
  "case_evidence case_id s = sort_key ed_registered_at (sort_key ed_evidence_id
     (filter (\<lambda>r. ed_case_id r = case_id) (evidence_rows s)))"

definition list_evidence_rows :: "string \<Rightarrow> evidence_row list app" where
  "list_evidence_rows case_id = look (case_evidence case_id)"

definition add_result :: "string \<Rightarrow> string \<Rightarrow> provider_record \<Rightarrow> unit app" where
  "add_result case_id correlation r = bnd uuid4 (\<lambda>xid. append_row contexts_update
     \<lparr>cx_context_id = xid, cx_case_id = case_id, cx_provider_name = provider_name r,
      cx_source_record_ref = source_record_ref r, cx_record_type = record_type r, cx_payload = pr_facts r,
      cx_response_hash = response_hash r, cx_response_version = source_version r,
      cx_correlation_id = correlation, cx_retrieved_at = retrieved_at r\<rparr>)"

definition add_results :: "string \<Rightarrow> string \<Rightarrow> provider_record list \<Rightarrow> unit app" where
  "add_results case_id correlation rs = each (add_result case_id correlation) rs"

section \<open>Audit and timeline\<close>

definition audit_append :: "string \<Rightarrow> string \<Rightarrow> string \<Rightarrow> int \<Rightarrow> pyval \<Rightarrow> string \<Rightarrow> int \<Rightarrow> audit_row app" where
  "audit_append case_id event object_ref version metadata correlation now =
     bnd (ask en_audit_fails) (\<lambda>fails. andthen (require (\<not> fails) AuditWrite) (bnd uuid4 (\<lambda>aid.
       let r = \<lparr>au_event_id = aid, au_case_id = case_id, au_event_type = event, au_actor_type = ''SERVICE'',
         au_actor_ref = ''case-service'', au_source = ''case-api'', au_object_ref = Some object_ref,
         au_before_hash = None, au_after_hash = None, au_state_version = version, au_metadata = metadata,
         au_correlation_id = correlation, au_created_at = now\<rparr>
       in andthen (append_row audits_update r) (ret r))))"

definition append_case_created :: "case_row \<Rightarrow> int \<Rightarrow> audit_row app" where
  "append_case_created c now = audit_append (ca_case_id c) ''CASE_CREATED'' (ca_case_id c) (ca_state_version c)
     (VDict [(''status'', VStr (ca_status c)), (''dispute_type'', VStr (ca_dispute_type c)),
        (''transaction_ref'', VStr (ca_transaction_ref c))]) (ca_correlation_id c) now"

definition append_evidence_registered :: "case_row \<Rightarrow> evidence_row \<Rightarrow> int \<Rightarrow> string \<Rightarrow> int \<Rightarrow> audit_row app" where
  "append_evidence_registered c ev version correlation now =
     audit_append (ca_case_id c) ''EVIDENCE_METADATA_REGISTERED'' (ed_evidence_id ev) version
       (VDict [(''evidence_id'', VStr (ed_evidence_id ev)), (''evidence_type'', VStr (ed_evidence_type ev)),
          (''checksum_sha256'', VStr (ed_checksum_sha256 ev))]) correlation now"

definition timeline_add :: "string \<Rightarrow> string \<Rightarrow> string \<Rightarrow> audit_row \<Rightarrow> string \<Rightarrow> int \<Rightarrow> timeline_row app" where
  "timeline_add case_id event message audit correlation now = bnd uuid4 (\<lambda>tid.
     let r = \<lparr>tl_entry_id = tid, tl_case_id = case_id, tl_event_type = event, tl_message = message,
       tl_actor = ''case-service'', tl_source = ''case-api'', tl_audit_event_id = Some (au_event_id audit),
       tl_correlation_id = correlation, tl_occurred_at = now\<rparr>
     in andthen (append_row timeline_update r) (ret r))"

definition timeline_case_created :: "case_row \<Rightarrow> audit_row \<Rightarrow> int \<Rightarrow> timeline_row app" where
  "timeline_case_created c audit now = timeline_add (ca_case_id c) ''CASE_CREATED'' ''Synthetic dispute case created.''
     audit (ca_correlation_id c) now"

definition creation_first :: "string \<Rightarrow> int" where
  "creation_first event = (if event = ''CASE_CREATED'' then 0 else 1)"

definition case_timeline :: "string \<Rightarrow> store \<Rightarrow> timeline_row list" where
  "case_timeline case_id s = sort_key tl_occurred_at (sort_key (creation_first \<circ> tl_event_type)
     (sort_key tl_entry_id (filter (\<lambda>r. tl_case_id r = case_id) (timeline s))))"

definition list_timeline_rows :: "string \<Rightarrow> timeline_row list app" where
  "list_timeline_rows case_id = look (case_timeline case_id)"

section \<open>What the repositories preserve\<close>

text \<open>The store components a case operation never touches.\<close>

definition workflow_part :: "store \<Rightarrow> run_row list \<times> checkpoint_row list" where
  "workflow_part s = (runs s, checkpoints s)"

definition policy_part :: "store \<Rightarrow> document_row list \<times> chunk_row list \<times> corpus_row list \<times> ingestion_row list" where
  "policy_part s = (documents s, chunks s, corpora s, ingestions s)"

lemma preserves_append [preserved]: "(\<And>e s. Q e s \<Longrightarrow> Q e (upd (\<lambda>t. t @ [r]) s)) \<Longrightarrow> maintains Q (append_row upd r)"
  unfolding append_row_def by (rule preserves_modify)

lemma preserves_insert:
  "(\<And>e s. Q e s \<Longrightarrow> key_free key (rows s) r \<Longrightarrow> Q e (upd (\<lambda>t. t @ [r]) s)) \<Longrightarrow> maintains Q (insert_row rows upd key r)"
  by (auto simp: maintains_def insert_row_def bnd_def andthen_def look_def require_def raise_def ret_def modify_def)

lemma preserves_change: "(\<And>e s. Q e s \<Longrightarrow> Q e (upd (update_where p f) s)) \<Longrightarrow> maintains Q (change_rows upd p f)"
  unfolding change_rows_def by (rule preserves_modify)

lemmas case_repo_defs = idem_get_def mark_replayed_def idem_add_def replay_count_for_case_def add_case_def case_get_def
  list_cases_def increment_version_def case_count_def add_evidence_def list_evidence_rows_def add_result_def
  add_results_def audit_append_def append_case_created_def append_evidence_registered_def timeline_add_def
  timeline_case_created_def list_timeline_rows_def

text \<open>A property that no case table matters to.\<close>

definition case_blind :: "(store \<Rightarrow> bool) \<Rightarrow> bool" where
  "case_blind P \<longleftrightarrow> (\<forall>s f. P s \<longrightarrow> P (cases_update f s)) \<and> (\<forall>s f. P s \<longrightarrow> P (idempotency_update f s)) \<and>
     (\<forall>s f. P s \<longrightarrow> P (evidence_rows_update f s)) \<and> (\<forall>s f. P s \<longrightarrow> P (contexts_update f s)) \<and>
     (\<forall>s f. P s \<longrightarrow> P (audits_update f s)) \<and> (\<forall>s f. P s \<longrightarrow> P (timeline_update f s))"

lemma case_blind_workflows: "case_blind (\<lambda>s. workflow_part s = x)" "case_blind (\<lambda>s. policy_part s = y)"
  by (simp_all add: case_blind_def workflow_part_def policy_part_def)

lemma case_repo_blind:
  assumes "case_blind P"
  shows "preserves P (idem_get a b)" "preserves P (mark_replayed c d)" "preserves P (idem_add o1 k fp ci re st co t)"
    "preserves P (add_case rq co t)" "preserves P (increment_version ci ev t)" "preserves P (add_evidence ci ei co t)"
    "preserves P (add_results ci co rs)" "preserves P (audit_append ci ev2 ob ve me co t)"
    "preserves P (timeline_add ci ev2 ms au co t)"
  using assms unfolding case_repo_defs case_blind_def Let_def
  by (auto intro!: preserved intro: preserves_insert preserves_change)

end
