(* ===== verification/Idempotency.thy ===== *)
theory Idempotency
  imports CaseRepos
begin

text \<open>
  Idempotent operations.  \<open>create_case\<close>, \<open>register_evidence\<close>, \<open>start_workflow\<close> and \<open>resume_workflow\<close>
  share one protocol: the fingerprint of the request is compared with the one recorded under the key, a
  recorded response is replayed, and a fresh request runs in a transaction that records its response.
  The protocol is the locale \<open>idempotent_body\<close>; the services interpret it.
\<close>

section \<open>The protocol\<close>

definition fingerprint_request :: "pyval \<Rightarrow> env \<Rightarrow> string" where
  "fingerprint_request request e = en_sha e (dumps_compact request)"

definition stored_response :: "idempotency_row \<Rightarrow> (string, pyval) dict app" where
  "stored_response r = (case id_response r of None \<Rightarrow> raise (Py RuntimeErr)
     | Some v \<Rightarrow> (case v of VDict d \<Rightarrow> ret d | _ \<Rightarrow> raise (Py ValueErr)))"

definition replay :: "string \<Rightarrow> string \<Rightarrow> string \<Rightarrow> (string, pyval) dict option app" where
  "replay operation key fingerprint = bnd (idem_get operation key) (\<lambda>existing. case existing of
     None \<Rightarrow> ret None
   | Some r \<Rightarrow> andthen (require (id_fingerprint r = fingerprint) IdempotencyConflict)
       (bnd utc_now (\<lambda>now. andthen (mark_replayed r now) (bnd (stored_response r) (\<lambda>d. ret (Some d))))))"

definition idempotent :: "string \<Rightarrow> string \<Rightarrow> (env \<Rightarrow> string) \<Rightarrow> (string \<Rightarrow> (string, pyval) dict app) \<Rightarrow>
    ((string, pyval) dict \<times> bool) app" where
  "idempotent operation key fp body = bnd (ask fp) (\<lambda>f. bnd (replay operation key f) (\<lambda>old. case old of
     Some d \<Rightarrow> ret (d, True) | None \<Rightarrow> bnd (body f) (\<lambda>d. ret (d, False))))"

section \<open>Records\<close>

text \<open>The response \<open>d\<close> is recorded under the key with the fingerprint \<open>f\<close>.\<close>

definition recorded :: "string \<Rightarrow> string \<Rightarrow> string \<Rightarrow> (string, pyval) dict \<Rightarrow> store \<Rightarrow> bool" where
  "recorded operation key f d s \<longleftrightarrow> (\<exists>r. row_by idempotency_key (operation, key) (idempotency s) = Some r \<and>
     id_fingerprint r = f \<and> id_response r = Some (VDict d))"

definition records_complete :: "store \<Rightarrow> bool" where
  "records_complete s \<longleftrightarrow> (\<forall>r \<in> set (idempotency s). \<exists>d. id_response r = Some (VDict d))"

text \<open>What a replay leaves alone: every table but the counters of the idempotency records.\<close>

definition same_but_counters :: "store \<Rightarrow> store \<Rightarrow> bool" where
  "same_but_counters s s' \<longleftrightarrow> (\<exists>p t. s' = idempotency_update (update_where p
     (\<lambda>r. r\<lparr>id_replay_count := id_replay_count r + 1, id_last_replayed_at := Some t\<rparr>)) s)"

lemma recorded_insert: "recorded operation key f d s \<Longrightarrow> recorded operation key f d (idempotency_update (\<lambda>t. t @ [r]) s)"
  by (auto simp: recorded_def row_by_snoc)

lemma recorded_update:
  assumes rec: "recorded operation key f d s" and kept: "\<And>r. idempotency_key (g r) = idempotency_key r"
    "\<And>r. id_fingerprint (g r) = id_fingerprint r" "\<And>r. id_response (g r) = id_response r"
  shows "recorded operation key f d (idempotency_update (update_where p g) s)"
proof -
  from rec obtain r where "row_by idempotency_key (operation, key) (idempotency s) = Some r"
    and "id_fingerprint r = f" and "id_response r = Some (VDict d)" by (auto simp: recorded_def)
  then show ?thesis using kept
    by (auto simp: recorded_def row_by_update intro!: exI [of _ "if p r then g r else r"])
qed

lemma recorded_add:
  assumes "idem_add operation key f c (VDict d) st corr now e w = (Inr u, w')"
  shows "recorded operation key f d (db w')"
  using idempotency_table.found_after_insert [OF assms [unfolded idem_add_def]]
  by (simp add: recorded_def idempotency_key_def)

lemma replay_run: "replay operation key f e w = (Inr (Some d), w') \<Longrightarrow>
    recorded operation key f d (db w) \<and> same_but_counters (db w) (db w')"
  by (auto simp: replay_def idem_get_def app_simps recorded_def same_but_counters_def mark_replayed_def
      stored_response_def split: option.splits pyval.splits)

lemma replay_none: "replay operation key f e w = (Inr None, w') \<longleftrightarrow>
    row_by idempotency_key (operation, key) (idempotency (db w)) = None \<and> w' = w"
  by (auto simp: replay_def idem_get_def app_simps split: option.splits)

lemma replay_recorded:
  assumes "recorded operation key f d (db w)"
  shows "\<exists>w'. replay operation key f e w = (Inr (Some d), w') \<and> same_but_counters (db w) (db w')"
  using assms unfolding recorded_def same_but_counters_def
  by (auto simp: replay_def idem_get_def look_def bnd_def andthen_def require_def utc_now_def mark_replayed_def
      change_rows_def modify_def stored_response_def ret_def) blast

lemma replay_conflict:
  assumes "recorded operation key f d (db w)" and "f' \<noteq> f"
  shows "replay operation key f' e w = (Inl IdempotencyConflict, w)"
  using assms unfolding recorded_def
  by (auto simp: replay_def idem_get_def look_def bnd_def andthen_def require_def raise_def)

lemma replay_failure:
  assumes "records_complete (db w)" and "replay operation key f e w = (Inl x, w')"
  shows "db w' = db w"
proof (cases "row_by idempotency_key (operation, key) (idempotency (db w))")
  case None
  then show ?thesis using assms(2) by (simp add: replay_def idem_get_def bnd_def look_def ret_def)
next
  case (Some r)
  then obtain d where "id_response r = Some (VDict d)"
    using assms(1) row_by_Some by (fastforce simp: records_complete_def)
  with Some have "recorded operation key (id_fingerprint r) d (db w)" by (simp add: recorded_def)
  with assms(2) show ?thesis
    by (cases "f = id_fingerprint r") (auto dest: replay_recorded [of _ _ _ _ _ e] replay_conflict [of _ _ _ _ _ f e])
qed

section \<open>The contract of an idempotent operation\<close>

locale idempotent_body =
  fixes operation key :: string and fp :: "env \<Rightarrow> string" and body :: "string \<Rightarrow> (string, pyval) dict app"
  assumes body_records: "body f e w = (Inr d, w') \<Longrightarrow> recorded operation key f d (db w')"
    and body_rollback: "body f e w = (Inl x, w') \<Longrightarrow> db w' = db w"
begin

lemma records:
  assumes "idempotent operation key fp body e w = (Inr (d, again), w')"
  shows "(again \<longrightarrow> recorded operation key (fp e) d (db w) \<and> same_but_counters (db w) (db w')) \<and>
    (\<not> again \<longrightarrow> body (fp e) e w = (Inr d, w') \<and> recorded operation key (fp e) d (db w'))"
  using assms by (auto simp: idempotent_def app_simps replay_none split: option.splits dest: replay_run body_records)

lemma replays:
  assumes "recorded operation key (fp e) d (db w)"
  shows "\<exists>w'. idempotent operation key fp body e w = (Inr (d, True), w') \<and> same_but_counters (db w) (db w')"
  using replay_recorded [OF assms, of e] by (auto simp: idempotent_def bnd_def ask_def ret_def)

lemma conflicts:
  assumes "recorded operation key f d (db w)" and "fp e \<noteq> f"
  shows "idempotent operation key fp body e w = (Inl IdempotencyConflict, w)"
  using replay_conflict [OF assms, of e] by (simp add: idempotent_def bnd_def ask_def)

lemma atomic:
  assumes "records_complete (db w)" and "idempotent operation key fp body e w = (Inl x, w')"
  shows "db w' = db w"
proof (cases "replay operation key (fp e) e w")
  case (Pair r v)
  then show ?thesis
  proof (cases r)
    case (Inl y)
    then show ?thesis using assms Pair replay_failure [OF assms(1)] by (auto simp: idempotent_def bnd_def ask_def)
  next
    case (Inr old)
    then show ?thesis
    proof (cases old)
      case None
      then have "v = w" using Pair Inr replay_none by metis
      then show ?thesis using assms(2) Pair Inr None body_rollback
        by (auto simp: idempotent_def bnd_def ask_def ret_def split: prod.splits sum.splits)
    qed (use assms(2) Pair Inr in \<open>auto simp: idempotent_def bnd_def ask_def ret_def\<close>)
  qed
qed

end

text \<open>Any property the body preserves and the counters do not matter to is preserved.\<close>

definition counter_blind :: "(store \<Rightarrow> bool) \<Rightarrow> bool" where
  "counter_blind P \<longleftrightarrow> (\<forall>s p t. P s \<longrightarrow> P (idempotency_update (update_where p
     (\<lambda>r. r\<lparr>id_replay_count := id_replay_count r + 1, id_last_replayed_at := Some t\<rparr>)) s))"

lemma preserves_replay:
  assumes "counter_blind P"
  shows "preserves P (replay operation key f)"
  using assms unfolding replay_def idem_get_def mark_replayed_def stored_response_def counter_blind_def
  by (auto intro!: preserved preserves_change split: option.split pyval.split)

lemma preserves_idempotent [preserved]:
  assumes "counter_blind P" and "\<And>f. preserves P (body f)"
  shows "preserves P (idempotent operation key fp body)"
  unfolding idempotent_def using assms
  by (intro preserves_bnd preserves_replay) (auto intro!: preserved split: option.split)

end
