(* ===== verification/WorkflowRepo.thy ===== *)
theory WorkflowRepo
  imports CaseRepos
begin

text \<open>
  \<open>WorkflowRepository\<close> of \<open>app/adapters/repositories.py\<close>: runs and their durable checkpoints.  The
  invariant \<open>workflow_inv\<close> says what the two tables promise each other: the checkpoints of a run are
  numbered without gaps, the run carries the version and the status of its newest checkpoint, and a case
  has at most one active run.
\<close>

section \<open>Operations\<close>

definition ACTIVE_STATUSES :: "string list" where
  "ACTIVE_STATUSES = [''RUNNING'', ''WAITING_EVIDENCE'', ''WAITING_POLICY_REVIEW'', ''WAITING_RULE_REVIEW'',
     ''WAITING_SUPERVISOR_REVIEW'', ''WAITING_MANUAL_CLASSIFICATION'', ''MANUAL_PROCESSING'', ''CONTROLLED_STOP'']"

definition active_run :: "string \<Rightarrow> run_row \<Rightarrow> bool" where
  "active_run case_id r \<longleftrightarrow> wr_case_id r = case_id \<and> wr_status r \<in> set ACTIVE_STATUSES"

definition first_row :: "'a list \<Rightarrow> 'a option" where
  "first_row xs = (case xs of [] \<Rightarrow> None | x # _ \<Rightarrow> Some x)"

definition active_for_case :: "string \<Rightarrow> run_row option app" where
  "active_for_case case_id = look (\<lambda>s. first_row (sort_key (\<lambda>r. - wr_started_at r) (filter (active_run case_id) (runs s))))"

definition create_run :: "string \<Rightarrow> string \<Rightarrow> string \<Rightarrow> string \<Rightarrow> int \<Rightarrow> run_row app" where
  "create_run case_id graph_version correlation actor now = bnd (active_for_case case_id) (\<lambda>existing.
     andthen (require (existing = None) WorkflowConflict) (bnd uuid4 (\<lambda>wid.
       let r = \<lparr>wr_workflow_id = wid, wr_case_id = case_id, wr_graph_version = graph_version, wr_status = ''RUNNING'',
         wr_current_node = ''start'', wr_state_version = 1, wr_checkpoint_seq = 0, wr_interrupt_reason = None,
         wr_telemetry = [], wr_correlation_id = correlation, wr_started_by = actor, wr_started_at = now,
         wr_updated_at = now, wr_completed_at = None\<rparr>
       in andthen (insert_row runs runs_update wr_workflow_id r) (ret r))))"

definition get_run :: "string \<Rightarrow> run_row option app" where
  "get_run workflow_id = look (\<lambda>s. row_by wr_workflow_id workflow_id (runs s))"

definition run_checkpoints :: "string \<Rightarrow> store \<Rightarrow> checkpoint_row list" where
  "run_checkpoints workflow_id s = filter (\<lambda>c. ck_workflow_id c = workflow_id) (checkpoints s)"

definition latest_checkpoint :: "string \<Rightarrow> checkpoint_row option app" where
  "latest_checkpoint workflow_id = look (\<lambda>s. first_row (sort_key (\<lambda>c. - ck_seq c) (run_checkpoints workflow_id s)))"

definition hash_state :: "(string \<Rightarrow> string) \<Rightarrow> wf_state \<Rightarrow> string" where
  "hash_state sha s = sha (dumps_compact (VDict (state_entries s)))"

definition durable_state :: "string \<Rightarrow> wf_state \<Rightarrow> wf_state" where
  "durable_state graph_version s =
     (if graph_version = CONTROL_GRAPH_VERSION then s\<lparr>ws_case := None, ws_resume := None\<rparr> else s)"

definition advance_run ::
  "string \<Rightarrow> string \<Rightarrow> string option \<Rightarrow> (string, pyval) dict \<Rightarrow> int \<Rightarrow> run_row \<Rightarrow> run_row" where
  "advance_run status node reason telemetry now r = r\<lparr>wr_status := status, wr_current_node := node,
     wr_state_version := wr_state_version r + 1, wr_checkpoint_seq := wr_checkpoint_seq r + 1,
     wr_interrupt_reason := reason, wr_telemetry := telemetry, wr_updated_at := now,
     wr_completed_at := (if status \<in> {''COMPLETED'', ''CONTROLLED_STOP''} then Some now else wr_completed_at r)\<rparr>"

definition append_checkpoint :: "run_row \<Rightarrow> wf_state \<Rightarrow> string \<Rightarrow> string \<Rightarrow> string option \<Rightarrow> string list \<Rightarrow>
    (string, pyval) dict \<Rightarrow> string \<Rightarrow> int \<Rightarrow> (run_row \<times> checkpoint_row) app" where
  "append_checkpoint run state node status reason side_effects telemetry correlation now =
     (let state' = durable_state (wr_graph_version run) state; seq = wr_checkpoint_seq run + 1;
          version = wr_state_version run + 1;
          telemetry' = dict_set (dict_set telemetry ''state_version'' (VInt version)) ''checkpoint_count'' (VInt seq);
          run' = advance_run status node reason telemetry' now run
      in bnd (ask (\<lambda>e. hash_state (en_sha e) state')) (\<lambda>h. bnd uuid4 (\<lambda>cid.
         let c = \<lparr>ck_checkpoint_id = cid, ck_workflow_id = wr_workflow_id run, ck_case_id = wr_case_id run, ck_seq = seq,
           ck_state_version = version, ck_current_node = node, ck_status = status, ck_state = state', ck_state_hash = h,
           ck_interrupt_reason = reason, ck_side_effects = side_effects, ck_telemetry = telemetry',
           ck_correlation_id = correlation, ck_created_at = now\<rparr>
         in andthen (change_rows runs_update (\<lambda>r. wr_workflow_id r = wr_workflow_id run) (\<lambda>_. run'))
            (andthen (insert_row checkpoints checkpoints_update checkpoint_key c) (ret (run', c))))))"

definition compare_state_version :: "string \<Rightarrow> int \<Rightarrow> run_row app" where
  "compare_state_version workflow_id expected = bnd (get_run workflow_id) (\<lambda>found. case found of
     None \<Rightarrow> raise WorkflowRunNotFound
   | Some r \<Rightarrow> andthen (require (wr_state_version r = expected) WorkflowConflict) (ret r))"

lemmas workflow_repo_defs = active_for_case_def create_run_def get_run_def latest_checkpoint_def append_checkpoint_def
  compare_state_version_def

section \<open>What the two tables promise\<close>

text \<open>A checkpoint mirrors the state it stores.\<close>

definition mirrors :: "run_row \<Rightarrow> string \<Rightarrow> string \<Rightarrow> wf_state \<Rightarrow> bool" where
  "mirrors r status node s \<longleftrightarrow> ws_status s = status \<and> ws_current_node s = node \<and>
     ws_workflow_id s = wr_workflow_id r \<and> ws_case_id s = wr_case_id r \<and> ws_graph_version s = wr_graph_version r"

definition checkpoint_consistent :: "run_row \<Rightarrow> checkpoint_row \<Rightarrow> bool" where
  "checkpoint_consistent r c \<longleftrightarrow> ck_state_version c = ck_seq c + 1 \<and> ck_case_id c = wr_case_id r \<and>
     mirrors r (ck_status c) (ck_current_node c) (ck_state c) \<and>
     (ck_seq c = wr_checkpoint_seq r \<longrightarrow> ck_status c = wr_status r \<and> ck_current_node c = wr_current_node r \<and>
        ck_interrupt_reason c = wr_interrupt_reason r)"

definition run_consistent :: "store \<Rightarrow> run_row \<Rightarrow> bool" where
  "run_consistent s r \<longleftrightarrow> wr_status r \<in> set ACTIVE_STATUSES \<and> 0 \<le> wr_checkpoint_seq r \<and>
     wr_state_version r = wr_checkpoint_seq r + 1 \<and>
     map ck_seq (run_checkpoints (wr_workflow_id r) s) = [1..wr_checkpoint_seq r] \<and>
     (\<forall>c \<in> set (run_checkpoints (wr_workflow_id r) s). checkpoint_consistent r c)"

definition workflow_inv :: "store \<Rightarrow> bool" where
  "workflow_inv s \<longleftrightarrow> distinct (map wr_workflow_id (runs s)) \<and> distinct (map wr_case_id (runs s)) \<and>
     (\<forall>r \<in> set (runs s). run_consistent s r) \<and>
     (\<forall>c \<in> set (checkpoints s). ck_workflow_id c \<in> wr_workflow_id ` set (runs s))"

lemma workflow_inv_empty: "workflow_inv empty_store"
  by (simp add: workflow_inv_def empty_store_def)

lemma workflow_inv_part: "workflow_part s = workflow_part s' \<Longrightarrow> workflow_inv s = workflow_inv s'"
  by (simp add: workflow_inv_def workflow_part_def run_consistent_def run_checkpoints_def)

lemma first_row_None: "first_row xs = None \<longleftrightarrow> xs = []"
  by (simp add: first_row_def split: list.split)

lemma first_row_mem: "first_row xs = Some x \<Longrightarrow> x \<in> set xs"
  by (auto simp: first_row_def split: list.splits)

lemma no_active_run:
  assumes "workflow_inv s" and "first_row (sort_key f (filter (active_run case_id) (runs s))) = None"
  shows "case_id \<notin> wr_case_id ` set (runs s)"
proof -
  have "filter (active_run case_id) (runs s) = []"
    using assms(2) by (metis first_row_None length_0_conv length_sort)
  then show ?thesis
    using assms(1) by (auto simp: workflow_inv_def run_consistent_def filter_empty_conv active_run_def)
qed

lemma create_run_inv:
  assumes inv: "workflow_inv (db w)" and run: "create_run case_id graph corr actor now e w = (Inr r, w')"
  shows "workflow_inv (db w')" and "r \<in> set (runs (db w'))" and "wr_case_id r = case_id"
    and "wr_graph_version r = graph" and "wr_checkpoint_seq r = 0" and "wr_state_version r = 1"
    and "cases (db w') = cases (db w)"
proof -
  from run have fresh: "first_row (sort_key (\<lambda>r. - wr_started_at r) (filter (active_run case_id) (runs (db w)))) = None"
    and free: "key_free wr_workflow_id (runs (db w)) r"
    and db: "db w' = runs_update (\<lambda>t. t @ [r]) (db w)"
    and r: "wr_case_id r = case_id" "wr_graph_version r = graph" "wr_checkpoint_seq r = 0" "wr_state_version r = 1"
      "wr_status r = ''RUNNING''"
    by (auto simp: create_run_def active_for_case_def app_simps Let_def)
  have no_case: "case_id \<notin> wr_case_id ` set (runs (db w))" by (rule no_active_run [OF inv fresh])
  have none: "run_checkpoints (wr_workflow_id r) (db w) = []"
    using inv free by (auto simp: workflow_inv_def key_free_def run_checkpoints_def filter_empty_conv) metis
  have "run_consistent (db w') r"
    using r none by (simp add: run_consistent_def db run_checkpoints_def ACTIVE_STATUSES_def)
  then show "workflow_inv (db w')"
    using inv free no_case r(1) by (auto simp: workflow_inv_def db key_free_def run_consistent_def run_checkpoints_def)
  show "r \<in> set (runs (db w'))" by (simp add: db)
  show "cases (db w') = cases (db w)" by (simp add: db)
qed (use run in \<open>auto simp: create_run_def app_simps Let_def\<close>)

text \<open>The rows after a checkpoint: the run is replaced by the advanced one, the checkpoint is appended.\<close>

lemma append_checkpoint_run:
  assumes "append_checkpoint run st node status reason effects tel corr now e w = (Inr (run', c), w')"
  shows "db w' = checkpoints_update (\<lambda>t. t @ [c])
      (runs_update (update_where (\<lambda>r. wr_workflow_id r = wr_workflow_id run) (\<lambda>_. run')) (db w))"
    and "\<exists>tel'. run' = advance_run status node reason tel' now run"
    and "ck_workflow_id c = wr_workflow_id run" and "ck_case_id c = wr_case_id run"
    and "ck_seq c = wr_checkpoint_seq run + 1" and "ck_state_version c = wr_state_version run + 1"
    and "ck_status c = status" and "ck_current_node c = node" and "ck_interrupt_reason c = reason"
    and "ck_state c = durable_state (wr_graph_version run) st" and "ck_state_hash c = hash_state (en_sha e) (ck_state c)"
    and "ck_side_effects c = effects"
  using assms by (auto simp: append_checkpoint_def app_simps Let_def)

lemma durable_fields [simp]: "ws_status (durable_state g s) = ws_status s" "ws_case_id (durable_state g s) = ws_case_id s"
  "ws_current_node (durable_state g s) = ws_current_node s" "ws_workflow_id (durable_state g s) = ws_workflow_id s"
  "ws_graph_version (durable_state g s) = ws_graph_version s" "ws_state_version (durable_state g s) = ws_state_version s"
  "ws_control_evaluation_id (durable_state g s) = ws_control_evaluation_id s"
  by (simp_all add: durable_state_def)

lemma advance_fields [simp]: "wr_workflow_id (advance_run st n re t now r) = wr_workflow_id r"
  "wr_case_id (advance_run st n re t now r) = wr_case_id r"
  "wr_graph_version (advance_run st n re t now r) = wr_graph_version r"
  "wr_checkpoint_seq (advance_run st n re t now r) = wr_checkpoint_seq r + 1"
  "wr_state_version (advance_run st n re t now r) = wr_state_version r + 1"
  "wr_status (advance_run st n re t now r) = st" "wr_current_node (advance_run st n re t now r) = n"
  "wr_interrupt_reason (advance_run st n re t now r) = re"
  by (simp_all add: advance_run_def)

lemma mirrors_advance [simp]: "mirrors (advance_run st n re t now r) status node s = mirrors r status node s"
  by (simp add: mirrors_def)

lemma mirrors_durable [simp]: "mirrors r status node (durable_state g s) = mirrors r status node s"
  by (simp add: mirrors_def)

lemma runs_after_update:
  assumes "distinct (map wr_workflow_id rs)" and "run \<in> set rs" and "wr_workflow_id run' = wr_workflow_id run"
  shows "set (update_where (\<lambda>r. wr_workflow_id r = wr_workflow_id run) (\<lambda>_. run') rs) = insert run' (set rs - {run})"
  using assms by (auto simp: set_update_where distinct_map inj_on_def)

lemma run_keys_after_update:
  assumes "distinct (map wr_workflow_id rs)" and "run \<in> set rs" and "f run' = f run"
  shows "map f (update_where (\<lambda>r. wr_workflow_id r = wr_workflow_id run) (\<lambda>_. run') rs) = map f rs"
  using assms by (auto simp: update_where_def distinct_map inj_on_def)

lemma append_checkpoint_inv:
  assumes inv: "workflow_inv (db w)" and mem: "run \<in> set (runs (db w))" and active: "status \<in> set ACTIVE_STATUSES"
    and mirror: "mirrors run status node st"
    and app: "append_checkpoint run st node status reason effects tel corr now e w = (Inr (run', c), w')"
  shows "workflow_inv (db w') \<and> run' \<in> set (runs (db w'))"
proof -
  note rows = append_checkpoint_run [OF app]
  from rows(2) obtain tel' where run': "run' = advance_run status node reason tel' now run" by blast
  have dist: "distinct (map wr_workflow_id (runs (db w)))" and cases: "distinct (map wr_case_id (runs (db w)))"
    and all: "\<And>r. r \<in> set (runs (db w)) \<Longrightarrow> run_consistent (db w) r"
    and owned: "\<And>c. c \<in> set (checkpoints (db w)) \<Longrightarrow> ck_workflow_id c \<in> wr_workflow_id ` set (runs (db w))"
    using inv by (auto simp: workflow_inv_def)
  let ?new = "update_where (\<lambda>r. wr_workflow_id r = wr_workflow_id run) (\<lambda>_. run') (runs (db w))"
  have runs': "runs (db w') = ?new" and cks': "checkpoints (db w') = checkpoints (db w) @ [c]"
    by (simp_all add: rows(1))
  have set_new: "set ?new = insert run' (set (runs (db w)) - {run})"
    by (rule runs_after_update [OF dist mem]) (simp add: run')
  have mine: "run_checkpoints (wr_workflow_id run') (db w') = run_checkpoints (wr_workflow_id run) (db w) @ [c]"
    by (simp add: run_checkpoints_def cks' rows(3) run')
  have old: "run_consistent (db w) run" by (rule all [OF mem])
  then have "ck_seq ` set (run_checkpoints (wr_workflow_id run) (db w)) = {1..wr_checkpoint_seq run}"
    by (metis run_consistent_def list.set_map set_upto)
  then have below: "ck_seq x \<le> wr_checkpoint_seq run" if "x \<in> set (run_checkpoints (wr_workflow_id run) (db w))" for x
    using that by auto
  have "run_consistent (db w') run'"
    unfolding run_consistent_def mine
    using old active mirror
    by (auto simp: run_consistent_def checkpoint_consistent_def rows(4-10) run' upto_rec2 [of 1 "_ + 1"]
        simp del: upto.simps dest: below)
  moreover have "run_consistent (db w') r" if "r \<in> set (runs (db w)) - {run}" for r
  proof -
    have "wr_workflow_id r \<noteq> wr_workflow_id run"
      using that mem dist by (auto simp: distinct_map inj_on_def)
    then have "run_checkpoints (wr_workflow_id r) (db w') = run_checkpoints (wr_workflow_id r) (db w)"
      by (simp add: run_checkpoints_def cks' rows(3))
    then show ?thesis using all [of r] that by (simp add: run_consistent_def)
  qed
  ultimately have "\<forall>r \<in> set ?new. run_consistent (db w') r" by (auto simp: set_new)
  moreover have "map wr_workflow_id ?new = map wr_workflow_id (runs (db w))"
    by (rule run_keys_after_update [OF dist mem]) (simp add: run')
  moreover have "map wr_case_id ?new = map wr_case_id (runs (db w))"
    by (rule run_keys_after_update [OF dist mem]) (simp add: run')
  moreover have "ck_workflow_id k \<in> wr_workflow_id ` set ?new" if "k \<in> set (checkpoints (db w) @ [c])" for k
  proof -
    have "wr_workflow_id ` set ?new = wr_workflow_id ` set (runs (db w))"
      by (metis calculation(2) list.set_map)
    then show ?thesis using that owned mem rows(3) by auto
  qed
  ultimately have "workflow_inv (db w')"
    using dist cases by (simp add: workflow_inv_def runs' cks')
  then show ?thesis by (simp add: runs' set_new)
qed

end
