(* ===== verification/CaseSvc.thy ===== *)
theory CaseSvc
  imports Idempotency WorkflowRepo
begin

text \<open>
  \<open>app/services/case_service.py\<close>: creating a case, reading it, registering evidence.  Every write runs in
  one transaction and records its response; the bank is an argument.
\<close>

section \<open>Responses\<close>

definition CREATE_CASE_OPERATION :: string where
  "CREATE_CASE_OPERATION = ''create-case''"

definition case_context :: "string \<Rightarrow> store \<Rightarrow> context_row list" where
  "case_context case_id s = sort_key cx_record_type (sort_key cx_context_id
     (filter (\<lambda>r. cx_case_id r = case_id) (contexts s)))"

definition case_audits :: "string \<Rightarrow> store \<Rightarrow> audit_row list" where
  "case_audits case_id s = sort_key au_created_at (sort_key (creation_first \<circ> au_event_type)
     (sort_key au_event_id (filter (\<lambda>r. au_case_id r = case_id) (audits s))))"

definition to_response :: "case_row \<Rightarrow> case_response app" where
  "to_response c = bnd (replay_count_for_case (ca_case_id c)) (\<lambda>n. look (\<lambda>s.
     \<lparr>cr_case = c, cr_timeline = case_timeline (ca_case_id c) s, cr_evidence = case_evidence (ca_case_id c) s,
      cr_context = case_context (ca_case_id c) s, cr_audits = case_audits (ca_case_id c) s, cr_replay_count = n\<rparr>))"

definition get_case :: "string \<Rightarrow> case_response app" where
  "get_case case_id = bnd (case_get case_id) (\<lambda>found. case found of
     None \<Rightarrow> raise CaseNotFound | Some c \<Rightarrow> to_response c)"

section \<open>Operations\<close>

definition registered_message :: "string \<Rightarrow> string" where
  "registered_message file_name = ''Evidence metadata registered: '' @ file_name @ ''.''"

text \<open>One evidence input: the row, its audit event and its timeline entry.\<close>

definition record_evidence :: "case_row \<Rightarrow> int \<Rightarrow> string \<Rightarrow> int \<Rightarrow> evidence_in \<Rightarrow> evidence_row app" where
  "record_evidence c version correlation now ev =
     bnd (add_evidence (ca_case_id c) ev correlation now) (\<lambda>r.
     bnd (append_evidence_registered c r version correlation now) (\<lambda>a.
     bnd (timeline_add (ca_case_id c) ''EVIDENCE_METADATA_REGISTERED'' (registered_message (ed_file_name r)) a
       correlation now) (\<lambda>_. ret r)))"

definition create_case_body :: "banking \<Rightarrow> create_case_request \<Rightarrow> string \<Rightarrow> string \<Rightarrow> string \<Rightarrow> (string, pyval) dict app" where
  "create_case_body bank request key correlation fingerprint = bnd utc_now (\<lambda>now. transact (
     bnd (add_case request correlation now) (\<lambda>c.
     bnd (of_py (collect_context bank (VStr (cq_customer_ref request)) (VOpt VStr (cq_account_ref request))
       (VStr (cq_transaction_ref request)))) (\<lambda>records.
     andthen (add_results (ca_case_id c) correlation records)
     (bnd (append_case_created c now) (\<lambda>a.
     bnd (timeline_case_created c a now) (\<lambda>_.
     bnd (collect (record_evidence c (ca_state_version c) correlation now) (cq_evidence request)) (\<lambda>_.
     bnd (get_case (ca_case_id c)) (\<lambda>response.
     andthen (idem_add CREATE_CASE_OPERATION key fingerprint (ca_case_id c) (VDict (dump_case_response response)) 201
       correlation now)
     (ret (dump_case_response response)))))))))))"

definition create_case :: "banking \<Rightarrow> create_case_request \<Rightarrow> string \<Rightarrow> string \<Rightarrow> ((string, pyval) dict \<times> bool) app" where
  "create_case bank request key correlation = idempotent CREATE_CASE_OPERATION key
     (fingerprint_request (dump_create_case request)) (create_case_body bank request key correlation)"

definition case_list :: "case_filter \<Rightarrow> ((string, pyval) dict list \<times> nat) app" where
  "case_list f = bnd (list_cases f) (\<lambda>cs. ret (map summary_entries cs, length cs))"

definition evidence_operation :: "string \<Rightarrow> string" where
  "evidence_operation case_id = ''register-evidence:'' @ case_id"

definition register_body :: "string \<Rightarrow> evidence_in \<Rightarrow> string \<Rightarrow> int \<Rightarrow> string \<Rightarrow> string \<Rightarrow> (string, pyval) dict app" where
  "register_body case_id request key expected correlation fingerprint = bnd (case_get case_id) (\<lambda>found. case found of
     None \<Rightarrow> raise CaseNotFound
   | Some c \<Rightarrow> bnd utc_now (\<lambda>now. transact (
       bnd (increment_version case_id expected now) (\<lambda>version.
       bnd (record_evidence c version correlation now request) (\<lambda>r.
       andthen (idem_add (evidence_operation case_id) key fingerprint case_id (VDict (dump_registration r version False))
         201 correlation now)
       (ret (dump_registration r version False)))))))"

definition register_evidence :: "string \<Rightarrow> evidence_in \<Rightarrow> string \<Rightarrow> int \<Rightarrow> string \<Rightarrow> (string, pyval) dict app" where
  "register_evidence case_id request key expected correlation =
     bnd (idempotent (evidence_operation case_id) key (fingerprint_request (dump_evidence_in request))
       (register_body case_id request key expected correlation))
     (\<lambda>(d, again). ret (if again then dict_set d ''replayed'' (VBool True) else d))"

definition require_case :: "string \<Rightarrow> unit app" where
  "require_case case_id = bnd (case_get case_id) (\<lambda>found. require (found \<noteq> None) CaseNotFound)"

definition list_evidence :: "string \<Rightarrow> (pyval list \<times> nat) app" where
  "list_evidence case_id = andthen (require_case case_id) (bnd (list_evidence_rows case_id) (\<lambda>rs.
     ret (map dump_evidence_out rs, length rs)))"

definition get_timeline :: "string \<Rightarrow> (pyval list \<times> nat) app" where
  "get_timeline case_id = andthen (require_case case_id) (bnd (list_timeline_rows case_id) (\<lambda>rs.
     ret (map dump_timeline_out rs, length rs)))"

lemmas case_service_defs = to_response_def get_case_def record_evidence_def create_case_body_def register_body_def

section \<open>The idempotent operations\<close>

lemma create_body_records:
  assumes "create_case_body bank request key corr f e w = (Inr d, w')"
  shows "recorded CREATE_CASE_OPERATION key f d (db w')"
  using assms unfolding create_case_body_def transact_run
  by (auto elim!: bnd_InrE andthen_InrE simp: transact_run ret_run) (rule recorded_add)

lemma register_body_records:
  assumes "register_body case_id request key expected corr f e w = (Inr d, w')"
  shows "recorded (evidence_operation case_id) key f d (db w')"
  using assms unfolding register_body_def
  by (auto elim!: bnd_InrE andthen_InrE simp: transact_run ret_run raise_run split: option.splits) (rule recorded_add)

lemma timed_rollback: "bnd utc_now (\<lambda>now. transact (m now)) e w = (Inl x, w') \<Longrightarrow> db w' = db w"
  by (auto simp: bnd_def utc_now_def dest: transact_rollback)

lemma bnd_lookD: "bnd (look g) f e w = r \<Longrightarrow> f (g (db w)) e w = r"
  by (simp add: bnd_def look_def)

lemma create_body_rollback: "create_case_body bank request key corr f e w = (Inl x, w') \<Longrightarrow> db w' = db w"
  unfolding create_case_body_def by (rule timed_rollback)

lemma register_body_rollback: "register_body case_id request key expected corr f e w = (Inl x, w') \<Longrightarrow> db w' = db w"
  unfolding register_body_def case_get_def by (drule bnd_lookD) (auto simp: raise_def split: option.splits dest: timed_rollback)

interpretation creation: idempotent_body CREATE_CASE_OPERATION key "fingerprint_request (dump_create_case request)"
  "create_case_body bank request key correlation" for bank request key correlation
  by unfold_locales (rule create_body_records, assumption, rule create_body_rollback)

interpretation registration: idempotent_body "evidence_operation case_id" key
  "fingerprint_request (dump_evidence_in request)" "register_body case_id request key expected correlation"
  for case_id request key expected correlation
  by unfold_locales (rule register_body_records, assumption, rule register_body_rollback)

section \<open>The case invariant\<close>

text \<open>An audit event and a timeline entry that points to it.\<close>

definition trail :: "string \<Rightarrow> string \<Rightarrow> string \<Rightarrow> store \<Rightarrow> bool" where
  "trail event case_id ref s \<longleftrightarrow> (\<exists>a \<in> set (audits s). au_event_type a = event \<and> au_case_id a = case_id \<and>
     au_object_ref a = Some ref \<and> (\<exists>t \<in> set (timeline s). tl_case_id t = case_id \<and> tl_event_type t = event \<and>
       tl_audit_event_id t = Some (au_event_id a)))"

definition traced :: "store \<Rightarrow> bool" where
  "traced s \<longleftrightarrow> (\<forall>c \<in> set (cases s). trail ''CASE_CREATED'' (ca_case_id c) (ca_case_id c) s) \<and>
     (\<forall>v \<in> set (evidence_rows s). trail ''EVIDENCE_METADATA_REGISTERED'' (ed_case_id v) (ed_evidence_id v) s)"

definition owned_evidence :: "store \<Rightarrow> bool" where
  "owned_evidence s \<longleftrightarrow> (\<forall>v \<in> set (evidence_rows s). ed_case_id v \<in> ca_case_id ` set (cases s))"

definition cases_sound :: "store \<Rightarrow> bool" where
  "cases_sound s \<longleftrightarrow> distinct (map ca_case_id (cases s)) \<and>
     (\<forall>c \<in> set (cases s). 1 \<le> ca_state_version c \<and> ca_status c = case_status_text Submitted)"

definition case_inv :: "store \<Rightarrow> bool" where
  "case_inv s \<longleftrightarrow> cases_sound s \<and> owned_evidence s \<and> traced s \<and> records_complete s \<and>
     distinct (map idempotency_key (idempotency s))"

lemma case_inv_empty: "case_inv empty_store"
  by (simp add: case_inv_def cases_sound_def owned_evidence_def traced_def records_complete_def empty_store_def)

lemma trail_mono:
  "trail ev ci rf s \<Longrightarrow> set (audits s) \<subseteq> set (audits s') \<Longrightarrow> set (timeline s) \<subseteq> set (timeline s') \<Longrightarrow> trail ev ci rf s'"
  unfolding trail_def by blast

lemma preserves_transactI:
  assumes "\<And>e w a w'. P (db w) \<Longrightarrow> m e w = (Inr a, w') \<Longrightarrow> P (db w')"
  shows "preserves P (transact m)"
  unfolding maintains_def
proof (intro allI impI)
  fix e :: env and w :: world
  assume "P (db w)"
  then show "P (db (snd (transact m e w)))"
    using assms by (auto simp: transact_def split: prod.split sum.split)
qed

lemma case_inv_same:
  "case_inv s \<Longrightarrow> cases s' = cases s \<Longrightarrow> evidence_rows s' = evidence_rows s \<Longrightarrow> idempotency s' = idempotency s \<Longrightarrow>
   set (audits s) \<subseteq> set (audits s') \<Longrightarrow> set (timeline s) \<subseteq> set (timeline s') \<Longrightarrow> case_inv s'"
  unfolding case_inv_def cases_sound_def owned_evidence_def traced_def records_complete_def
  by (auto elim: trail_mono)

lemma case_inv_counters: "counter_blind case_inv"
  unfolding counter_blind_def
proof (intro allI impI)
  fix s :: store and p t
  let ?f = "\<lambda>r. r\<lparr>id_replay_count := id_replay_count r + 1, id_last_replayed_at := Some t\<rparr>"
  let ?s = "idempotency_update (update_where p ?f) s"
  assume inv: "case_inv s"
  have "distinct (map idempotency_key (idempotency ?s))"
    using inv update_where_keys [of idempotency_key ?f p "idempotency s"] by (simp add: case_inv_def idempotency_key_def)
  moreover have "records_complete ?s"
    using inv by (auto simp: case_inv_def records_complete_def set_update_where)
  moreover have "traced ?s" using inv by (simp add: case_inv_def traced_def trail_def)
  ultimately show "case_inv ?s" using inv by (simp add: case_inv_def cases_sound_def owned_evidence_def)
qed

lemma case_inv_idem_add:
  assumes "case_inv (db w)" and "idem_add o1 k f c (VDict d) st corr now e w = (Inr u, w')"
  shows "case_inv (db w')"
  using assms
  by (auto simp: idem_add_def app_simps key_free_def case_inv_def cases_sound_def owned_evidence_def traced_def trail_def
      records_complete_def)

text \<open>Recording one evidence input.\<close>

lemma record_evidence_run:
  assumes "record_evidence c v corr now ev e w = (Inr r, w')"
  obtains a t where "evidence_rows (db w') = evidence_rows (db w) @ [r]" "audits (db w') = audits (db w) @ [a]"
    "timeline (db w') = timeline (db w) @ [t]" "cases (db w') = cases (db w)" "idempotency (db w') = idempotency (db w)"
    "ed_case_id r = ca_case_id c" "au_event_type a = ''EVIDENCE_METADATA_REGISTERED''" "au_case_id a = ca_case_id c"
    "au_object_ref a = Some (ed_evidence_id r)" "tl_case_id t = ca_case_id c" "tl_event_type t = au_event_type a"
    "tl_audit_event_id t = Some (au_event_id a)" "au_state_version a = v"
  using assms
  by (auto simp: record_evidence_def add_evidence_def append_evidence_registered_def audit_append_def timeline_add_def
      Let_def app_simps intro!: that)

lemma record_evidence_inv:
  assumes inv: "case_inv (db w)" and mem: "ca_case_id c \<in> ca_case_id ` set (cases (db w))"
    and run: "record_evidence c v corr now ev e w = (Inr r, w')"
  shows "case_inv (db w') \<and> cases (db w') = cases (db w)"
proof -
  obtain a t where rows: "evidence_rows (db w') = evidence_rows (db w) @ [r]" "audits (db w') = audits (db w) @ [a]"
    "timeline (db w') = timeline (db w) @ [t]" "cases (db w') = cases (db w)" "idempotency (db w') = idempotency (db w)"
    "ed_case_id r = ca_case_id c" "au_event_type a = ''EVIDENCE_METADATA_REGISTERED''" "au_case_id a = ca_case_id c"
    "au_object_ref a = Some (ed_evidence_id r)" "tl_case_id t = ca_case_id c" "tl_event_type t = au_event_type a"
    "tl_audit_event_id t = Some (au_event_id a)"
    using run by (rule record_evidence_run)
  have "trail ''EVIDENCE_METADATA_REGISTERED'' (ed_case_id r) (ed_evidence_id r) (db w')"
    unfolding trail_def using rows by (intro bexI [of _ a] conjI bexI [of _ t]) auto
  moreover have "trail ev ci rf (db w) \<Longrightarrow> trail ev ci rf (db w')" for ev ci rf
    by (erule trail_mono) (simp_all add: rows subset_insertI)
  ultimately have "traced (db w')" using inv by (auto simp: case_inv_def traced_def rows)
  then show ?thesis
    using inv mem rows by (auto simp: case_inv_def cases_sound_def owned_evidence_def records_complete_def)
qed

lemma collect_evidence_inv:
  "case_inv (db w) \<Longrightarrow> ca_case_id c \<in> ca_case_id ` set (cases (db w)) \<Longrightarrow>
   collect (record_evidence c v corr now) evs e w = (Inr rs, w') \<Longrightarrow> case_inv (db w') \<and> cases (db w') = cases (db w)"
proof (induction evs arbitrary: w rs)
  case (Cons ev evs)
  from Cons.prems(3) obtain r w1 rs' where first: "record_evidence c v corr now ev e w = (Inr r, w1)"
    and rest: "collect (record_evidence c v corr now) evs e w1 = (Inr rs', w')"
    by (auto elim!: bnd_InrE simp: ret_run)
  from record_evidence_inv [OF Cons.prems(1,2) first] show ?case
    using Cons.IH [OF _ _ rest] Cons.prems(2) by simp
qed (simp add: ret_run)

lemma add_results_core:
  "add_results case_id corr rs e w = (Inr u, w') \<Longrightarrow> cases (db w') = cases (db w) \<and> audits (db w') = audits (db w) \<and>
     timeline (db w') = timeline (db w) \<and> evidence_rows (db w') = evidence_rows (db w) \<and>
     idempotency (db w') = idempotency (db w)"
proof (induction rs arbitrary: w)
  case (Cons r rs)
  then obtain w1 where "add_result case_id corr r e w = (Inr (), w1)" and rest: "add_results case_id corr rs e w1 = (Inr u, w')"
    by (auto simp: add_results_def elim!: andthen_InrE)
  with Cons.IH [OF rest] show ?case by (auto simp: add_result_def app_simps)
qed (simp add: add_results_def ret_run)

lemma get_case_run: "get_case case_id e w = (Inr r, w') \<Longrightarrow> w' = w \<and> row_by ca_case_id case_id (cases (db w)) = Some (cr_case r)"
  by (auto simp: get_case_def case_get_def to_response_def replay_count_for_case_def app_simps split: option.splits)

lemma readonly_get_case: "readonly (get_case case_id)"
  unfolding get_case_def case_get_def to_response_def replay_count_for_case_def
  by (auto intro!: readonly_bnd split: option.split)

text \<open>The case row with its creation event and timeline entry.\<close>

lemma created_inv:
  assumes inv: "case_inv (db w)" and add: "add_case request corr now e w = (Inr c, w1)"
    and ctx: "add_results ci corr rs e w1 = (Inr u, w2)" and aud: "append_case_created c now e w2 = (Inr a, w3)"
    and tim: "timeline_case_created c a now e w3 = (Inr t, w4)"
  shows "case_inv (db w4) \<and> ca_case_id c \<in> ca_case_id ` set (cases (db w4)) \<and> cases (db w4) = cases (db w) @ [c] \<and>
    ca_state_version c = 1"
proof -
  have c: "cases (db w1) = cases (db w) @ [c]" "key_free ca_case_id (cases (db w)) c" "ca_state_version c = 1"
    "ca_status c = case_status_text Submitted"
    and w1: "audits (db w1) = audits (db w)" "timeline (db w1) = timeline (db w)" "evidence_rows (db w1) = evidence_rows (db w)"
    "idempotency (db w1) = idempotency (db w)"
    using add by (auto simp: add_case_def app_simps Let_def)
  note w2 = add_results_core [OF ctx]
  have w4: "cases (db w4) = cases (db w2)" "audits (db w4) = audits (db w2) @ [a]" "timeline (db w4) = timeline (db w2) @ [t]"
    "evidence_rows (db w4) = evidence_rows (db w2)" "idempotency (db w4) = idempotency (db w2)"
    and a: "au_event_type a = ''CASE_CREATED''" "au_case_id a = ca_case_id c" "au_object_ref a = Some (ca_case_id c)"
    and t: "tl_case_id t = ca_case_id c" "tl_event_type t = ''CASE_CREATED''" "tl_audit_event_id t = Some (au_event_id a)"
    using aud tim by (auto simp: append_case_created_def timeline_case_created_def audit_append_def timeline_add_def
        app_simps Let_def)
  have "trail ''CASE_CREATED'' (ca_case_id c) (ca_case_id c) (db w4)"
    unfolding trail_def using w4 a t by (intro bexI [of _ a] conjI bexI [of _ t]) auto
  moreover have "trail ev ci rf (db w) \<Longrightarrow> trail ev ci rf (db w4)" for ev ci rf
    by (erule trail_mono) (simp_all add: w4 w2 w1 subset_insertI)
  ultimately have "traced (db w4)" using inv by (auto simp: case_inv_def traced_def w4 w2 c w1)
  then show ?thesis
    using inv c by (auto simp: case_inv_def cases_sound_def owned_evidence_def records_complete_def key_free_def w4 w2 w1)
qed

lemma create_body_inv: "preserves case_inv (create_case_body bank request key corr f)"
  unfolding create_case_body_def
proof (intro preserves_bnd preserves_transactI)
  fix now :: int and e :: env and w w' :: world and d
  assume inv: "case_inv (db w)"
  assume "bnd (add_case request corr now) (\<lambda>c.
     bnd (of_py (collect_context bank (VStr (cq_customer_ref request)) (VOpt VStr (cq_account_ref request))
       (VStr (cq_transaction_ref request)))) (\<lambda>records.
     andthen (add_results (ca_case_id c) corr records)
     (bnd (append_case_created c now) (\<lambda>a.
     bnd (timeline_case_created c a now) (\<lambda>_.
     bnd (collect (record_evidence c (ca_state_version c) corr now) (cq_evidence request)) (\<lambda>_.
     bnd (get_case (ca_case_id c)) (\<lambda>response.
     andthen (idem_add CREATE_CASE_OPERATION key f (ca_case_id c) (VDict (dump_case_response response)) 201 corr now)
     (ret (dump_case_response response))))))))) e w = (Inr d, w')"
  then obtain c w1 rs w1' u w2 a w3 t w4 vs w5 r w6 u' where
    steps: "add_case request corr now e w = (Inr c, w1)" "add_results (ca_case_id c) corr rs e w1' = (Inr u, w2)"
      "append_case_created c now e w2 = (Inr a, w3)" "timeline_case_created c a now e w3 = (Inr t, w4)"
    and same: "w1' = w1"
    and items: "collect (record_evidence c (ca_state_version c) corr now) (cq_evidence request) e w4 = (Inr vs, w5)"
    and resp: "get_case (ca_case_id c) e w5 = (Inr r, w6)"
    and rec: "idem_add CREATE_CASE_OPERATION key f (ca_case_id c) (VDict (dump_case_response r)) 201 corr now e w6 = (Inr u', w')"
    by (auto elim!: bnd_InrE andthen_InrE simp: ret_run of_py_run)
  from created_inv [OF inv steps(1) steps(2) [unfolded same] steps(3,4)] have "case_inv (db w5)"
    using collect_evidence_inv [OF _ _ items] by blast
  with get_case_run [OF resp] show "case_inv (db w')" using case_inv_idem_add [OF _ rec] by simp
qed simp

lemma increment_run:
  assumes "increment_version case_id v now e w = (Inr v', w')"
  shows "v' = v + 1" and "length (filter (\<lambda>c. ca_case_id c = case_id \<and> ca_state_version c = v) (cases (db w))) = 1"
    and "db w' = cases_update (update_where (\<lambda>c. ca_case_id c = case_id \<and> ca_state_version c = v)
      (\<lambda>c. c\<lparr>ca_state_version := ca_state_version c + 1, ca_updated_at := now\<rparr>)) (db w)"
  using assms by (auto simp: increment_version_def app_simps Let_def)

lemma increment_inv:
  assumes inv: "case_inv (db w)" and run: "increment_version case_id v now e w = (Inr v', w')"
  shows "case_inv (db w')" and "ca_case_id ` set (cases (db w')) = ca_case_id ` set (cases (db w))"
proof -
  let ?f = "\<lambda>c. c\<lparr>ca_state_version := ca_state_version c + 1, ca_updated_at := now\<rparr>"
  let ?p = "\<lambda>c. ca_case_id c = case_id \<and> ca_state_version c = v"
  have cs: "cases (db w') = update_where ?p ?f (cases (db w))" by (simp add: increment_run(3) [OF run])
  have ids: "map ca_case_id (cases (db w')) = map ca_case_id (cases (db w))"
    unfolding cs by (rule update_where_keys) simp
  then show img: "ca_case_id ` set (cases (db w')) = ca_case_id ` set (cases (db w))" by (metis list.set_map)
  have "cases_sound (db w')"
    unfolding cases_sound_def ids using inv by (auto simp: cs case_inv_def cases_sound_def set_update_where)
  moreover have "owned_evidence (db w')"
    unfolding owned_evidence_def img using inv by (simp add: case_inv_def owned_evidence_def increment_run(3) [OF run])
  moreover have "traced (db w')"
    using inv by (auto simp: case_inv_def traced_def trail_def set_update_where increment_run(3) [OF run])
  ultimately show "case_inv (db w')"
    using inv by (simp add: case_inv_def records_complete_def increment_run(3) [OF run])
qed

lemma register_body_run:
  assumes "register_body case_id request key v corr f e w = (Inr d, w')"
  obtains c now w1 v' w2 r w3 u where "row_by ca_case_id case_id (cases (db w)) = Some c" and "db w1 = db w"
    and "increment_version case_id v now e w1 = (Inr v', w2)"
    and "record_evidence c v' corr now request e w2 = (Inr r, w3)"
    and "idem_add (evidence_operation case_id) key f case_id (VDict (dump_registration r v' False)) 201 corr now
      e w3 = (Inr u, w')" and "d = dump_registration r v' False"
proof -
  from assms obtain c now w1 where c: "row_by ca_case_id case_id (cases (db w)) = Some c"
    and clock: "utc_now e w = (Inr now, w1)"
    and rest: "transact (bnd (increment_version case_id v now) (\<lambda>version.
       bnd (record_evidence c version corr now request) (\<lambda>r.
       andthen (idem_add (evidence_operation case_id) key f case_id (VDict (dump_registration r version False))
         201 corr now) (ret (dump_registration r version False))))) e w1 = (Inr d, w')"
    by (auto simp: register_body_def case_get_def look_run raise_run elim!: bnd_InrE split: option.splits)
  moreover have "db w1 = db w" using clock by (simp add: utc_now_run)
  ultimately show thesis
    by (auto simp: transact_run ret_run elim!: bnd_InrE andthen_InrE intro: that)
qed

lemma register_body_inv: "preserves case_inv (register_body case_id request key v corr f)"
  unfolding maintains_def
proof (intro allI impI)
  fix e :: env and w :: world
  assume inv: "case_inv (db w)"
  show "case_inv (db (snd (register_body case_id request key v corr f e w)))"
  proof (cases "register_body case_id request key v corr f e w")
    case (Pair r w')
    then show ?thesis
    proof (cases r)
      case (Inl x)
      then show ?thesis using register_body_rollback Pair inv by (metis snd_conv)
    next
      case (Inr d)
      with Pair have "register_body case_id request key v corr f e w = (Inr d, w')" by simp
      then show ?thesis
      proof (rule register_body_run)
        fix c now w1 v' w2 r w3 u
        assume c: "row_by ca_case_id case_id (cases (db w)) = Some c" and same: "db w1 = db w"
          and up: "increment_version case_id v now e w1 = (Inr v', w2)"
          and ev: "record_evidence c v' corr now request e w2 = (Inr r, w3)"
          and rec: "idem_add (evidence_operation case_id) key f case_id (VDict (dump_registration r v' False)) 201 corr now
            e w3 = (Inr u, w')"
        have "ca_case_id c \<in> ca_case_id ` set (cases (db w1))" using row_by_Some [OF c] same by auto
        then have "case_inv (db w3)"
          using increment_inv [OF _ up] record_evidence_inv [OF _ _ ev] inv same by simp
        then show ?thesis using case_inv_idem_add [OF _ rec] Pair by simp
      qed
    qed
  qed
qed

end
