(* ===== verification/PilotWorld.thy ===== *)
theory PilotWorld
  imports CaseRepos
begin

text \<open>
  A concrete environment and an empty world for the examples: the hash is the identity, identifiers count
  up, the clock moves one second per reading.
\<close>

definition pilot_env :: env where
  "pilot_env = \<lparr>en_sha = (\<lambda>s. s), en_uuid = (\<lambda>n. ''id-'' @ show_nat n),
     en_clock = (\<lambda>n. 63871286400000000 + 1000000 * int n), en_latency = (\<lambda>n. 1), en_app_env = ''local'', en_sqlite = False,
     en_audit_fails = False, en_policy_audit_fails = False\<rparr>"

definition pilot_world :: world where
  "pilot_world = \<lparr>db = empty_store, ids_used = 0, ticks = 0,
     memory = \<lparr>cm_evaluation = None, cm_profile = None, cm_at = 0\<rparr>\<rparr>"

lemma pilot_env_fields [simp]: "en_sha pilot_env s = s" "en_audit_fails pilot_env = False"
  "en_policy_audit_fails pilot_env = False" "en_sqlite pilot_env = False"
  "en_app_env pilot_env = ''local''"
  by (simp_all add: pilot_env_def)

lemma pilot_world_fields [simp]: "db pilot_world = empty_store" "ids_used pilot_world = 0" "ticks pilot_world = 0"
  by (simp_all add: pilot_world_def)

text \<open>Running a computation step by step: the continuation is not touched before its input is known.\<close>

named_theorems app_eval \<open>evaluation of a computation of the session\<close>

lemma bnd_weak: "m = m' \<Longrightarrow> bnd m f = bnd m' f"
  by simp

lemma andthen_weak: "m = m' \<Longrightarrow> andthen m n = andthen m' n"
  by simp

lemmas lazily = bnd_weak andthen_weak let_weak_cong

lemma bnd_eval [app_eval]: "m e w = (Inr a, w') \<Longrightarrow> bnd m f e w = f a e w'"
  by (simp add: bnd_def)

lemma bnd_fail [app_eval]: "m e w = (Inl x, w') \<Longrightarrow> bnd m f e w = (Inl x, w')"
  by (simp add: bnd_def)

lemma andthen_eval [app_eval]: "m e w = (Inr a, w') \<Longrightarrow> andthen m n e w = n e w'"
  by (simp add: andthen_def bnd_def)

lemma andthen_fail [app_eval]: "m e w = (Inl x, w') \<Longrightarrow> andthen m n e w = (Inl x, w')"
  by (simp add: andthen_def bnd_def)

lemma pure_eval [app_eval]: "ret x e w = (Inr x, w)" "raise err e w = (Inl err, w)" "ask f e w = (Inr (f e), w)"
  "look g e w = (Inr (g (db w)), w)" "modify h e w = (Inr (), w\<lparr>db := h (db w)\<rparr>)"
  "of_py (Inr x) e w = (Inr x, w)" "of_py (Inl p) e w = (Inl (Py p), w)"
  "require True err e w = (Inr (), w)" "require False err e w = (Inl err, w)"
  "uuid4 e w = (Inr (en_uuid e (ids_used w)), w\<lparr>ids_used := Suc (ids_used w)\<rparr>)"
  "utc_now e w = (Inr (en_clock e (ticks w)), w\<lparr>ticks := Suc (ticks w)\<rparr>)"
  "recall r e w = (Inr (r (memory w)), w)" "memorize mf e w = (Inr (), w\<lparr>memory := mf (memory w)\<rparr>)"
  "elapsed_ms e w = (Inr (en_latency e (ticks w)), w\<lparr>ticks := Suc (ticks w)\<rparr>)"
  by (simp_all add: app_defs of_py_def require_def)

lemma transact_eval [app_eval]: "m e w = (Inr a, w') \<Longrightarrow> transact m e w = (Inr a, w')"
  "m e w = (Inl x, w') \<Longrightarrow> transact m e w = (Inl x, w'\<lparr>db := db w\<rparr>)"
  by (simp_all add: transact_def)

lemma insert_row_eval [app_eval]: "key_free key (rows (db w)) r \<Longrightarrow>
    insert_row rows upd key r e w = (Inr (), w\<lparr>db := upd (\<lambda>t. t @ [r]) (db w)\<rparr>)"
  by (simp add: insert_row_def app_eval)

end
