(* ===== verification/Gateway.thy ===== *)
theory Gateway
  imports PilotWorld
begin

text \<open>
  \<open>app/services/model_gateway.py\<close> and \<open>app/services/classification.py\<close> with their schemas.  A model
  provider is an argument (any computation that returns a result): the gateway must be safe for all of
  them.  Scores are floats kept as the decimal they print as, which compares the same way.
\<close>

section \<open>Schemas\<close>

datatype category = CatDuplicate | CatUpi | CatAtm | CatUnsupported

fun category_text :: "category \<Rightarrow> string" where
  "category_text CatDuplicate = ''duplicate_card_transaction''"
| "category_text CatUpi = ''failed_upi_transfer''"
| "category_text CatAtm = ''atm_debit_without_cash''"
| "category_text CatUnsupported = ''unsupported''"

datatype gateway_status = GwAccepted | GwBypassed | GwFailed

fun gateway_status_text :: "gateway_status \<Rightarrow> string" where
  "gateway_status_text GwAccepted = ''accepted''"
| "gateway_status_text GwBypassed = ''bypassed''"
| "gateway_status_text GwFailed = ''failed''"

datatype failure_reason = AiKillSwitch | MissingConfiguration | TokenBudgetExceeded | DataPolicyViolation
  | ProviderTimeout | ProviderError | SchemaValidationFailed | UnsupportedCategory | LowConfidence

fun failure_text :: "failure_reason \<Rightarrow> string" where
  "failure_text AiKillSwitch = ''ai_kill_switch''"
| "failure_text MissingConfiguration = ''missing_configuration''"
| "failure_text TokenBudgetExceeded = ''token_budget_exceeded''"
| "failure_text DataPolicyViolation = ''data_policy_violation''"
| "failure_text ProviderTimeout = ''provider_timeout''"
| "failure_text ProviderError = ''provider_error''"
| "failure_text SchemaValidationFailed = ''schema_validation_failed''"
| "failure_text UnsupportedCategory = ''unsupported_category''"
| "failure_text LowConfidence = ''low_confidence''"

record route_config =
  rt_version :: string
  rt_primary :: string
  rt_fallback :: "string option"
  rt_model_ref :: string
  rt_token_budget :: nat
  rt_timeout_ms :: int
  rt_retry_limit :: nat
  rt_enabled :: bool

record gateway_request =
  gq_capability :: string
  gq_case_id :: "string option"
  gq_workflow_id :: "string option"
  gq_correlation_id :: string
  gq_prompt_version :: string
  gq_route :: route_config
  gq_schema_version :: string
  gq_input_text :: string
  gq_untrusted :: "(string, pyval) dict"

record provider_result =
  pr_provider_ref :: string
  pr_status :: string
  pr_output :: "(string, pyval) dict"
  pr_token_usage :: "(string, pyval) dict"
  pr_latency_ms :: int
  pr_error_code :: "string option"

record gateway_telemetry =
  gt_capability :: string
  gt_case_id :: "string option"
  gt_workflow_id :: "string option"
  gt_correlation_id :: string
  gt_route_ref :: string
  gt_prompt_version :: string
  gt_schema_version :: string
  gt_latency_ms :: int
  gt_token_usage :: "(string, pyval) dict"
  gt_attempt_count :: nat
  gt_fallback_used :: bool
  gt_kill_switch :: bool
  gt_status :: gateway_status
  gt_reason :: "failure_reason option"

definition dump_gateway_telemetry :: "gateway_telemetry \<Rightarrow> (string, pyval) dict" where
  "dump_gateway_telemetry t = [(''capability'', VStr (gt_capability t)), (''case_id'', VOpt VStr (gt_case_id t)),
     (''workflow_id'', VOpt VStr (gt_workflow_id t)), (''correlation_id'', VStr (gt_correlation_id t)),
     (''provider_route_ref'', VStr (gt_route_ref t)), (''prompt_version'', VStr (gt_prompt_version t)),
     (''schema_version'', VStr (gt_schema_version t)), (''latency_ms'', VInt (gt_latency_ms t)),
     (''token_usage'', VDict (gt_token_usage t)), (''attempt_count'', VInt (int (gt_attempt_count t))),
     (''fallback_used'', VBool (gt_fallback_used t)), (''kill_switch_enabled'', VBool (gt_kill_switch t)),
     (''status'', VStr (gateway_status_text (gt_status t))),
     (''failure_reason'', VOpt (\<lambda>r. VStr (failure_text r)) (gt_reason t))]"

record class_attributes =
  at_transaction_ref :: "string option"
  at_channel :: "string option"
  at_evidence :: "string option"
  at_customer :: "string option"

record class_output =
  cl_category :: category
  cl_confidence :: dec
  cl_attributes :: class_attributes
  cl_schema_version :: string
  cl_prompt_version :: string
  cl_route_version :: string
  cl_correlation_id :: string

definition dump_attributes :: "class_attributes \<Rightarrow> pyval" where
  "dump_attributes a = VDict [(''transaction_ref'', VOpt VStr (at_transaction_ref a)),
     (''dispute_channel'', VOpt VStr (at_channel a)), (''evidence_signal'', VOpt VStr (at_evidence a)),
     (''customer_signal'', VOpt VStr (at_customer a))]"

definition dump_output :: "class_output \<Rightarrow> (string, pyval) dict" where
  "dump_output x = [(''category'', VStr (category_text (cl_category x))), (''confidence'', VFloat (Finite (cl_confidence x))),
     (''supporting_attributes'', dump_attributes (cl_attributes x)), (''schema_version'', VStr (cl_schema_version x)),
     (''prompt_version'', VStr (cl_prompt_version x)), (''model_route_version'', VStr (cl_route_version x)),
     (''correlation_id'', VStr (cl_correlation_id x))]"

text \<open>\<open>ClassificationOutput.model_validate\<close>: unknown keys are ignored, a missing or ill-typed field, a score
  outside [0, 1] or an unknown category is a \<open>ValidationError\<close> (a \<open>ValueError\<close>).\<close>

definition read_category :: "pyval option \<Rightarrow> category py" where
  "read_category v = (if v = Some (VStr ''duplicate_card_transaction'') then Inr CatDuplicate
     else if v = Some (VStr ''failed_upi_transfer'') then Inr CatUpi
     else if v = Some (VStr ''atm_debit_without_cash'') then Inr CatAtm
     else if v = Some (VStr ''unsupported'') then Inr CatUnsupported else Inl ValueErr)"

definition unit_score :: "pydec \<Rightarrow> dec py" where
  "unit_score d = (case d of Finite x \<Rightarrow> if dec_le (dec_of_int 0) x \<and> dec_le x (dec_of_int 1) then Inr x else Inl ValueErr
     | _ \<Rightarrow> Inl ValueErr)"

fun read_confidence :: "pyval option \<Rightarrow> dec py" where
  "read_confidence (Some (VStr s)) = (case dec_of_string s of Inr d \<Rightarrow> unit_score d | Inl _ \<Rightarrow> Inl ValueErr)"
| "read_confidence (Some v) = (case numeric v of Some d \<Rightarrow> unit_score d | None \<Rightarrow> Inl ValueErr)"
| "read_confidence None = Inl ValueErr"

definition read_text :: "nat \<Rightarrow> string option \<Rightarrow> pyval option \<Rightarrow> string py" where
  "read_text hi dflt v = (case v of None \<Rightarrow> (case dflt of None \<Rightarrow> Inl ValueErr | Some d \<Rightarrow> Inr d)
     | Some (VStr s) \<Rightarrow> if sized 1 hi s then Inr s else Inl ValueErr | Some _ \<Rightarrow> Inl ValueErr)"

definition read_opt_text :: "pyval option \<Rightarrow> string option py" where
  "read_opt_text v = (case v of None \<Rightarrow> Inr None | Some VNone \<Rightarrow> Inr None | Some (VStr s) \<Rightarrow> Inr (Some s) | _ \<Rightarrow> Inl ValueErr)"

definition read_attributes :: "pyval option \<Rightarrow> class_attributes py" where
  "read_attributes v = (case v of
     None \<Rightarrow> Inr \<lparr>at_transaction_ref = None, at_channel = None, at_evidence = None, at_customer = None\<rparr>
   | Some (VDict d) \<Rightarrow> rbind (read_opt_text (map_of d ''transaction_ref'')) (\<lambda>t.
       rbind (read_opt_text (map_of d ''dispute_channel'')) (\<lambda>c. rbind (read_opt_text (map_of d ''evidence_signal'')) (\<lambda>e.
       rbind (read_opt_text (map_of d ''customer_signal'')) (\<lambda>u.
       Inr \<lparr>at_transaction_ref = t, at_channel = c, at_evidence = e, at_customer = u\<rparr>))))
   | Some _ \<Rightarrow> Inl ValueErr)"

definition read_output :: "(string, pyval) dict \<Rightarrow> class_output py" where
  "read_output d = rbind (read_category (map_of d ''category'')) (\<lambda>c. rbind (read_confidence (map_of d ''confidence'')) (\<lambda>s.
     rbind (read_attributes (map_of d ''supporting_attributes'')) (\<lambda>a.
     rbind (read_text 80 (Some ''classification-output-v1'') (map_of d ''schema_version'')) (\<lambda>sv.
     rbind (read_text 80 (Some ''classification-router-v1'') (map_of d ''prompt_version'')) (\<lambda>pv.
     rbind (read_text 80 (Some ''model-route-classification-v1'') (map_of d ''model_route_version'')) (\<lambda>rv.
     rbind (read_text 100 None (map_of d ''correlation_id'')) (\<lambda>ci.
     Inr \<lparr>cl_category = c, cl_confidence = s, cl_attributes = a, cl_schema_version = sv, cl_prompt_version = pv,
          cl_route_version = rv, cl_correlation_id = ci\<rparr>)))))))"

record gateway_response =
  gr_status :: gateway_status
  gr_output :: "(string, pyval) dict"
  gr_reason :: "failure_reason option"
  gr_provider_ref :: "string option"
  gr_fallback_used :: bool
  gr_attempt_count :: nat
  gr_token_usage :: "(string, pyval) dict"
  gr_telemetry :: gateway_telemetry

section \<open>The gateway\<close>

record ai_settings =
  ai_kill_switch :: bool
  ai_threshold :: dec
  ai_token_budget :: nat
  ai_timeout_ms :: int
  ai_retry_limit :: nat

type_synonym model_provider = "gateway_request \<Rightarrow> provider_result app"

definition estimate_tokens :: "string \<Rightarrow> nat" where
  "estimate_tokens s = max 1 (length (split_ws s))"

definition PROMPT_INJECTION_MARKERS :: "string list" where
  "PROMPT_INJECTION_MARKERS = [''ignore previous instructions'', ''system prompt'', ''tool permissions'',
     ''financial authority'', ''refund the customer'', ''issue credit'', ''send communication'']"

text \<open>The function only returns, whether a marker occurs or not.\<close>

definition assert_untrusted_content_is_data :: "string \<Rightarrow> unit app" where
  "assert_untrusted_content_is_data s =
     (if list_ex (\<lambda>m. contains m (lower s)) PROMPT_INJECTION_MARKERS then ret () else ret ())"

definition contains_disallowed_model_input :: "string \<Rightarrow> bool" where
  "contains_disallowed_model_input s \<longleftrightarrow> contains ''exfiltrate'' (lower s) \<or> contains ''api key'' (lower s) \<or>
     contains ''secret token'' (lower s)"

definition gateway_telemetry_of :: "ai_settings \<Rightarrow> gateway_request \<Rightarrow> gateway_status \<Rightarrow> nat \<Rightarrow> bool \<Rightarrow>
    (string, pyval) dict \<Rightarrow> string option \<Rightarrow> failure_reason option \<Rightarrow> bool \<Rightarrow> gateway_telemetry app" where
  "gateway_telemetry_of cfg q st attempts fallback usage pref reason killed = bnd elapsed_ms (\<lambda>ms.
     ret \<lparr>gt_capability = gq_capability q, gt_case_id = gq_case_id q, gt_workflow_id = gq_workflow_id q,
       gt_correlation_id = gq_correlation_id q,
       gt_route_ref = (case pref of Some p \<Rightarrow> if p = [] then rt_primary (gq_route q) else p
         | None \<Rightarrow> rt_primary (gq_route q)),
       gt_prompt_version = gq_prompt_version q, gt_schema_version = gq_schema_version q, gt_latency_ms = ms,
       gt_token_usage = usage, gt_attempt_count = attempts, gt_fallback_used = fallback,
       gt_kill_switch = (killed \<or> ai_kill_switch cfg), gt_status = st, gt_reason = reason\<rparr>)"

definition failure_response :: "ai_settings \<Rightarrow> gateway_request \<Rightarrow> failure_reason \<Rightarrow> nat \<Rightarrow> bool \<Rightarrow>
    (string, pyval) dict \<Rightarrow> bool \<Rightarrow> gateway_response app" where
  "failure_response cfg q reason attempts fallback usage killed =
     (let st = (if reason = AiKillSwitch then GwBypassed else GwFailed) in
      bnd (gateway_telemetry_of cfg q st attempts fallback usage None (Some reason) killed) (\<lambda>t.
      ret \<lparr>gr_status = st, gr_output = [], gr_reason = Some reason, gr_provider_ref = None, gr_fallback_used = fallback,
           gr_attempt_count = attempts, gr_token_usage = usage, gr_telemetry = t\<rparr>))"

text \<open>The second half, once a provider has answered.\<close>

definition gateway_answer ::
  "ai_settings \<Rightarrow> gateway_request \<Rightarrow> nat \<Rightarrow> bool \<Rightarrow> provider_result \<Rightarrow> gateway_response app" where
  "gateway_answer cfg q attempts fallback r =
     (if pr_status r \<noteq> ''ok'' then
        failure_response cfg q (if pr_status r = ''timeout'' then ProviderTimeout else ProviderError) attempts fallback
          (pr_token_usage r) False
      else case read_output (pr_output r) of
        Inl _ \<Rightarrow> failure_response cfg q SchemaValidationFailed attempts fallback (pr_token_usage r) False
      | Inr x \<Rightarrow> bnd (gateway_telemetry_of cfg q GwAccepted attempts fallback (pr_token_usage r) (Some (pr_provider_ref r))
            None False) (\<lambda>t.
          ret \<lparr>gr_status = GwAccepted, gr_output = dump_output x, gr_reason = None,
               gr_provider_ref = Some (pr_provider_ref r), gr_fallback_used = fallback, gr_attempt_count = attempts,
               gr_token_usage = pr_token_usage r, gr_telemetry = t\<rparr>))"

definition invoke_classification ::
  "ai_settings \<Rightarrow> model_provider \<Rightarrow> model_provider \<Rightarrow> gateway_request \<Rightarrow> gateway_response app" where
  "invoke_classification cfg provider fallback q =
     (let tokens = estimate_tokens (gq_input_text q); usage = [(''input'', VInt (int tokens))] in
      if ai_kill_switch cfg then failure_response cfg q AiKillSwitch 0 False [] True
      else if \<not> rt_enabled (gq_route q) then failure_response cfg q MissingConfiguration 0 False [] False
      else if rt_token_budget (gq_route q) < tokens then failure_response cfg q TokenBudgetExceeded 0 False usage False
      else if contains_disallowed_model_input (gq_input_text q) then
        failure_response cfg q DataPolicyViolation 0 False usage False
      else andthen (assert_untrusted_content_is_data (gq_input_text q)) (bnd (provider q) (\<lambda>primary.
        if pr_status primary \<in> {''timeout'', ''error''} \<and> 0 < rt_retry_limit (gq_route q)
        then bnd (fallback q) (gateway_answer cfg q 2 True)
        else gateway_answer cfg q 1 False primary)))"

section \<open>The deterministic provider\<close>

text \<open>Its call counter is read by no other code and left out.\<close>

definition detect :: "string \<Rightarrow> string \<Rightarrow> category \<times> dec" where
  "detect mode text =
     (if contains ''upi'' text \<or> contains ''transfer failed'' text then (CatUpi, Dec False 91 (-2))
      else if contains ''atm'' text \<or> contains ''cash'' text then (CatAtm, Dec False 9 (-1))
      else if contains ''duplicate'' text \<or> contains ''card'' text then (CatDuplicate, Dec False 92 (-2))
      else (CatUnsupported, if mode = ''low_confidence'' then Dec False 42 (-2) else Dec False 88 (-2)))"

definition signal_text :: "(string, pyval) dict \<Rightarrow> string \<Rightarrow> pyval" where
  "signal_text d k = (let t = py_str (dict_get d k (VStr [])) in if t = [] then VNone else VStr t)"

definition deterministic_provider :: "string \<Rightarrow> string \<Rightarrow> model_provider" where
  "deterministic_provider mode pref q =
     (let tokens = VInt (int (estimate_tokens (gq_input_text q)));
          found = detect mode (lower (gq_input_text q));
          score = (if mode = ''low_confidence'' then Dec False 41 (-2) else snd found)
      in ret (if mode = ''timeout'' then
          \<lparr>pr_provider_ref = pref, pr_status = ''timeout'', pr_output = [], pr_token_usage = [],
           pr_latency_ms = rt_timeout_ms (gq_route q), pr_error_code = Some (failure_text ProviderTimeout)\<rparr>
        else if mode = ''error'' then
          \<lparr>pr_provider_ref = pref, pr_status = ''error'', pr_output = [], pr_token_usage = [], pr_latency_ms = 1,
           pr_error_code = Some (failure_text ProviderError)\<rparr>
        else if mode = ''malformed'' then
          \<lparr>pr_provider_ref = pref, pr_status = ''ok'', pr_output = [(''category'', VStr ''duplicate_card_transaction'')],
           pr_token_usage = [(''input'', tokens), (''output'', VInt 8)], pr_latency_ms = 1, pr_error_code = None\<rparr>
        else
          \<lparr>pr_provider_ref = pref, pr_status = ''ok'',
           pr_output = [(''category'', VStr (category_text (fst found))), (''confidence'', VFloat (Finite score)),
             (''supporting_attributes'', VDict [(''transaction_ref'', signal_text (gq_untrusted q) ''transaction_ref''),
                (''dispute_channel'', signal_text (gq_untrusted q) ''channel''),
                (''evidence_signal'', VStr (py_str (dict_get (gq_untrusted q) ''evidence_count'' (VStr ''0'')))),
                (''customer_signal'', VStr ''description_keyword_match'')]),
             (''schema_version'', VStr (gq_schema_version q)), (''prompt_version'', VStr (gq_prompt_version q)),
             (''model_route_version'', VStr (rt_version (gq_route q))), (''correlation_id'', VStr (gq_correlation_id q))],
           pr_token_usage = [(''input'', tokens), (''output'', VInt 32)], pr_latency_ms = 1, pr_error_code = None\<rparr>))"

section \<open>The classification service\<close>

record class_input =
  ci_case_id :: "string option"
  ci_workflow_id :: "string option"
  ci_description :: string
  ci_hint :: "dispute_type option"
  ci_channel :: "channel option"
  ci_transaction_ref :: "string option"
  ci_evidence_count :: nat
  ci_correlation_id :: string

record decision =
  de_accepted :: bool
  de_output :: "class_output option"
  de_manual :: bool
  de_reason :: "failure_reason option"
  de_threshold :: dec
  de_telemetry :: gateway_telemetry
  de_metadata :: "(string, pyval) dict"

definition default_route :: "ai_settings \<Rightarrow> route_config" where
  "default_route cfg = \<lparr>rt_version = ''model-route-classification-v1'', rt_primary = ''deterministic-local'',
     rt_fallback = Some ''deterministic-fallback'', rt_model_ref = ''local-classifier-v1'',
     rt_token_budget = ai_token_budget cfg, rt_timeout_ms = ai_timeout_ms cfg, rt_retry_limit = ai_retry_limit cfg,
     rt_enabled = True\<rparr>"

definition text_or :: "('a \<Rightarrow> string) \<Rightarrow> 'a option \<Rightarrow> string" where
  "text_or f v = (case v of None \<Rightarrow> [] | Some x \<Rightarrow> f x)"

definition input_text :: "class_input \<Rightarrow> string" where
  "input_text i = join [CHR 0x0A] [''description: '' @ ci_description i,
     ''dispute_type_hint: '' @ text_or dispute_type_text (ci_hint i), ''channel: '' @ text_or channel_text (ci_channel i),
     ''transaction_ref: '' @ text_or id (ci_transaction_ref i), ''evidence_count: '' @ show_nat (ci_evidence_count i)]"

definition evaluation_metadata :: "class_output option \<Rightarrow> failure_reason option \<Rightarrow> (string, pyval) dict" where
  "evaluation_metadata out reason =
     [(''original_category'', VOpt (\<lambda>x. VStr (category_text (cl_category x))) out), (''corrected_category'', VNone),
      (''original_confidence'', VOpt (\<lambda>x. VFloat (Finite (cl_confidence x))) out), (''reviewer_rationale'', VNone),
      (''schema_version'', VStr (case out of None \<Rightarrow> ''classification-output-v1'' | Some x \<Rightarrow> cl_schema_version x)),
      (''prompt_version'', VStr (case out of None \<Rightarrow> ''classification-router-v1'' | Some x \<Rightarrow> cl_prompt_version x)),
      (''model_route_version'', VStr (case out of None \<Rightarrow> ''model-route-classification-v1''
         | Some x \<Rightarrow> cl_route_version x)),
      (''routing_reason'', VOpt (\<lambda>r. VStr (failure_text r)) reason), (''financial_outcome_authorized'', VBool False)]"

definition routing_reason :: "ai_settings \<Rightarrow> class_output \<Rightarrow> failure_reason option" where
  "routing_reason cfg x = (if cl_category x = CatUnsupported then Some UnsupportedCategory
     else if dec_lt (cl_confidence x) (ai_threshold cfg) then Some LowConfidence else None)"

definition classification_request :: "route_config \<Rightarrow> class_input \<Rightarrow> gateway_request" where
  "classification_request route i = \<lparr>gq_capability = ''classification'', gq_case_id = ci_case_id i,
     gq_workflow_id = ci_workflow_id i, gq_correlation_id = ci_correlation_id i,
     gq_prompt_version = ''classification-router-v1'', gq_route = route,
     gq_schema_version = ''classification-output-v1'', gq_input_text = input_text i,
     gq_untrusted = [(''transaction_ref'', VOpt VStr (ci_transaction_ref i)),
       (''channel'', VOpt (\<lambda>c. VStr (channel_text c)) (ci_channel i)), (''evidence_count'', VInt (int (ci_evidence_count i)))]\<rparr>"

definition classify ::
  "ai_settings \<Rightarrow> route_config \<Rightarrow> model_provider \<Rightarrow> model_provider \<Rightarrow> class_input \<Rightarrow> decision app" where
  "classify cfg route provider fallback i =
     andthen (require (sized 1 8000 (input_text i)) (Py ValueErr))
     (bnd (invoke_classification cfg provider fallback (classification_request route i)) (\<lambda>r.
      if gr_status r \<noteq> GwAccepted then
        ret \<lparr>de_accepted = False, de_output = None, de_manual = True, de_reason = gr_reason r,
             de_threshold = ai_threshold cfg, de_telemetry = gr_telemetry r, de_metadata = evaluation_metadata None None\<rparr>
      else bnd (of_py (read_output (gr_output r))) (\<lambda>x.
        let reason = routing_reason cfg x in
        ret \<lparr>de_accepted = (reason = None), de_output = Some x, de_manual = (reason \<noteq> None), de_reason = reason,
             de_threshold = ai_threshold cfg, de_telemetry = gr_telemetry r,
             de_metadata = evaluation_metadata (Some x) reason\<rparr>)))"

section \<open>Safety for every provider\<close>

lemma unit_score_bounds: "unit_score d = Inr x \<Longrightarrow> d = Finite x \<and> 0 \<le> dval x \<and> dval x \<le> 1"
  by (auto simp: unit_score_def dec_le_iff split: pydec.splits if_splits)

lemma read_confidence_bounds: "read_confidence v = Inr x \<Longrightarrow> 0 \<le> dval x \<and> dval x \<le> 1"
  by (cases v rule: read_confidence.cases) (auto split: sum.splits option.splits dest: unit_score_bounds)

lemma read_output_bounds: "read_output d = Inr x \<Longrightarrow> 0 \<le> dval (cl_confidence x) \<and> dval (cl_confidence x) \<le> 1"
  by (auto simp: read_output_def result_simps dest: read_confidence_bounds)

lemma failure_response_run:
  "failure_response cfg q reason n fb us k e w = (Inr r, w') \<Longrightarrow> gr_status r \<noteq> GwAccepted \<and> gr_reason r = Some reason \<and>
     gr_attempt_count r = n \<and> gt_attempt_count (gr_telemetry r) = n"
  by (auto simp: failure_response_def gateway_telemetry_of_def app_simps Let_def split: if_splits)

lemma gateway_answer_run:
  "gateway_answer cfg q n fb p e w = (Inr r, w') \<Longrightarrow> gr_attempt_count r = n \<and> gt_attempt_count (gr_telemetry r) = n \<and>
     gt_fallback_used (gr_telemetry r) = fb \<and> (gr_status r = GwAccepted \<longrightarrow> pr_status p = ''ok'')"
  by (auto simp: gateway_answer_def failure_response_def gateway_telemetry_of_def app_simps Let_def
      split: if_splits sum.splits)

lemma preserves_gateway [preserved]:
  assumes "\<And>q. maintains Q (provider q)" and "\<And>q. maintains Q (fallback q)"
  shows "maintains Q (invoke_classification cfg provider fallback q)"
  unfolding invoke_classification_def gateway_answer_def failure_response_def gateway_telemetry_of_def
    assert_untrusted_content_is_data_def Let_def
  by (auto intro!: preserved assms split: sum.split)

lemma preserves_classify [preserved]:
  assumes "\<And>q. maintains Q (provider q)" and "\<And>q. maintains Q (fallback q)"
  shows "maintains Q (classify cfg route provider fallback i)"
  unfolding classify_def Let_def by (auto intro!: preserved assms)

section \<open>An example\<close>

definition pilot_ai :: ai_settings where
  "pilot_ai = \<lparr>ai_kill_switch = False, ai_threshold = Dec False 70 (-2), ai_token_budget = 1200, ai_timeout_ms = 2000,
     ai_retry_limit = 1\<rparr>"

definition pilot_class_input :: class_input where
  "pilot_class_input = \<lparr>ci_case_id = None, ci_workflow_id = None, ci_description = ''charged twice'',
     ci_hint = Some DuplicateCard, ci_channel = Some Web, ci_transaction_ref = Some ''txn_3001'', ci_evidence_count = 1,
     ci_correlation_id = ''corr''\<rparr>"

definition pilot_classified :: "(exc + decision) \<times> world" where
  "pilot_classified = classify pilot_ai (default_route pilot_ai) (deterministic_provider ''error'' ''deterministic-local'')
     (deterministic_provider ''normal'' ''deterministic-fallback'') pilot_class_input pilot_env pilot_world"

definition pilot_request :: gateway_request where
  "pilot_request = classification_request (default_route pilot_ai) pilot_class_input"

lemma pilot_text: "sized 1 8000 (input_text pilot_class_input)" "estimate_tokens (gq_input_text pilot_request) \<le> 1200"
  "\<not> contains_disallowed_model_input (gq_input_text pilot_request)"
  "detect ''normal'' (lower (gq_input_text pilot_request)) = (CatDuplicate, Dec False 92 (-2))"
  by code_simp+

lemma pilot_fallback:
  "\<exists>r x. deterministic_provider ''normal'' ''deterministic-fallback'' pilot_request e w = (Inr r, w) \<and> pr_status r = ''ok'' \<and>
     read_output (pr_output r) = Inr x \<and> cl_category x = CatDuplicate \<and> cl_confidence x = Dec False 92 (-2) \<and>
     read_output (dump_output x) = Inr x"
  by (simp add: deterministic_provider_def pilot_text ret_def Let_def read_output_def read_category_def unit_score_def
      read_attributes_def signal_text_def read_opt_text_def read_text_def sized_def dump_output_def
      dump_attributes_def VOpt_def)
   (simp add: pilot_request_def classification_request_def pilot_class_input_def default_route_def dict_get_def VOpt_def
      py_str_def read_opt_text_def dec_le_def Let_def dec_of_int_def signed_def pilot_ai_def sized_def)


lemma pilot_error: "deterministic_provider ''error'' pref q e w = (Inr \<lparr>pr_provider_ref = pref, pr_status = ''error'',
    pr_output = [], pr_token_usage = [], pr_latency_ms = 1, pr_error_code = Some (failure_text ProviderError)\<rparr>, w)"
  by (simp add: deterministic_provider_def ret_def Let_def)

lemma pilot_gateway: "\<exists>r x w'. invoke_classification pilot_ai (deterministic_provider ''error'' ''deterministic-local'')
      (deterministic_provider ''normal'' ''deterministic-fallback'') pilot_request pilot_env pilot_world = (Inr r, w') \<and>
    gr_status r = GwAccepted \<and> gt_attempt_count (gr_telemetry r) = 2 \<and> read_output (gr_output r) = Inr x \<and>
    cl_category x = CatDuplicate \<and> cl_confidence x = Dec False 92 (-2)"
proof -
  obtain r x where "deterministic_provider ''normal'' ''deterministic-fallback'' pilot_request pilot_env pilot_world =
      (Inr r, pilot_world)" "pr_status r = ''ok''" "read_output (pr_output r) = Inr x" "cl_category x = CatDuplicate"
    "cl_confidence x = Dec False 92 (-2)" "read_output (dump_output x) = Inr x"
    using pilot_fallback by blast
  moreover have "gq_route pilot_request = default_route pilot_ai" by (simp add: pilot_request_def classification_request_def)
  ultimately show ?thesis using pilot_text(2,3)
    by (simp add: invoke_classification_def app_eval pilot_error gateway_answer_def gateway_telemetry_of_def
        assert_untrusted_content_is_data_def default_route_def pilot_ai_def Let_def cong: lazily)
qed

lemma pilot_decision: "\<exists>d w'. pilot_classified = (Inr d, w') \<and> de_accepted d \<and> gt_attempt_count (de_telemetry d) = 2"
proof -
  obtain r x w' where "invoke_classification pilot_ai (deterministic_provider ''error'' ''deterministic-local'')
      (deterministic_provider ''normal'' ''deterministic-fallback'') pilot_request pilot_env pilot_world = (Inr r, w')"
    "gr_status r = GwAccepted" "gt_attempt_count (gr_telemetry r) = 2" "read_output (gr_output r) = Inr x"
    "cl_category x = CatDuplicate" "cl_confidence x = Dec False 92 (-2)"
    using pilot_gateway by blast
  moreover have "routing_reason pilot_ai x = None" if "cl_category x = CatDuplicate" "cl_confidence x = Dec False 92 (-2)"
    using that by (simp add: routing_reason_def pilot_ai_def dec_lt_def dec_le_def signed_def Let_def)
  ultimately show ?thesis using pilot_text(1)
    by (simp add: pilot_classified_def classify_def pilot_request_def [symmetric] app_eval Let_def cong: lazily)
qed

section \<open>Properties\<close>

text \<open>C18: whatever the model providers return, a decision of the classifier is either accepted or sent to manual
  review, and it is accepted only with a supported category and a confidence between the threshold and one.\<close>

theorem decision_routed:
  assumes "classify cfg route provider fallback i e w = (Inr d, w')"
  shows "de_manual d = (\<not> de_accepted d) \<and>
    (de_accepted d \<longrightarrow> (\<exists>x. de_output d = Some x \<and> cl_category x \<noteq> CatUnsupported \<and>
       dval (ai_threshold cfg) \<le> dval (cl_confidence x) \<and> dval (cl_confidence x) \<le> 1))"
  using assms
  by (auto simp: classify_def app_simps routing_reason_def dec_lt_iff not_less Let_def split: if_splits
      dest: read_output_bounds)

theorem decision_routed_witness:
  "\<exists>d w' x. pilot_classified = (Inr d, w') \<and> de_accepted d \<and> de_output d = Some x \<and> cl_category x \<noteq> CatUnsupported"
proof -
  obtain d w' where run: "pilot_classified = (Inr d, w')" and acc: "de_accepted d"
    using pilot_decision by blast
  from decision_routed [OF run [unfolded pilot_classified_def]] acc show ?thesis using run by blast
qed

text \<open>C19: with the kill switch on, a disabled route, a text over the token budget or a disallowed text no
  provider is consulted (the outcome is the same for any two) and nothing is accepted; in every case at most two
  attempts are made, two only when the fallback was used.\<close>

theorem gateway_guarded:
  assumes "classify cfg route provider fallback i e w = (Inr d, w')"
  shows "gt_attempt_count (de_telemetry d) \<le> 2 \<and>
    (gt_attempt_count (de_telemetry d) = 2 \<longrightarrow> gt_fallback_used (de_telemetry d)) \<and>
    (ai_kill_switch cfg \<or> \<not> rt_enabled route \<or> rt_token_budget route < estimate_tokens (input_text i) \<or>
       contains_disallowed_model_input (input_text i) \<longrightarrow>
     \<not> de_accepted d \<and> gt_attempt_count (de_telemetry d) = 0 \<and>
     (\<forall>p f. classify cfg route p f i e w = (Inr d, w')))"
proof -
  let ?q = "classification_request route i"
  from assms obtain r w1 where len: "sized 1 8000 (input_text i)"
    and gw: "invoke_classification cfg provider fallback ?q e w = (Inr r, w1)"
    and tel: "de_telemetry d = gr_telemetry r"
    and acc: "de_accepted d \<longrightarrow> gr_status r = GwAccepted"
    by (auto simp: classify_def app_simps Let_def split: if_splits)
  let ?guard = "ai_kill_switch cfg \<or> \<not> rt_enabled route \<or> rt_token_budget route < estimate_tokens (input_text i) \<or>
    contains_disallowed_model_input (input_text i)"
  have q: "gq_route ?q = route" "gq_input_text ?q = input_text i" by (simp_all add: classification_request_def)
  show ?thesis
  proof (cases ?guard)
    case True
    have same: "invoke_classification cfg p f ?q = invoke_classification cfg provider fallback ?q" for p f
      using True by (auto simp: invoke_classification_def q Let_def)
    have "gr_status r \<noteq> GwAccepted \<and> gt_attempt_count (gr_telemetry r) = 0"
      using gw True by (auto simp: invoke_classification_def q Let_def split: if_splits dest: failure_response_run)
    moreover have "classify cfg route p f i e w = (Inr d, w')" for p f
      unfolding classify_def same [of p f] using assms by (simp only: classify_def)
    ultimately show ?thesis using acc tel by auto
  next
    case False
    let ?go = "\<lambda>primary. if pr_status primary \<in> {''timeout'', ''error''} \<and> 0 < rt_retry_limit (gq_route ?q)
        then bnd (fallback ?q) (gateway_answer cfg ?q 2 True) else gateway_answer cfg ?q 1 False primary"
    have "invoke_classification cfg provider fallback ?q = andthen (ret ()) (bnd (provider ?q) ?go)"
      using False by (simp add: invoke_classification_def assert_untrusted_content_is_data_def q Let_def cong: lazily)
    with gw have "bnd (provider ?q) ?go e w = (Inr r, w1)" by (simp add: andthen_run ret_run del: insert_iff)
    then obtain primary w2 where rest: "?go primary e w2 = (Inr r, w1)" by (rule bnd_InrE)
    from rest have "gt_attempt_count (gr_telemetry r) = 2 \<and> gt_fallback_used (gr_telemetry r) \<or>
        gt_attempt_count (gr_telemetry r) = 1"
      by (auto elim!: bnd_InrE split: if_splits dest: gateway_answer_run)
    then show ?thesis using False tel by auto
  qed
qed

theorem gateway_guarded_witness:
  "\<exists>d w'. pilot_classified = (Inr d, w') \<and> gt_attempt_count (de_telemetry d) = 2 \<and> gt_fallback_used (de_telemetry d)"
proof -
  obtain d w' where run: "pilot_classified = (Inr d, w')" and two: "gt_attempt_count (de_telemetry d) = 2"
    using pilot_decision by blast
  from gateway_guarded [OF run [unfolded pilot_classified_def]] two show ?thesis using run by blast
qed

end
