(* ===== verification/PolicySchemas.thy ===== *)
theory PolicySchemas
  imports CaseRepos
begin

text \<open>
  The policy schemas of \<open>app/domain/schemas.py\<close>: ingestion and promotion requests, the retrieval request,
  its configuration and the retrieval response.  A float field is the decimal it prints as; the sum of the
  two retrieval weights is compared without the rounding of the float addition.
\<close>

section \<open>Documents\<close>

datatype policy_status = PolApproved | PolActive | PolDraft | PolInactive | PolSuperseded

fun policy_status_text :: "policy_status \<Rightarrow> string" where
  "policy_status_text PolApproved = ''approved''"
| "policy_status_text PolActive = ''active''"
| "policy_status_text PolDraft = ''draft''"
| "policy_status_text PolInactive = ''inactive''"
| "policy_status_text PolSuperseded = ''superseded''"

datatype policy_source = SrcPolicy | SrcHistorical | SrcCustomer | SrcAnalyst | SrcExample

fun policy_source_text :: "policy_source \<Rightarrow> string" where
  "policy_source_text SrcPolicy = ''approved_policy''"
| "policy_source_text SrcHistorical = ''historical_case''"
| "policy_source_text SrcCustomer = ''customer_evidence''"
| "policy_source_text SrcAnalyst = ''analyst_note''"
| "policy_source_text SrcExample = ''non_policy_example''"

record section_in =
  si_section :: string
  si_text :: string

record document_in =
  di_document_id :: string
  di_version :: string
  di_title :: string
  di_status :: policy_status
  di_approval_ref :: string
  di_source_identity :: string
  di_source_checksum :: string
  di_effective_from :: int
  di_effective_to :: "int option"
  di_product :: string
  di_channel :: string
  di_jurisdiction :: string
  di_source_type :: policy_source
  di_sections :: "section_in list"

definition id_text :: "nat \<Rightarrow> string \<Rightarrow> bool" where
  "id_text hi s \<longleftrightarrow> sized 1 hi s \<and>
     list_all (\<lambda>c. is_lower c \<or> is_upper c \<or> is_digit c \<or> c = CHR ''_'' \<or> c = CHR ''.'' \<or> c = CHR ''-'') s"

definition valid_document_in :: "document_in \<Rightarrow> bool" where
  "valid_document_in d \<longleftrightarrow> id_text 120 (di_document_id d) \<and> id_text 40 (di_version d) \<and> sized 1 255 (di_title d) \<and>
     sized 1 120 (di_approval_ref d) \<and> sized 1 160 (di_source_identity d) \<and> hex64 (di_source_checksum d) \<and>
     di_source_checksum d = lower (di_source_checksum d) \<and> sized 1 80 (di_product d) \<and> sized 1 80 (di_channel d) \<and>
     sized 1 80 (di_jurisdiction d) \<and> di_sections d \<noteq> [] \<and>
     (\<forall>s \<in> set (di_sections d). sized 1 120 (si_section s) \<and> sized 1 10000 (si_text s))"

record ingestion_request =
  iq_documents :: "document_in list"
  iq_actor_ref :: string
  iq_parser_version :: string
  iq_chunking_config_hash :: string
  iq_embedding_model :: string
  iq_embedding_config_hash :: string
  iq_retrieval_index_config_hash :: string

definition valid_ingestion :: "ingestion_request \<Rightarrow> bool" where
  "valid_ingestion r \<longleftrightarrow> iq_documents r \<noteq> [] \<and> (\<forall>d \<in> set (iq_documents r). valid_document_in d) \<and>
     sized 1 100 (iq_actor_ref r) \<and> sized 1 40 (iq_parser_version r) \<and> sized 1 64 (iq_chunking_config_hash r) \<and>
     sized 1 80 (iq_embedding_model r) \<and> sized 1 64 (iq_embedding_config_hash r) \<and>
     sized 1 64 (iq_retrieval_index_config_hash r)"

record promotion_request =
  pq_run_id :: string
  pq_actor_ref :: string
  pq_corpus_version :: string
  pq_index_version :: string

section \<open>Retrieval\<close>

datatype abstention = MissingActiveCorpus | NoEligibleCandidates | LowRetrievalConfidence | AmbiguousResults | MissingCitation

fun abstention_text :: "abstention \<Rightarrow> string" where
  "abstention_text MissingActiveCorpus = ''missing_active_corpus''"
| "abstention_text NoEligibleCandidates = ''no_eligible_candidates''"
| "abstention_text LowRetrievalConfidence = ''low_confidence''"
| "abstention_text AmbiguousResults = ''ambiguous_results''"
| "abstention_text MissingCitation = ''missing_citation''"

record retrieval_config =
  rc_version :: string
  rc_lexical_weight :: dec
  rc_vector_weight :: dec
  rc_top_k :: nat
  rc_minimum_confidence :: dec
  rc_ambiguity_threshold :: dec
  rc_require_citations :: bool
  rc_reranker_mode :: string

definition default_config :: retrieval_config where
  "default_config = \<lparr>rc_version = ''retrieval-config-v1'', rc_lexical_weight = Dec False 45 (-2),
     rc_vector_weight = Dec False 55 (-2), rc_top_k = 3, rc_minimum_confidence = Dec False 35 (-2),
     rc_ambiguity_threshold = Dec False 3 (-2), rc_require_citations = True,
     rc_reranker_mode = ''deterministic-fused-score-v1''\<rparr>"

definition valid_config :: "retrieval_config \<Rightarrow> bool" where
  "valid_config c \<longleftrightarrow> sized 1 80 (rc_version c) \<and> 0 \<le> dval (rc_lexical_weight c) \<and> dval (rc_lexical_weight c) \<le> 1 \<and>
     0 \<le> dval (rc_vector_weight c) \<and> dval (rc_vector_weight c) \<le> 1 \<and>
     \<bar>dval (rc_lexical_weight c) + dval (rc_vector_weight c) - 1\<bar> \<le> 1 / 1000000 \<and> 1 \<le> rc_top_k c \<and> rc_top_k c \<le> 20 \<and>
     0 \<le> dval (rc_minimum_confidence c) \<and> dval (rc_minimum_confidence c) \<le> 1 \<and>
     0 \<le> dval (rc_ambiguity_threshold c) \<and> dval (rc_ambiguity_threshold c) \<le> 1 \<and> sized 1 80 (rc_reranker_mode c)"

definition VFin :: "dec \<Rightarrow> pyval" where
  "VFin x = VFloat (Finite x)"

definition dump_config :: "retrieval_config \<Rightarrow> pyval" where
  "dump_config c = VDict [(''version'', VStr (rc_version c)), (''lexical_weight'', VFin (rc_lexical_weight c)),
     (''vector_weight'', VFin (rc_vector_weight c)), (''top_k'', VInt (int (rc_top_k c))),
     (''minimum_confidence'', VFin (rc_minimum_confidence c)), (''ambiguity_threshold'', VFin (rc_ambiguity_threshold c)),
     (''require_citations'', VBool (rc_require_citations c)), (''reranker_mode'', VStr (rc_reranker_mode c))]"

record retrieval_request =
  rr_query :: string
  rr_dispute_type :: dispute_type
  rr_effective_date :: int
  rr_product :: string
  rr_channel :: string
  rr_jurisdiction :: string
  rr_actor_ref :: string
  rr_case_id :: "string option"
  rr_workflow_id :: "string option"
  rr_config :: retrieval_config

definition valid_retrieval_request :: "retrieval_request \<Rightarrow> bool" where
  "valid_retrieval_request r \<longleftrightarrow> sized 3 2000 (rr_query r) \<and> sized 1 80 (rr_product r) \<and> sized 1 80 (rr_channel r) \<and>
     sized 1 80 (rr_jurisdiction r) \<and> sized 1 100 (rr_actor_ref r) \<and> valid_config (rr_config r)"

record citation =
  ct_document_id :: string
  ct_version :: string
  ct_section :: string
  ct_chunk_id :: string
  ct_chunk_hash :: string
  ct_effective_from :: pytime
  ct_effective_to :: "pytime option"
  ct_run_id :: string
  ct_corpus_version :: string
  ct_index_version :: string

definition dump_citation :: "citation \<Rightarrow> pyval" where
  "dump_citation c = VDict [(''document_id'', VStr (ct_document_id c)), (''version'', VStr (ct_version c)),
     (''section'', VStr (ct_section c)), (''chunk_id'', VStr (ct_chunk_id c)), (''chunk_hash'', VStr (ct_chunk_hash c)),
     (''effective_from'', json_pytime (ct_effective_from c)), (''effective_to'', VOpt json_pytime (ct_effective_to c)),
     (''ingestion_run_id'', VStr (ct_run_id c)), (''corpus_version'', VStr (ct_corpus_version c)),
     (''index_version'', VStr (ct_index_version c))]"

record retrieved_chunk =
  rk_rank :: nat
  rk_chunk_id :: string
  rk_content :: string
  rk_lexical_score :: dec
  rk_vector_score :: dec
  rk_fused_score :: dec
  rk_reranker_mode :: string
  rk_citation :: citation

record review_signal =
  rs_required :: bool
  rs_reason :: "abstention option"
  rs_message :: "string option"

record retrieval_telemetry =
  rl_case_id :: "string option"
  rl_workflow_id :: "string option"
  rl_correlation_id :: string
  rl_corpus_version :: "string option"
  rl_index_version :: "string option"
  rl_config_version :: string
  rl_eligible_count :: nat
  rl_returned_count :: nat
  rl_confidence :: dec
  rl_reason :: "abstention option"
  rl_latency_ms :: int

record retrieval_response =
  rp_eligibility :: "(string, pyval) dict"
  rp_status :: string
  rp_approved_context :: bool
  rp_requires_review :: bool
  rp_confidence :: dec
  rp_reason :: "abstention option"
  rp_review :: review_signal
  rp_results :: "retrieved_chunk list"
  rp_corpus_version :: "string option"
  rp_index_version :: "string option"
  rp_config :: retrieval_config
  rp_correlation_id :: string
  rp_audit_event_id :: string
  rp_telemetry :: retrieval_telemetry

end
