(* ===== verification/Graph.thy ===== *)
theory Graph
  imports Gateway PolicySchemas WorkflowRepo
begin

text \<open>
  \<open>app/services/workflow_graph.py\<close>: the nodes of the workflow, the operations each may use and the routes
  between them.  The arguments of \<open>build_workflow_graph\<close> are the record \<open>graph_config\<close>; \<open>run_from\<close> is
  \<open>graph.invoke\<close>, \<open>gstep\<close> the same as a step relation.
\<close>

section \<open>Nodes and their operations\<close>

definition GRAPH_VERSION :: string where
  "GRAPH_VERSION = ''duplicate-card-workflow-v1''"

datatype node = Intake | Classification | AuthoritativeContext | EvidenceGate | PolicyContext | RulesNode
  | ConfidenceNode | ControlledStop

fun node_name :: "node \<Rightarrow> string" where
  "node_name Intake = ''intake''"
| "node_name Classification = ''classification''"
| "node_name AuthoritativeContext = ''authoritative_context''"
| "node_name EvidenceGate = ''evidence_gate''"
| "node_name PolicyContext = ''policy_context''"
| "node_name RulesNode = ''rules''"
| "node_name ConfidenceNode = ''confidence''"
| "node_name ControlledStop = ''controlled_stop''"

text \<open>The position in the pipeline orders the nodes.\<close>

fun stage_no :: "node \<Rightarrow> nat" where
  "stage_no Intake = 0"
| "stage_no Classification = 1"
| "stage_no AuthoritativeContext = 2"
| "stage_no EvidenceGate = 3"
| "stage_no PolicyContext = 4"
| "stage_no RulesNode = 5"
| "stage_no ConfidenceNode = 6"
| "stage_no ControlledStop = 7"

lemma stage_no_inj: "stage_no m = stage_no n \<longleftrightarrow> m = n"
  by (cases m; cases n) simp_all

instantiation node :: linorder
begin

definition less_eq_node :: "node \<Rightarrow> node \<Rightarrow> bool" where
  "less_eq_node m n \<longleftrightarrow> stage_no m \<le> stage_no n"

definition less_node :: "node \<Rightarrow> node \<Rightarrow> bool" where
  "less_node m n \<longleftrightarrow> stage_no m < stage_no n"

instance
  by standard (auto simp: less_eq_node_def less_node_def stage_no_inj)

end

definition ALLOWED_NODE_OPERATIONS :: "(string \<times> string list) list" where
  "ALLOWED_NODE_OPERATIONS = [(''rules'', [''rules.evaluate'']), (''confidence'', [''confidence.evaluate'']),
     (''intake'', [''case.read'']), (''classification'', [''classification.model_gateway'']),
     (''authoritative_context'', [''provider_context.reference'']), (''evidence_gate'', [''evidence.evaluate'']),
     (''policy_context'', [''policy.retrieve'']), (''controlled_stop'', [''workflow.stop''])]"

definition authorize_node_operation :: "string \<Rightarrow> string \<Rightarrow> unit app" where
  "authorize_node_operation name operation =
     require (operation \<in> set (dict_get ALLOWED_NODE_OPERATIONS name [])) (ToolAuthorization name operation)"

section \<open>State updates\<close>

definition record_node :: "string \<Rightarrow> string \<Rightarrow> wf_state \<Rightarrow> wf_state app" where
  "record_node name status st = bnd elapsed_ms (\<lambda>ms. ret (st\<lparr>ws_telemetry := ws_telemetry st @ [VDict
     [(''node_name'', VStr name), (''status'', VStr status), (''attempt_count'', VInt 1), (''latency_ms'', VInt ms),
      (''case_id'', VStr (ws_case_id st)), (''workflow_id'', VStr (ws_workflow_id st)),
      (''graph_version'', VStr (ws_graph_version st)), (''state_version'', VInt (ws_state_version st)),
      (''correlation_id'', VStr (ws_correlation_id st))]], ws_current_node := name\<rparr>))"

definition summarize :: "string \<Rightarrow> (string, pyval) dict \<Rightarrow> wf_state \<Rightarrow> wf_state" where
  "summarize key v st = st\<lparr>ws_summaries := dict_set (ws_summaries st) key (VDict v)\<rparr>"

definition add_side_effect :: "string \<Rightarrow> wf_state \<Rightarrow> wf_state" where
  "add_side_effect key st =
     (if key \<in> set (ws_side_effects st) then st else st\<lparr>ws_side_effects := ws_side_effects st @ [key]\<rparr>)"

definition interrupt_with :: "string \<Rightarrow> string \<Rightarrow> string list \<Rightarrow> (string, pyval) dict" where
  "interrupt_with reason message needs = [(''required'', VBool True), (''reason'', VStr reason),
     (''message'', VStr message), (''resume_requirements'', VStrs needs)]"

definition pause :: "string \<Rightarrow> (string, pyval) dict \<Rightarrow> wf_state \<Rightarrow> wf_state" where
  "pause status i st = st\<lparr>ws_status := status, ws_interrupt := i\<rparr>"

definition state_case :: "wf_state \<Rightarrow> (string, pyval) dict py" where
  "state_case st = (case ws_case st of None \<Rightarrow> Inl KeyErr | Some c \<Rightarrow> Inr c)"

section \<open>The graph\<close>

record control_nodes =
  cn_prepare :: "wf_state \<Rightarrow> wf_state app"
  cn_evidence :: "wf_state \<Rightarrow> wf_state app"
  cn_policy :: "wf_state \<Rightarrow> wf_state app"
  cn_rules :: "wf_state \<Rightarrow> wf_state app"
  cn_confidence :: "wf_state \<Rightarrow> wf_state app"
  cn_finish :: "wf_state \<Rightarrow> wf_state app"

record graph_config =
  gc_classify :: "wf_state \<Rightarrow> decision app"
  gc_retrieve :: "wf_state \<Rightarrow> retrieval_response app"
  gc_control :: "control_nodes option"

definition intake_node :: "wf_state \<Rightarrow> wf_state app" where
  "intake_node st = andthen (authorize_node_operation ''intake'' ''case.read'')
     (bnd (of_py (state_case st)) (\<lambda>c. bnd (of_py (getitem (VDict c) ''status'')) (\<lambda>s.
      bnd (of_py (getitem (VDict c) ''dispute_type'')) (\<lambda>d. bnd (of_py (getitem (VDict c) ''transaction_ref'')) (\<lambda>t.
      record_node ''intake'' ''completed'' (summarize ''intake'' [(''case_id'', VStr (ws_case_id st)), (''case_status'', s),
        (''dispute_type'', d), (''transaction_ref'', t)] st))))))"

definition classification_key :: "wf_state \<Rightarrow> string \<Rightarrow> string \<Rightarrow> string" where
  "classification_key st schema prompt =
     ''classification:'' @ ws_case_id st @ '':'' @ schema @ '':'' @ prompt"

definition out_of_scope :: "string \<Rightarrow> wf_state \<Rightarrow> wf_state" where
  "out_of_scope message = pause ''CONTROLLED_STOP''
     (interrupt_with ''category_downstream_out_of_scope'' message [''future_phase_category_workflow''])"

definition cached_classification :: "wf_state \<Rightarrow> pyval option" where
  "cached_classification st =
     (if classification_key st ''classification-output-v1'' ''classification-router-v1'' \<in> set (ws_side_effects st)
      then map_of (ws_summaries st) ''classification'' else None)"

definition reuse_classification :: "bool \<Rightarrow> pyval \<Rightarrow> wf_state \<Rightarrow> wf_state" where
  "reuse_classification control cached st = (case cached of
     VDict d \<Rightarrow> if control \<and> \<not> py_eq (dict_get d ''category'' VNone) (VStr ''duplicate_card_transaction'')
       then out_of_scope ''Deterministic controls are enabled only for duplicate-card cases.'' st else st
   | _ \<Rightarrow> st)"

definition classification_summary :: "decision \<Rightarrow> (string, pyval) dict" where
  "classification_summary d = (case de_output d of
     Some x \<Rightarrow> [(''category'', VStr (category_text (cl_category x))), (''confidence'', VFloat (Finite (cl_confidence x))),
       (''supporting_attributes'', dump_attributes (cl_attributes x)), (''schema_version'', VStr (cl_schema_version x)),
       (''prompt_version'', VStr (cl_prompt_version x)), (''model_route_version'', VStr (cl_route_version x)),
       (''correlation_id'', VStr (cl_correlation_id x)), (''threshold'', VFloat (Finite (de_threshold d))),
       (''accepted'', VBool (de_accepted d)), (''telemetry'', VDict (dump_gateway_telemetry (de_telemetry d))),
       (''evaluation_metadata'', VDict (de_metadata d))]
   | None \<Rightarrow> [(''category'', VNone), (''confidence'', VNone), (''threshold'', VFloat (Finite (de_threshold d))),
       (''accepted'', VBool False), (''reason'', VOpt (\<lambda>r. VStr (failure_text r)) (de_reason d)),
       (''telemetry'', VDict (dump_gateway_telemetry (de_telemetry d))), (''evaluation_metadata'', VDict (de_metadata d))])"

definition apply_decision :: "decision \<Rightarrow> wf_state \<Rightarrow> wf_state" where
  "apply_decision d st =
     (let st1 = summarize ''classification'' (classification_summary d) st;
          key = classification_key st (gt_schema_version (de_telemetry d)) (gt_prompt_version (de_telemetry d));
          st2 = (if de_accepted d then add_side_effect key st1 else st1)
      in if de_manual d then pause ''WAITING_MANUAL_CLASSIFICATION'' (interrupt_with ''manual_classification''
             ''Classification requires authorized manual review before continuation.''
             [''authorized_manual_classification'']) st2
         else case de_output d of
           Some x \<Rightarrow> if cl_category x \<noteq> CatDuplicate then out_of_scope
               ''Phase 006 classifies this supported category but downstream workflow stages are not yet enabled for it.'' st2
             else st2
         | None \<Rightarrow> st2)"

definition classification_node :: "graph_config \<Rightarrow> wf_state \<Rightarrow> wf_state app" where
  "classification_node g st = andthen (authorize_node_operation ''classification'' ''classification.model_gateway'')
     (case cached_classification st of
        Some c \<Rightarrow> record_node ''classification'' ''completed'' (reuse_classification (gc_control g \<noteq> None) c st)
      | None \<Rightarrow> bnd (gc_classify g st) (\<lambda>d. record_node ''classification'' ''completed'' (apply_decision d st)))"

fun items_of :: "pyval \<Rightarrow> pyval list py" where
  "items_of (VList xs) = Inr xs"
| "items_of _ = Inl TypeErr"

definition context_ref :: "pyval \<Rightarrow> pyval py" where
  "context_ref item = rmap (\<lambda>vs. VDict (zip [''provider_context_id'', ''provider_name'', ''record_type'',
       ''source_record_ref'', ''response_hash''] vs))
     (rtraverse (getitem item) [''provider_context_id'', ''provider_name'', ''record_type'', ''source_record_ref'',
       ''response_hash''])"

definition provider_key :: "wf_state \<Rightarrow> string" where
  "provider_key st = ''provider-context-reference:'' @ ws_case_id st"

definition legacy_context :: "wf_state \<Rightarrow> wf_state app" where
  "legacy_context st = bnd (of_py (state_case st)) (\<lambda>c.
     bnd (of_py (items_of (dict_get c ''provider_context'' (VList [])))) (\<lambda>items.
     bnd (of_py (rtraverse context_ref items)) (\<lambda>refs.
     ret (add_side_effect (provider_key st)
       (summarize ''authoritative_context'' [(''reference_count'', VInt (int (length refs))), (''references'', VList refs)]
          st)))))"

definition context_node :: "graph_config \<Rightarrow> wf_state \<Rightarrow> wf_state app" where
  "context_node g st = andthen (authorize_node_operation ''authoritative_context'' ''provider_context.reference'')
     (bnd (case gc_control g of Some n \<Rightarrow> cn_prepare n st | None \<Rightarrow> legacy_context st)
        (record_node ''authoritative_context'' ''completed''))"

definition legacy_evidence :: "wf_state \<Rightarrow> wf_state app" where
  "legacy_evidence st = bnd (of_py (state_case st)) (\<lambda>c.
     bnd (of_py (items_of (dict_get c ''evidence_metadata'' (VList [])))) (\<lambda>items.
     let none = (items = []);
         st1 = (if none then pause ''WAITING_EVIDENCE'' (interrupt_with ''missing_mandatory_evidence''
           ''At least one evidence metadata record is required.'' [''register_evidence_metadata'', ''authorized_resume'']) st
           else st)
     in ret (summarize ''evidence'' [(''required'', VStrs [''customer_statement_or_receipt'']),
       (''available_count'', VInt (int (length items))),
       (''missing'', VStrs (if none then [''customer_statement_or_receipt''] else [])),
       (''status'', VStr (if none then ''missing'' else ''complete'')), (''mode'', VStr ''deterministic-phase-005'')] st1)))"

definition evidence_node :: "graph_config \<Rightarrow> wf_state \<Rightarrow> wf_state app" where
  "evidence_node g st = andthen (authorize_node_operation ''evidence_gate'' ''evidence.evaluate'')
     (bnd (case gc_control g of Some n \<Rightarrow> cn_evidence n st | None \<Rightarrow> legacy_evidence st)
        (record_node ''evidence_gate'' ''completed''))"

definition retrieval_key :: "retrieval_response \<Rightarrow> string" where
  "retrieval_key r = ''policy-retrieval:'' @ rp_audit_event_id r"

definition apply_policy :: "retrieval_response \<Rightarrow> wf_state \<Rightarrow> wf_state" where
  "apply_policy r st =
     (let st1 = add_side_effect (retrieval_key r)
        (summarize ''policy_context'' [(''status'', VStr (rp_status r)), (''approved_context'', VBool (rp_approved_context r)),
           (''requires_policy_review'', VBool (rp_requires_review r)), (''confidence'', VFin (rp_confidence r)),
           (''corpus_version'', VOpt VStr (rp_corpus_version r)), (''index_version'', VOpt VStr (rp_index_version r)),
           (''result_count'', VInt (int (length (rp_results r)))), (''audit_event_id'', VStr (rp_audit_event_id r))] st)
      in if rp_requires_review r then pause ''WAITING_POLICY_REVIEW'' (interrupt_with
             (case rp_reason r of Some a \<Rightarrow> abstention_text a | None \<Rightarrow> ''policy_review'')
             ''Policy context requires authorized review before continuation.''
             [''authorized_policy_review'', ''authorized_resume'']) st1
         else st1)"

definition policy_node :: "graph_config \<Rightarrow> wf_state \<Rightarrow> wf_state app" where
  "policy_node g st = andthen (authorize_node_operation ''policy_context'' ''policy.retrieve'')
     (bnd (case gc_control g of Some n \<Rightarrow> cn_policy n st
       | None \<Rightarrow> bnd (gc_retrieve g st) (\<lambda>r. ret (apply_policy r st)))
        (record_node ''policy_context'' ''completed''))"

definition legacy_stop :: "wf_state \<Rightarrow> wf_state" where
  "legacy_stop st = summarize ''controlled_stop'' [(''next_boundary'', VStr ''recommendation_and_human_decision''),
       (''financial_outcome_finalized'', VBool False), (''communication_sent'', VBool False)]
     (pause ''CONTROLLED_STOP'' (interrupt_with ''recommendation_human_decision_out_of_scope''
       ''Phase 006 stops before recommendation, durable human decision, communication and financial finalization.''
       [''future_phase_recommendation_and_hitl'']) st)"

definition stop_node :: "graph_config \<Rightarrow> wf_state \<Rightarrow> wf_state app" where
  "stop_node g st = andthen (authorize_node_operation ''controlled_stop'' ''workflow.stop'')
     (bnd (case gc_control g of Some n \<Rightarrow> cn_finish n st | None \<Rightarrow> ret (legacy_stop st))
        (record_node ''controlled_stop'' ''paused''))"

text \<open>\<open>rules\<close> and \<open>confidence\<close> assert that the control nodes are there.\<close>

definition assertion :: exc where
  "assertion = Py OtherErr"

definition rules_node :: "graph_config \<Rightarrow> wf_state \<Rightarrow> wf_state app" where
  "rules_node g st = andthen (authorize_node_operation ''rules'' ''rules.evaluate'')
     (bnd (case gc_control g of Some n \<Rightarrow> cn_rules n st | None \<Rightarrow> raise assertion) (record_node ''rules'' ''completed''))"

definition confidence_node :: "graph_config \<Rightarrow> wf_state \<Rightarrow> wf_state app" where
  "confidence_node g st = andthen (authorize_node_operation ''confidence'' ''confidence.evaluate'')
     (bnd (case gc_control g of Some n \<Rightarrow> cn_confidence n st | None \<Rightarrow> raise assertion)
        (record_node ''confidence'' ''completed''))"

fun node_step :: "graph_config \<Rightarrow> node \<Rightarrow> wf_state \<Rightarrow> wf_state app" where
  "node_step g Intake = intake_node"
| "node_step g Classification = classification_node g"
| "node_step g AuthoritativeContext = context_node g"
| "node_step g EvidenceGate = evidence_node g"
| "node_step g PolicyContext = policy_node g"
| "node_step g RulesNode = rules_node g"
| "node_step g ConfidenceNode = confidence_node g"
| "node_step g ControlledStop = stop_node g"

section \<open>Routes\<close>

definition waiting :: "wf_state \<Rightarrow> bool" where
  "waiting st \<longleftrightarrow> take 8 (ws_status st) = ''WAITING_''"

definition unless :: "bool \<Rightarrow> node \<Rightarrow> node option" where
  "unless b n = (if b then None else Some n)"

fun route :: "bool \<Rightarrow> node \<Rightarrow> wf_state \<Rightarrow> node option" where
  "route control Intake st = Some Classification"
| "route control Classification st =
     unless (ws_status st \<in> {''WAITING_MANUAL_CLASSIFICATION'', ''CONTROLLED_STOP''}) AuthoritativeContext"
| "route control AuthoritativeContext st = (if control then unless (waiting st) EvidenceGate else Some EvidenceGate)"
| "route control EvidenceGate st = (if control then unless (waiting st) PolicyContext
     else unless (ws_status st = ''WAITING_EVIDENCE'') PolicyContext)"
| "route control PolicyContext st = (if control then unless (waiting st) RulesNode
     else unless (ws_status st = ''WAITING_POLICY_REVIEW'') ControlledStop)"
| "route control RulesNode st = unless (waiting st) ConfidenceNode"
| "route control ConfidenceNode st = unless (waiting st) ControlledStop"
| "route control ControlledStop st = None"

definition next_node :: "graph_config \<Rightarrow> node \<Rightarrow> wf_state \<Rightarrow> node option" where
  "next_node g = route (gc_control g \<noteq> None)"

lemma route_forward: "route control n st = Some m \<Longrightarrow> n < m"
  by (cases n) (auto simp: less_node_def unless_def split: if_splits)

lemma next_forward: "next_node g n st = Some m \<Longrightarrow> n < m"
  unfolding next_node_def by (rule route_forward)

section \<open>Running the graph\<close>

lemma bnd_fundef [fundef_cong]: "m = m' \<Longrightarrow> (\<And>a. f a = f' a) \<Longrightarrow> bnd m f = bnd m' f'"
  by (metis ext)

function run_from :: "graph_config \<Rightarrow> node \<Rightarrow> wf_state \<Rightarrow> wf_state app" where
  "run_from g n st = bnd (node_step g n st) (\<lambda>st'. case next_node g n st' of None \<Rightarrow> ret st' | Some m \<Rightarrow> run_from g m st')"
  by auto

termination
proof (relation "measure (\<lambda>(_, n, _). 8 - stage_no n)")
  fix g n st st' m
  assume "next_node g n st' = Some m"
  then have "stage_no n < stage_no m" using next_forward by (simp add: less_node_def)
  moreover have "stage_no m < 8" by (cases m) simp_all
  ultimately show "((g, m, st'), g, n, st) \<in> measure (\<lambda>(_, n, _). 8 - stage_no n)" by simp
qed simp

declare run_from.simps [simp del]

definition invoke_graph :: "graph_config \<Rightarrow> wf_state \<Rightarrow> wf_state app" where
  "invoke_graph g st = run_from g Intake st"

section \<open>The step relation\<close>

type_synonym position = "node \<times> wf_state \<times> world"

inductive gstep :: "graph_config \<Rightarrow> env \<Rightarrow> position \<Rightarrow> position \<Rightarrow> bool" for g e where
  advance: "node_step g n st e w = (Inr st', w') \<Longrightarrow> next_node g n st' = Some m \<Longrightarrow> gstep g e (n, st, w) (m, st', w')"

inductive_cases gstepE: "gstep g e (n, st, w) p"
inductive_simps gstep_iff: "gstep g e (n, st, w) (m, st', w')"

lemma gstep_deterministic: "gstep g e p q \<Longrightarrow> gstep g e p q' \<Longrightarrow> q = q'"
  by (auto elim!: gstep.cases)

lemma gstep_forward: "gstep g e p q \<Longrightarrow> fst p < fst q"
  by (auto elim!: gstep.cases dest: next_forward)

text \<open>\<open>run_from\<close> returns where the steps lead to a node without a route.\<close>

lemma run_from_unfold:
  "run_from g n st e w = (Inr r, w') \<longleftrightarrow> (\<exists>st1 w1. node_step g n st e w = (Inr st1, w1) \<and>
     (case next_node g n st1 of None \<Rightarrow> r = st1 \<and> w' = w1 | Some m \<Rightarrow> run_from g m st1 e w1 = (Inr r, w')))"
  by (subst run_from.simps) (cases "node_step g n st e w", auto simp: bnd_def ret_def split: option.split sum.split)

lemma run_from_steps:
  "run_from g n st e w = (Inr r, w') \<Longrightarrow>
   \<exists>m st1 w1. (gstep g e)\<^sup>*\<^sup>* (n, st, w) (m, st1, w1) \<and> node_step g m st1 e w1 = (Inr r, w') \<and> next_node g m r = None"
proof (induction g n st arbitrary: w rule: run_from.induct)
  case (1 g n st)
  from "1.prems" obtain st1 w1 where step: "node_step g n st e w = (Inr st1, w1)"
    and rest: "case next_node g n st1 of None \<Rightarrow> r = st1 \<and> w' = w1 | Some m \<Rightarrow> run_from g m st1 e w1 = (Inr r, w')"
    by (auto simp: run_from_unfold)
  show ?case
  proof (cases "next_node g n st1")
    case None
    then show ?thesis using step rest by auto
  next
    case (Some m)
    then have "run_from g m st1 e w1 = (Inr r, w')" using rest by simp
    with "1.IH" [OF Some this] gstep.advance [OF step Some] show ?thesis
      by (blast intro: converse_rtranclp_into_rtranclp)
  qed
qed

lemma steps_run_from:
  "(gstep g e)\<^sup>*\<^sup>* p (m, st1, w1) \<Longrightarrow> node_step g m st1 e w1 = (Inr r, w') \<Longrightarrow> next_node g m r = None \<Longrightarrow>
   run_from g (fst p) (fst (snd p)) e (snd (snd p)) = (Inr r, w')"
proof (induction rule: converse_rtranclp_induct)
  case base
  then show ?case by (auto simp: run_from_unfold)
next
  case (step p q)
  from step.hyps(1) step.IH [OF step.prems] show ?case by (cases rule: gstep.cases) (auto simp: run_from_unfold)
qed

text \<open>The steps pass every node of the pipeline between their ends, none of them waiting.\<close>

definition pipeline :: "bool \<Rightarrow> node list" where
  "pipeline control = (if control then [Intake, Classification, AuthoritativeContext, EvidenceGate, PolicyContext,
       RulesNode, ConfidenceNode, ControlledStop]
     else [Intake, Classification, AuthoritativeContext, EvidenceGate, PolicyContext, ControlledStop])"

lemma route_next: "route control n st = Some m \<Longrightarrow> n \<in> set (pipeline control) \<Longrightarrow>
    \<exists>xs ys. pipeline control = xs @ n # m # ys"
  by (cases n; cases control) (auto simp: unless_def pipeline_def split: if_splits intro: exI [of _ "[]"]
      exI [of _ "[Intake]"] exI [of _ "[Intake, Classification]"] exI [of _ "[Intake, Classification, AuthoritativeContext]"]
      exI [of _ "[Intake, Classification, AuthoritativeContext, EvidenceGate]"]
      exI [of _ "[Intake, Classification, AuthoritativeContext, EvidenceGate, PolicyContext]"]
      exI [of _ "[Intake, Classification, AuthoritativeContext, EvidenceGate, PolicyContext, RulesNode]"])

section \<open>What the nodes keep\<close>

definition same_run :: "wf_state \<Rightarrow> wf_state \<Rightarrow> bool" where
  "same_run st st' \<longleftrightarrow> ws_case_id st' = ws_case_id st \<and> ws_workflow_id st' = ws_workflow_id st \<and>
     ws_graph_version st' = ws_graph_version st \<and> ws_state_version st' = ws_state_version st \<and>
     ws_correlation_id st' = ws_correlation_id st \<and> ws_schema_version st' = ws_schema_version st"

definition kept :: "wf_state \<Rightarrow> wf_state \<Rightarrow> bool" where
  "kept st st' \<longleftrightarrow> same_run st st' \<and> (ws_status st \<in> set ACTIVE_STATUSES \<longrightarrow> ws_status st' \<in> set ACTIVE_STATUSES) \<and>
     (distinct (ws_side_effects st) \<longrightarrow> distinct (ws_side_effects st')) \<and> set (ws_side_effects st) \<subseteq> set (ws_side_effects st')"

named_theorems kept_intros \<open>state updates that keep the identity of the run\<close>

lemma kept_refl [simp, kept_intros]: "kept st st"
  by (simp add: kept_def same_run_def)

lemma kept_trans [trans]: "kept a b \<Longrightarrow> kept b c \<Longrightarrow> kept a c"
  by (auto simp: kept_def same_run_def)

lemma kept_summarize [simp]: "kept a (summarize k v st) = kept a st"
  by (simp add: kept_def same_run_def summarize_def)

lemma kept_side_effect [kept_intros]: "kept a st \<Longrightarrow> kept a (add_side_effect k st)"
  by (auto simp: kept_def same_run_def add_side_effect_def)

lemma kept_pause [kept_intros]: "status \<in> set ACTIVE_STATUSES \<Longrightarrow> kept a st \<Longrightarrow> kept a (pause status i st)"
  by (simp add: kept_def same_run_def pause_def)

lemma active_literals [simp]: "''CONTROLLED_STOP'' \<in> set ACTIVE_STATUSES" "''RUNNING'' \<in> set ACTIVE_STATUSES"
  "''WAITING_MANUAL_CLASSIFICATION'' \<in> set ACTIVE_STATUSES" "''WAITING_EVIDENCE'' \<in> set ACTIVE_STATUSES"
  "''WAITING_POLICY_REVIEW'' \<in> set ACTIVE_STATUSES" "''WAITING_RULE_REVIEW'' \<in> set ACTIVE_STATUSES"
  "''WAITING_SUPERVISOR_REVIEW'' \<in> set ACTIVE_STATUSES"
  by (simp_all add: ACTIVE_STATUSES_def)

lemma record_node_run: "record_node n s st e w = (Inr st', w') \<Longrightarrow>
    (\<forall>a. kept a st' = kept a st) \<and> ws_status st' = ws_status st \<and> ws_current_node st' = n \<and>
    ws_interrupt st' = ws_interrupt st \<and> ws_summaries st' = ws_summaries st \<and> ws_case st' = ws_case st \<and>
    ws_control_evaluation_id st' = ws_control_evaluation_id st \<and> ws_resume st' = ws_resume st \<and> db w' = db w"
  by (auto simp: record_node_def app_simps kept_def same_run_def)

lemma kept_reuse: "kept st (reuse_classification b c st)"
  by (auto simp: reuse_classification_def out_of_scope_def intro: kept_intros split: pyval.split)

lemma kept_decision: "kept st (apply_decision d st)"
  by (auto simp: apply_decision_def out_of_scope_def Let_def intro!: kept_intros split: option.split)

lemma kept_policy: "kept st (apply_policy r st)"
  by (auto simp: apply_policy_def Let_def intro!: kept_intros)

lemma kept_context: "legacy_context st e w = (Inr st', w') \<Longrightarrow> kept st st'"
  unfolding legacy_context_def by (elim bnd_InrE) (auto simp: ret_run intro: kept_intros)

lemma kept_evidence: "legacy_evidence st e w = (Inr st', w') \<Longrightarrow> kept st st'"
  unfolding legacy_evidence_def Let_def by (elim bnd_InrE) (auto simp: ret_run intro: kept_intros)

lemma kept_stop: "kept st (legacy_stop st)"
  unfolding legacy_stop_def by (auto intro: kept_intros)

text \<open>A node is an authorised operation followed by its telemetry record.\<close>

lemma recorded_kept:
  assumes "andthen (authorize_node_operation a b) (bnd m (record_node name s)) e w = (Inr st', w')"
    and "\<And>w st1 w1. m e w = (Inr st1, w1) \<Longrightarrow> kept st st1"
  shows "kept st st' \<and> ws_current_node st' = name"
proof -
  from assms(1) obtain st1 w1 w2 w3 where "m e w1 = (Inr st1, w2)" and "record_node name s st1 e w2 = (Inr st', w3)"
    by (elim andthen_InrE bnd_InrE) blast
  with assms(2) record_node_run show ?thesis by meson
qed

locale kept_nodes =
  fixes g :: graph_config
  assumes control_kept: "gc_control g = Some n \<Longrightarrow>
    f \<in> {cn_prepare n, cn_evidence n, cn_policy n, cn_rules n, cn_confidence n, cn_finish n} \<Longrightarrow>
    f st e w = (Inr st', w') \<Longrightarrow> kept st st'"
begin

lemma step_kept:
  assumes "node_step g n st e w = (Inr st', w')"
  shows "kept st st' \<and> ws_current_node st' = node_name n"
proof (cases n)
  case Intake
  with assms have "intake_node st e w = (Inr st', w')" by simp
  then obtain d w1 where "record_node ''intake'' ''completed'' (summarize ''intake'' d st) e w1 = (Inr st', w')"
    unfolding intake_node_def by (elim andthen_InrE bnd_InrE) (rule that)
  from record_node_run [OF this] Intake show ?thesis by simp
next
  case Classification
  with assms have "classification_node g st e w = (Inr st', w')" by simp
  then obtain st1 w1 where "record_node ''classification'' ''completed'' st1 e w1 = (Inr st', w')" and "kept st st1"
    unfolding classification_node_def
    by (elim andthen_InrE bnd_InrE) (auto split: option.splits elim!: bnd_InrE intro: kept_reuse kept_decision that)
  with record_node_run Classification show ?thesis by fastforce
next
  case AuthoritativeContext
  with assms have "context_node g st e w = (Inr st', w')" by simp
  then have "kept st st' \<and> ws_current_node st' = node_name n" unfolding AuthoritativeContext node_name.simps context_node_def
    by (rule recorded_kept) (auto split: option.splits intro: control_kept kept_context)
  then show ?thesis .
next
  case EvidenceGate
  with assms have "evidence_node g st e w = (Inr st', w')" by simp
  then have "kept st st' \<and> ws_current_node st' = node_name n" unfolding EvidenceGate node_name.simps evidence_node_def
    by (rule recorded_kept) (auto split: option.splits intro: control_kept kept_evidence)
  then show ?thesis .
next
  case PolicyContext
  with assms have "policy_node g st e w = (Inr st', w')" by simp
  then have "kept st st' \<and> ws_current_node st' = node_name n" unfolding PolicyContext node_name.simps policy_node_def
    by (rule recorded_kept) (auto simp: ret_run split: option.splits elim!: bnd_InrE intro: control_kept kept_policy)
  then show ?thesis .
next
  case RulesNode
  with assms have "rules_node g st e w = (Inr st', w')" by simp
  then have "kept st st' \<and> ws_current_node st' = node_name n" unfolding RulesNode node_name.simps rules_node_def
    by (rule recorded_kept) (auto simp: raise_run split: option.splits intro: control_kept)
  then show ?thesis .
next
  case ConfidenceNode
  with assms have "confidence_node g st e w = (Inr st', w')" by simp
  then have "kept st st' \<and> ws_current_node st' = node_name n" unfolding ConfidenceNode node_name.simps confidence_node_def
    by (rule recorded_kept) (auto simp: raise_run split: option.splits intro: control_kept)
  then show ?thesis .
next
  case ControlledStop
  with assms have "stop_node g st e w = (Inr st', w')" by simp
  then have "kept st st' \<and> ws_current_node st' = node_name n" unfolding ControlledStop node_name.simps stop_node_def
    by (rule recorded_kept) (auto simp: ret_run kept_stop split: option.splits intro: control_kept)
  then show ?thesis .
qed

lemma steps_kept: "(gstep g e)\<^sup>*\<^sup>* p q \<Longrightarrow> kept (fst (snd p)) (fst (snd q))"
proof (induction rule: rtranclp_induct)
  case (step q q')
  from step.hyps(2) have "kept (fst (snd q)) (fst (snd q'))" by (cases rule: gstep.cases) (auto dest: step_kept)
  with step.IH show ?case by (rule kept_trans)
qed simp

lemma run_kept:
  assumes "run_from g n st e w = (Inr r, w')"
  shows "kept st r"
proof -
  from run_from_steps [OF assms] obtain m st1 w1 where "(gstep g e)\<^sup>*\<^sup>* (n, st, w) (m, st1, w1)"
    and "node_step g m st1 e w1 = (Inr r, w')" by blast
  then show ?thesis using steps_kept [of e "(n, st, w)" "(m, st1, w1)"] step_kept kept_trans by simp
qed

end

interpretation legacy_graph: kept_nodes "\<lparr>gc_classify = c, gc_retrieve = r, gc_control = None\<rparr>" for c r
  by unfold_locales simp

end
