(* ===== verification/ControlRepo.thy ===== *)
theory ControlRepo
  imports Idempotency WorkflowRepo
begin

text \<open>
  \<open>app/adapters/control_repository.py\<close> and \<open>app/services/control_registry.py\<close>: approved control
  profiles, frozen evaluation inputs and the immutable result of each stage.  Whatever is read back is
  checked against the digest it was written with.  The golden regression run the registry demands is the
  argument \<open>evaluate_profile\<close>.
\<close>

section \<open>Digests in the session\<close>

definition digest_app :: "pyval \<Rightarrow> string app" where
  "digest_app v = bnd (ask en_sha) (\<lambda>sha. of_py (digest sha v))"

lemma digest_app_run [app_simps]: "digest_app v e w = (Inr h, w') \<longleftrightarrow> digest (en_sha e) v = Inr h \<and> w' = w"
  by (auto simp: digest_app_def app_simps)

lemma preserves_digest [preserved, simp]: "preserves P (digest_app v)"
  by (auto simp: digest_app_def intro!: preserved)

section \<open>Profiles\<close>

text \<open>\<open>ControlProfile.model_validate(row.payload)\<close> and the comparison with the stored hash.\<close>

definition checked_profile :: "config_row \<Rightarrow> control_profile app" where
  "checked_profile r = andthen (require (valid_profile (cg_payload r)) (Py ValueErr))
     (bnd (digest_app (dump_profile (cg_payload r))) (\<lambda>h.
      andthen (require (h = cg_content_hash r) (ControlConfiguration ''CONFIGURATION_INTEGRITY_MISMATCH''))
      (ret (cg_payload r))))"

definition profile_of :: "string \<Rightarrow> control_profile app" where
  "profile_of config_id = bnd (look (\<lambda>s. row_by cg_config_id config_id (configs s))) (\<lambda>found. case found of
     None \<Rightarrow> raise (ControlConfiguration ''PINNED_CONFIGURATION_UNAVAILABLE'')
   | Some r \<Rightarrow> checked_profile r)"

record scope =
  so_environment :: string
  so_dispute_type :: string
  so_product :: pyval
  so_channel :: string
  so_jurisdiction :: pyval
  so_at :: int

definition in_scope :: "scope \<Rightarrow> control_profile \<Rightarrow> bool" where
  "in_scope q p \<longleftrightarrow> cp_dispute_type p = so_dispute_type q \<and> VStr (cp_product p) = so_product q \<and>
     so_channel q \<in> set (channels p) \<and> so_jurisdiction q \<in> VStr ` set (jurisdictions p) \<and>
     cp_effective_from p \<le> so_at q \<and> (\<forall>t \<in> set_option (cp_effective_to p). so_at q \<le> t)"

definition scoped :: "scope \<Rightarrow> (string \<times> control_profile) list \<Rightarrow> (string \<times> control_profile) list" where
  "scoped q = filter (\<lambda>(_, p). in_scope q p)"

definition resolve :: "scope \<Rightarrow> (string \<times> control_profile) app" where
  "resolve q = bnd (look (\<lambda>s. filter (\<lambda>r. cg_environment r = so_environment q) (configs s))) (\<lambda>rows.
     bnd (collect (\<lambda>r. bnd (profile_of (cg_config_id r)) (\<lambda>p. ret (cg_config_id r, p))) rows) (\<lambda>found.
     case scoped q found of [x] \<Rightarrow> ret x | _ \<Rightarrow> raise (ControlConfiguration ''NO_UNIQUE_APPROVED_CONTROL_PROFILE'')))"

section \<open>Frozen evaluations\<close>

text \<open>The \<open>inputs\<close> column of an evaluation and its parts.\<close>

definition inputs_json ::
  "(string, pyval) dict \<Rightarrow> evidence_item list \<Rightarrow> pyval \<Rightarrow> string \<Rightarrow> pyval" where
  "inputs_json facts items classification channel = VDict [(''facts'', VDict facts),
     (''evidence'', VList (map (dump_item True) items)), (''classification'', classification), (''channel'', VStr channel)]"

definition row_inputs :: "evaluation_row \<Rightarrow> pyval" where
  "row_inputs r = inputs_json (el_facts r) (el_evidence r) (el_classification r) (el_channel r)"

definition hash_is :: "(string \<Rightarrow> string) \<Rightarrow> pyval \<Rightarrow> string \<Rightarrow> bool py" where
  "hash_is sha v h = rmap (\<lambda>h'. h' = h) (digest sha v)"

definition evaluation_intact :: "(string \<Rightarrow> string) \<Rightarrow> evaluation_row \<Rightarrow> bool py" where
  "evaluation_intact sha r = rand (hash_is sha (dump_bundle (el_bundle r)) (el_bundle_hash r))
     (rand (hash_is sha (row_inputs r) (inputs_hash (el_bundle r)))
     (rand (hash_is sha (VDict (el_facts r)) (eb_facts_hash (el_bundle r)))
     (rand (hash_is sha (VList (map (dump_item False) (el_evidence r))) (evidence_hash (el_bundle r)))
     (hash_is sha (el_classification r) (classification_hash (el_bundle r))))))"

definition verify :: "evaluation_row \<Rightarrow> unit app" where
  "verify r = bnd (ask en_sha) (\<lambda>sha. bnd (of_py (evaluation_intact sha r)) (\<lambda>ok.
     require ok (ControlConfiguration ''EVALUATION_INTEGRITY_MISMATCH'')))"

definition get_evaluation :: "string \<Rightarrow> string \<Rightarrow> evaluation_row app" where
  "get_evaluation workflow_id evaluation_id =
     bnd (look (\<lambda>s. find (\<lambda>r. el_workflow_id r = workflow_id \<and> el_evaluation_id r = evaluation_id) (evaluations s))) (\<lambda>found.
     case found of None \<Rightarrow> raise (Py LookupErr) | Some r \<Rightarrow> andthen (verify r) (ret r))"

section \<open>Stage results\<close>

definition STAGES :: "stage list" where
  "STAGES = [StEvidence, StPolicy, StRules, StConfidence]"

definition stage_result :: "string \<Rightarrow> stage \<Rightarrow> stage_value option app" where
  "stage_result evaluation_id st = bnd (look (\<lambda>s. row_by stage_key (st, evaluation_id) (stage_results s))) (\<lambda>found.
     case found of None \<Rightarrow> ret None
     | Some r \<Rightarrow> bnd (digest_app (dump_stage (sg_result r))) (\<lambda>h.
         andthen (require (h = sg_result_hash r) (ControlConfiguration ''CONTROL_RESULT_INTEGRITY_MISMATCH''))
         (ret (Some (sg_result r)))))"

definition add_stage :: "evaluation_row \<Rightarrow> stage \<Rightarrow> stage_value \<Rightarrow> int \<Rightarrow> string app" where
  "add_stage ev st res moment =
     bnd (look (\<lambda>s. row_by stage_key (st, el_evaluation_id ev) (stage_results s))) (\<lambda>found. case found of
       Some r \<Rightarrow> bnd (digest_app (dump_stage res)) (\<lambda>h.
         andthen (require (sg_result_hash r = h) (ControlConfiguration ''IMMUTABLE_RESULT_CONFLICT''))
         (ret (sg_result_id r)))
     | None \<Rightarrow> bnd uuid4 (\<lambda>rid. bnd (digest_app (dump_stage res)) (\<lambda>h.
         andthen (insert_row stage_results stage_results_update stage_key
           \<lparr>sg_stage = st, sg_result_id = rid, sg_evaluation_id = el_evaluation_id ev, sg_result = res, sg_result_hash = h,
            sg_correlation_id = el_correlation_id ev, sg_created_at = moment\<rparr>)
         (ret rid))))"

section \<open>The view of an evaluation\<close>

record review_out =
  ro_request_id :: string
  ro_kind :: string
  ro_required_role :: string
  ro_reasons :: "string list"
  ro_required_items :: "string list"
  ro_status :: string
  ro_fulfilled_by :: "string option"

record evaluation_out =
  eo_evaluation_id :: string
  eo_bundle :: evaluation_bundle
  eo_stages :: "(string, pyval) dict"
  eo_requests :: "review_out list"

definition review_view :: "review_row \<Rightarrow> review_out app" where
  "review_view r = bnd (look (\<lambda>s. row_by fu_request_id (rv_request_id r) (fulfillments s))) (\<lambda>f.
     ret \<lparr>ro_request_id = rv_request_id r, ro_kind = rv_kind r, ro_required_role = rv_required_role r,
          ro_reasons = rv_reasons r, ro_required_items = rv_required_items r,
          ro_status = (if f = None then ''OPEN'' else ''FULFILLED''), ro_fulfilled_by = map_option fu_evaluation_id f\<rparr>)"

definition stage_views :: "string \<Rightarrow> (string, pyval) dict app" where
  "stage_views evaluation_id = bnd (collect (\<lambda>st. bnd (stage_result evaluation_id st) (\<lambda>r. ret (stage_text st, r))) STAGES)
     (\<lambda>xs. ret (concat (map (\<lambda>(k, r). case r of None \<Rightarrow> [] | Some v \<Rightarrow> [(k, dump_stage v)]) xs)))"

definition evaluation_output :: "evaluation_row \<Rightarrow> evaluation_out app" where
  "evaluation_output ev = andthen (verify ev) (bnd (stage_views (el_evaluation_id ev)) (\<lambda>stages.
     bnd (look (\<lambda>s. sort_key rv_kind (filter (\<lambda>r. rv_evaluation_id r = el_evaluation_id ev) (reviews s)))) (\<lambda>rows.
     bnd (collect review_view rows) (\<lambda>requests.
     ret \<lparr>eo_evaluation_id = el_evaluation_id ev, eo_bundle = el_bundle ev, eo_stages = stages, eo_requests = requests\<rparr>))))"

definition list_evaluations :: "string \<Rightarrow> evaluation_out list app" where
  "list_evaluations workflow_id =
     bnd (look (\<lambda>s. sort_key el_state_version (sort_key el_evaluation_id
       (filter (\<lambda>r. el_workflow_id r = workflow_id) (evaluations s))))) (collect evaluation_output)"

section \<open>The registry\<close>

definition policy_audit_append :: "bool \<Rightarrow> string \<Rightarrow> string \<Rightarrow> string \<Rightarrow> string \<Rightarrow> string \<Rightarrow> int \<Rightarrow> string option \<Rightarrow>
    string option \<Rightarrow> string option \<Rightarrow> string option \<Rightarrow> (string, pyval) dict \<Rightarrow> policy_audit_row app" where
  "policy_audit_append fails event actor src decision correlation now run doc version hash_sum metadata =
     andthen (require (\<not> fails) AuditWrite) (bnd uuid4 (\<lambda>aid.
       let r = \<lparr>pa_event_id = aid, pa_run_id = run, pa_document_id = doc, pa_version = version, pa_checksum = hash_sum,
         pa_event_type = event, pa_actor_ref = actor, pa_source = src, pa_decision_status = decision,
         pa_metadata = metadata, pa_correlation_id = correlation, pa_created_at = now\<rparr>
       in andthen (append_row policy_audits_update r) (ret r)))"

definition register_profile ::
  "(control_profile \<Rightarrow> (string, pyval) dict py) \<Rightarrow> control_profile \<Rightarrow> string \<Rightarrow> config_row app" where
  "register_profile evaluate_profile p actor =
     andthen (require (strip actor \<noteq> []) (ControlConfiguration ''Registry actor required''))
     (bnd (of_py (evaluate_profile p)) (\<lambda>report.
      bnd (of_py (getitem (VDict report) ''passed'')) (\<lambda>passed.
      andthen (require (truthy passed)
        (ControlConfiguration (''CONTROL_REGRESSION_FAILED:'' @ py_str (dict_get report ''failures'' VNone))))
      (bnd (look (\<lambda>s. row_by config_key (profile_id p, cp_version p) (configs s))) (\<lambda>found. case found of
        Some r \<Rightarrow> bnd (digest_app (dump_profile p)) (\<lambda>h.
          andthen (require (cg_content_hash r = h) (ControlConfiguration ''IMMUTABLE_CONFIGURATION_CONFLICT'')) (ret r))
      | None \<Rightarrow> bnd utc_now (\<lambda>now. bnd uuid4 (\<lambda>cid. bnd (digest_app (dump_profile p)) (\<lambda>h.
          let r = \<lparr>cg_config_id = cid, cg_profile_id = profile_id p, cg_version = cp_version p,
            cg_environment = environment p, cg_content_hash = h, cg_payload = p, cg_regression = VDict report,
            cg_actor_ref = actor, cg_created_at = now\<rparr>
          in andthen (insert_row configs configs_update config_key r)
            (bnd (policy_audit_append False ''CONTROL_CONFIG_REGISTERED'' actor ''control-registry-loader'' ''registered''
              (''control-config:'' @ cid) now None None None None
              [(''config_id'', VStr cid), (''content_hash'', VStr h), (''version'', VStr (cp_version p)),
               (''approval_ref'', VStr (cp_approval_ref p)), (''regression'', VDict report)]) (\<lambda>_. ret r))))))))))"

end
