(* ===== verification/Eligibility.thy ===== *)
theory Eligibility
  imports PolicySchemas PilotWorld
begin

text \<open>
  \<open>app/services/policy_eligibility.py\<close> and the queries of \<open>PolicyRepository\<close> it rests on: which chunks of the
  active corpus may be scored at all, decided chunk by chunk with the reasons of every refusal.
\<close>

section \<open>Times read from the database\<close>

fun db_utc :: "pytime \<Rightarrow> int py" where
  "db_utc (Naive t) = Inr t"
| "db_utc (Aware t) = utc (Aware t)"

text \<open>The instant a column compares as in SQL; a stored time without zone is UTC.\<close>

fun instant_of :: "pytime \<Rightarrow> int" where
  "instant_of (Naive t) = t"
| "instant_of (Aware t) = t"

lemma db_utc_instant: "db_utc t = Inr u \<Longrightarrow> u = instant_of t"
  by (cases t) (auto split: if_splits)

section \<open>Queries\<close>

definition usable :: "string list" where
  "usable = [''approved'', ''active'']"

definition chunk_of :: "string \<Rightarrow> store \<Rightarrow> chunk_row option" where
  "chunk_of chunk_id s = row_by ch_chunk_id chunk_id (chunks s)"

definition document_of :: "chunk_row \<Rightarrow> store \<Rightarrow> document_row option" where
  "document_of c s = row_by do_pk (ch_document_pk c) (documents s)"

definition active_corpus :: "corpus_row option app" where
  "active_corpus = look (\<lambda>s. find co_is_active (corpora s))"

definition chunk_selected :: "corpus_row \<Rightarrow> int \<Rightarrow> string \<Rightarrow> string \<Rightarrow> string \<Rightarrow> chunk_row \<Rightarrow> bool" where
  "chunk_selected corpus date product channel jurisdiction c \<longleftrightarrow>
     ch_run_id c = co_run_id corpus \<and> ch_status c \<in> set usable \<and> ch_vector_ready c \<and> ch_lexical_ready c \<and>
     instant_of (ch_effective_from c) \<le> date \<and> (\<forall>t \<in> set_option (ch_effective_to c). date \<le> instant_of t) \<and>
     ch_product c = product \<and> ch_channel c = channel \<and> ch_jurisdiction c = jurisdiction"

definition eligible_chunks ::
  "corpus_row \<Rightarrow> int \<Rightarrow> string \<Rightarrow> string \<Rightarrow> string \<Rightarrow> store \<Rightarrow> chunk_row list" where
  "eligible_chunks corpus date product channel jurisdiction s =
     sort_key ch_document_id (sort_key ch_version (sort_key ch_section
       (filter (chunk_selected corpus date product channel jurisdiction) (chunks s))))"

section \<open>The decision\<close>

definition expected_product :: "dispute_type \<Rightarrow> string" where
  "expected_product d = (case d of DuplicateCard \<Rightarrow> ''card'' | FailedUpi \<Rightarrow> ''upi'' | AtmDebit \<Rightarrow> ''atm'')"

definition mapped_versions :: "eligibility_profile \<Rightarrow> dispute_type \<Rightarrow> (string \<times> string) list" where
  "mapped_versions p d = map (\<lambda>m. (pm_document_id m, pm_version m))
     (filter (\<lambda>m. pm_dispute_type m = dispute_type_text d \<and> pm_family m = ep_family p) (mappings p))"

definition out_of_period :: "pytime \<Rightarrow> pytime option \<Rightarrow> int \<Rightarrow> bool py" where
  "out_of_period lo hi date = ror (rmap (\<lambda>t. date < t) (db_utc lo))
     (case hi of None \<Rightarrow> Inr False | Some h \<Rightarrow> rmap (\<lambda>t. t < date) (db_utc h))"

definition flag :: "bool \<Rightarrow> string \<Rightarrow> string list" where
  "flag b reason = (if b then [reason] else [])"

definition document_usable :: "document_row option \<Rightarrow> bool" where
  "document_usable doc = (case doc of None \<Rightarrow> False
     | Some d \<Rightarrow> do_status d \<in> set usable \<and> do_approval_ref d \<noteq> [])"

definition chunk_reasons :: "retrieval_request \<Rightarrow> (string \<times> string) list option \<Rightarrow> string list \<Rightarrow> document_row option \<Rightarrow>
    chunk_row \<Rightarrow> string list py" where
  "chunk_reasons q mapped indexed doc c =
     rbind (out_of_period (ch_effective_from c) (ch_effective_to c) (rr_effective_date q)) (\<lambda>late.
     rbind (case doc of None \<Rightarrow> Inr False
       | Some d \<Rightarrow> out_of_period (do_effective_from d) (do_effective_to d) (rr_effective_date q)) (\<lambda>doc_late.
     let rs = flag (expected_product (rr_dispute_type q) \<noteq> rr_product q) ''DISPUTE_PRODUCT_MISMATCH'' @
        flag (case mapped of None \<Rightarrow> False | Some ms \<Rightarrow> (ch_document_id c, ch_version c) \<notin> set ms)
          ''POLICY_FAMILY_NOT_MAPPED'' @
        flag (\<not> document_usable doc) ''POLICY_NOT_APPROVED'' @
        flag (ch_status c \<notin> set usable) ''CHUNK_NOT_ACTIVE'' @
        flag (ch_product c \<noteq> rr_product q) ''PRODUCT_MISMATCH'' @
        flag (ch_channel c \<noteq> rr_channel q) ''CHANNEL_MISMATCH'' @
        flag (ch_jurisdiction c \<noteq> rr_jurisdiction q) ''JURISDICTION_MISMATCH'' @
        flag late ''POLICY_NOT_EFFECTIVE'' @ flag doc_late ''DOCUMENT_NOT_EFFECTIVE''
     in Inr (rs @ flag (ch_chunk_id c \<notin> set indexed \<and> rs = []) ''INDEX_NOT_READY'')))"

record chunk_decision =
  cd_chunk_id :: string
  cd_document_id :: string
  cd_version :: string
  cd_reasons :: "string list"

definition decide :: "retrieval_request \<Rightarrow> (string \<times> string) list option \<Rightarrow> string list \<Rightarrow> store \<Rightarrow> chunk_row \<Rightarrow>
    chunk_decision py" where
  "decide q mapped indexed s c = rmap (\<lambda>rs. \<lparr>cd_chunk_id = ch_chunk_id c, cd_document_id = ch_document_id c,
     cd_version = ch_version c, cd_reasons = rs\<rparr>) (chunk_reasons q mapped indexed (document_of c s) c)"

definition admitted_ids :: "chunk_decision list \<Rightarrow> string list" where
  "admitted_ids ds = map cd_chunk_id (filter (\<lambda>d. cd_reasons d = []) ds)"

definition dump_decision :: "chunk_decision \<Rightarrow> pyval" where
  "dump_decision d = VDict [(''chunk_id'', VStr (cd_chunk_id d)), (''document_id'', VStr (cd_document_id d)),
     (''version'', VStr (cd_version d)), (''eligible'', VBool (cd_reasons d = [])),
     (''reasons'', VStrs (if cd_reasons d = [] then [''ELIGIBLE''] else cd_reasons d))]"

definition corpus_chunks :: "corpus_row \<Rightarrow> store \<Rightarrow> chunk_row list" where
  "corpus_chunks corpus s = sort_key ch_chunk_id (filter (\<lambda>c. ch_run_id c = co_run_id corpus) (chunks s))"

definition decisions :: "corpus_row \<Rightarrow> retrieval_request \<Rightarrow> eligibility_profile option \<Rightarrow> store \<Rightarrow> chunk_decision list py" where
  "decisions corpus q profile s =
     (let indexed = map ch_chunk_id (eligible_chunks corpus (rr_effective_date q) (rr_product q) (rr_channel q)
            (rr_jurisdiction q) s);
          mapped = map_option (\<lambda>p. mapped_versions p (rr_dispute_type q)) profile
      in rtraverse (decide q mapped indexed s) (corpus_chunks corpus s))"

definition dump_eligible :: "corpus_row \<Rightarrow> retrieval_request \<Rightarrow> eligibility_profile option \<Rightarrow> chunk_decision list \<Rightarrow>
    (string, pyval) dict" where
  "dump_eligible corpus q profile ds =
     [(''version'', VStr (case profile of None \<Rightarrow> ''metadata-eligibility-v1'' | Some p \<Rightarrow> ep_version p)),
      (''corpus_version'', VStr (co_corpus_version corpus)), (''eligible_chunk_ids'', VStrs (admitted_ids ds)),
      (''inputs'', VDict [(''product'', VStr (rr_product q)), (''channel'', VStr (rr_channel q)),
         (''jurisdiction'', VStr (rr_jurisdiction q)), (''dispute_type'', VStr (dispute_type_text (rr_dispute_type q))),
         (''effective_as_of'', VStr (isoformat (Aware (rr_effective_date q))))]),
      (''decisions'', VList (map dump_decision ds))]"

text \<open>\<open>PolicyEligibilityService.evaluate\<close>: the decisions and the dictionary made of them.\<close>

definition evaluate_eligibility ::
  "corpus_row \<Rightarrow> retrieval_request \<Rightarrow> eligibility_profile option \<Rightarrow> (chunk_decision list \<times> (string, pyval) dict) app" where
  "evaluate_eligibility corpus q profile = bnd (look (decisions corpus q profile)) (\<lambda>r.
     bnd (of_py r) (\<lambda>ds. ret (ds, dump_eligible corpus q profile ds)))"

section \<open>What is admitted\<close>

lemma flag_Nil [simp]: "flag b r = [] \<longleftrightarrow> \<not> b"
  by (simp add: flag_def)

text \<open>The period of a row, with both bounds.\<close>

definition in_period :: "pytime \<Rightarrow> pytime option \<Rightarrow> int \<Rightarrow> bool" where
  "in_period lo hi date \<longleftrightarrow> instant_of lo \<le> date \<and> (\<forall>t \<in> set_option hi. date \<le> instant_of t)"

lemma out_of_period_False: "out_of_period lo hi date = Inr False \<Longrightarrow> in_period lo hi date"
  by (cases "db_utc lo") (auto simp: out_of_period_def in_period_def result_simps split: option.splits if_splits
      dest: db_utc_instant)

definition admissible_chunk ::
  "corpus_row \<Rightarrow> retrieval_request \<Rightarrow> eligibility_profile option \<Rightarrow> store \<Rightarrow> chunk_row \<Rightarrow> bool" where
  "admissible_chunk corpus q profile s c \<longleftrightarrow>
     chunk_selected corpus (rr_effective_date q) (rr_product q) (rr_channel q) (rr_jurisdiction q) c \<and>
     rr_product q = expected_product (rr_dispute_type q) \<and>
     (\<forall>p \<in> set_option profile. (ch_document_id c, ch_version c) \<in> set (mapped_versions p (rr_dispute_type q))) \<and>
     (\<exists>d. document_of c s = Some d \<and> do_status d \<in> set usable \<and> do_approval_ref d \<noteq> [] \<and>
        in_period (do_effective_from d) (do_effective_to d) (rr_effective_date q))"

lemma chunk_reasons_Nil:
  assumes "chunk_reasons q mapped indexed doc c = Inr []"
  shows "expected_product (rr_dispute_type q) = rr_product q \<and>
    (\<forall>ms \<in> set_option mapped. (ch_document_id c, ch_version c) \<in> set ms) \<and> document_usable doc \<and>
    ch_status c \<in> set usable \<and> ch_product c = rr_product q \<and> ch_channel c = rr_channel q \<and>
    ch_jurisdiction c = rr_jurisdiction q \<and> in_period (ch_effective_from c) (ch_effective_to c) (rr_effective_date q) \<and>
    (\<forall>d \<in> set_option doc. in_period (do_effective_from d) (do_effective_to d) (rr_effective_date q)) \<and>
    ch_chunk_id c \<in> set indexed"
  using assms
  by (cases doc; cases mapped) (auto simp: chunk_reasons_def result_simps Let_def dest: out_of_period_False)

lemma decisions_from:
  assumes "decisions corpus q profile s = Inr ds" and "d \<in> set ds"
  obtains c where "c \<in> set (chunks s)" and "ch_run_id c = co_run_id corpus" and "cd_chunk_id d = ch_chunk_id c"
    and "chunk_reasons q (map_option (\<lambda>p. mapped_versions p (rr_dispute_type q)) profile)
      (map ch_chunk_id (eligible_chunks corpus (rr_effective_date q) (rr_product q) (rr_channel q) (rr_jurisdiction q) s))
      (document_of c s) c = Inr (cd_reasons d)"
  using assms
  by (auto simp: decisions_def Let_def corpus_chunks_def decide_def result_simps dest!: rtraverse_from intro: that)

lemma set_eligible: "set (eligible_chunks corpus date product channel jurisdiction s) =
    {c \<in> set (chunks s). chunk_selected corpus date product channel jurisdiction c}"
  by (auto simp: eligible_chunks_def)

lemma admitted_chunk:
  assumes uniq: "distinct (map ch_chunk_id (chunks s))" and dec: "decisions corpus q profile s = Inr ds"
    and mem: "i \<in> set (admitted_ids ds)"
  shows "\<exists>c. chunk_of i s = Some c \<and> admissible_chunk corpus q profile s c"
proof -
  from mem obtain d where d: "d \<in> set ds" "cd_reasons d = []" "i = cd_chunk_id d" by (auto simp: admitted_ids_def)
  from decisions_from [OF dec d(1)] obtain c where c: "c \<in> set (chunks s)" "cd_chunk_id d = ch_chunk_id c"
    and reasons: "chunk_reasons q (map_option (\<lambda>p. mapped_versions p (rr_dispute_type q)) profile)
      (map ch_chunk_id (eligible_chunks corpus (rr_effective_date q) (rr_product q) (rr_channel q) (rr_jurisdiction q) s))
      (document_of c s) c = Inr []"
    using d(2) by metis
  note facts = chunk_reasons_Nil [OF reasons]
  have "c \<in> set (eligible_chunks corpus (rr_effective_date q) (rr_product q) (rr_channel q) (rr_jurisdiction q) s)"
    using facts c(1) uniq by (auto simp: distinct_map inj_on_def set_eligible)
  then have "chunk_selected corpus (rr_effective_date q) (rr_product q) (rr_channel q) (rr_jurisdiction q) c"
    by (simp add: set_eligible)
  then have "admissible_chunk corpus q profile s c"
    using facts by (auto simp: admissible_chunk_def document_usable_def split: option.splits)
  moreover have "chunk_of i s = Some c"
    using row_by_unique [OF uniq c(1)] by (simp add: chunk_of_def d(3) c(2))
  ultimately show ?thesis by blast
qed

text \<open>Nothing admissible is refused, as long as the times of the rows are in range.\<close>

definition times_ok :: "store \<Rightarrow> bool" where
  "times_ok s \<longleftrightarrow> (\<forall>c \<in> set (chunks s). (\<exists>u. db_utc (ch_effective_from c) = Inr u) \<and>
       (\<forall>t \<in> set_option (ch_effective_to c). \<exists>u. db_utc t = Inr u)) \<and>
     (\<forall>d \<in> set (documents s). (\<exists>u. db_utc (do_effective_from d) = Inr u) \<and>
       (\<forall>t \<in> set_option (do_effective_to d). \<exists>u. db_utc t = Inr u))"

lemma out_of_period_total:
  assumes "db_utc lo = Inr u" and "\<forall>t \<in> set_option hi. \<exists>u. db_utc t = Inr u"
  shows "out_of_period lo hi date = Inr (\<not> in_period lo hi date)"
proof -
  have u: "u = instant_of lo" by (rule db_utc_instant [OF assms(1)])
  show ?thesis
  proof (cases hi)
    case (Some t)
    then obtain v where v: "db_utc t = Inr v" using assms(2) by auto
    then have "v = instant_of t" by (rule db_utc_instant)
    then show ?thesis using assms(1) u v Some by (auto simp: out_of_period_def in_period_def)
  qed (use assms(1) u in \<open>auto simp: out_of_period_def in_period_def\<close>)
qed

lemma document_row: "document_of c s = Some d \<Longrightarrow> d \<in> set (documents s)"
  unfolding document_of_def by (drule row_by_Some) simp

lemma chunk_reasons_total:
  assumes "times_ok s" and "c \<in> set (chunks s)"
  shows "\<exists>rs. chunk_reasons q mapped indexed (document_of c s) c = Inr rs"
proof -
  have "out_of_period (ch_effective_from c) (ch_effective_to c) date = Inr (\<not> in_period (ch_effective_from c) (ch_effective_to c) date)"
    for date using assms out_of_period_total by (auto simp: times_ok_def)
  moreover have "d \<in> set (documents s) \<Longrightarrow> out_of_period (do_effective_from d) (do_effective_to d) date =
      Inr (\<not> in_period (do_effective_from d) (do_effective_to d) date)" for d date
    using assms out_of_period_total by (auto simp: times_ok_def)
  ultimately show ?thesis
    by (cases "document_of c s") (auto simp: chunk_reasons_def Let_def dest: document_row)
qed

lemma admissible_no_reason:
  assumes "times_ok s" and "c \<in> set (chunks s)" and adm: "admissible_chunk corpus q profile s c"
  shows "chunk_reasons q (map_option (\<lambda>p. mapped_versions p (rr_dispute_type q)) profile)
      (map ch_chunk_id (eligible_chunks corpus (rr_effective_date q) (rr_product q) (rr_channel q) (rr_jurisdiction q) s))
      (document_of c s) c = Inr []"
proof -
  from adm obtain d where d: "document_of c s = Some d" "do_status d \<in> set usable" "do_approval_ref d \<noteq> []"
    "in_period (do_effective_from d) (do_effective_to d) (rr_effective_date q)" by (auto simp: admissible_chunk_def)
  have "out_of_period (ch_effective_from c) (ch_effective_to c) (rr_effective_date q) = Inr False"
    using assms out_of_period_total
    by (auto simp: times_ok_def admissible_chunk_def chunk_selected_def in_period_def)
  moreover have "out_of_period (do_effective_from d) (do_effective_to d) (rr_effective_date q) = Inr False"
    using assms(1) document_row [OF d(1)] d(4) out_of_period_total by (auto simp: times_ok_def)
  moreover have "ch_chunk_id c \<in> ch_chunk_id ` set (eligible_chunks corpus (rr_effective_date q) (rr_product q)
      (rr_channel q) (rr_jurisdiction q) s)"
    using assms(2) adm by (auto simp: set_eligible admissible_chunk_def)
  ultimately show ?thesis
    using adm d by (cases profile) (auto simp: chunk_reasons_def Let_def admissible_chunk_def chunk_selected_def
        document_usable_def flag_def)
qed

section \<open>An example\<close>

definition pilot_document :: document_row where
  "pilot_document = \<lparr>do_pk = 1, do_document_id = ''POL-DUP'', do_version = ''2026.09'', do_title = ''Duplicates'',
     do_status = ''active'', do_approval_ref = ''APR-1'', do_source_identity = ''source'', do_source_checksum = ''sum'',
     do_effective_from = Naive 10, do_effective_to = None, do_product = ''card'', do_channel = ''web'',
     do_jurisdiction = ''US'', do_source_type = ''approved_policy'', do_content = ''text'', do_run_id = ''run'',
     do_correlation_id = ''corr'', do_created_at = 0\<rparr>"

definition pilot_chunk :: chunk_row where
  "pilot_chunk = \<lparr>ch_pk = 1, ch_chunk_id = ''chunk'', ch_document_pk = 1, ch_document_id = ''POL-DUP'',
     ch_version = ''2026.09'', ch_section = ''1'', ch_status = ''active'', ch_effective_from = Naive 10,
     ch_effective_to = Some (Naive 90), ch_product = ''card'', ch_channel = ''web'', ch_jurisdiction = ''US'',
     ch_content = ''text'', ch_source_checksum = ''sum'', ch_chunk_hash = ''hash'', ch_parser_version = ''p'',
     ch_chunking_config_hash = ''c'', ch_embedding_model = ''m'', ch_embedding_config_hash = ''e'',
     ch_embedding_vector = ''[]'', ch_vector_ready = True, ch_lexical_ready = True, ch_run_id = ''run'',
     ch_correlation_id = ''corr'', ch_created_at = 0\<rparr>"

definition pilot_corpus :: corpus_row where
  "pilot_corpus = \<lparr>co_version_id = ''v'', co_corpus_version = ''corpus'', co_run_id = ''run'', co_index_version = ''idx'',
     co_is_active = True, co_promoted_by = ''admin'', co_correlation_id = ''corr'', co_promoted_at = 0\<rparr>"

definition pilot_policies :: store where
  "pilot_policies = empty_store\<lparr>documents := [pilot_document], chunks := [pilot_chunk], corpora := [pilot_corpus]\<rparr>"

definition pilot_query :: retrieval_request where
  "pilot_query = \<lparr>rr_query = ''duplicate'', rr_dispute_type = DuplicateCard, rr_effective_date = 50, rr_product = ''card'',
     rr_channel = ''web'', rr_jurisdiction = ''US'', rr_actor_ref = ''actor'', rr_case_id = None, rr_workflow_id = None,
     rr_config = default_config\<rparr>"

lemma pilot_admissible: "admissible_chunk pilot_corpus pilot_query None pilot_policies pilot_chunk"
  by (simp add: admissible_chunk_def chunk_selected_def pilot_corpus_def pilot_query_def pilot_chunk_def usable_def
      expected_product_def document_of_def row_by_def pilot_policies_def pilot_document_def in_period_def empty_store_def)

section \<open>Property\<close>

text \<open>C20: the eligibility service always decides, and it admits exactly the chunks that may be used: indexed chunks
  of the corpus in the right product, channel and jurisdiction, in force on the date, mapped by the profile, of
  an approved document that is in force itself.\<close>

theorem eligibility_exact:
  assumes "distinct (map ch_chunk_id (chunks s))" and "times_ok s"
  shows "\<exists>ds. decisions corpus q profile s = Inr ds \<and> length ds = length (corpus_chunks corpus s) \<and>
    set (admitted_ids ds) = ch_chunk_id ` {c \<in> set (chunks s). admissible_chunk corpus q profile s c}"
proof -
  have "\<exists>d. decide q mapped indexed s c = Inr d" if "c \<in> set (corpus_chunks corpus s)" for c mapped indexed
  proof -
    have "c \<in> set (chunks s)" using that by (simp add: corpus_chunks_def)
    from chunk_reasons_total [OF assms(2) this, of q mapped indexed] show ?thesis by (auto simp: decide_def)
  qed
  then have "rtraverse (decide q mapped indexed s) (corpus_chunks corpus s) =
      Inr (map (\<lambda>c. projr (decide q mapped indexed s c)) (corpus_chunks corpus s))" for mapped indexed
    by (intro rtraverse_all_Inr) (metis sum.sel(2))
  then obtain ds where ds: "decisions corpus q profile s = Inr ds" by (simp add: decisions_def Let_def)
  have "i \<in> ch_chunk_id ` {c \<in> set (chunks s). admissible_chunk corpus q profile s c}" if "i \<in> set (admitted_ids ds)" for i
  proof -
    from admitted_chunk [OF assms(1) ds that] obtain c where "chunk_of i s = Some c"
      and "admissible_chunk corpus q profile s c" by blast
    moreover from this(1) have "c \<in> set (chunks s) \<and> ch_chunk_id c = i" unfolding chunk_of_def by (rule row_by_Some)
    ultimately show ?thesis by blast
  qed
  moreover have "ch_chunk_id c \<in> set (admitted_ids ds)"
    if c: "c \<in> set (chunks s)" "admissible_chunk corpus q profile s c" for c
  proof -
    have "c \<in> set (corpus_chunks corpus s)"
      using c by (auto simp: corpus_chunks_def admissible_chunk_def chunk_selected_def)
    then obtain d where "d \<in> set ds" and dec: "decide q (map_option (\<lambda>p. mapped_versions p (rr_dispute_type q)) profile)
      (map ch_chunk_id (eligible_chunks corpus (rr_effective_date q) (rr_product q) (rr_channel q) (rr_jurisdiction q) s))
      s c = Inr d"
      using ds rtraverse_mem by (fastforce simp: decisions_def Let_def)
    moreover have "cd_reasons d = [] \<and> cd_chunk_id d = ch_chunk_id c"
      using dec admissible_no_reason [OF assms(2) c] by (auto simp: decide_def)
    ultimately show ?thesis by (force simp: admitted_ids_def)
  qed
  ultimately have "set (admitted_ids ds) = ch_chunk_id ` {c \<in> set (chunks s). admissible_chunk corpus q profile s c}"
    by blast
  moreover have "length ds = length (corpus_chunks corpus s)"
    using ds rtraverse_Inr_length by (fastforce simp: decisions_def Let_def)
  ultimately show ?thesis using ds by blast
qed

theorem eligibility_exact_witness:
  "\<exists>ds. decisions pilot_corpus pilot_query None pilot_policies = Inr ds \<and> ''chunk'' \<in> set (admitted_ids ds)"
proof -
  have "times_ok pilot_policies"
    by (simp add: times_ok_def pilot_policies_def pilot_chunk_def pilot_document_def)
  moreover have "distinct (map ch_chunk_id (chunks pilot_policies))" by (simp add: pilot_policies_def)
  ultimately obtain ds where "decisions pilot_corpus pilot_query None pilot_policies = Inr ds"
    and "set (admitted_ids ds) = ch_chunk_id ` {c \<in> set (chunks pilot_policies).
      admissible_chunk pilot_corpus pilot_query None pilot_policies c}"
    using eligibility_exact by blast
  moreover have "pilot_chunk \<in> set (chunks pilot_policies)" by (simp add: pilot_policies_def)
  moreover have "''chunk'' = ch_chunk_id pilot_chunk" by (simp add: pilot_chunk_def)
  ultimately show ?thesis using pilot_admissible by blast
qed

end
