(* ===== verification/RuleSafety.thy ===== *)
theory RuleSafety
  imports PilotRules
begin

text \<open>
  What an automatic disposition of \<open>RulesEngine.execute\<close> guarantees: the properties of the rules engine.
\<close>

section \<open>Properties\<close>

lemma unblocked_no_conflict:
  assumes "execute sha rs facts ev prefs as_of = Inr x" and "\<not> blocked x"
  shows "conflicting ev = []"
  using assms by (elim execute_Inr) (simp add: is_blocked_def)

lemma supported_handler:
  assumes "execute sha rs facts ev prefs (Aware t) = Inr x" and "candidate x = DuplicateSupported"
    and "rule \<in> set (rs_rules rs)" and "rd_mandatory rule" and "rule_applies rule facts"
  shows "fst (rule_outcome_of rule facts ev prefs t) = Passed" and "rule_effective rule t"
proof -
  show p: "fst (rule_outcome_of rule facts ev prefs t) = Passed"
    by (rule supported_passed [OF assms(1-4) refl assms(5)])
  show "rule_effective rule t" by (rule outcome_Passed [OF p assms(5)])
qed

lemma finite_parameter:
  assumes "valid_rule rule" and "parameter rule k = Inr w"
  obtains d where "w = Finite d" and "0 \<le> dval d"
proof -
  have "(k, w) \<in> set (rd_parameters rule)" using assms(2) by (auto simp: parameter_def map_of_SomeD split: option.splits)
  then have "parameter_ok w" using assms(1) by (auto simp: valid_rule_def list_all_iff)
  then show thesis by (cases w) (auto simp: parameter_ok_def dec_le_iff signed_def intro: that)
qed

text \<open>C1: a supported duplicate really is one: two complete records of different transactions that
  agree on account, merchant, currency and amount and were authorized within the configured window.\<close>

theorem supported_is_duplicate:
  assumes "execute sha rs facts ev prefs (Aware t) = Inr x" and "candidate x = DuplicateSupported"
    and "rule \<in> set (rs_rules rs)" and "rd_handler rule = HDuplicate" and "rd_mandatory rule"
    and "rule_applies rule facts" and "valid_rule rule"
  shows "rule_effective rule t \<and> (\<exists>a b m n i j w. distinct_pair facts a b \<and>
    (\<forall>k \<in> {''account_ref'', ''merchant_ref'', ''currency''}. same_text a b k) \<and>
    amount_of a m \<and> amount_of b n \<and> dval m = dval n \<and> authorized a i \<and> authorized b j \<and>
    parameter rule ''window_seconds'' = Inr (Finite w) \<and> of_int \<bar>i - j\<bar> / 10 ^ 6 \<le> dval w)"
proof -
  note supp = supported_handler [OF assms(1-3,5,6)]
  obtain a b where ab: "distinct_pair facts a b" "duplicate_test rule a b = Inr True"
    using fact_handler_Passed(1) [OF supp(1) assms(6,4)] by blast
  obtain m n i j w where d: "\<forall>k \<in> {''account_ref'', ''merchant_ref'', ''currency''}. same_text a b k"
      "amount_of a m" "amount_of b n" "dval m = dval n" "authorized a i" "authorized b j"
      "parameter rule ''window_seconds'' = Inr w" "dec_le_py (seconds_dec \<bar>i - j\<bar>) w = Inr True"
    using duplicate_test_True [OF ab(2,1)] by blast
  obtain v where "w = Finite v" using finite_parameter [OF assms(7) d(7)] by blast
  then have "of_int \<bar>i - j\<bar> / 10 ^ 6 \<le> dval v"
    using d(8) by (simp add: dec_le_py_def dec_le_iff dval_seconds_dec del: dval.simps of_int_abs)
  with \<open>w = Finite v\<close> show ?thesis using supp(2) ab(1) d(1-7) by blast
qed

theorem supported_is_duplicate_witness:
  "\<exists>a b m n. distinct_pair pilot_input a b \<and> amount_of a m \<and> amount_of b n \<and> dval m = dval n"
proof -
  obtain x where x: "execute (\<lambda>_. ''h'') pilot_rule_set pilot_input pilot_assessment pilot_policy (Aware pilot_now) = Inr x"
    "candidate x = DuplicateSupported" using pilot_executed by blast
  define r where "r = pilot_rule ''DUP-5'' HDuplicate 4 [(''window_seconds'', Finite (Dec False 300 0))]"
  have r: "r \<in> set (rs_rules pilot_rule_set)" "rd_handler r = HDuplicate" "rd_mandatory r" "rule_applies r pilot_input"
    "valid_rule r"
    by (simp_all add: r_def pilot_rule_set_def)
      (simp add: valid_rule_def pilot_rule_def expected_parameters_def parameter_ok_def dec_le_iff signed_def)
  from supported_is_duplicate [OF x r] show ?thesis by blast
qed

text \<open>C2: a supported dispute was filed after the authorization and within the filing window (a whole
  number of days, under a million).\<close>

theorem supported_within_filing_window:
  assumes "execute sha rs facts ev prefs (Aware t) = Inr x" and "candidate x = DuplicateSupported"
    and "rule \<in> set (rs_rules rs)" and "rd_handler rule = HTimeline" and "rd_mandatory rule"
    and "rule_applies rule facts" and "parameter rule ''filing_days'' = Inr (Finite (dec_of_int days))"
    and "0 \<le> days" and "days < 1000000"
  shows "\<exists>a b v s i. distinct_pair facts a b \<and> map_of facts ''submitted_at'' = Some v \<and> instant v = Inr s \<and>
    authorized a i \<and> i \<le> s \<and> s - i \<le> days * 86400 * us_per_second"
proof -
  note supp = supported_handler [OF assms(1-3,5,6)]
  obtain a b where ab: "distinct_pair facts a b" "timeline_test rule facts a = Inr True"
    using fact_handler_Passed(2) [OF supp(1) assms(6,4)] by blast
  then obtain v s i where v: "map_of facts ''submitted_at'' = Some v" "instant v = Inr s" "authorized a i"
      "dec_le (Dec False 0 0) (seconds_dec (s - i))"
      "dec_le_py (seconds_dec (s - i)) (pydec_scale (Finite (dec_of_int days)) 86400) = Inr True"
    by (auto simp: timeline_test_def rbind_eq_Inr getitem_VDict rand_eq_True authorized_def assms(7) Let_def
        simp del: getitem.simps split: if_splits)
  obtain n where n: "days = int n" using assms(8) nonneg_int_cases by blast
  have "dec_mul (dec_of_int days) (dec_of_int 86400) = Dec False (n * 86400) 0"
    using assms(9) by (simp add: n dec_of_int_def fix_prec_id prec_def del: fix_prec.simps)
  then have "of_int (s - i) / 10 ^ 6 \<le> (of_nat (n * 86400) :: rat)"
    using v(5) by (simp add: pydec_scale_def dec_le_py_def dec_le_iff dval_seconds_dec signed_def)
  then have "of_int (s - i) \<le> (of_int (days * 86400 * 10 ^ 6) :: rat)"
    by (simp add: n field_simps)
  then have "s - i \<le> days * 86400 * 10 ^ 6" by (simp only: of_int_le_iff)
  moreover have "(0 :: rat) \<le> of_int (s - i) / 10 ^ 6"
    using v(4) by (simp only: dec_le_iff dval_seconds_dec) (simp add: signed_def)
  then have "i \<le> s" by (simp add: zero_le_divide_iff)
  ultimately show ?thesis using v(1-3) ab(1) by (auto simp: us_per_second_def)
qed

theorem supported_within_filing_window_witness:
  "\<exists>a b v s i. distinct_pair pilot_input a b \<and> instant v = Inr s \<and> authorized a i \<and> i \<le> s \<and>
    s - i \<le> 120 * 86400 * us_per_second"
proof -
  obtain x where x: "execute (\<lambda>_. ''h'') pilot_rule_set pilot_input pilot_assessment pilot_policy (Aware pilot_now) = Inr x"
    "candidate x = DuplicateSupported" using pilot_executed by blast
  define r where "r = pilot_rule ''DUP-2'' HTimeline 1 [(''filing_days'', Finite (Dec False 120 0))]"
  have r: "r \<in> set (rs_rules pilot_rule_set)" "rd_handler r = HTimeline" "rd_mandatory r" "rule_applies r pilot_input"
    "parameter r ''filing_days'' = Inr (Finite (dec_of_int 120))" "(0::int) \<le> 120" "(120::int) < 1000000"
    by (simp_all add: r_def pilot_rule_set_def parameter_def dec_of_int_def)
  from supported_within_filing_window [OF x r] show ?thesis by blast
qed

text \<open>C3: a supported duplicate has not been made good already: for both transactions the settlement
  and refund records belong to it, the settlement stands, and nothing was refunded.\<close>

theorem supported_not_remedied:
  assumes "execute sha rs facts ev prefs (Aware t) = Inr x" and "candidate x = DuplicateSupported"
    and "rule \<in> set (rs_rules rs)" and "rd_handler rule = HRemediation" and "rd_mandatory rule"
    and "rule_applies rule facts"
  shows "\<exists>a b. distinct_pair facts a b \<and> unremedied facts ''disputed'' a \<and> unremedied facts ''candidate'' b"
proof -
  note supp = supported_handler [OF assms(1-3,5,6)]
  obtain a b reason where ab: "distinct_pair facts a b"
    "remediation_loop facts [(''disputed'', a), (''candidate'', b)] False = Inr (Passed, reason)"
    using fact_handler_Passed(4) [OF supp(1) assms(6,4)] by blast
  from remediation_Passed [OF ab(2)] ab(1) show ?thesis by auto
qed

theorem supported_not_remedied_witness:
  "\<exists>a b. distinct_pair pilot_input a b \<and> unremedied pilot_input ''disputed'' a"
proof -
  obtain x where x: "execute (\<lambda>_. ''h'') pilot_rule_set pilot_input pilot_assessment pilot_policy (Aware pilot_now) = Inr x"
    "candidate x = DuplicateSupported" using pilot_executed by blast
  define r where "r = pilot_rule ''DUP-6'' HRemediation 5 []"
  have r: "r \<in> set (rs_rules pilot_rule_set)" "rd_handler r = HRemediation" "rd_mandatory r" "rule_applies r pilot_input"
    by (simp_all add: r_def pilot_rule_set_def)
  from supported_not_remedied [OF x r] show ?thesis by blast
qed

text \<open>C4: no automatic disposition without the gates: whenever the engine proposes anything other than
  review, the evidence is free of conflicts, every applicable mandatory evidence rule saw complete
  evidence, every applicable mandatory policy rule saw all its policies cited, and no mandatory rule was
  left undecided.\<close>

theorem disposition_gated:
  assumes "execute sha rs facts ev prefs (Aware t) = Inr x" and "candidate x \<noteq> ReviewRequired"
  shows "conflicting ev = [] \<and> \<not> blocked x \<and> (\<forall>rule \<in> set (rs_rules rs). rd_mandatory rule \<longrightarrow>
    fst (rule_outcome_of rule facts ev prefs t) \<in> {Passed, Failed, NotApplicable} \<and>
    (rule_applies rule facts \<longrightarrow> rule_effective rule t \<and>
      (rd_handler rule = HEvidence \<longrightarrow> mandatory_complete ev) \<and>
      (rd_handler rule = HPolicy \<longrightarrow> set (rd_policy_refs rule) \<subseteq> set prefs)))"
proof -
  have nb: "\<not> blocked x" using assms by (elim execute_Inr) (auto simp: candidate_of_def)
  have "fst (rule_outcome_of rule facts ev prefs t) \<in> {Passed, Failed, NotApplicable} \<and>
      (rule_applies rule facts \<longrightarrow> rule_effective rule t \<and> (rd_handler rule = HEvidence \<longrightarrow> mandatory_complete ev) \<and>
        (rd_handler rule = HPolicy \<longrightarrow> set (rd_policy_refs rule) \<subseteq> set prefs))"
    if mem: "rule \<in> set (rs_rules rs)" "rd_mandatory rule" for rule
  proof -
    have d: "fst (rule_outcome_of rule facts ev prefs t) \<in> {Passed, Failed, NotApplicable}"
      by (rule unblocked_decided [OF assms(1) nb mem refl])
    then have "rule_effective rule t" by (auto simp: rule_outcome_of_def split: if_splits)
    moreover have "rd_handler rule = HEvidence \<longrightarrow> mandatory_complete ev" if "rule_applies rule facts"
      using d that by (auto simp: rule_outcome_of_def evaluate_rule_def split: if_splits)
    moreover have "rd_handler rule = HPolicy \<longrightarrow> set (rd_policy_refs rule) \<subseteq> set prefs" if "rule_applies rule facts"
      using d that by (auto simp: rule_outcome_of_def evaluate_rule_def split: if_splits)
    ultimately show ?thesis using d by blast
  qed
  then show ?thesis using nb unblocked_no_conflict [OF assms(1) nb] by blast
qed

theorem disposition_gated_witness: "conflicting pilot_assessment = []"
proof -
  obtain x where x: "execute (\<lambda>_. ''h'') pilot_rule_set pilot_input pilot_assessment pilot_policy (Aware pilot_now) = Inr x"
    "candidate x = DuplicateSupported" using pilot_executed by blast
  from disposition_gated [OF x(1)] x(2) show ?thesis by simp
qed

text \<open>C5: the result does not depend on the order in which the rules are listed, as long as their order
  numbers are distinct (which a valid rule set demands).\<close>

theorem execution_ignores_listing:
  assumes "mset (rs_rules rs) = mset (rs_rules rs')" and "distinct (map rd_order (rs_rules rs))"
    and "rs_version rs = rs_version rs'"
  shows "execute sha rs facts ev prefs as_of = execute sha rs' facts ev prefs as_of"
  using sort_key_distinct_perm [OF assms(1,2)] by (simp add: execute_def assms(3))

theorem execution_ignores_listing_witness:
  "execute (\<lambda>_. ''h'') pilot_rule_set pilot_input pilot_assessment pilot_policy (Aware pilot_now) =
   execute (\<lambda>_. ''h'') (pilot_rule_set\<lparr>rs_rules := rev (rs_rules pilot_rule_set)\<rparr>) pilot_input pilot_assessment pilot_policy (Aware pilot_now)"
  by (rule execution_ignores_listing) (simp_all add: pilot_rule_set_def)

text \<open>C6: containment of failures: on a time the calendar can hold and hashable facts whose references
  are a list, the engine returns one result per rule, whatever the rest of the facts look like.\<close>

theorem execution_total:
  assumes "0 \<le> t" and "t \<le> max_instant" and "hashable (execution_input facts ev prefs t)"
    and "dict_get facts ''references'' (VList []) = VList refs"
  shows "\<exists>x. execute sha rs facts ev prefs (Aware t) = Inr x \<and>
    map rr_rule_id (results x) = map rd_rule_id (sort_key rd_order (rs_rules rs))"
proof -
  obtain h where h: "digest sha (execution_input facts ev prefs t) = Inr h" using digest_total [OF assms(3)] by blast
  define ids where "ids = sort_key rd_order (rs_rules rs)"
  have each: "\<exists>r. run_rule v facts ev prefs t rule = Inr r \<and> rr_rule_id r = rd_rule_id rule" for v rule
    by (simp add: run_rule_def sorted_refs_def assms(4) iterate_def split: prod.split)
  have "\<exists>res. rtraverse (run_rule v facts ev prefs t) rules = Inr res \<and> map rr_rule_id res = map rd_rule_id rules" for v rules
  proof (induction rules)
    case Nil
    then show ?case by simp
  next
    case (Cons rule rules)
    then show ?case using each [of v rule] by auto
  qed
  then obtain res where "rtraverse (run_rule (rs_version rs) facts ev prefs t) ids = Inr res"
    "map rr_rule_id res = map rd_rule_id ids" by blast
  then show ?thesis using h assms(1,2) by (simp add: execute_def ids_def Let_def)
qed

theorem execution_total_witness:
  "\<exists>x. execute (\<lambda>_. ''h'') pilot_rule_set pilot_input pilot_assessment pilot_policy (Aware pilot_now) = Inr x \<and>
    length (results x) = 6"
proof -
  have "0 \<le> pilot_now" "pilot_now \<le> max_instant" "dict_get pilot_input ''references'' (VList []) = VList []"
    by (simp_all add: pilot_now_def max_instant_value pilot_facts_def dict_get_def)
  from execution_total [OF this(1,2) pilot_hashable this(3), of "\<lambda>_. ''h''" pilot_rule_set]
  show ?thesis by (metis length_map length_sort pilot_rule_count)
qed

end
