(* ===== verification/Confidence.thy ===== *)
theory Confidence
  imports Rules
begin

text \<open>
  \<open>app/services/case_confidence.py\<close>: the certainty of a rule execution and the case confidence score
  with its hard gates, in the decimal arithmetic of the source.
\<close>

section \<open>Rule certainty\<close>

definition applicable_results :: "rule_execution \<Rightarrow> rule_result list" where
  "applicable_results x = filter (\<lambda>r. outcome r \<noteq> NotApplicable) (results x)"

definition decided :: "rule_result \<Rightarrow> bool" where
  "decided r \<longleftrightarrow> outcome r \<in> {Passed, Failed}"

definition rule_certainty :: "rule_execution \<Rightarrow> pyval py" where
  "rule_certainty x = (let rs = applicable_results x in
     if rs = [] then Inr VNone
     else rmap (\<lambda>d. VDec (Finite d))
       (dec_div (dec_of_int (int (length (filter decided rs)))) (dec_of_int (int (length rs)))))"

section \<open>Case confidence\<close>

definition signed_weights :: "confidence_config \<Rightarrow> (string, dec) dict" where
  "signed_weights c = foldl (\<lambda>d (k, v). dict_set d k (dec_neg v)) (weights c) (penalties c)"

text \<open>\<open>Decimal(str(raw))\<close> with its range and provenance checks: the normalized value and its validity.\<close>

definition read_signal :: "pyval \<Rightarrow> string \<Rightarrow> (dec \<times> bool) py" where
  "read_signal raw_value ref = (case dec_of_string (py_str raw_value) of
     Inl e \<Rightarrow> if e \<in> {ArithErr, ValueErr, TypeErr} then Inr (Dec False 0 0, False) else Inl e
   | Inr d \<Rightarrow> Inr (case d of
       Finite x \<Rightarrow> if dec_le (Dec False 0 0) x \<and> dec_le x (Dec False 1 0) \<and> ref \<noteq> [] then (x, True)
                    else (Dec False 0 0, False)
     | _ \<Rightarrow> (Dec False 0 0, False)))"

record conf_acc =
  cf_factors :: "(string, confidence_factor) dict"
  cf_reasons :: "string list"
  cf_score :: dec

definition weigh ::
  "(string, pyval) dict \<Rightarrow> (string, string) dict \<Rightarrow> string \<times> dec \<Rightarrow> conf_acc \<Rightarrow> conf_acc py" where
  "weigh signals refs nw a = (let (name, w) = nw; raw_value = dict_get signals name VNone; ref = dict_get refs name [] in
     rmap (\<lambda>(x, ok). a\<lparr>
         cf_reasons := cf_reasons a @ (if ok then [] else [''UNKNOWN_SIGNAL:'' @ name]),
         cf_score := dec_add (cf_score a) (dec_mul x w),
         cf_factors := dict_set (cf_factors a) name
           \<lparr>raw = (case raw_value of VNone \<Rightarrow> None | v \<Rightarrow> Some (py_str v)), normalized = x, cf_weight = w,
            contribution = dec_mul x w, source_ref = ref, valid_signal = ok\<rparr>\<rparr>)
       (read_signal raw_value ref))"

definition clamp :: "dec \<Rightarrow> dec" where
  "clamp x = dec_min (Dec False 1 0) (dec_max (Dec False 0 0) x)"

definition evaluate_confidence ::
  "confidence_config \<Rightarrow> (string, pyval) dict \<Rightarrow> (string, string) dict \<Rightarrow> string list \<Rightarrow> confidence_evaluation py" where
  "evaluate_confidence config signals refs gates =
     rbind (rfold (weigh signals refs) (signed_weights config)
              \<lparr>cf_factors = [], cf_reasons = gates, cf_score = Dec False 0 0\<rparr>) (\<lambda>a.
     rbind (quantize6 (clamp (cf_score a))) (\<lambda>score.
       let reasons = cf_reasons a @ (if dec_lt score (cc_threshold config) then [''LOW_CASE_CONFIDENCE''] else []) in
       Inr \<lparr>ce_config_version = cc_version config, factors = cf_factors a, ce_score = score,
            ce_threshold = cc_threshold config, ce_reasons = sorted_set reasons, ready = (reasons = []),
            pins = VDict []\<rparr>))"

section \<open>Lemmas\<close>

text \<open>A usable signal: it reads as a decimal between 0 and 1 and says where it comes from.\<close>

definition signal_value :: "(string, pyval) dict \<Rightarrow> (string, string) dict \<Rightarrow> string \<Rightarrow> dec \<Rightarrow> bool" where
  "signal_value signals refs name x \<longleftrightarrow> dec_of_string (py_str (dict_get signals name VNone)) = Inr (Finite x) \<and>
     0 \<le> dval x \<and> dval x \<le> 1 \<and> dict_get refs name [] \<noteq> []"

lemma read_exponent_exc: "read_exponent s = Inl e \<Longrightarrow> e = ArithErr"
  by (auto simp: read_exponent_def Let_def split: if_splits)

lemma read_unsigned_exc: "read_unsigned neg u = Inl e \<Longrightarrow> e = ArithErr"
  by (auto simp: read_unsigned_def Let_def rbind_eq_Inl read_exponent_exc split: if_splits)

lemma dec_of_string_exc: "dec_of_string s = Inl e \<Longrightarrow> e = ArithErr"
  by (auto simp: dec_of_string_def Let_def read_unsigned_exc split: if_splits)

lemma read_signal_total: "\<exists>x ok. read_signal raw_value ref = Inr (x, ok)"
proof (cases "dec_of_string (py_str raw_value)")
  case (Inl e)
  then show ?thesis using dec_of_string_exc by (auto simp: read_signal_def)
next
  case (Inr d)
  then show ?thesis by (auto simp: read_signal_def split: pydec.splits)
qed

lemma read_signal_ok: "read_signal (dict_get signals name VNone) (dict_get refs name []) = Inr (x, True) \<longleftrightarrow>
    signal_value signals refs name x"
  by (auto simp: read_signal_def signal_value_def dec_le_iff signed_def split: sum.splits pydec.splits if_splits)

lemma weigh_total: "\<exists>b. weigh signals refs nw a = Inr b"
  using read_signal_total [of "dict_get signals (fst nw) VNone" "dict_get refs (fst nw) []"]
  by (auto simp: weigh_def Let_def split: prod.split)

lemma weigh_Inr:
  assumes "weigh signals refs (k, w) a = Inr b"
  obtains x ok where "read_signal (dict_get signals k VNone) (dict_get refs k []) = Inr (x, ok)"
    and "cf_reasons b = cf_reasons a @ (if ok then [] else [''UNKNOWN_SIGNAL:'' @ k])"
    and "cf_score b = dec_add (cf_score a) (dec_mul x w)"
  using assms by (auto simp: weigh_def Let_def rmap_eq_Inr)

lemma read_signal_iff: "read_signal (dict_get signals k VNone) (dict_get refs k []) = Inr (x, ok) \<Longrightarrow>
    ok \<longleftrightarrow> (\<exists>y. signal_value signals refs k y)"
  using read_signal_ok [of signals k refs] by (cases ok) auto

lemma weigh_reasons: "weigh signals refs (k, w) a = Inr b \<Longrightarrow>
    cf_reasons b = cf_reasons a @ (if \<exists>x. signal_value signals refs k x then [] else [''UNKNOWN_SIGNAL:'' @ k])"
  by (elim weigh_Inr) (drule read_signal_iff, simp)

lemma rfold_weigh: "\<exists>b. rfold (weigh signals refs) ws a = Inr b \<and>
    cf_reasons b = cf_reasons a @ concat (map (\<lambda>(k, w). if \<exists>x. signal_value signals refs k x then []
      else [''UNKNOWN_SIGNAL:'' @ k]) ws)"
proof (induction ws arbitrary: a)
  case Nil
  then show ?case by simp
next
  case (Cons nw ws)
  obtain k w where nw: "nw = (k, w)" by fastforce
  obtain b where b: "weigh signals refs (k, w) a = Inr b" using weigh_total by blast
  from Cons.IH [of b] weigh_reasons [OF b] show ?case by (elim exE conjE) (simp add: nw b)
qed

lemma dval_pos_unsigned: "0 < dval x \<Longrightarrow> \<not> dsign x"
proof (cases x)
  case (Dec s c e)
  have "(0 :: rat) \<le> of_nat c * 10 powi e" by (intro mult_nonneg_nonneg) simp_all
  then show "0 < dval x \<Longrightarrow> \<not> dsign x"
    by (cases s) (auto simp: Dec signed_def simp del: of_nat_0_less_iff)
qed

lemma clamp_unit: "\<not> dsign (clamp x)" "0 \<le> dval (clamp x)" "dval (clamp x) \<le> 1"
  "dval (clamp x) = min 1 (max 0 (dval x))"
proof -
  show v: "dval (clamp x) = min 1 (max 0 (dval x))" by (simp add: clamp_def dval_min dval_max signed_def)
  then show "0 \<le> dval (clamp x)" "dval (clamp x) \<le> 1" by simp_all
  show "\<not> dsign (clamp x)"
    using dval_pos_unsigned [of x] by (auto simp: clamp_def dec_min_def dec_max_def dec_lt_iff signed_def)
qed

lemma evaluate_confidence_Inr:
  obtains e a where "evaluate_confidence config signals refs gates = Inr e"
    and "rfold (weigh signals refs) (signed_weights config) \<lparr>cf_factors = [], cf_reasons = gates, cf_score = Dec False 0 0\<rparr> = Inr a"
    and "dval (ce_score e) = round6 (min 1 (max 0 (dval (cf_score a))))" and "dexp (ce_score e) = - 6"
    and "ready e \<longleftrightarrow> gates = [] \<and> (\<forall>k \<in> fst ` set (signed_weights config). \<exists>x. signal_value signals refs k x) \<and>
      dval (cc_threshold config) \<le> dval (ce_score e)"
    and "set gates \<subseteq> set (ce_reasons e)" and "ready e \<longleftrightarrow> ce_reasons e = []"
proof -
  obtain a where a: "rfold (weigh signals refs) (signed_weights config)
      \<lparr>cf_factors = [], cf_reasons = gates, cf_score = Dec False 0 0\<rparr> = Inr a"
    "cf_reasons a = gates @ concat (map (\<lambda>(k, w). if \<exists>x. signal_value signals refs k x then []
      else [''UNKNOWN_SIGNAL:'' @ k]) (signed_weights config))"
    using rfold_weigh [of signals refs "signed_weights config"
        "\<lparr>cf_factors = [], cf_reasons = gates, cf_score = Dec False 0 0\<rparr>"] by auto
  obtain s where s: "quantize6 (clamp (cf_score a)) = Inr s" "dval s = round6 (dval (clamp (cf_score a)))" "dexp s = - 6"
    using quantize6_unit [OF clamp_unit(3,1)] by blast
  have none: "cf_reasons a = [] \<longleftrightarrow> gates = [] \<and> (\<forall>k \<in> fst ` set (signed_weights config). \<exists>x. signal_value signals refs k x)"
    unfolding a(2) by (fastforce split: if_splits)
  define e where "e = \<lparr>ce_config_version = cc_version config, factors = cf_factors a, ce_score = s,
    ce_threshold = cc_threshold config,
    ce_reasons = sorted_set (cf_reasons a @ (if dec_lt s (cc_threshold config) then [''LOW_CASE_CONFIDENCE''] else [])),
    ready = (cf_reasons a @ (if dec_lt s (cc_threshold config) then [''LOW_CASE_CONFIDENCE''] else []) = []),
    pins = VDict []\<rparr>"
  have run: "evaluate_confidence config signals refs gates = Inr e"
    by (simp add: evaluate_confidence_def a(1) s(1) Let_def e_def)
  have "ready e \<longleftrightarrow> cf_reasons a = [] \<and> dval (cc_threshold config) \<le> dval (ce_score e)"
    by (simp add: e_def dec_lt_iff not_less)
  moreover have "set gates \<subseteq> set (ce_reasons e)" by (auto simp: e_def a(2))
  moreover have "ready e \<longleftrightarrow> ce_reasons e = []" by (simp add: e_def)
  ultimately show thesis
    using s(2,3) by (intro that [OF run a(1)]) (simp_all add: none clamp_unit(4), simp_all add: e_def)
qed

section \<open>Exact arithmetic on short decimals\<close>

text \<open>A decimal with at most twelve places and magnitude at most one; products and sums of a few of them
  stay inside the 28 digits of the context, so the decimal operations are exact on them.\<close>

definition short_unit :: "dec \<Rightarrow> bool" where
  "short_unit x \<longleftrightarrow> - 12 \<le> dexp x \<and> dexp x \<le> 0 \<and> \<bar>dval x\<bar> \<le> 1"

lemma coef_bound:
  assumes "\<bar>dval x\<bar> \<le> of_nat b" and "- int m \<le> dexp x" and "dexp x \<le> 0"
  shows "dcoef x \<le> b * 10 ^ m"
proof (cases x)
  case (Dec s c e)
  define k where "k = nat (- e)"
  have e: "e = - int k" and k: "k \<le> m" using assms(2,3) Dec by (auto simp: k_def)
  have "\<bar>dval x\<bar> = of_nat c / 10 ^ k"
    by (simp add: Dec e signed_def abs_mult power_int_minus divide_inverse)
  with assms(1) have "(of_nat c :: rat) \<le> of_nat (b * 10 ^ k)" by (simp add: field_simps)
  then have "c \<le> b * 10 ^ k" by (simp only: of_nat_le_iff)
  also have "\<dots> \<le> b * 10 ^ m" using k by (intro mult_le_mono power_increasing) simp_all
  finally show ?thesis using Dec by simp
qed

lemma dec_mul_exact:
  assumes "short_unit x" and "short_unit y"
  shows "dval (dec_mul x y) = dval x * dval y \<and> - 24 \<le> dexp (dec_mul x y) \<and> dexp (dec_mul x y) \<le> 0"
proof -
  obtain s1 c1 e1 s2 c2 e2 where xy: "x = Dec s1 c1 e1" "y = Dec s2 c2 e2" by (cases x, cases y)
  have "c1 \<le> 10 ^ 12" "c2 \<le> 10 ^ 12"
    using coef_bound [of x 1 12] coef_bound [of y 1 12] assms by (simp_all add: short_unit_def xy)
  then have "c1 * c2 \<le> 10 ^ 12 * 10 ^ 12" by (rule mult_le_mono)
  then have m: "dec_mul x y = Dec (s1 \<noteq> s2) (c1 * c2) (e1 + e2)" by (simp add: xy fix_prec_id prec_def del: fix_prec.simps)
  have "(10 :: rat) powi (e1 + e2) = 10 powi e1 * 10 powi e2" by (simp add: power_int_add)
  then show ?thesis using assms unfolding m by (simp add: xy signed_def short_unit_def)
qed

lemma dec_add_exact:
  assumes "\<bar>dval x\<bar> \<le> of_nat a" and "\<bar>dval y\<bar> \<le> of_nat b" and "a + b \<le> 1000"
    and "- 24 \<le> dexp x" "dexp x \<le> 0" "- 24 \<le> dexp y" "dexp y \<le> 0"
  shows "dval (dec_add x y) = dval x + dval y \<and> - 24 \<le> dexp (dec_add x y) \<and> dexp (dec_add x y) \<le> 0"
proof -
  define e where "e = min (dexp x) (dexp y)"
  define n where "n = shifted e x + shifted e y"
  define r where "r = Dec (if n = 0 then dsign x \<and> dsign y else n < 0) (nat \<bar>n\<bar>) e"
  have sg: "signed (if n = 0 then dsign x \<and> dsign y else n < 0) (nat \<bar>n\<bar>) = n" by (simp add: signed_def)
  have sum: "dval r = dval x + dval y"
  proof -
    have "dval r = of_int n * 10 powi e" unfolding r_def dval.simps sg ..
    moreover have "dval x = of_int (shifted e x) * 10 powi e" "dval y = of_int (shifted e y) * 10 powi e"
      by (rule dval_shifted, simp add: e_def)+
    ultimately show ?thesis by (simp add: n_def distrib_right)
  qed
  have "\<bar>dval r\<bar> \<le> of_nat (a + b)" using assms(1,2) by (simp add: sum)
  then have "dcoef r \<le> (a + b) * 10 ^ 24"
    by (rule coef_bound) (use assms(4-7) in \<open>auto simp: r_def e_def\<close>)
  also have "\<dots> \<le> 1000 * 10 ^ 24" using assms(3) by simp
  finally have "fix_prec r = r" by (intro fix_prec_id) (simp add: prec_def)
  moreover have "dec_add x y = fix_prec r" by (simp add: r_def n_def e_def Let_def del: fix_prec.simps)
  ultimately show ?thesis using sum assms(4-7) by (auto simp: r_def e_def)
qed

lemma weigh_exact:
  assumes "\<forall>(k, w) \<in> set ws. short_unit w \<and> signal_value signals refs k (f k) \<and> short_unit (f k)"
    and "\<bar>dval (cf_score a)\<bar> \<le> of_nat n" and "n + length ws \<le> 1000"
    and "- 24 \<le> dexp (cf_score a)" and "dexp (cf_score a) \<le> 0"
    and "rfold (weigh signals refs) ws a = Inr b"
  shows "dval (cf_score b) = dval (cf_score a) + sum_list (map (\<lambda>(k, w). dval (f k) * dval w) ws)"
  using assms
proof (induction ws arbitrary: a n)
  case Nil
  then show ?case by simp
next
  case (Cons kw ws)
  obtain k w where kw: "kw = (k, w)" by fastforce
  from Cons.prems(6) obtain c where c: "weigh signals refs (k, w) a = Inr c" "rfold (weigh signals refs) ws c = Inr b"
    by (auto simp: kw rbind_eq_Inr)
  from Cons.prems(1) have one: "short_unit w" "signal_value signals refs k (f k)" "short_unit (f k)" by (auto simp: kw)
  from c(1) have cs: "cf_score c = dec_add (cf_score a) (dec_mul (f k) w)"
    by (elim weigh_Inr) (use one(2) read_signal_ok [of signals k refs "f k"] in simp)
  note m = dec_mul_exact [OF one(3,1)]
  have "\<bar>dval (dec_mul (f k) w)\<bar> \<le> of_nat 1"
    using one(1,3) m mult_mono [of "\<bar>dval (f k)\<bar>" 1 "\<bar>dval w\<bar>" 1] by (simp add: short_unit_def abs_mult)
  from dec_add_exact [OF Cons.prems(2) this _ Cons.prems(4,5)] m Cons.prems(3)
  have s: "dval (cf_score c) = dval (cf_score a) + dval (f k) * dval w"
    "- 24 \<le> dexp (cf_score c)" "dexp (cf_score c) \<le> 0"
    by (simp_all add: cs del: dec_add.simps)
  have "\<bar>dval (cf_score c)\<bar> \<le> of_nat (Suc n)"
    using Cons.prems(2) \<open>\<bar>dval (dec_mul (f k) w)\<bar> \<le> of_nat 1\<close> m by (simp add: s(1))
  from Cons.IH [OF _ this _ s(2,3) c(2)] Cons.prems(1,3) show ?case by (simp add: s(1) kw)
qed

section \<open>Properties\<close>

definition pilot_confidence :: confidence_config where
  "pilot_confidence = \<lparr>cc_version = ''case-confidence-v1'', formula = ''weighted-penalties-v1'',
     weights = [(''classification'', Dec False 15 (- 2)), (''evidence'', Dec False 30 (- 2)),
       (''policy'', Dec False 25 (- 2)), (''rules'', Dec False 30 (- 2))],
     penalties = [(''conflicts'', Dec False 20 (- 2)), (''tools'', Dec False 20 (- 2))],
     cc_threshold = Dec False 70 (- 2), decimal_places = 6, rounding = ''ROUND_HALF_UP''\<rparr>"

text \<open>C11: the case confidence always exists, is a six-place decimal between 0 and 1, and a case is ready
  exactly when no hard gate was raised, every configured signal is a number between 0 and 1 with a source,
  and the score reaches the threshold; a raised gate is always among the reasons.\<close>

theorem confidence_gated:
  "\<exists>e. evaluate_confidence config signals refs gates = Inr e \<and> 0 \<le> dval (ce_score e) \<and> dval (ce_score e) \<le> 1 \<and>
    dexp (ce_score e) = - 6 \<and> set gates \<subseteq> set (ce_reasons e) \<and>
    (ready e = (gates = [] \<and> (\<forall>k \<in> fst ` set (signed_weights config). \<exists>x. signal_value signals refs k x) \<and>
      dval (cc_threshold config) \<le> dval (ce_score e)))"
proof -
  obtain e and a :: conf_acc where e: "evaluate_confidence config signals refs gates = Inr e"
    "dval (ce_score e) = round6 (min 1 (max 0 (dval (cf_score a))))" "dexp (ce_score e) = - 6"
    "ready e \<longleftrightarrow> gates = [] \<and> (\<forall>k \<in> fst ` set (signed_weights config). \<exists>x. signal_value signals refs k x) \<and>
      dval (cc_threshold config) \<le> dval (ce_score e)" "set gates \<subseteq> set (ce_reasons e)"
    by (rule evaluate_confidence_Inr [of config signals refs gates]) (rule that)
  have "round6 0 \<le> dval (ce_score e)" "dval (ce_score e) \<le> round6 1"
    unfolding e(2) by (intro round6_mono; simp)+
  with e show ?thesis by auto
qed

theorem confidence_gated_witness:
  "\<exists>e. evaluate_confidence pilot_confidence [] [] [''CONTEXT_CONFLICT''] = Inr e \<and> \<not> ready e"
  using confidence_gated [of pilot_confidence "[]" "[]" "[''CONTEXT_CONFLICT'']"] by blast

text \<open>C12: the decimal computation refines rational arithmetic: with valid signals and weights of at most
  twelve places, the score is the weighted sum minus the penalties, clamped to the unit interval and rounded
  half up to six places, with no intermediate rounding.\<close>

theorem confidence_exact:
  assumes "\<forall>(k, w) \<in> set (signed_weights config). short_unit w \<and> signal_value signals refs k (f k) \<and> short_unit (f k)"
    and "length (signed_weights config) \<le> 1000"
    and "evaluate_confidence config signals refs gates = Inr e"
  shows "dval (ce_score e) = round6 (min 1 (max 0
    (sum_list (map (\<lambda>(k, w). dval (f k) * dval w) (signed_weights config)))))"
proof -
  obtain a where a: "rfold (weigh signals refs) (signed_weights config)
      \<lparr>cf_factors = [], cf_reasons = gates, cf_score = Dec False 0 0\<rparr> = Inr a"
    "dval (ce_score e) = round6 (min 1 (max 0 (dval (cf_score a))))"
  proof (rule evaluate_confidence_Inr [of config signals refs gates])
    fix e' a
    assume "evaluate_confidence config signals refs gates = Inr e'"
      and "rfold (weigh signals refs) (signed_weights config) \<lparr>cf_factors = [], cf_reasons = gates, cf_score = Dec False 0 0\<rparr> = Inr a"
      and "dval (ce_score e') = round6 (min 1 (max 0 (dval (cf_score a))))"
    with assms(3) show thesis by (intro that [of a]) simp_all
  qed
  have "dval (cf_score a) = dval (cf_score \<lparr>cf_factors = [], cf_reasons = gates, cf_score = Dec False 0 0\<rparr>) +
      sum_list (map (\<lambda>(k, w). dval (f k) * dval w) (signed_weights config))"
    by (rule weigh_exact [OF assms(1) _ _ _ _ a(1), of 0]) (use assms(2) in \<open>simp_all add: signed_def\<close>)
  then show ?thesis by (simp add: a(2) signed_def)
qed

lemma pilot_signed_weights: "signed_weights pilot_confidence =
    [(''classification'', Dec False 15 (- 2)), (''evidence'', Dec False 30 (- 2)), (''policy'', Dec False 25 (- 2)),
     (''rules'', Dec False 30 (- 2)), (''conflicts'', Dec True 20 (- 2)), (''tools'', Dec True 20 (- 2))]"
  by (simp add: signed_weights_def pilot_confidence_def ndigits_le_iff prec_def)

definition unit_signals :: "(string, pyval) dict" where
  "unit_signals = map (\<lambda>k. (k, VStr ''1'')) [''classification'', ''evidence'', ''policy'', ''rules'', ''conflicts'', ''tools'']"

definition unit_refs :: "(string, string) dict" where
  "unit_refs = map (\<lambda>k. (k, ''r'')) [''classification'', ''evidence'', ''policy'', ''rules'', ''conflicts'', ''tools'']"

lemma read_one: "dec_of_string ''1'' = Inr (Finite (Dec False 1 0))"
  by (simp add: dec_of_string_def strip_def is_space_def lower_def lower_char_def is_nan_text_def
      read_unsigned_def is_digit_def Let_def of_char_def read_nat_def digit_val_def)

theorem confidence_exact_witness:
  "\<exists>e. evaluate_confidence pilot_confidence unit_signals unit_refs [] = Inr e \<and> dval (ce_score e) = round6 (3 / 5)"
proof -
  have "\<forall>(k, w) \<in> set (signed_weights pilot_confidence). short_unit w \<and>
      signal_value unit_signals unit_refs k (Dec False 1 0) \<and> short_unit (Dec False 1 0)"
    by (simp add: pilot_signed_weights short_unit_def signal_value_def unit_signals_def unit_refs_def dict_get_def
        py_str_def read_one signed_def power_int_minus)
  moreover have "length (signed_weights pilot_confidence) \<le> 1000" by (simp add: pilot_signed_weights)
  moreover obtain e where e: "evaluate_confidence pilot_confidence unit_signals unit_refs [] = Inr e"
    by (rule evaluate_confidence_Inr [of pilot_confidence unit_signals unit_refs "[]"])
  ultimately have "dval (ce_score e) = round6 (min 1 (max 0
      (sum_list (map (\<lambda>(k, w). dval (Dec False 1 0) * dval w) (signed_weights pilot_confidence)))))"
    by (rule confidence_exact)
  with e show ?thesis by (simp add: pilot_signed_weights signed_def power_int_minus)
qed

text \<open>C13: the certainty of a rule execution is undefined when no rule applied and otherwise a number between
  0 and 1, which is 1 when every applicable rule passed or failed and 0 when none did.\<close>

theorem rule_certainty_unit:
  "(applicable_results x = [] \<and> rule_certainty x = Inr VNone) \<or>
   (\<exists>d. rule_certainty x = Inr (VDec (Finite d)) \<and> 0 \<le> dval d \<and> dval d \<le> 1 \<and>
     (filter decided (applicable_results x) = applicable_results x \<longrightarrow> dval d = 1) \<and>
     (filter decided (applicable_results x) = [] \<longrightarrow> dval d = 0))"
proof (cases "applicable_results x = []")
  case True
  then show ?thesis by (simp add: rule_certainty_def)
next
  case False
  define rs where "rs = applicable_results x"
  have "0 < int (length rs)" using False by (simp add: rs_def)
  moreover have "int (length (filter decided rs)) \<le> int (length rs)" by simp
  ultimately obtain d where "dec_div (dec_of_int (int (length (filter decided rs)))) (dec_of_int (int (length rs))) = Inr d"
    "0 \<le> dval d" "dval d \<le> 1" "length (filter decided rs) = 0 \<longrightarrow> dval d = 0"
    "length (filter decided rs) = length rs \<longrightarrow> dval d = 1"
    using dec_div_unit [of "int (length (filter decided rs))" "int (length rs)"] by auto
  then show ?thesis using False by (auto simp: rule_certainty_def Let_def list_all_iff filter_id_conv simp flip: rs_def)
qed

theorem rule_certainty_unit_witness: "\<exists>x. rule_certainty x = Inr VNone"
proof -
  define x where "x = \<lparr>ruleset_version = [], facts_hash = [], results = [], candidate = ReviewRequired, blocked = True\<rparr>"
  have "applicable_results x = []" by (simp add: x_def applicable_results_def)
  then have "rule_certainty x \<noteq> Inr (VDec (Finite d))" for d by (simp add: rule_certainty_def)
  with rule_certainty_unit [of x] show ?thesis by blast
qed

end
