(* ===== verification/ControlFlow.thy ===== *)
theory ControlFlow
  imports Graph ControlRepo Eligibility RuleSafety Confidence
begin

text \<open>
  \<open>app/services/control_workflow.py\<close>: the control nodes.  \<open>prepare\<close> freezes the inputs of an evaluation,
  \<open>evidence\<close>, \<open>resolve_policy\<close>, \<open>rules\<close> and \<open>confidence\<close> run their service and store its result, \<open>finish\<close>
  stops for the human decision; each may open a review request and wait.  The attributes of the
  \<open>ControlWorkflow\<close> object are the memory of the session; the bank and the retrieval service are arguments.
\<close>

section \<open>The object in use\<close>

definition current_row :: "evaluation_row app" where
  "current_row = bnd (recall cm_evaluation) (\<lambda>e. case e of None \<Rightarrow> raise (Py RuntimeErr) | Some r \<Rightarrow> ret r)"

definition current_profile :: "control_profile app" where
  "current_profile = bnd (recall cm_profile) (\<lambda>p. case p of
     None \<Rightarrow> raise (ControlConfiguration ''CONTROL_PROFILE_UNAVAILABLE'') | Some x \<Rightarrow> ret x)"

definition new_control :: "unit app" where
  "new_control = bnd utc_now (\<lambda>t. memorize (\<lambda>_. \<lparr>cm_evaluation = None, cm_profile = None, cm_at = t\<rparr>))"

definition control_audit :: "string \<Rightarrow> (string, pyval) dict \<Rightarrow> unit app" where
  "control_audit event metadata = bnd current_row (\<lambda>row. bnd (case_get (el_case_id row)) (\<lambda>c. case c of
     None \<Rightarrow> raise (Py LookupErr)
   | Some _ \<Rightarrow> bnd (recall cm_at) (\<lambda>now. bnd (audit_append (el_case_id row) event (el_evaluation_id row) (el_state_version row)
       (VDict ([(''evaluation_id'', VStr (el_evaluation_id row)), (''workflow_id'', VStr (el_workflow_id row)),
          (''actor_ref'', VStr (el_actor_ref row)), (''bundle_hash'', VStr (el_bundle_hash row))] @ metadata))
       (el_correlation_id row) now) (\<lambda>_. ret ()))))"

section \<open>Recording a stage\<close>

definition stage_entries :: "stage_value \<Rightarrow> (string, pyval) dict" where
  "stage_entries v = (case dump_stage v of VDict d \<Rightarrow> d | _ \<Rightarrow> [])"

fun stage_event :: "stage \<Rightarrow> string" where
  "stage_event StEvidence = ''EVIDENCE_ASSESSED''"
| "stage_event StPolicy = ''POLICY_ELIGIBILITY_EVALUATED''"
| "stage_event StRules = ''RULES_EXECUTED''"
| "stage_event StConfidence = ''CASE_CONFIDENCE_EVALUATED''"

definition stage_summary :: "string \<Rightarrow> string \<Rightarrow> string \<Rightarrow> stage_value \<Rightarrow> (string, pyval) dict" where
  "stage_summary eid rid h v = [(''evaluation_id'', VStr eid), (''result_id'', VStr rid), (''result_hash'', VStr h)] @
     concat (map (\<lambda>k. case map_of (stage_entries v) k of None \<Rightarrow> [] | Some x \<Rightarrow> [(k, x)])
       [''score'', ''ready'', ''candidate'', ''mandatory_complete''])"

definition record_stage :: "stage \<Rightarrow> stage_value \<Rightarrow> wf_state \<Rightarrow> wf_state app" where
  "record_stage sg v st = bnd current_row (\<lambda>row. bnd (recall cm_at) (\<lambda>now. bnd (add_stage row sg v now) (\<lambda>rid.
     bnd (digest_app (dump_stage v)) (\<lambda>h.
     andthen (control_audit (stage_event sg) [(''stage'', VStr (stage_text sg)), (''result_id'', VStr rid),
       (''result_hash'', VStr h), (''reasons'', dict_get (stage_entries v) ''reasons'' (VList []))])
     (ret (summarize (stage_text sg) (stage_summary (el_evaluation_id row) rid h v) st))))))"

section \<open>Waiting for a review\<close>

datatype review_kind = RequestEvidence | PolicyReview | ManualReview | SupervisorReview

fun kind_text :: "review_kind \<Rightarrow> string" where
  "kind_text RequestEvidence = ''REQUEST_ADDITIONAL_EVIDENCE''"
| "kind_text PolicyReview = ''POLICY_REVIEW''"
| "kind_text ManualReview = ''MANUAL_REVIEW''"
| "kind_text SupervisorReview = ''SUPERVISOR_REVIEW''"

fun kind_status :: "review_kind \<Rightarrow> string" where
  "kind_status RequestEvidence = ''WAITING_EVIDENCE''"
| "kind_status PolicyReview = ''WAITING_POLICY_REVIEW''"
| "kind_status ManualReview = ''WAITING_RULE_REVIEW''"
| "kind_status SupervisorReview = ''WAITING_SUPERVISOR_REVIEW''"

fun kind_role :: "review_kind \<Rightarrow> string" where
  "kind_role PolicyReview = ''policy-reviewer''"
| "kind_role SupervisorReview = ''supervisor''"
| "kind_role _ = ''analyst''"

definition waiting_state :: "review_kind \<Rightarrow> string list \<Rightarrow> wf_state \<Rightarrow> wf_state" where
  "waiting_state kind reasons = pause (kind_status kind) (interrupt_with
     (case reasons of [] \<Rightarrow> kind_text kind | r # _ \<Rightarrow> r) (kind_text kind @ '' required; no automatic approval is available.'')
     [''changed_validated_inputs'', ''authorized_reevaluation''])"

definition open_review :: "review_kind \<Rightarrow> string list \<Rightarrow> string list \<Rightarrow> unit app" where
  "open_review kind reasons items = bnd current_row (\<lambda>row.
     bnd (look (\<lambda>s. row_by review_key (el_evaluation_id row, kind_text kind) (reviews s))) (\<lambda>found. case found of
       Some _ \<Rightarrow> ret ()
     | None \<Rightarrow> bnd uuid4 (\<lambda>rid. bnd (recall cm_at) (\<lambda>now.
         andthen (insert_row reviews reviews_update review_key
           \<lparr>rv_request_id = rid, rv_evaluation_id = el_evaluation_id row, rv_kind = kind_text kind,
            rv_required_role = kind_role kind, rv_reasons = sorted_set reasons, rv_required_items = items,
            rv_correlation_id = el_correlation_id row, rv_created_at = now\<rparr>)
         (control_audit ''CONTROL_REVIEW_REQUESTED'' [(''request_id'', VStr rid), (''kind'', VStr (kind_text kind)),
            (''reasons'', VStrs reasons)])))))"

definition wait_for :: "review_kind \<Rightarrow> string list \<Rightarrow> string list \<Rightarrow> wf_state \<Rightarrow> wf_state app" where
  "wait_for kind reasons items st = andthen (open_review kind reasons items) (ret (waiting_state kind reasons st))"

section \<open>Freezing the inputs\<close>

text \<open>SQLite drops the zone of \<open>submitted_at\<close>.\<close>

definition localized_case :: "bool \<Rightarrow> (string, pyval) dict \<Rightarrow> (string, pyval) dict py" where
  "localized_case sqlite c = (if \<not> sqlite then Inr c else
     rbind (getitem (VDict c) ''submitted_at'') (\<lambda>v.
     rbind (fromisoformat (replace_char CHR ''Z'' ''+00:00'' (py_str v))) (\<lambda>t. case t of
       Naive u \<Rightarrow> Inr (dict_set c ''submitted_at'' (VStr (isoformat (Aware u)))) | Aware _ \<Rightarrow> Inr c)))"

fun text_of :: "pyval \<Rightarrow> string py" where
  "text_of (VStr s) = Inr s"
| "text_of _ = Inl ValueErr"

definition submitted_item :: "store \<Rightarrow> pyval \<Rightarrow> evidence_item py" where
  "submitted_item s ev = rbind (rbind (getitem ev ''evidence_id'') text_of) (\<lambda>eid.
     rbind (rbind (getitem ev ''checksum_sha256'') text_of) (\<lambda>sum_text.
     rbind (rbind (getitem ev ''evidence_type'') text_of) (\<lambda>kind.
     let v = row_by va_evidence_id eid (validations s);
         valid = (case v of None \<Rightarrow> False | Some r \<Rightarrow> va_status r = ''validated'' \<and> va_checksum r = sum_text)
     in Inr \<lparr>reference = eid, ev_kind = kind, checksum = sum_text, ev_state = (if valid then Validated else Unknown),
       source_as_of = None, subject = None,
       attributes = [(''validation_ref'', case v of None \<Rightarrow> ''unknown'' | Some r \<Rightarrow> va_provenance r)]\<rparr>)))"

definition submitted_items :: "(string, pyval) dict \<Rightarrow> store \<Rightarrow> evidence_item list py" where
  "submitted_items c s = rbind (items_of (dict_get c ''evidence_metadata'' (VList []))) (rtraverse (submitted_item s))"

definition read_reevaluation :: "pyval \<Rightarrow> reevaluation_request py" where
  "read_reevaluation v = (case v of
     VDict d \<Rightarrow> if \<not> fst ` set d \<subseteq> {''prior_evaluation_id'', ''reason'', ''retain_pins''} then Inl ValueErr else
       (case (map_of d ''prior_evaluation_id'', map_of d ''reason'', dict_get d ''retain_pins'' (VBool True)) of
          (Some (VStr p), Some (VStr r), VBool b) \<Rightarrow>
            let q = \<lparr>rq_prior_evaluation_id = p, rq_reason = r, retain_pins = b\<rparr> in
            if valid_reevaluation q then Inr q else Inl ValueErr
        | _ \<Rightarrow> Inl ValueErr)
   | _ \<Rightarrow> Inl ValueErr)"

definition resume_of :: "wf_state \<Rightarrow> (string, pyval) dict" where
  "resume_of st = (case ws_resume st of None \<Rightarrow> [] | Some d \<Rightarrow> d)"

definition requested_reevaluation :: "wf_state \<Rightarrow> (reevaluation_request \<times> evaluation_row) option app" where
  "requested_reevaluation st = (let v = dict_get (resume_of st) ''reevaluation'' VNone in
     if \<not> truthy v then ret None
     else bnd (of_py (read_reevaluation v)) (\<lambda>q.
       bnd (get_evaluation (ws_workflow_id st) (rq_prior_evaluation_id q)) (\<lambda>prior. ret (Some (q, prior)))))"

definition sub_get :: "(string, pyval) dict \<Rightarrow> string \<Rightarrow> string \<Rightarrow> pyval \<Rightarrow> pyval py" where
  "sub_get facts k1 k2 dflt = rbind (getitem (VDict facts) k1) (\<lambda>v. case v of
     VDict d \<Rightarrow> Inr (dict_get d k2 dflt) | _ \<Rightarrow> Inl OtherErr)"

definition config_errors :: "exc \<Rightarrow> string option" where
  "config_errors x = (case x of ControlConfiguration m \<Rightarrow> Some m
     | Py ValueErr \<Rightarrow> Some ''INVALID_CONTROL_CONFIGURATION'' | _ \<Rightarrow> None)"

text \<open>The two ways to a profile: the pinned configuration of the prior evaluation or the unique one in scope.
  A failure leaves the configuration id it had reached and the error.\<close>

type_synonym selection = "string option \<times> control_profile option \<times> string list"

definition or_error :: "string option \<Rightarrow> selection app \<Rightarrow> selection app" where
  "or_error config_id m = handle m (\<lambda>x. map_option (\<lambda>msg. ret (config_id, None, [msg])) (config_errors x))"

definition select_profile :: "(reevaluation_request \<times> evaluation_row) option \<Rightarrow> (string, pyval) dict \<Rightarrow>
    (string, pyval) dict \<Rightarrow> selection app" where
  "select_profile again c facts =
     (let fresh = or_error None (bnd (ask en_app_env) (\<lambda>app_env. bnd (of_py (rbind (getitem (VDict c) ''dispute_type'') text_of)) (\<lambda>d.
        bnd (of_py (sub_get facts ''account'' ''product'' (VStr []))) (\<lambda>product.
        bnd (of_py (rbind (getitem (VDict c) ''channel'') text_of)) (\<lambda>channel.
        bnd (of_py (sub_get facts ''merchant'' ''country'' (VStr []))) (\<lambda>country.
        bnd (recall cm_at) (\<lambda>now.
        bnd (resolve \<lparr>so_environment = app_env, so_dispute_type = d, so_product = product, so_channel = channel,
          so_jurisdiction = country, so_at = now\<rparr>) (\<lambda>(cid, p). ret (Some cid, Some p, [])))))))))
      in case again of
        Some (q, prior) \<Rightarrow>
          if retain_pins q then (case el_config_id prior of
              None \<Rightarrow> ret (None, None, [''PINNED_CONFIGURATION_UNAVAILABLE''])
            | Some cid \<Rightarrow> if cid = [] then ret (None, None, [''PINNED_CONFIGURATION_UNAVAILABLE''])
                else or_error (Some cid) (bnd (profile_of cid) (\<lambda>p. ret (Some cid, Some p, []))))
          else fresh
      | None \<Rightarrow> fresh)"

definition scope_mismatch :: "control_profile \<Rightarrow> (string, pyval) dict \<Rightarrow> (string, pyval) dict \<Rightarrow> bool py" where
  "scope_mismatch p c facts =
     ror (rmap (\<lambda>d. d \<noteq> VStr (cp_dispute_type p)) (getitem (VDict c) ''dispute_type''))
     (ror (rmap (\<lambda>x. x \<noteq> VStr (cp_product p)) (sub_get facts ''account'' ''product'' VNone))
     (ror (rmap (\<lambda>x. x \<notin> VStr ` set (channels p)) (getitem (VDict c) ''channel''))
          (rmap (\<lambda>x. x \<notin> VStr ` set (jurisdictions p)) (sub_get facts ''merchant'' ''country'' VNone))))"

definition profile_versions :: "control_profile option \<Rightarrow> (string \<times> string) list" where
  "profile_versions p = (case p of None \<Rightarrow> []
     | Some x \<Rightarrow> [(''evidence_contract'', ec_version (cp_evidence x)), (''eligibility'', ep_version (cp_eligibility x)),
         (''ruleset'', rs_version (cp_rules x)), (''confidence'', cc_version (cp_confidence x))])"

definition drop_retrieved :: "pyval \<Rightarrow> pyval" where
  "drop_retrieved v = (case v of VDict d \<Rightarrow> VDict (filter (\<lambda>(k, _). k \<noteq> ''retrieved_at'') d) | _ \<Rightarrow> v)"

definition frozen_facts :: "(string, pyval) dict \<Rightarrow> (string, pyval) dict" where
  "frozen_facts facts = map (\<lambda>(k, v). if k = ''provider_records'' then (k, case v of VList rs \<Rightarrow> VList (map drop_retrieved rs) | _ \<Rightarrow> v)
     else (k, v)) facts"

definition str_list :: "pyval \<Rightarrow> string list" where
  "str_list v = (case v of VList xs \<Rightarrow> concat (map (\<lambda>x. case x of VStr s \<Rightarrow> [s] | _ \<Rightarrow> []) xs) | _ \<Rightarrow> [])"

definition frozen_bundle :: "wf_state \<Rightarrow> int \<Rightarrow> control_profile option \<Rightarrow> (reevaluation_request \<times> evaluation_row) option \<Rightarrow>
    string option \<Rightarrow> string \<Rightarrow> string \<Rightarrow> string \<Rightarrow> string \<Rightarrow> evaluation_bundle" where
  "frozen_bundle st now profile again ph ih ch eh fh = \<lparr>eb_case_id = ws_case_id st, eb_workflow_id = ws_workflow_id st,
     eb_state_version = ws_state_version st, evaluated_at = now, eb_profile_id = map_option profile_id profile,
     eb_profile_version = map_option cp_version profile, eb_profile_hash = ph, inputs_hash = ih, classification_hash = ch,
     evidence_hash = eh, eb_facts_hash = fh, versions = profile_versions profile,
     eb_prior_evaluation_id = map_option (el_evaluation_id \<circ> snd) again,
     reevaluation_reason = map_option (rq_reason \<circ> fst) again\<rparr>"

definition freeze :: "wf_state \<Rightarrow> string option \<Rightarrow> control_profile option \<Rightarrow> (reevaluation_request \<times> evaluation_row) option \<Rightarrow>
    (string, pyval) dict \<Rightarrow> evidence_item list \<Rightarrow> pyval \<Rightarrow> string \<Rightarrow> evaluation_row app" where
  "freeze st config_id profile again facts items classification channel = bnd (recall cm_at) (\<lambda>now.
     bnd (case profile of None \<Rightarrow> ret None | Some p \<Rightarrow> bnd (digest_app (dump_profile p)) (\<lambda>h. ret (Some h))) (\<lambda>ph.
     bnd (digest_app (inputs_json facts items classification channel)) (\<lambda>ih.
     bnd (digest_app classification) (\<lambda>ch. bnd (digest_app (VList (map (dump_item False) items))) (\<lambda>eh.
     bnd (digest_app (VDict facts)) (\<lambda>fh.
     let b = frozen_bundle st now profile again ph ih ch eh fh in
     bnd uuid4 (\<lambda>eid. bnd (digest_app (dump_bundle b)) (\<lambda>bh.
     let row = \<lparr>el_evaluation_id = eid, el_workflow_id = ws_workflow_id st, el_case_id = ws_case_id st,
       el_state_version = ws_state_version st, el_config_id = config_id,
       el_prior_evaluation_id = eb_prior_evaluation_id b, el_bundle = b, el_facts = facts, el_evidence = items,
       el_classification = classification, el_channel = channel, el_bundle_hash = bh,
       el_correlation_id = ws_correlation_id st,
       el_actor_ref = py_str (dict_get (resume_of st) ''actor_ref'' (VStr ''workflow-service'')), el_created_at = now\<rparr>
     in andthen (insert_row evaluations evaluations_update evaluation_key row)
        (andthen (memorize (\<lambda>m. m\<lparr>cm_evaluation := Some row\<rparr>)) (ret row))))))))))"

definition announce :: "wf_state \<Rightarrow> (reevaluation_request \<times> evaluation_row) option \<Rightarrow> string list \<Rightarrow> evaluation_row \<Rightarrow>
    wf_state app" where
  "announce st again errors ev = (let b = el_bundle ev; facts = el_facts ev;
       st1 = summarize ''authoritative_context'' [(''evaluation_id'', VStr (el_evaluation_id ev)),
          (''facts_hash'', VStr (eb_facts_hash b)),
          (''reference_count'', VInt (int (length (str_list (dict_get facts ''references'' (VList [])))))),
          (''versions'', VDict (map (\<lambda>(k, v). (k, VStr v)) (versions b)))]
         (st\<lparr>ws_control_evaluation_id := Some (el_evaluation_id ev)\<rparr>);
       failures = str_list (dict_get facts ''provider_errors'' (VList []))
     in andthen (control_audit ''CONTROL_CONTEXT_CAPTURED'' [(''facts_hash'', VStr (eb_facts_hash b)),
          (''inputs_hash'', VStr (inputs_hash b)), (''profile_hash'', VOpt VStr (eb_profile_hash b))])
        (andthen (case again of None \<Rightarrow> ret ()
            | Some (q, prior) \<Rightarrow> control_audit ''CONTROL_REEVALUATED''
                [(''prior_evaluation_id'', VStr (el_evaluation_id prior)), (''reason'', VOpt VStr (reevaluation_reason b))])
        (if errors \<noteq> [] then wait_for ManualReview errors [] st1
         else if failures \<noteq> [] then wait_for ManualReview failures [] st1 else ret st1)))"

definition prepare :: "banking \<Rightarrow> wf_state \<Rightarrow> wf_state app" where
  "prepare bank st = bnd (of_py (state_case st)) (\<lambda>c0. bnd (ask en_sqlite) (\<lambda>sqlite. bnd (of_py (localized_case sqlite c0)) (\<lambda>c.
     bnd (ask en_sha) (\<lambda>sha. bnd (of_py (acquire sha bank c)) (\<lambda>(facts0, items0).
     bnd utc_now (\<lambda>now. andthen (memorize (\<lambda>m. m\<lparr>cm_at := now\<rparr>))
     (bnd (look (submitted_items c)) (\<lambda>r. bnd (of_py r) (\<lambda>sub.
     bnd (requested_reevaluation st) (\<lambda>again.
     bnd (select_profile again c facts0) (\<lambda>(config_id, profile, errors0).
     andthen (memorize (\<lambda>m. m\<lparr>cm_profile := profile\<rparr>))
     (bnd (case profile of None \<Rightarrow> ret False | Some p \<Rightarrow> of_py (scope_mismatch p c facts0)) (\<lambda>bad.
     bnd (of_py (rbind (getitem (VDict c) ''channel'') text_of)) (\<lambda>channel.
     bnd (freeze st config_id profile again (frozen_facts facts0) (items0 @ sub)
       (dict_get (ws_summaries st) ''classification'' (VDict [])) channel)
     (announce st again (errors0 @ (if bad then [''PINNED_PROFILE_SCOPE_MISMATCH''] else [])))))))))))))))))"

section \<open>The evidence gate\<close>

definition fulfill :: "review_row \<Rightarrow> unit app" where
  "fulfill rq = bnd current_row (\<lambda>row. bnd (look (\<lambda>s. row_by fu_request_id (rv_request_id rq) (fulfillments s))) (\<lambda>found.
     case found of Some _ \<Rightarrow> ret ()
     | None \<Rightarrow> bnd (recall cm_at) (\<lambda>now.
         andthen (insert_row fulfillments fulfillments_update fu_request_id
           \<lparr>fu_request_id = rv_request_id rq, fu_evaluation_id = el_evaluation_id row, fu_created_at = now\<rparr>)
         (control_audit ''CONTROL_REQUEST_FULFILLED'' [(''request_id'', VStr (rv_request_id rq))]))))"

definition fulfill_prior :: "string \<Rightarrow> unit app" where
  "fulfill_prior prior = bnd (look (\<lambda>s. filter (\<lambda>r. rv_evaluation_id r = prior \<and> rv_kind r = kind_text RequestEvidence)
     (reviews s))) (each fulfill)"

definition unmet :: "evidence_contract \<Rightarrow> evidence_assessment \<Rightarrow> string list" where
  "unmet contract a = map requirement_id
     (filter (\<lambda>r. req_mandatory r \<and> dict_get (satisfaction a) (requirement_id r) [] = []) (requirements contract))"

definition evidence_stage :: "wf_state \<Rightarrow> wf_state app" where
  "evidence_stage st = bnd current_row (\<lambda>row. bnd current_profile (\<lambda>p. bnd (recall cm_at) (\<lambda>now. bnd (ask en_sha) (\<lambda>sha.
     bnd (of_py (assess sha (cp_evidence p) (el_evidence row) (Aware now))) (\<lambda>a.
     bnd (record_stage StEvidence (EvidenceResult a) st) (\<lambda>st1.
     if \<not> mandatory_complete a then
       wait_for (if conflicting a \<noteq> [] then ManualReview else RequestEvidence)
         (if ea_reasons a = [] then [''MANDATORY_EVIDENCE_INCOMPLETE''] else ea_reasons a) (unmet (cp_evidence p) a) st1
     else case el_prior_evaluation_id row of
       None \<Rightarrow> ret st1
     | Some prior \<Rightarrow> if prior = [] then ret st1 else andthen (fulfill_prior prior) (ret st1)))))))"

section \<open>The policy gate\<close>

definition policy_source_hash :: "(string \<Rightarrow> string) \<Rightarrow> chunk_row \<Rightarrow> string py" where
  "policy_source_hash sha c = rbind (db_utc (ch_effective_from c)) (\<lambda>lo.
     rbind (case ch_effective_to c of None \<Rightarrow> Inr VNone | Some t \<Rightarrow> rmap (\<lambda>u. VTime (Aware u)) (db_utc t)) (\<lambda>hi.
     digest sha (VDict [(''content'', VStr (ch_content c)), (''chunk_hash'', VStr (ch_chunk_hash c)),
       (''source_checksum'', VStr (ch_source_checksum c)), (''product'', VStr (ch_product c)),
       (''channel'', VStr (ch_channel c)), (''jurisdiction'', VStr (ch_jurisdiction c)),
       (''effective_from'', VTime (Aware lo)), (''effective_to'', hi)])))"

definition content_hash :: "(string \<Rightarrow> string) \<Rightarrow> chunk_row \<Rightarrow> string" where
  "content_hash sha c = sha (join ''|'' [ch_document_id c, ch_version c, ch_section c, ch_source_checksum c,
     ch_parser_version c, ch_chunking_config_hash c, ch_content c])"

fun any_of :: "bool py list \<Rightarrow> bool py" where
  "any_of [] = Inr False"
| "any_of (b # bs) = ror b (any_of bs)"

definition differs :: "pyval py \<Rightarrow> pyval \<Rightarrow> bool py" where
  "differs v x = rmap (\<lambda>y. \<not> py_eq y x) v"

definition path_of :: "(string, pyval) dict \<Rightarrow> string \<Rightarrow> string \<Rightarrow> pyval py" where
  "path_of facts a b = rbind (getitem (VDict facts) a) (\<lambda>v. getitem v b)"

definition recorded_source_hash :: "(string, pyval) dict \<Rightarrow> string \<Rightarrow> pyval" where
  "recorded_source_hash result chunk_id = (case dict_get result ''source_hashes'' (VDict []) of
     VDict d \<Rightarrow> dict_get d chunk_id VNone | _ \<Rightarrow> VNone)"

text \<open>The conditions under which a cited chunk can no longer be relied on, in the order of the code.\<close>

definition citation_revoked :: "(string \<Rightarrow> string) \<Rightarrow> store \<Rightarrow> (string \<times> string) list \<Rightarrow> (string, pyval) dict \<Rightarrow> string \<Rightarrow>
    int \<Rightarrow> (string, pyval) dict \<Rightarrow> pyval \<Rightarrow> bool py" where
  "citation_revoked sha s allowed facts channel effective result cit =
     rbind (rbind (getitem cit ''chunk_id'') text_of) (\<lambda>cid. case chunk_of cid s of
       None \<Rightarrow> Inr True
     | Some c \<Rightarrow> (case document_of c s of
         None \<Rightarrow> Inr True
       | Some d \<Rightarrow> any_of [
           differs (getitem cit ''chunk_hash'') (VStr (ch_chunk_hash c)),
           Inr (content_hash sha c \<noteq> ch_chunk_hash c),
           Inr (do_source_checksum d \<noteq> ch_source_checksum c),
           Inr (do_product d \<noteq> ch_product c), Inr (do_channel d \<noteq> ch_channel c),
           Inr (do_jurisdiction d \<noteq> ch_jurisdiction c),
           rmap (\<lambda>h. \<not> py_eq (VStr h) (recorded_source_hash result (ch_chunk_id c))) (policy_source_hash sha c),
           differs (path_of facts ''account'' ''product'') (VStr (ch_product c)),
           Inr (ch_channel c \<noteq> channel),
           differs (path_of facts ''merchant'' ''country'') (VStr (ch_jurisdiction c)),
           out_of_period (ch_effective_from c) (ch_effective_to c) effective,
           out_of_period (do_effective_from d) (do_effective_to d) effective,
           Inr (do_status d \<notin> set usable), Inr (ch_status c \<notin> set usable), Inr (do_approval_ref d = []),
           rbind (rbind (getitem cit ''document_id'') text_of) (\<lambda>di. rbind (rbind (getitem cit ''version'') text_of) (\<lambda>ve.
             Inr ((di, ve) \<notin> set allowed))),
           differs (getitem cit ''document_id'') (VStr (ch_document_id c)),
           differs (getitem cit ''version'') (VStr (ch_version c))]))"

definition citations_of :: "(string, pyval) dict \<Rightarrow> pyval list py" where
  "citations_of result = items_of (dict_get result ''citations'' (VList []))"

definition allowed_versions :: "control_profile \<Rightarrow> (string \<times> string) list" where
  "allowed_versions p = map (\<lambda>m. (pm_document_id m, pm_version m)) (mappings (cp_eligibility p))"

definition policy_problems :: "(string \<Rightarrow> string) \<Rightarrow> store \<Rightarrow> control_profile \<Rightarrow> evaluation_row \<Rightarrow> (string, pyval) dict \<Rightarrow>
    string list py" where
  "policy_problems sha s p ev result =
     rbind (rbind (path_of (el_facts ev) ''disputed'' ''authorized_at'') instant) (\<lambda>effective.
     rbind (citations_of result) (\<lambda>cs.
     rbind (rtraverse (citation_revoked sha s (allowed_versions p) (el_facts ev) (el_channel ev) effective result) cs) (\<lambda>bs.
     Inr (concat (map (\<lambda>b. flag b ''PINNED_POLICY_UNAVAILABLE_OR_REVOKED'') bs) @ flag (cs = []) ''MISSING_CITED_POLICY''))))"

definition validate_policy :: "(string, pyval) dict \<Rightarrow> string list app" where
  "validate_policy result = bnd current_profile (\<lambda>p. bnd current_row (\<lambda>ev. bnd (ask en_sha) (\<lambda>sha.
     bnd (look (\<lambda>s. policy_problems sha s p ev result)) of_py)))"

text \<open>The retrieval request of an evaluation; the facts must be text where the schema wants text.\<close>

definition evaluation_query :: "evaluation_row \<Rightarrow> string \<Rightarrow> bool \<Rightarrow> int \<Rightarrow> retrieval_request py" where
  "evaluation_query ev query linked effective =
     rbind (rbind (path_of (el_facts ev) ''account'' ''product'') text_of) (\<lambda>product.
     rbind (rbind (path_of (el_facts ev) ''merchant'' ''country'') text_of) (\<lambda>country.
     let q = \<lparr>rr_query = query, rr_dispute_type = DuplicateCard, rr_effective_date = effective, rr_product = product,
       rr_channel = el_channel ev, rr_jurisdiction = country, rr_actor_ref = el_actor_ref ev,
       rr_case_id = (if linked then Some (el_case_id ev) else None),
       rr_workflow_id = (if linked then Some (el_workflow_id ev) else None), rr_config = default_config\<rparr>
     in if valid_retrieval_request q then Inr q else Inl ValueErr))"

definition effective_of :: "evaluation_row \<Rightarrow> int py" where
  "effective_of ev = rbind (path_of (el_facts ev) ''disputed'' ''authorized_at'') instant"

definition effective_text :: "int \<Rightarrow> pyval" where
  "effective_text t = VStr (isoformat (Aware t))"

definition cited_chunks :: "(string, pyval) dict \<Rightarrow> string list py" where
  "cited_chunks result = rbind (getitem (VDict result) ''citations'') (\<lambda>v. rbind (items_of v)
     (rtraverse (\<lambda>c. rbind (getitem c ''chunk_id'') text_of)))"

text \<open>The pinned result of the prior evaluation, checked against the policies of today.\<close>

definition pinned_policy :: "(string, pyval) dict \<Rightarrow> ((string, pyval) dict \<times> string list) app" where
  "pinned_policy result = bnd (validate_policy result) (\<lambda>problems. bnd current_row (\<lambda>ev. bnd current_profile (\<lambda>p.
     bnd (look (\<lambda>s. find (\<lambda>c. VStr (co_corpus_version c) = dict_get result ''corpus_version'' VNone) (corpora s))) (\<lambda>found.
     case found of None \<Rightarrow> ret (result, problems @ [''PINNED_CORPUS_UNAVAILABLE''])
     | Some corpus \<Rightarrow> bnd (of_py (effective_of ev)) (\<lambda>effective.
         bnd (of_py (evaluation_query ev ''pinned policy applicability'' False effective)) (\<lambda>q.
         bnd (evaluate_eligibility corpus q (Some (cp_eligibility p))) (\<lambda>(ds, el).
         bnd (of_py (cited_chunks result)) (\<lambda>cited.
         ret (dict_set (dict_set result ''eligibility'' (VDict el)) ''effective_as_of'' (effective_text effective),
              problems @ flag (\<not> set cited \<subseteq> set (admitted_ids ds)) ''PINNED_POLICY_NO_LONGER_APPLICABLE'')))))))))"

definition source_hashes :: "retrieved_chunk list \<Rightarrow> (string, pyval) dict app" where
  "source_hashes rs = bnd (ask en_sha) (\<lambda>sha.
     bnd (look (\<lambda>s. concat (map (\<lambda>r. case chunk_of (ct_chunk_id (rk_citation r)) s of None \<Rightarrow> [] | Some c \<Rightarrow> [c]) rs))) (\<lambda>cs.
     bnd (of_py (rtraverse (\<lambda>c. rmap (\<lambda>h. (ch_chunk_id c, VStr h)) (policy_source_hash sha c)) cs)) (\<lambda>hs.
     ret (foldl (\<lambda>d (k, v). dict_set d k v) [] hs))))"

type_synonym retrieval = "retrieval_request \<Rightarrow> string \<Rightarrow> eligibility_profile option \<Rightarrow> retrieval_response app"

definition retrieved_policy :: "retrieval \<Rightarrow> ((string, pyval) dict \<times> string list) app" where
  "retrieved_policy retrieve = bnd current_row (\<lambda>ev. bnd current_profile (\<lambda>p.
     bnd (of_py (effective_of ev)) (\<lambda>effective.
     bnd (of_py (evaluation_query ev ''duplicate card transaction issuer review evidence merchant context'' True effective)) (\<lambda>q.
     bnd (retrieve q (el_correlation_id ev) (Some (cp_eligibility p))) (\<lambda>r.
     bnd (source_hashes (rp_results r)) (\<lambda>hs.
     let result = [(''approved_context'', VBool (rp_approved_context r)), (''confidence'', VFin (rp_confidence r)),
       (''eligibility'', VDict (rp_eligibility r)), (''corpus_version'', VOpt VStr (rp_corpus_version r)),
       (''index_version'', VOpt VStr (rp_index_version r)), (''retrieval_config'', dump_config (rp_config r)),
       (''effective_as_of'', effective_text effective),
       (''citations'', VList (map (dump_citation \<circ> rk_citation) (rp_results r))), (''source_hashes'', VDict hs)]
     in bnd (validate_policy result) (\<lambda>problems.
        ret (result, (case rp_reason r of None \<Rightarrow> [] | Some a \<Rightarrow> [abstention_text a]) @ problems))))))))"

definition policy_unavailable :: "exc \<Rightarrow> bool" where
  "policy_unavailable x = (case x of Py e \<Rightarrow> e \<in> {KeyErr, ValueErr, TimeoutErr, ConnectionErr}
     | ControlConfiguration _ \<Rightarrow> True | _ \<Rightarrow> False)"

definition fresh_policy :: "retrieval \<Rightarrow> ((string, pyval) dict \<times> string list) app" where
  "fresh_policy retrieve = handle (retrieved_policy retrieve) (\<lambda>x. if policy_unavailable x then
     Some (ret ([(''approved_context'', VBool False), (''citations'', VList []), (''confidence'', VNone)],
       [''POLICY_RESOLUTION_UNAVAILABLE''])) else None)"

definition prior_policy :: "evaluation_row \<Rightarrow> (string, pyval) dict app" where
  "prior_policy ev = (case el_prior_evaluation_id ev of None \<Rightarrow> ret []
     | Some prior \<Rightarrow> if prior = [] then ret [] else bnd (stage_result prior StPolicy) (\<lambda>v. case v of
         Some (PolicyResult d) \<Rightarrow> ret d | Some _ \<Rightarrow> raise (Py ValueErr) | None \<Rightarrow> ret []))"

definition retains_pins :: "wf_state \<Rightarrow> bool" where
  "retains_pins st = (case dict_get (resume_of st) ''reevaluation'' (VDict []) of
     VDict d \<Rightarrow> truthy (dict_get d ''retain_pins'' (VBool True)) | _ \<Rightarrow> False)"

definition settle_policy :: "(string, pyval) dict \<Rightarrow> string list \<Rightarrow> (string, pyval) dict" where
  "settle_policy result reasons = dict_set (dict_set result ''reasons'' (VStrs (sorted_set reasons))) ''approved_context''
     (VBool (truthy (dict_get result ''approved_context'' VNone) \<and> reasons = []))"

definition policy_stage :: "retrieval \<Rightarrow> wf_state \<Rightarrow> wf_state app" where
  "policy_stage retrieve st = bnd current_row (\<lambda>ev. bnd (prior_policy ev) (\<lambda>prior.
     bnd (if prior \<noteq> [] \<and> truthy (dict_get prior ''approved_context'' VNone) \<and> retains_pins st
       then pinned_policy prior else fresh_policy retrieve) (\<lambda>(result, reasons).
     let settled = settle_policy result reasons in
     bnd (record_stage StPolicy (PolicyResult settled) st) (\<lambda>st1.
     if \<not> truthy (dict_get settled ''approved_context'' VNone)
     then wait_for PolicyReview (if reasons = [] then [''POLICY_REVIEW_REQUIRED''] else reasons) [] st1 else ret st1))))"

section \<open>Rules, confidence and the stop\<close>

definition stored_evidence :: "evaluation_row \<Rightarrow> evidence_assessment app" where
  "stored_evidence ev = bnd (stage_result (el_evaluation_id ev) StEvidence) (\<lambda>v. case v of
     Some (EvidenceResult a) \<Rightarrow> ret a | _ \<Rightarrow> raise (Py ValueErr))"

definition stored_policy :: "evaluation_row \<Rightarrow> (string, pyval) dict app" where
  "stored_policy ev = bnd (stage_result (el_evaluation_id ev) StPolicy) (\<lambda>v. case v of
     Some (PolicyResult d) \<Rightarrow> ret d | Some _ \<Rightarrow> raise (Py ValueErr) | None \<Rightarrow> ret [])"

definition stored_rules :: "evaluation_row \<Rightarrow> rule_execution app" where
  "stored_rules ev = bnd (stage_result (el_evaluation_id ev) StRules) (\<lambda>v. case v of
     Some (RulesResult x) \<Rightarrow> ret x | _ \<Rightarrow> raise (Py ValueErr))"

definition cited_versions :: "(string, pyval) dict \<Rightarrow> string list py" where
  "cited_versions policy = rbind (citations_of policy) (rtraverse (\<lambda>c. rbind (getitem c ''document_id'') (\<lambda>d.
     rmap (\<lambda>v. py_str d @ '':'' @ py_str v) (getitem c ''version''))))"

definition rules_stage :: "wf_state \<Rightarrow> wf_state app" where
  "rules_stage st = bnd current_row (\<lambda>ev. bnd (stored_policy ev) (\<lambda>policy. bnd (stored_evidence ev) (\<lambda>a.
     bnd current_profile (\<lambda>p. bnd (of_py (cited_versions policy)) (\<lambda>refs. bnd (recall cm_at) (\<lambda>now. bnd (ask en_sha) (\<lambda>sha.
     bnd (of_py (execute sha (cp_rules p) (el_facts ev) a refs (Aware now))) (\<lambda>x.
     bnd (record_stage StRules (RulesResult x) st) (\<lambda>st1.
     if blocked x then wait_for ManualReview
       (map reason_code (filter (\<lambda>r. outcome r \<in> {RuleError, Indeterminate}) (results x))) [] st1
     else ret st1)))))))))"

definition gates_of :: "(string, pyval) dict \<Rightarrow> evidence_assessment \<Rightarrow> (string, pyval) dict \<Rightarrow> rule_execution \<Rightarrow>
    string list \<Rightarrow> string list" where
  "gates_of classification a policy x failures =
     flag (\<not> truthy (dict_get classification ''accepted'' VNone)) ''CLASSIFICATION_NOT_ACCEPTED'' @
     flag (\<not> mandatory_complete a) ''MANDATORY_EVIDENCE_INCOMPLETE'' @
     flag (\<not> truthy (dict_get policy ''approved_context'' VNone)) ''POLICY_NOT_ADMITTED'' @
     flag (blocked x) ''RULE_REVIEW_REQUIRED'' @
     flag (conflicting a \<noteq> []) ''CONTEXT_CONFLICT'' @
     flag (failures \<noteq> []) ''REQUIRED_PROVIDER_FAILURE''"

definition signal_names :: "string list" where
  "signal_names = [''classification'', ''evidence'', ''policy'', ''rules'', ''conflicts'', ''tools'']"

definition summary_ref :: "wf_state \<Rightarrow> string \<Rightarrow> string \<Rightarrow> string" where
  "summary_ref st eid key = py_str (dict_get (dict_at (ws_summaries st) key) ''result_id'' (VStr (eid @ '':'' @ key)))"

definition signal_refs :: "wf_state \<Rightarrow> string \<Rightarrow> string \<Rightarrow> string \<Rightarrow> (string, string) dict" where
  "signal_refs st eid ch fh =
     dict_set (dict_set (dict_set (map (\<lambda>k. (k, summary_ref st eid k)) signal_names)
       ''classification'' (eid @ '':classification:'' @ ch))
       ''conflicts'' (summary_ref st eid ''evidence''))
       ''tools'' (eid @ '':facts:'' @ fh)"

definition confidence_pins :: "evaluation_row \<Rightarrow> string \<Rightarrow> control_profile \<Rightarrow> wf_state \<Rightarrow> (string, pyval) dict \<Rightarrow> pyval" where
  "confidence_pins ev ph p st policy = VDict [(''bundle_hash'', VStr (el_bundle_hash ev)), (''profile_hash'', VStr ph),
     (''evidence_contract'', VStr (ec_version (cp_evidence p))),
     (''evidence_result'', dict_get (ws_summaries st) ''evidence'' VNone),
     (''policy_result'', dict_get (ws_summaries st) ''policy'' VNone),
     (''rule_result'', dict_get (ws_summaries st) ''rules'' VNone),
     (''policy_corpus'', dict_get policy ''corpus_version'' VNone), (''policy_index'', dict_get policy ''index_version'' VNone),
     (''policy_citations'', dict_get policy ''citations'' (VList [])),
     (''retrieval_config'', dict_get policy ''retrieval_config'' VNone), (''ruleset'', VStr (rs_version (cp_rules p))),
     (''disposition'', VStr (disposition_version (cp_rules p))),
     (''confidence_config'', dump_confidence_config True (cp_confidence p))]"

definition tool_share :: "string list \<Rightarrow> (string, pyval) dict \<Rightarrow> pyval py" where
  "tool_share failures facts = rbind (getitem (VDict facts) ''required_operations'') (\<lambda>n. case n of
     VInt k \<Rightarrow> rmap (\<lambda>d. VDec (Finite d)) (dec_div (dec_of_int (int (length failures))) (dec_of_int k)) | _ \<Rightarrow> Inl TypeErr)"

definition confidence_stage :: "wf_state \<Rightarrow> wf_state app" where
  "confidence_stage st = bnd current_row (\<lambda>ev. bnd (stored_evidence ev) (\<lambda>a. bnd (stored_policy ev) (\<lambda>policy.
     bnd (stored_rules ev) (\<lambda>x. bnd current_profile (\<lambda>p.
     let eid = el_evaluation_id ev; facts = el_facts ev;
         failures = str_list (dict_get facts ''provider_errors'' (VList []));
         classification = (case el_classification ev of VDict d \<Rightarrow> d | _ \<Rightarrow> [])
     in bnd (of_py (rule_certainty x)) (\<lambda>certainty. bnd (of_py (tool_share failures facts)) (\<lambda>tools.
     bnd (digest_app (el_classification ev)) (\<lambda>ch. bnd (digest_app (VDict facts)) (\<lambda>fh.
     let signals = [(''classification'', dict_get classification ''confidence'' VNone), (''evidence'', VDec (Finite (ea_score a))),
           (''policy'', dict_get policy ''confidence'' VNone), (''rules'', certainty),
           (''conflicts'', VInt (if conflicting a \<noteq> [] then 1 else 0)), (''tools'', tools)]
     in bnd (of_py (evaluate_confidence (cp_confidence p) signals (signal_refs st eid ch fh)
          (gates_of classification a policy x failures))) (\<lambda>c0.
     bnd (digest_app (dump_profile p)) (\<lambda>ph.
     let c = c0\<lparr>pins := confidence_pins ev ph p st policy\<rparr> in
     bnd (record_stage StConfidence (ConfidenceResult c) st) (\<lambda>st1.
     if \<not> ready c then wait_for SupervisorReview (ce_reasons c) [] st1 else ret st1))))))))))))"

definition finish :: "wf_state \<Rightarrow> wf_state app" where
  "finish st = bnd current_row (\<lambda>ev.
     ret (summarize ''controlled_stop'' [(''evaluation_id'', VStr (el_evaluation_id ev)),
         (''next_boundary'', VStr ''recommendation_and_human_decision''), (''financial_outcome_finalized'', VBool False),
         (''communication_sent'', VBool False)]
       (pause ''CONTROLLED_STOP'' (interrupt_with ''deterministic_disposition_ready''
          ''Deterministic evaluation ready for recommendation and human review.''
          [''phase_008_recommendation_and_human_decision'']) st)))"

definition control_graph_nodes :: "banking \<Rightarrow> retrieval \<Rightarrow> control_nodes" where
  "control_graph_nodes bank retrieve = \<lparr>cn_prepare = prepare bank, cn_evidence = evidence_stage,
     cn_policy = policy_stage retrieve, cn_rules = rules_stage, cn_confidence = confidence_stage, cn_finish = finish\<rparr>"

end
