(* ===== verification/PyFloat.thy ===== *)
theory PyFloat
  imports PyDecimal
begin

text \<open>
  Python floats.  A float is written as the decimal it prints as; its value is the nearest binary64
  number \<open>dbl\<close> (53 significant bits, ties to even, the subnormal range included; the code stays far below
  the overflow threshold).  \<open>fl_add\<close>, \<open>fl_sub\<close>, \<open>fl_mul\<close> round the exact result once, \<open>round_six\<close> is
  \<open>round(x, 6)\<close>: the decimal nearest to the exact value of the float.
\<close>

section \<open>Rounding\<close>

definition half_even :: "rat \<Rightarrow> int" where
  "half_even x = (let q = \<lfloor>x\<rfloor>; r = x - of_int q in
     if r < 1 / 2 \<or> (r = 1 / 2 \<and> even q) then q else q + 1)"

function bit_size :: "int \<Rightarrow> int" where
  "bit_size n = (if n \<le> 0 then 0 else 1 + bit_size (n div 2))"
  by auto

termination
  by (relation "measure nat") auto

declare bit_size.simps [simp del]

text \<open>The exponent of the leading bit of a positive rational.\<close>

definition two_to :: "int \<Rightarrow> rat" where
  "two_to e = (if 0 \<le> e then 2 ^ nat e else 1 / 2 ^ nat (- e))"

definition lead_bit :: "rat \<Rightarrow> int" where
  "lead_bit x = (let (n, d) = quotient_of x; e = bit_size n - bit_size d in
     if two_to e \<le> x then e else e - 1)"

definition dbl :: "rat \<Rightarrow> rat" where
  "dbl x = (if x = 0 then 0 else
     let ulp = two_to (max (lead_bit \<bar>x\<bar> - 52) (- 1074)) in sgn x * of_int (half_even (\<bar>x\<bar> / ulp)) * ulp)"

section \<open>Operations\<close>

definition fl_val :: "dec \<Rightarrow> rat" where
  "fl_val d = dbl (dval d)"

definition fl_add :: "rat \<Rightarrow> rat \<Rightarrow> rat" where
  "fl_add x y = dbl (x + y)"

definition fl_sub :: "rat \<Rightarrow> rat \<Rightarrow> rat" where
  "fl_sub x y = dbl (x - y)"

definition fl_mul :: "rat \<Rightarrow> rat \<Rightarrow> rat" where
  "fl_mul x y = dbl (x * y)"

definition round_six :: "rat \<Rightarrow> dec" where
  "round_six x = (let k = half_even (x * 1000000) in Dec (k < 0) (nat \<bar>k\<bar>) (- 6))"

section \<open>Facts\<close>

lemma half_even_of_int [simp]: "half_even (of_int k) = k"
  by (simp add: half_even_def)

lemma half_even_zero [simp]: "half_even 0 = 0"
  using half_even_of_int [of 0] by simp

lemma half_even_near: "\<bar>of_int (half_even x) - x\<bar> \<le> 1 / 2"
proof -
  have "of_int \<lfloor>x\<rfloor> \<le> x" "x < of_int \<lfloor>x\<rfloor> + 1" by linarith+
  then show ?thesis unfolding half_even_def Let_def abs_le_iff by (simp split: if_split) linarith
qed

lemma half_even_mono: "x \<le> y \<Longrightarrow> half_even x \<le> half_even y"
proof -
  assume le: "x \<le> y"
  then have fl: "\<lfloor>x\<rfloor> \<le> \<lfloor>y\<rfloor>" by (rule floor_mono)
  show ?thesis
  proof (cases "\<lfloor>x\<rfloor> = \<lfloor>y\<rfloor>")
    case True
    then show ?thesis using le unfolding half_even_def Let_def by auto
  next
    case False
    with fl have "\<lfloor>x\<rfloor> + 1 \<le> \<lfloor>y\<rfloor>" by simp
    moreover have "half_even x \<le> \<lfloor>x\<rfloor> + 1" and "\<lfloor>y\<rfloor> \<le> half_even y" unfolding half_even_def Let_def by auto
    ultimately show ?thesis by linarith
  qed
qed

lemma dbl_zero [simp]: "dbl 0 = 0"
  by (simp add: dbl_def)

lemma two_to_pos: "0 < two_to e"
  by (simp add: two_to_def)

lemma dbl_nonneg: "0 \<le> x \<Longrightarrow> 0 \<le> dbl x"
proof -
  assume "0 \<le> x"
  moreover have "0 \<le> half_even (\<bar>x\<bar> / u)" if "0 < u" for u
    using half_even_mono [of 0 "\<bar>x\<bar> / u"] that by simp
  ultimately have "0 \<le> of_int (half_even (\<bar>x\<bar> / two_to u)) * two_to u" for u
    using two_to_pos [of u] by (intro mult_nonneg_nonneg) (simp_all add: less_imp_le)
  with \<open>0 \<le> x\<close> show ?thesis by (simp add: dbl_def Let_def sgn_if mult.assoc)
qed

lemma round_six_value: "dval (round_six x) = of_int (half_even (x * 1000000)) / 1000000"
  by (auto simp: round_six_def Let_def signed_def power_int_def field_simps)

lemma round_six_near: "\<bar>dval (round_six x) - x\<bar> \<le> 1 / 2000000"
  using half_even_near [of "x * 1000000"] unfolding round_six_value by (simp add: abs_le_iff field_simps)

end
