(* ===== verification/PolicyRepos.thy ===== *)
theory PolicyRepos
  imports Eligibility ControlRepo PyFloat
begin

text \<open>
  \<open>PolicyRepository\<close> and \<open>PolicyAuditRepository\<close> of \<open>app/adapters/repositories.py\<close> (the eligibility queries are
  in \<open>Eligibility\<close>), and the invariant of the policy tables: keys are unique, every chunk belongs to its
  document, carries the hash of its own text and the document's metadata, and at most one corpus is active.
\<close>

section \<open>Runs and documents\<close>

definition create_ingestion :: "ingestion_request \<Rightarrow> string \<Rightarrow> string \<Rightarrow> int \<Rightarrow> ingestion_row app" where
  "create_ingestion q source correlation now = bnd uuid4 (\<lambda>rid.
     let r = \<lparr>ig_run_id = rid, ig_status = ''running'', ig_actor_ref = iq_actor_ref q, ig_source = source,
       ig_parser_version = iq_parser_version q, ig_chunking_config_hash = iq_chunking_config_hash q,
       ig_embedding_model = iq_embedding_model q, ig_embedding_config_hash = iq_embedding_config_hash q,
       ig_retrieval_index_config_hash = iq_retrieval_index_config_hash q, ig_correlation_id = correlation,
       ig_validation_errors = [], ig_telemetry = [], ig_created_at = now, ig_completed_at = None\<rparr>
     in andthen (insert_row ingestions ingestions_update ig_run_id r) (ret r))"

definition get_ingestion :: "string \<Rightarrow> ingestion_row option app" where
  "get_ingestion rid = look (\<lambda>s. row_by ig_run_id rid (ingestions s))"

definition complete_ingestion :: "ingestion_row \<Rightarrow> string \<Rightarrow> pyval list \<Rightarrow> (string, pyval) dict \<Rightarrow> int \<Rightarrow> unit app" where
  "complete_ingestion run status errors telemetry now = change_rows ingestions_update
     (\<lambda>r. ig_run_id r = ig_run_id run)
     (\<lambda>r. r\<lparr>ig_status := status, ig_validation_errors := errors, ig_telemetry := telemetry, ig_completed_at := Some now\<rparr>)"

definition get_document :: "string \<Rightarrow> string \<Rightarrow> store \<Rightarrow> document_row option" where
  "get_document document_id version s = row_by document_key (document_id, version) (documents s)"

text \<open>The autoincremented keys; no row of the two tables is ever deleted.\<close>

definition next_pk :: "'a list \<Rightarrow> int" where
  "next_pk rows = int (length rows) + 1"

definition section_lines :: "document_in \<Rightarrow> string" where
  "section_lines d = join [CHR 0x0A] (map si_text (di_sections d))"

definition document_of_input :: "ingestion_row \<Rightarrow> document_in \<Rightarrow> int \<Rightarrow> int \<Rightarrow> document_row" where
  "document_of_input run d pk now = \<lparr>do_pk = pk, do_document_id = di_document_id d, do_version = di_version d,
     do_title = di_title d, do_status = policy_status_text (di_status d), do_approval_ref = di_approval_ref d,
     do_source_identity = di_source_identity d, do_source_checksum = di_source_checksum d,
     do_effective_from = Aware (di_effective_from d), do_effective_to = map_option Aware (di_effective_to d),
     do_product = di_product d, do_channel = di_channel d, do_jurisdiction = di_jurisdiction d,
     do_source_type = policy_source_text (di_source_type d), do_content = section_lines d,
     do_run_id = ig_run_id run, do_correlation_id = ig_correlation_id run, do_created_at = now\<rparr>"

text \<open>Both conflicts of \<open>add_document\<close>, a different checksum or the same, are one exception.\<close>

definition add_document :: "ingestion_row \<Rightarrow> document_in \<Rightarrow> int \<Rightarrow> document_row app" where
  "add_document run d now = bnd (look (get_document (di_document_id d) (di_version d))) (\<lambda>existing.
     andthen (require (existing = None) PolicyVersionConflict)
     (bnd (look (\<lambda>s. document_of_input run d (next_pk (documents s)) now)) (\<lambda>r.
      andthen (insert_row documents documents_update document_key r) (ret r))))"

section \<open>Chunks\<close>

record chunk_parts =
  cp_section :: string
  cp_content :: string
  cp_chunk_id :: string
  cp_chunk_hash :: string

definition chunk_row_of :: "ingestion_row \<Rightarrow> document_row \<Rightarrow> chunk_parts \<Rightarrow> string \<Rightarrow> int \<Rightarrow> int \<Rightarrow> chunk_row" where
  "chunk_row_of run d p vector pk now = \<lparr>ch_pk = pk, ch_chunk_id = cp_chunk_id p, ch_document_pk = do_pk d,
     ch_document_id = do_document_id d, ch_version = do_version d, ch_section = cp_section p,
     ch_status = do_status d, ch_effective_from = do_effective_from d, ch_effective_to = do_effective_to d,
     ch_product = do_product d, ch_channel = do_channel d, ch_jurisdiction = do_jurisdiction d,
     ch_content = cp_content p, ch_source_checksum = do_source_checksum d, ch_chunk_hash = cp_chunk_hash p,
     ch_parser_version = ig_parser_version run, ch_chunking_config_hash = ig_chunking_config_hash run,
     ch_embedding_model = ig_embedding_model run, ch_embedding_config_hash = ig_embedding_config_hash run,
     ch_embedding_vector = vector, ch_vector_ready = True, ch_lexical_ready = True, ch_run_id = ig_run_id run,
     ch_correlation_id = ig_correlation_id run, ch_created_at = now\<rparr>"

definition add_chunk :: "ingestion_row \<Rightarrow> document_row \<Rightarrow> chunk_parts \<Rightarrow> string \<Rightarrow> int \<Rightarrow> unit app" where
  "add_chunk run d p vector now = bnd (look (\<lambda>s. chunk_row_of run d p vector (next_pk (chunks s)) now))
     (insert_row chunks chunks_update ch_chunk_id)"

definition run_documents :: "string \<Rightarrow> store \<Rightarrow> document_row list" where
  "run_documents rid s = filter (\<lambda>d. do_run_id d = rid) (documents s)"

definition document_chunks :: "store \<Rightarrow> document_row \<Rightarrow> chunk_row list" where
  "document_chunks s d = filter (\<lambda>c. ch_document_pk c = do_pk d) (chunks s)"

definition run_audits :: "string \<Rightarrow> store \<Rightarrow> policy_audit_row list" where
  "run_audits rid s = sort_key pa_created_at (sort_key pa_event_id
     (filter (\<lambda>a. pa_run_id a = Some rid) (policy_audits s)))"

section \<open>Evaluations and the active corpus\<close>

definition add_policy_evaluation :: "string \<Rightarrow> string \<Rightarrow> string \<Rightarrow> bool \<Rightarrow> (string, pyval) dict \<Rightarrow> pyval list \<Rightarrow>
    string \<Rightarrow> int \<Rightarrow> policy_evaluation_row app" where
  "add_policy_evaluation rid corpus index passed metrics failures correlation now = bnd uuid4 (\<lambda>eid.
     let r = \<lparr>pe_evaluation_id = eid, pe_run_id = rid, pe_corpus_version = corpus, pe_index_version = index,
       pe_passed = passed, pe_metrics = metrics, pe_failures = failures, pe_correlation_id = correlation,
       pe_evaluated_at = now\<rparr>
     in andthen (append_row policy_evaluations_update r) (ret r))"

definition promote_corpus :: "string \<Rightarrow> string \<Rightarrow> string \<Rightarrow> string \<Rightarrow> string \<Rightarrow> int \<Rightarrow> corpus_row app" where
  "promote_corpus rid corpus index actor correlation now =
     andthen (change_rows corpora_update co_is_active (\<lambda>c. c\<lparr>co_is_active := False\<rparr>))
     (bnd uuid4 (\<lambda>cid.
       let r = \<lparr>co_version_id = cid, co_corpus_version = corpus, co_run_id = rid, co_index_version = index,
         co_is_active = True, co_promoted_by = actor, co_correlation_id = correlation, co_promoted_at = now\<rparr>
       in andthen (insert_row corpora corpora_update co_corpus_version r) (ret r)))"

text \<open>\<open>PolicyAuditRepository.append\<close> with the failure switch of the environment.\<close>

definition policy_audit :: "string \<Rightarrow> string \<Rightarrow> string \<Rightarrow> string \<Rightarrow> string \<Rightarrow> int \<Rightarrow> string option \<Rightarrow> string option \<Rightarrow>
    string option \<Rightarrow> string option \<Rightarrow> (string, pyval) dict \<Rightarrow> policy_audit_row app" where
  "policy_audit event actor src decision correlation now run doc version checksum_text metadata =
     bnd (ask en_policy_audit_fails) (\<lambda>fails.
       policy_audit_append fails event actor src decision correlation now run doc version checksum_text metadata)"

section \<open>The embedding\<close>

text \<open>\<open>DeterministicEmbeddingAdapter.embed\<close>: eight numbers read from the first sixteen bytes of the digest, given as
  hexadecimal text; each is divided by 65535 and rounded to six places.\<close>

definition hex_value :: "char \<Rightarrow> int" where
  "hex_value c = (let n = of_char c in if is_digit c then n - 48 else if n < 97 then n - 55 else n - 87)"

definition hex_number :: "string \<Rightarrow> int" where
  "hex_number ds = foldl (\<lambda>a c. 16 * a + hex_value c) 0 ds"

definition embed :: "(string \<Rightarrow> string) \<Rightarrow> string \<Rightarrow> dec list" where
  "embed sha s = map (\<lambda>i. round_six (dbl (of_int (hex_number (take 4 (drop (4 * i) (sha s)))) / 65535))) [0..<8]"

text \<open>\<open>f"{value:.6f}"\<close> of a number with six places.\<close>

fun fixed_six :: "dec \<Rightarrow> string" where
  "fixed_six (Dec s c e) = (let (q, r) = (c div 1000000, c mod 1000000) in
     (if s then ''-'' else []) @ show_nat q @ ''.'' @ zfill 6 (int r))"

definition format_vector :: "dec list \<Rightarrow> string" where
  "format_vector xs = ''['' @ join '','' (map fixed_six xs) @ '']''"

section \<open>The policy tables\<close>

definition chunk_intact :: "(string \<Rightarrow> string) \<Rightarrow> store \<Rightarrow> chunk_row \<Rightarrow> bool" where
  "chunk_intact sha s c \<longleftrightarrow> (\<exists>d. document_of c s = Some d \<and> ch_document_id c = do_document_id d \<and>
     ch_version c = do_version d \<and> ch_status c = do_status d \<and> ch_product c = do_product d \<and>
     ch_channel c = do_channel d \<and> ch_jurisdiction c = do_jurisdiction d \<and> ch_run_id c = do_run_id d \<and>
     ch_source_checksum c = do_source_checksum d \<and> ch_effective_from c = do_effective_from d \<and>
     ch_effective_to c = do_effective_to d) \<and>
   ch_chunk_hash c = sha (join ''|'' [ch_document_id c, ch_version c, ch_section c, ch_source_checksum c,
     ch_parser_version c, ch_chunking_config_hash c, ch_content c])"

definition documents_sound :: "store \<Rightarrow> bool" where
  "documents_sound s \<longleftrightarrow> map do_pk (documents s) = [1..int (length (documents s))] \<and>
     (\<forall>d \<in> set (documents s). do_status d \<in> set usable \<and> do_source_type d = ''approved_policy'' \<and>
        do_effective_from d \<in> range Aware \<and> (\<forall>t \<in> set_option (do_effective_to d). t \<in> range Aware \<and>
          instant_of (do_effective_from d) \<le> instant_of t))"

definition policy_inv :: "env \<Rightarrow> store \<Rightarrow> bool" where
  "policy_inv e s \<longleftrightarrow> distinct (map ig_run_id (ingestions s)) \<and> distinct (map document_key (documents s)) \<and>
     distinct (map ch_chunk_id (chunks s)) \<and> distinct (map co_corpus_version (corpora s)) \<and>
     documents_sound s \<and> (\<forall>c \<in> set (chunks s). chunk_intact (en_sha e) s c) \<and>
     length (filter co_is_active (corpora s)) \<le> 1"

lemma policy_inv_empty: "policy_inv e empty_store"
  by (simp add: policy_inv_def documents_sound_def empty_store_def)

end
