(* ===== verification/Ingestion.thy ===== *)
theory Ingestion
  imports PolicyRepos
begin

text \<open>
  \<open>app/services/policy_ingestion.py\<close>: validating and chunking a policy, ingesting it in one transaction,
  promoting an ingested run to the active corpus and tracing a chunk back to its document.  A rejected
  ingestion is itself recorded; every other failure leaves the tables as they were.
\<close>

section \<open>Validation and chunking\<close>

definition ingestion_error :: "nat \<Rightarrow> string \<Rightarrow> string \<Rightarrow> string \<Rightarrow> pyval" where
  "ingestion_error i field_name code message = VDict [(''field'', VStr (''documents['' @ show_nat i @ ''].'' @ field_name)),
     (''code'', VStr code), (''message'', VStr message)]"

definition document_errors :: "nat \<Rightarrow> document_in \<Rightarrow> pyval list" where
  "document_errors i d =
     (if di_source_type d \<noteq> SrcPolicy then [ingestion_error i ''source_type'' ''NON_POLICY_SOURCE''
        ''Historical case, evidence, notes and examples are not production policy corpus inputs.''] else []) @
     (if di_status d \<notin> {PolApproved, PolActive} then [ingestion_error i ''status'' ''UNAPPROVED_OR_INACTIVE''
        ''Only approved or active policy documents can be ingested.''] else []) @
     (if (\<exists>t \<in> set_option (di_effective_to d). t < di_effective_from d) then [ingestion_error i ''effective_to''
        ''INVALID_EFFECTIVE_DATES'' ''effective_to must be after effective_from.''] else [])"

definition validate_documents :: "document_in list \<Rightarrow> pyval list" where
  "validate_documents ds = concat (map (\<lambda>(i, d). document_errors i d) (enumerate 0 ds))"

definition chunk_section :: "(string \<Rightarrow> string) \<Rightarrow> ingestion_request \<Rightarrow> document_in \<Rightarrow> section_in \<Rightarrow> chunk_parts" where
  "chunk_section sha q d s = (let content = strip (si_text s);
       h = sha (join ''|'' [di_document_id d, di_version d, si_section s, di_source_checksum d, iq_parser_version q,
         iq_chunking_config_hash q, content])
     in \<lparr>cp_section = si_section s, cp_content = content,
         cp_chunk_id = di_document_id d @ '':'' @ di_version d @ '':'' @ si_section s @ '':'' @ take 12 h,
         cp_chunk_hash = h\<rparr>)"

definition chunk_document :: "(string \<Rightarrow> string) \<Rightarrow> ingestion_request \<Rightarrow> document_in \<Rightarrow> chunk_parts list" where
  "chunk_document sha q d = map (chunk_section sha q d) (di_sections d)"

section \<open>Ingesting\<close>

definition validate_admin_actor :: "string \<Rightarrow> unit app" where
  "validate_admin_actor actor = require (actor \<noteq> []) PolicyAuthorization"

definition admin_source :: string where
  "admin_source = ''policy-admin-api''"

definition store_chunk :: "ingestion_row \<Rightarrow> document_row \<Rightarrow> int \<Rightarrow> chunk_parts \<Rightarrow> unit app" where
  "store_chunk run d now p = bnd (ask (\<lambda>e. format_vector (embed (en_sha e) (cp_content p)))) (\<lambda>v. add_chunk run d p v now)"

definition ingest_document :: "ingestion_request \<Rightarrow> ingestion_row \<Rightarrow> string \<Rightarrow> int \<Rightarrow> document_in \<Rightarrow> nat app" where
  "ingest_document q run correlation now d = bnd (add_document run d now) (\<lambda>r.
     bnd (ask (\<lambda>e. chunk_document (en_sha e) q d)) (\<lambda>parts.
     andthen (each (store_chunk run r now) parts)
     (bnd (policy_audit ''POLICY_INGESTION_ACCEPTED'' (iq_actor_ref q) admin_source ''accepted'' correlation now
        (Some (ig_run_id run)) (Some (di_document_id d)) (Some (di_version d)) (Some (di_source_checksum d))
        [(''status'', VStr (policy_status_text (di_status d))), (''source_identity'', VStr (di_source_identity d)),
         (''product'', VStr (di_product d)), (''channel'', VStr (di_channel d)),
         (''jurisdiction'', VStr (di_jurisdiction d))]) (\<lambda>_. ret (length parts)))))"

definition indexed_telemetry :: "nat \<Rightarrow> nat \<Rightarrow> (string, pyval) dict" where
  "indexed_telemetry ds cs = [(''documents'', VInt (int ds)), (''chunks'', VInt (int cs)),
     (''vector_index_ready'', VBool True), (''lexical_index_ready'', VBool True)]"

definition accept_documents :: "ingestion_request \<Rightarrow> string \<Rightarrow> int \<Rightarrow> string app" where
  "accept_documents q correlation now = bnd (create_ingestion q admin_source correlation now) (\<lambda>run.
     bnd (collect (ingest_document q run correlation now) (iq_documents q)) (\<lambda>ns.
     andthen (complete_ingestion run ''indexed'' [] (indexed_telemetry (length (iq_documents q)) (sum_list ns)) now)
     (ret (ig_run_id run))))"

definition reject_documents :: "ingestion_request \<Rightarrow> string \<Rightarrow> int \<Rightarrow> pyval list \<Rightarrow> unit app" where
  "reject_documents q correlation now errors = bnd (create_ingestion q admin_source correlation now) (\<lambda>run.
     andthen (complete_ingestion run ''failed_validation'' errors
       [(''documents'', VInt (int (length (iq_documents q)))), (''chunks'', VInt 0)] now)
     (bnd (policy_audit ''POLICY_INGESTION_REJECTED'' (iq_actor_ref q) admin_source ''rejected'' (ig_correlation_id run)
        now (Some (ig_run_id run)) None None None [(''validation_errors'', VList errors)]) (\<lambda>_. ret ())))"

record ingestion_out =
  io_run :: ingestion_row
  io_documents :: "(document_row \<times> chunk_row list) list"
  io_audits :: "policy_audit_row list"

definition ingestion_view :: "string \<Rightarrow> ingestion_out app" where
  "ingestion_view rid = bnd (get_ingestion rid) (\<lambda>found. case found of
     None \<Rightarrow> raise PolicyRunNotFound
   | Some run \<Rightarrow> look (\<lambda>s. \<lparr>io_run = run, io_documents = map (\<lambda>d. (d, document_chunks s d)) (run_documents rid s),
       io_audits = run_audits rid s\<rparr>))"

definition ingest :: "ingestion_request \<Rightarrow> string \<Rightarrow> ingestion_out app" where
  "ingest q correlation = andthen (validate_admin_actor (iq_actor_ref q)) (bnd utc_now (\<lambda>now.
     let errors = validate_documents (iq_documents q) in
     if errors \<noteq> [] then andthen (transact (reject_documents q correlation now errors)) (raise (PolicyValidation errors))
     else bnd (transact (accept_documents q correlation now)) ingestion_view))"

definition create_reindex_run :: "ingestion_request \<Rightarrow> string \<Rightarrow> ingestion_out app" where
  "create_reindex_run q correlation = bnd (ingest q correlation) (\<lambda>out. bnd utc_now (\<lambda>now.
     andthen (bnd (policy_audit ''POLICY_REINDEX_CREATED'' (iq_actor_ref q) admin_source ''created'' correlation now
        (Some (ig_run_id (io_run out))) None None None
        [(''parser_version'', VStr (iq_parser_version q)), (''chunking_config_hash'', VStr (iq_chunking_config_hash q)),
         (''embedding_model'', VStr (iq_embedding_model q)),
         (''retrieval_index_config_hash'', VStr (iq_retrieval_index_config_hash q))]) (\<lambda>_. ret ()))
     (ingestion_view (ig_run_id (io_run out)))))"

section \<open>Promotion\<close>

definition all_chunks :: "string \<Rightarrow> store \<Rightarrow> chunk_row list" where
  "all_chunks rid s = concat (map (document_chunks s) (run_documents rid s))"

definition unit_metric :: "bool \<Rightarrow> pyval" where
  "unit_metric b = VFin (Dec False (if b then 1 else 0) 0)"

definition run_metrics :: "chunk_row list \<Rightarrow> (string \<times> bool) list" where
  "run_metrics cs = [(''retrieval_quality'', cs \<noteq> []),
     (''citation_correctness'', \<forall>c \<in> set cs. ch_document_id c \<noteq> [] \<and> ch_version c \<noteq> [] \<and> ch_section c \<noteq> []),
     (''metadata_integrity'', \<forall>c \<in> set cs. ch_product c \<noteq> [] \<and> ch_channel c \<noteq> [] \<and> ch_jurisdiction c \<noteq> []),
     (''stale_policy_exclusion'', \<forall>c \<in> set cs. ch_status c \<in> set usable)]"

definition metric_dict :: "(string \<times> bool) list \<Rightarrow> (string, pyval) dict" where
  "metric_dict ms = map (\<lambda>(k, b). (k, unit_metric b)) ms"

definition metric_failures :: "(string \<times> bool) list \<Rightarrow> pyval list" where
  "metric_failures ms = map (\<lambda>(k, b). VDict [(''metric'', VStr k), (''threshold'', unit_metric True),
     (''actual'', unit_metric b)]) (filter (\<lambda>(_, b). \<not> b) ms)"

record promotion_out =
  po_promoted :: bool
  po_corpus_version :: string
  po_index_version :: string
  po_run_id :: string
  po_evaluation :: policy_evaluation_row
  po_active :: "string option"
  po_correlation_id :: string

definition promotion_response :: "promotion_request \<Rightarrow> policy_evaluation_row \<Rightarrow> bool \<Rightarrow> string \<Rightarrow> promotion_out app" where
  "promotion_response q ev promoted correlation = bnd active_corpus (\<lambda>active.
     ret \<lparr>po_promoted = promoted, po_corpus_version = pq_corpus_version q, po_index_version = pq_index_version q,
          po_run_id = pq_run_id q, po_evaluation = ev, po_active = map_option co_corpus_version active,
          po_correlation_id = correlation\<rparr>)"

definition evaluate_run :: "promotion_request \<Rightarrow> ingestion_row \<Rightarrow> string \<Rightarrow> int \<Rightarrow>
    ((string \<times> bool) list \<times> bool \<times> policy_evaluation_row) app" where
  "evaluate_run q run correlation now = bnd (look (\<lambda>s. run_metrics (all_chunks (ig_run_id run) s))) (\<lambda>ms.
     let passed = (ig_status run = ''indexed'' \<and> metric_failures ms = [])
     in bnd (add_policy_evaluation (ig_run_id run) (pq_corpus_version q) (pq_index_version q) passed (metric_dict ms)
          (metric_failures ms) correlation now) (\<lambda>ev. ret (ms, passed, ev)))"

definition deny_promotion :: "promotion_request \<Rightarrow> ingestion_row \<Rightarrow> (string \<times> bool) list \<Rightarrow> string \<Rightarrow> int \<Rightarrow> unit app" where
  "deny_promotion q run ms correlation now = bnd (policy_audit ''POLICY_CORPUS_PROMOTION_DENIED'' (pq_actor_ref q)
     admin_source ''denied'' correlation now (Some (ig_run_id run)) None None None
     [(''corpus_version'', VStr (pq_corpus_version q)), (''index_version'', VStr (pq_index_version q)),
      (''evaluation_passed'', VBool False), (''threshold_failures'', VList (metric_failures ms))]) (\<lambda>_. ret ())"

definition grant_promotion :: "promotion_request \<Rightarrow> ingestion_row \<Rightarrow> (string \<times> bool) list \<Rightarrow> string \<Rightarrow> int \<Rightarrow> unit app" where
  "grant_promotion q run ms correlation now =
     bnd (promote_corpus (ig_run_id run) (pq_corpus_version q) (pq_index_version q) (pq_actor_ref q) correlation now) (\<lambda>_.
     bnd (policy_audit ''POLICY_CORPUS_PROMOTED'' (pq_actor_ref q) admin_source ''promoted'' correlation now
       (Some (ig_run_id run)) None None None
       [(''corpus_version'', VStr (pq_corpus_version q)), (''index_version'', VStr (pq_index_version q)),
        (''evaluation_passed'', VBool True), (''metrics'', VDict (metric_dict ms))]) (\<lambda>_. ret ()))"

definition promote :: "promotion_request \<Rightarrow> string \<Rightarrow> promotion_out app" where
  "promote q correlation = andthen (validate_admin_actor (pq_actor_ref q)) (bnd utc_now (\<lambda>now.
     bnd (get_ingestion (pq_run_id q)) (\<lambda>found. case found of
       None \<Rightarrow> raise PolicyRunNotFound
     | Some run \<Rightarrow> bnd (transact (bnd (evaluate_run q run correlation now) (\<lambda>(ms, passed, ev).
         andthen (if passed then grant_promotion q run ms correlation now else deny_promotion q run ms correlation now)
           (ret (passed, ev))))) (\<lambda>(passed, ev). promotion_response q ev passed correlation))))"

section \<open>Lineage\<close>

record lineage_out =
  lo_chunk :: chunk_row
  lo_corpus_version :: "string option"
  lo_index_version :: "string option"
  lo_correlation_id :: string

definition lineage :: "string \<Rightarrow> string \<Rightarrow> lineage_out app" where
  "lineage chunk_id correlation = bnd (look (chunk_of chunk_id)) (\<lambda>found. case found of
     None \<Rightarrow> raise PolicyRunNotFound
   | Some c \<Rightarrow> bnd active_corpus (\<lambda>active. let mine = (case active of None \<Rightarrow> None
         | Some a \<Rightarrow> if co_run_id a = ch_run_id c then Some a else None)
       in ret \<lparr>lo_chunk = c, lo_corpus_version = map_option co_corpus_version mine,
            lo_index_version = map_option co_index_version mine, lo_correlation_id = correlation\<rparr>))"

end
