(* ===== verification/Retrieval.thy ===== *)
theory Retrieval
  imports Ingestion
begin

text \<open>
  \<open>app/services/policy_retrieval.py\<close> and \<open>PolicyRepository.hybrid_retrieve\<close>: the admitted chunks are scored, fused,
  ranked and either returned with their citations or withheld with a reason; both outcomes are audited.
  The two scores of a chunk come from the database (\<open>ts_rank_cd\<close> and the vector distance of PostgreSQL, or
  their replacement on SQLite): the argument \<open>scores\<close> of a query, its embedding and a chunk.
\<close>

section \<open>The hybrid query\<close>

type_synonym scoring = "string \<Rightarrow> string \<Rightarrow> chunk_row \<Rightarrow> dec \<times> dec"

record scored_row =
  sw_chunk :: chunk_row
  sw_lexical :: dec
  sw_vector :: dec

definition scored :: "scoring \<Rightarrow> string \<Rightarrow> string \<Rightarrow> chunk_row \<Rightarrow> scored_row" where
  "scored scores query vector c = (let (l, v) = scores query vector c in \<lparr>sw_chunk = c, sw_lexical = l, sw_vector = v\<rparr>)"

definition descending :: "('a \<Rightarrow> 'k :: linorder) \<Rightarrow> 'a list \<Rightarrow> 'a list" where
  "descending f xs = rev (sort_key f (rev xs))"

text \<open>\<open>ORDER BY\<close> and \<open>sorted(reverse=True)\<close>: on PostgreSQL the text columns break ties upwards, on SQLite downwards.\<close>

definition postgres_order :: "scored_row list \<Rightarrow> scored_row list" where
  "postgres_order rows = descending (fl_val \<circ> sw_lexical) (descending (fl_val \<circ> sw_vector)
     (sort_key (ch_document_id \<circ> sw_chunk) (sort_key (ch_version \<circ> sw_chunk) (sort_key (ch_section \<circ> sw_chunk) rows))))"

definition sqlite_order :: "scored_row list \<Rightarrow> scored_row list" where
  "sqlite_order rows = descending (fl_val \<circ> sw_lexical) (descending (fl_val \<circ> sw_vector)
     (descending (ch_document_id \<circ> sw_chunk) (descending (ch_version \<circ> sw_chunk) (descending (ch_section \<circ> sw_chunk) rows))))"

definition hybrid_order :: "bool \<Rightarrow> scored_row list \<Rightarrow> scored_row list" where
  "hybrid_order sqlite rows = (if sqlite then sqlite_order rows else postgres_order rows)"

lemmas hybrid_defs = hybrid_order_def postgres_order_def sqlite_order_def

definition hybrid_retrieve :: "scoring \<Rightarrow> bool \<Rightarrow> corpus_row \<Rightarrow> retrieval_request \<Rightarrow> string \<Rightarrow> string list \<Rightarrow> store \<Rightarrow>
    scored_row list" where
  "hybrid_retrieve scores sqlite corpus q vector ids s = take (rc_top_k (rr_config q)) (hybrid_order sqlite
     (map (scored scores (rr_query q) vector) (filter (\<lambda>c. ch_chunk_id c \<in> set ids)
        (eligible_chunks corpus (rr_effective_date q) (rr_product q) (rr_channel q) (rr_jurisdiction q) s))))"

section \<open>Ranking\<close>

definition fused_score :: "retrieval_config \<Rightarrow> scored_row \<Rightarrow> dec" where
  "fused_score cfg r = round_six (fl_add (fl_mul (fl_val (sw_lexical r)) (fl_val (rc_lexical_weight cfg)))
     (fl_mul (fl_val (sw_vector r)) (fl_val (rc_vector_weight cfg))))"

definition rank_rows :: "retrieval_config \<Rightarrow> scored_row list \<Rightarrow> (nat \<times> dec \<times> scored_row) list" where
  "rank_rows cfg rows = map (\<lambda>(i, r). (i, fused_score cfg r, r)) (enumerate 1 (take (rc_top_k cfg)
     (descending (fl_val \<circ> fused_score cfg) (descending (fl_val \<circ> sw_lexical) (descending (fl_val \<circ> sw_vector)
       (descending (ch_document_id \<circ> sw_chunk) (descending (ch_version \<circ> sw_chunk)
         (descending (ch_section \<circ> sw_chunk) rows))))))))"

definition cited :: "chunk_row \<Rightarrow> bool" where
  "cited c \<longleftrightarrow> ch_document_id c \<noteq> [] \<and> ch_version c \<noteq> [] \<and> ch_section c \<noteq> [] \<and> ch_chunk_id c \<noteq> [] \<and>
     ch_chunk_hash c \<noteq> [] \<and> ch_run_id c \<noteq> []"

definition is_ambiguous :: "retrieval_config \<Rightarrow> (nat \<times> dec \<times> scored_row) list \<Rightarrow> bool" where
  "is_ambiguous cfg ranked = (case ranked of (_, a, _) # (_, b, _) # _ \<Rightarrow>
       fl_sub (fl_val a) (fl_val b) \<le> fl_val (rc_ambiguity_threshold cfg) | _ \<Rightarrow> False)"

text \<open>Why a ranking is withheld, in the order of the checks.\<close>

definition withheld :: "retrieval_config \<Rightarrow> (nat \<times> dec \<times> scored_row) list \<Rightarrow> abstention option" where
  "withheld cfg ranked = (case ranked of [] \<Rightarrow> Some LowRetrievalConfidence
     | (_, best, _) # _ \<Rightarrow>
         if rc_require_citations cfg \<and> (\<exists>(_, _, r) \<in> set ranked. \<not> cited (sw_chunk r)) then Some MissingCitation
         else if fl_val best < fl_val (rc_minimum_confidence cfg) then Some LowRetrievalConfidence
         else if is_ambiguous cfg ranked then Some AmbiguousResults else None)"

definition chunk_out :: "corpus_row \<Rightarrow> retrieval_config \<Rightarrow> nat \<times> dec \<times> scored_row \<Rightarrow> retrieved_chunk" where
  "chunk_out corpus cfg = (\<lambda>(i, f, r). let c = sw_chunk r in \<lparr>rk_rank = i, rk_chunk_id = ch_chunk_id c,
     rk_content = ch_content c, rk_lexical_score = sw_lexical r, rk_vector_score = sw_vector r, rk_fused_score = f,
     rk_reranker_mode = rc_reranker_mode cfg,
     rk_citation = \<lparr>ct_document_id = ch_document_id c, ct_version = ch_version c, ct_section = ch_section c,
       ct_chunk_id = ch_chunk_id c, ct_chunk_hash = ch_chunk_hash c, ct_effective_from = ch_effective_from c,
       ct_effective_to = ch_effective_to c, ct_run_id = ch_run_id c, ct_corpus_version = co_corpus_version corpus,
       ct_index_version = co_index_version corpus\<rparr>\<rparr>)"

section \<open>Telemetry and audit\<close>

definition retrieval_telemetry_of :: "retrieval_request \<Rightarrow> string \<Rightarrow> corpus_row option \<Rightarrow> nat \<Rightarrow> nat \<Rightarrow> dec \<Rightarrow>
    abstention option \<Rightarrow> int \<Rightarrow> retrieval_telemetry" where
  "retrieval_telemetry_of q correlation corpus candidates returned confidence reason ms = \<lparr>rl_case_id = rr_case_id q,
     rl_workflow_id = rr_workflow_id q, rl_correlation_id = correlation,
     rl_corpus_version = map_option co_corpus_version corpus, rl_index_version = map_option co_index_version corpus,
     rl_config_version = rc_version (rr_config q), rl_eligible_count = candidates, rl_returned_count = returned,
     rl_confidence = confidence, rl_reason = reason, rl_latency_ms = max 0 ms\<rparr>"

definition dump_retrieval_telemetry :: "retrieval_telemetry \<Rightarrow> pyval" where
  "dump_retrieval_telemetry t = VDict [(''case_id'', VOpt VStr (rl_case_id t)), (''workflow_id'', VOpt VStr (rl_workflow_id t)),
     (''correlation_id'', VStr (rl_correlation_id t)), (''corpus_version'', VOpt VStr (rl_corpus_version t)),
     (''index_version'', VOpt VStr (rl_index_version t)), (''retrieval_config_version'', VStr (rl_config_version t)),
     (''eligible_candidate_count'', VInt (int (rl_eligible_count t))),
     (''returned_result_count'', VInt (int (rl_returned_count t))), (''confidence'', VFin (rl_confidence t)),
     (''abstention_reason'', VOpt (\<lambda>a. VStr (abstention_text a)) (rl_reason t)), (''latency_ms'', VInt (rl_latency_ms t))]"

definition retrieval_audit :: "string \<Rightarrow> string \<Rightarrow> string \<Rightarrow> string \<Rightarrow> int \<Rightarrow> string option \<Rightarrow> (string, pyval) dict \<Rightarrow>
    policy_audit_row app" where
  "retrieval_audit event actor decision correlation now run metadata =
     rename_exc (\<lambda>x. if x = AuditWrite then RetrievalAudit else x)
       (policy_audit event actor ''policy-retrieval-api'' decision correlation now run None None None metadata)"

definition zero_score :: dec where
  "zero_score = Dec False 0 0"

definition abstain :: "retrieval_request \<Rightarrow> string \<Rightarrow> int \<Rightarrow> corpus_row option \<Rightarrow> (string, pyval) dict \<Rightarrow> nat \<Rightarrow> nat \<Rightarrow>
    abstention \<Rightarrow> retrieval_response app" where
  "abstain q correlation now corpus eligibility candidates returned reason = bnd elapsed_ms (\<lambda>ms.
     let t = retrieval_telemetry_of q correlation corpus candidates returned zero_score (Some reason) ms in
     bnd (retrieval_audit ''POLICY_RETRIEVAL_ABSTAINED'' (rr_actor_ref q) ''policy_review_required'' correlation now None
       [(''abstention_reason'', VStr (abstention_text reason)), (''eligibility'', VDict eligibility),
        (''corpus_version'', VOpt (VStr \<circ> co_corpus_version) corpus), (''index_version'', VOpt (VStr \<circ> co_index_version) corpus),
        (''retrieval_config_version'', VStr (rc_version (rr_config q))),
        (''eligible_candidate_count'', VInt (int candidates)), (''returned_result_count'', VInt (int returned)),
        (''requires_policy_review'', VBool True), (''telemetry'', dump_retrieval_telemetry t)]) (\<lambda>a.
     ret \<lparr>rp_eligibility = eligibility, rp_status = ''abstained'', rp_approved_context = False, rp_requires_review = True,
       rp_confidence = zero_score, rp_reason = Some reason,
       rp_review = \<lparr>rs_required = True, rs_reason = Some reason,
         rs_message = Some ''Manual policy review is required before continuation.''\<rparr>,
       rp_results = [], rp_corpus_version = map_option co_corpus_version corpus,
       rp_index_version = map_option co_index_version corpus, rp_config = rr_config q,
       rp_correlation_id = correlation, rp_audit_event_id = pa_event_id a, rp_telemetry = t\<rparr>))"

definition citation_versions :: "retrieved_chunk list \<Rightarrow> pyval" where
  "citation_versions rs = VList (map (\<lambda>r. VDict [(''document_id'', VStr (ct_document_id (rk_citation r))),
     (''version'', VStr (ct_version (rk_citation r))), (''section'', VStr (ct_section (rk_citation r)))]) rs)"

definition answer :: "retrieval_request \<Rightarrow> string \<Rightarrow> int \<Rightarrow> corpus_row \<Rightarrow> (string, pyval) dict \<Rightarrow> nat \<Rightarrow> dec \<Rightarrow>
    retrieved_chunk list \<Rightarrow> retrieval_response app" where
  "answer q correlation now corpus eligibility candidates best rs = bnd elapsed_ms (\<lambda>ms.
     let t = retrieval_telemetry_of q correlation (Some corpus) candidates (length rs) best None ms in
     bnd (retrieval_audit ''POLICY_RETRIEVAL_COMPLETED'' (rr_actor_ref q) ''retrieved'' correlation now (Some (co_run_id corpus))
       [(''corpus_version'', VStr (co_corpus_version corpus)), (''index_version'', VStr (co_index_version corpus)),
        (''retrieval_config_version'', VStr (rc_version (rr_config q))),
        (''selected_chunk_ids'', VStrs (map rk_chunk_id rs)), (''document_versions'', citation_versions rs),
        (''eligible_candidate_count'', VInt (int candidates)), (''returned_result_count'', VInt (int (length rs))),
        (''confidence'', VFin best), (''telemetry'', dump_retrieval_telemetry t), (''eligibility'', VDict eligibility)]) (\<lambda>a.
     ret \<lparr>rp_eligibility = eligibility, rp_status = ''retrieved'', rp_approved_context = True, rp_requires_review = False,
       rp_confidence = best, rp_reason = None, rp_review = \<lparr>rs_required = False, rs_reason = None, rs_message = None\<rparr>,
       rp_results = rs, rp_corpus_version = Some (co_corpus_version corpus),
       rp_index_version = Some (co_index_version corpus), rp_config = rr_config q, rp_correlation_id = correlation,
       rp_audit_event_id = pa_event_id a, rp_telemetry = t\<rparr>))"

section \<open>Retrieving\<close>

definition retrieve_from :: "scoring \<Rightarrow> corpus_row \<Rightarrow> retrieval_request \<Rightarrow> string \<Rightarrow> int \<Rightarrow> (string, pyval) dict \<Rightarrow> string list \<Rightarrow>
    retrieval_response app" where
  "retrieve_from scores corpus q correlation now eligibility ids =
     bnd (ask (\<lambda>e. (en_sqlite e, format_vector (embed (en_sha e) (rr_query q))))) (\<lambda>(sqlite, vector).
     bnd (look (hybrid_retrieve scores sqlite corpus q vector ids)) (\<lambda>rows.
     let ranked = rank_rows (rr_config q) rows in
     case withheld (rr_config q) ranked of
       Some reason \<Rightarrow> abstain q correlation now (Some corpus) eligibility (length ids) (length ranked) reason
     | None \<Rightarrow> answer q correlation now corpus eligibility (length ids) (fst (snd (hd ranked)))
         (map (chunk_out corpus (rr_config q)) ranked)))"

definition retrieve :: "scoring \<Rightarrow> retrieval_request \<Rightarrow> string \<Rightarrow> eligibility_profile option \<Rightarrow> retrieval_response app" where
  "retrieve scores q correlation profile = andthen (require (rr_actor_ref q \<noteq> []) PolicyAuthorization)
     (bnd utc_now (\<lambda>now. bnd active_corpus (\<lambda>active. case active of
       None \<Rightarrow> abstain q correlation now None [] 0 0 MissingActiveCorpus
     | Some corpus \<Rightarrow> bnd (evaluate_eligibility corpus q profile) (\<lambda>(ds, el). let ids = admitted_ids ds in
         if ids = [] then abstain q correlation now (Some corpus) el 0 0 NoEligibleCandidates
         else retrieve_from scores corpus q correlation now el ids))))"

section \<open>The evaluation of the active corpus\<close>

text \<open>The fixed question of the evaluation, asked on 4 September 2026.\<close>

definition duplicate_card_eval_request :: "retrieval_config \<Rightarrow> string \<Rightarrow> retrieval_request" where
  "duplicate_card_eval_request cfg actor =
     \<lparr>rr_query = ''duplicate card transaction issuer review evidence merchant context'', rr_dispute_type = DuplicateCard,
      rr_effective_date = day_number 2026 9 4 * us_per_day, rr_product = ''card'', rr_channel = ''web'',
      rr_jurisdiction = ''US'', rr_actor_ref = actor, rr_case_id = None, rr_workflow_id = None, rr_config = cfg\<rparr>"

definition retrieval_metrics :: "corpus_row \<Rightarrow> retrieval_response \<Rightarrow> (string \<times> bool) list" where
  "retrieval_metrics corpus r = [(''retrieval_quality'', rp_approved_context r), (''citation_correctness'', rp_results r \<noteq> []),
     (''metadata_filtering'', \<forall>x \<in> set (rp_results r). ct_corpus_version (rk_citation x) = co_corpus_version corpus),
     (''stale_policy_exclusion'', \<forall>x \<in> set (rp_results r). \<not> contains ''STALE'' (ct_document_id (rk_citation x)))]"

definition no_corpus_metrics :: "(string \<times> bool) list" where
  "no_corpus_metrics = map (\<lambda>k. (k, False)) [''retrieval_quality'', ''citation_correctness'', ''metadata_filtering'',
     ''stale_policy_exclusion'']"

record retrieval_evaluation =
  vo_accepted :: bool
  vo_corpus_version :: "string option"
  vo_index_version :: "string option"
  vo_config_version :: string
  vo_evaluation :: policy_evaluation_row
  vo_correlation_id :: string

definition versioned_metrics :: "retrieval_config \<Rightarrow> (string \<times> bool) list \<Rightarrow> (string, pyval) dict" where
  "versioned_metrics cfg ms = metric_dict ms @ [(''retrieval_config_version'', VStr (rc_version cfg))]"

definition nil_uuid :: string where
  "nil_uuid = ''00000000-0000-0000-0000-000000000000''"

definition no_corpus_evaluation :: "retrieval_config \<Rightarrow> string \<Rightarrow> int \<Rightarrow> retrieval_evaluation" where
  "no_corpus_evaluation cfg correlation now = \<lparr>vo_accepted = False, vo_corpus_version = None, vo_index_version = None,
     vo_config_version = rc_version cfg,
     vo_evaluation = \<lparr>pe_evaluation_id = nil_uuid, pe_run_id = nil_uuid, pe_corpus_version = ''none'',
       pe_index_version = ''none'', pe_passed = False, pe_metrics = versioned_metrics cfg no_corpus_metrics,
       pe_failures = metric_failures no_corpus_metrics, pe_correlation_id = correlation, pe_evaluated_at = now\<rparr>,
     vo_correlation_id = correlation\<rparr>"

definition some_version :: "string \<Rightarrow> string option" where
  "some_version v = (if v = ''none'' then None else Some v)"

definition evaluate_retrieval :: "scoring \<Rightarrow> retrieval_config \<Rightarrow> string \<Rightarrow> string \<Rightarrow> retrieval_evaluation app" where
  "evaluate_retrieval scores cfg actor correlation = andthen (require (actor \<noteq> []) PolicyAuthorization)
     (bnd utc_now (\<lambda>now. bnd active_corpus (\<lambda>active. case active of
       None \<Rightarrow> ret (no_corpus_evaluation cfg correlation now)
     | Some corpus \<Rightarrow> bnd (retrieve scores (duplicate_card_eval_request cfg actor) correlation None) (\<lambda>r.
         let ms = retrieval_metrics corpus r in
         bnd (add_policy_evaluation (co_run_id corpus) (co_corpus_version corpus) (co_index_version corpus)
           (metric_failures ms = []) (versioned_metrics cfg ms) (metric_failures ms) correlation now) (\<lambda>ev.
         ret \<lparr>vo_accepted = (metric_failures ms = []), vo_corpus_version = some_version (co_corpus_version corpus),
              vo_index_version = some_version (co_index_version corpus), vo_config_version = rc_version cfg,
              vo_evaluation = ev, vo_correlation_id = correlation\<rparr>)))))"

end
