(* ===== verification/WorkflowSvc.thy ===== *)
theory WorkflowSvc
  imports CaseSvc ControlFlow Retrieval
begin

text \<open>
  \<open>app/services/workflow_service.py\<close>: starting, reading and resuming a workflow.  A start and a resume
  run the graph inside one transaction, between two checkpoints and two audit events, and record their
  response; the object's collaborators (the model providers, the bank, the scores of the policy search) are the
  record \<open>services\<close>.  The system's local time, that \<open>astimezone\<close> reads for a zoneless time, is one of them.
\<close>

section \<open>Constants and failures\<close>

definition WORKFLOW_START_OPERATION :: string where
  "WORKFLOW_START_OPERATION = ''workflow-start''"

definition WORKFLOW_RESUME_OPERATION :: string where
  "WORKFLOW_RESUME_OPERATION = ''workflow-resume''"

definition MAX_WORKFLOW_RETRIES :: int where
  "MAX_WORKFLOW_RETRIES = 3"

datatype failure_kind = Retriable | ManualDegradation | ValidationFailure | Fatal

definition classify_workflow_failure :: "string \<Rightarrow> int \<Rightarrow> failure_kind" where
  "classify_workflow_failure code attempts = (let s = lower code in
     if list_ex (\<lambda>m. contains m s) [''validation'', ''invalid'', ''stale'', ''conflict''] then ValidationFailure
     else if list_ex (\<lambda>m. contains m s) [''audit'', ''integrity'', ''unauthorized''] then Fatal
     else if MAX_WORKFLOW_RETRIES \<le> attempts then ManualDegradation else Retriable)"

section \<open>Collaborators\<close>

record services =
  sv_ai :: ai_settings
  sv_route :: route_config
  sv_provider :: model_provider
  sv_fallback :: model_provider
  sv_bank :: banking
  sv_scores :: scoring
  sv_local_utc :: "int \<Rightarrow> int"

section \<open>The graph's arguments\<close>

definition read_enum :: "('a \<Rightarrow> string) \<Rightarrow> 'a list \<Rightarrow> pyval \<Rightarrow> 'a option py" where
  "read_enum f xs v = (case v of VNone \<Rightarrow> Inr None
     | VStr s \<Rightarrow> (case find (\<lambda>x. f x = s) xs of None \<Rightarrow> Inl ValueErr | Some x \<Rightarrow> Inr (Some x))
     | _ \<Rightarrow> Inl ValueErr)"

definition class_input_of :: "wf_state \<Rightarrow> class_input py" where
  "class_input_of st = rbind (state_case st) (\<lambda>c.
     rbind (getitem (VDict c) ''description'') (\<lambda>d. rbind (getitem (VDict c) ''transaction_ref'') (\<lambda>t.
     rbind (read_enum dispute_type_text [DuplicateCard, FailedUpi, AtmDebit] (dict_get c ''dispute_type'' VNone)) (\<lambda>hint.
     rbind (read_enum channel_text [Web, Mobile, Analyst, PartnerApi] (dict_get c ''channel'' VNone)) (\<lambda>ch.
     if sized 1 4000 (py_str d) \<and> sized 0 80 (py_str t) \<and> sized 1 100 (ws_correlation_id st) then
       Inr \<lparr>ci_case_id = Some (ws_case_id st), ci_workflow_id = Some (ws_workflow_id st), ci_description = py_str d,
         ci_hint = hint, ci_channel = ch, ci_transaction_ref = Some (py_str t),
         ci_evidence_count = (case dict_get c ''evidence_metadata'' (VList []) of VList xs \<Rightarrow> length xs | _ \<Rightarrow> 0),
         ci_correlation_id = ws_correlation_id st\<rparr>
     else Inl ValueErr)))))"

definition classify_dispute :: "services \<Rightarrow> wf_state \<Rightarrow> decision app" where
  "classify_dispute sv st = bnd (of_py (class_input_of st))
     (classify (sv_ai sv) (sv_route sv) (sv_provider sv) (sv_fallback sv))"

definition no_corpus_response :: "wf_state \<Rightarrow> retrieval_response" where
  "no_corpus_response st = \<lparr>rp_eligibility = [], rp_status = ''abstained'', rp_approved_context = False,
     rp_requires_review = True, rp_confidence = Dec False 0 0, rp_reason = Some MissingActiveCorpus,
     rp_review = \<lparr>rs_required = True, rs_reason = Some MissingActiveCorpus,
       rs_message = Some ''Manual policy review is required before continuation.''\<rparr>,
     rp_results = [], rp_corpus_version = None, rp_index_version = None, rp_config = default_config,
     rp_correlation_id = ws_correlation_id st, rp_audit_event_id = ws_workflow_id st,
     rp_telemetry = \<lparr>rl_case_id = Some (ws_case_id st), rl_workflow_id = Some (ws_workflow_id st),
       rl_correlation_id = ws_correlation_id st, rl_corpus_version = None, rl_index_version = None,
       rl_config_version = ''retrieval-config-v1'', rl_eligible_count = 0, rl_returned_count = 0,
       rl_confidence = Dec False 0 0, rl_reason = Some MissingActiveCorpus, rl_latency_ms = 0\<rparr>\<rparr>"

definition submitted_instant :: "(int \<Rightarrow> int) \<Rightarrow> (string, pyval) dict \<Rightarrow> int py" where
  "submitted_instant local_utc c = rbind (rbind (getitem (VDict c) ''submitted_at'') text_of) (\<lambda>s.
     rmap (\<lambda>t. case t of Aware u \<Rightarrow> u | Naive u \<Rightarrow> local_utc u) (fromisoformat (replace_char CHR ''Z'' ''+00:00'' s)))"

definition legacy_query :: "(int \<Rightarrow> int) \<Rightarrow> wf_state \<Rightarrow> retrieval_request py" where
  "legacy_query local_utc st = rbind (state_case st) (\<lambda>c. rbind (submitted_instant local_utc c) (\<lambda>effective.
     rbind (getitem (VDict c) ''description'') (\<lambda>d. rbind (getitem (VDict c) ''channel'') (\<lambda>ch.
     let q = \<lparr>rr_query = ''duplicate card transaction dispute '' @ py_str d, rr_dispute_type = DuplicateCard,
       rr_effective_date = effective, rr_product = ''card'', rr_channel = py_str ch, rr_jurisdiction = ''US'',
       rr_actor_ref = ''workflow-policy-node'', rr_case_id = Some (ws_case_id st),
       rr_workflow_id = Some (ws_workflow_id st), rr_config = default_config\<rparr>
     in if valid_retrieval_request q then Inr q else Inl ValueErr))))"

definition retrieve_policy :: "services \<Rightarrow> wf_state \<Rightarrow> retrieval_response app" where
  "retrieve_policy sv st = bnd active_corpus (\<lambda>corpus. case corpus of
     None \<Rightarrow> ret (no_corpus_response st)
   | Some _ \<Rightarrow> bnd (of_py (legacy_query (sv_local_utc sv) st)) (\<lambda>q. retrieve (sv_scores sv) q (ws_correlation_id st) None))"

section \<open>Running the graph\<close>

definition is_control :: "string \<Rightarrow> bool" where
  "is_control graph_version \<longleftrightarrow> graph_version = CONTROL_GRAPH_VERSION"

definition service_graph :: "services \<Rightarrow> bool \<Rightarrow> graph_config" where
  "service_graph sv control = \<lparr>gc_classify = classify_dispute sv, gc_retrieve = retrieve_policy sv,
     gc_control = (if control then Some (control_graph_nodes (sv_bank sv) (retrieve (sv_scores sv))) else None)\<rparr>"

definition fresh_control_state :: "wf_state \<Rightarrow> wf_state" where
  "fresh_control_state st = st\<lparr>ws_status := ''RUNNING'', ws_interrupt := [(''required'', VBool False)],
     ws_summaries := filter (\<lambda>(k, _). k = ''classification'') (ws_summaries st), ws_telemetry := []\<rparr>"

definition execute_graph :: "services \<Rightarrow> wf_state \<Rightarrow> wf_state app" where
  "execute_graph sv st =
     (if is_control (ws_graph_version st) then
        andthen new_control (bnd (invoke_graph (service_graph sv True) (fresh_control_state st)) (\<lambda>r.
        ret (r\<lparr>ws_case := None, ws_resume := None\<rparr>)))
      else invoke_graph (service_graph sv False) st)"

section \<open>States, telemetry and responses\<close>

definition initial_state :: "case_response \<Rightarrow> string \<Rightarrow> string \<Rightarrow> int \<Rightarrow> string \<Rightarrow> (string, pyval) dict \<Rightarrow> wf_state" where
  "initial_state c wid graph_version version correlation payload = \<lparr>ws_control_evaluation_id = None,
     ws_schema_version = ''1.0'', ws_case_id = ca_case_id (cr_case c), ws_workflow_id = wid,
     ws_graph_version = (if graph_version = [] then GRAPH_VERSION else graph_version), ws_state_version = version,
     ws_correlation_id = correlation, ws_current_node = ''start'', ws_status = ''RUNNING'',
     ws_interrupt = [(''required'', VBool False)], ws_summaries = [], ws_side_effects = [], ws_telemetry = [],
     ws_errors = [], ws_case = Some (dump_case_response c), ws_resume = Some payload\<rparr>"

definition validate_state :: "wf_state \<Rightarrow> unit app" where
  "validate_state st = rename_exc (\<lambda>x. if x = Py ValueErr then StateValidation else x)
     (bnd (of_py (validate_workflow_state_payload (state_entries st))) (\<lambda>_. ret ()))"

definition workflow_audit :: "string \<Rightarrow> string \<Rightarrow> string \<Rightarrow> int \<Rightarrow> string \<Rightarrow> (string, pyval) dict \<Rightarrow> int \<Rightarrow> unit app" where
  "workflow_audit case_id wid event version correlation metadata now = bnd (case_get case_id) (\<lambda>found. case found of
     None \<Rightarrow> raise CaseNotFound
   | Some c \<Rightarrow> bnd (audit_append (ca_case_id c) event wid version (VDict ((''workflow_id'', VStr wid) # metadata))
       correlation now) (\<lambda>_. ret ()))"

definition interrupt_reason :: "(string, pyval) dict \<Rightarrow> string option" where
  "interrupt_reason i = (case dict_get i ''reason'' VNone of VNone \<Rightarrow> None | v \<Rightarrow> Some (py_str v))"

definition telemetry_dict :: "string \<Rightarrow> string \<Rightarrow> string \<Rightarrow> string \<Rightarrow> int \<Rightarrow> string \<Rightarrow> string \<Rightarrow> nat \<Rightarrow> int \<Rightarrow> nat \<Rightarrow>
    int \<Rightarrow> (string, pyval) dict" where
  "telemetry_dict case_id wid graph_version node version correlation status nodes_run checkpoints_made interrupts latency =
     [(''case_id'', VStr case_id), (''workflow_id'', VStr wid), (''graph_version'', VStr graph_version),
      (''current_node'', VStr node), (''state_version'', VInt version), (''correlation_id'', VStr correlation),
      (''node_count'', VInt (int nodes_run)), (''checkpoint_count'', VInt checkpoints_made),
      (''interrupt_count'', VInt (int interrupts)), (''retry_count'', VInt 0), (''status'', VStr status),
      (''latency_ms'', VInt latency)]"

definition telemetry_from_state :: "wf_state \<Rightarrow> string \<Rightarrow> string \<Rightarrow> int \<Rightarrow> int \<Rightarrow> (string, pyval) dict" where
  "telemetry_from_state st status node checkpoints_made latency = dict_set
     (telemetry_dict (ws_case_id st) (ws_workflow_id st) (ws_graph_version st) node (ws_state_version st)
        (ws_correlation_id st) status (length (ws_telemetry st)) checkpoints_made
        (if truthy (dict_get (ws_interrupt st) ''required'' (VBool False)) then 1 else 0) latency)
     ''nodes'' (VList (ws_telemetry st))"

definition audit_event_type :: "string \<Rightarrow> string" where
  "audit_event_type status =
     (if take 8 status = ''WAITING_'' \<or> status \<in> {''MANUAL_PROCESSING'', ''CONTROLLED_STOP''} then ''WORKFLOW_INTERRUPTED''
      else if status = ''FAILED'' then ''WORKFLOW_FAILED'' else ''WORKFLOW_CHECKPOINTED'')"

definition to_workflow_response :: "run_row \<Rightarrow> checkpoint_row option \<Rightarrow> workflow_response" where
  "to_workflow_response run c = \<lparr>wp_run = run, wp_checkpoint = c, wp_replayed = False\<rparr>"

definition get_workflow :: "string \<Rightarrow> workflow_response app" where
  "get_workflow wid = bnd (get_run wid) (\<lambda>found. case found of
     None \<Rightarrow> raise WorkflowRunNotFound
   | Some run \<Rightarrow> bnd (latest_checkpoint (wr_workflow_id run)) (\<lambda>c. ret (to_workflow_response run c)))"

section \<open>Starting and resuming\<close>

text \<open>The part the two operations share: run the graph from a state, check the result, store it.\<close>

definition advance_workflow :: "services \<Rightarrow> run_row \<Rightarrow> wf_state \<Rightarrow> string \<Rightarrow> int app \<Rightarrow>
    (run_row \<times> wf_state \<times> checkpoint_row) app" where
  "advance_workflow sv run st correlation clock = bnd (execute_graph sv st) (\<lambda>st1.
     let final = st1\<lparr>ws_state_version := wr_state_version run\<rparr>; status = ws_status final; node = ws_current_node final
     in andthen (validate_state final) (bnd elapsed_ms (\<lambda>latency. bnd clock (\<lambda>now.
       bnd (append_checkpoint run final node status (interrupt_reason (ws_interrupt final)) (ws_side_effects final)
         (telemetry_from_state final status node (wr_checkpoint_seq run + 1) latency) correlation now) (\<lambda>(run', c).
       ret (run', final, c))))))"

definition outcome_metadata :: "run_row \<Rightarrow> wf_state \<Rightarrow> checkpoint_row \<Rightarrow> (string, pyval) dict" where
  "outcome_metadata run final c = [(''graph_version'', VStr (wr_graph_version run)),
     (''current_node'', VStr (ws_current_node final)), (''checkpoint_seq'', VInt (ck_seq c)),
     (''interrupt_reason'', VOpt VStr (interrupt_reason (ws_interrupt final))),
     (''classification'', dict_get (ws_summaries final) ''classification'' VNone)]"

definition known_graphs :: "string list" where
  "known_graphs = [GRAPH_VERSION, CONTROL_GRAPH_VERSION]"

definition audit_failure :: "exc \<Rightarrow> exc" where
  "audit_failure x = (if x = AuditWrite then WorkflowAudit else x)"

definition start_operation :: "string \<Rightarrow> string" where
  "start_operation case_id = WORKFLOW_START_OPERATION @ '':'' @ case_id"

definition begin_run :: "start_request \<Rightarrow> string \<Rightarrow> int \<Rightarrow> case_response \<Rightarrow> (run_row \<times> wf_state) app" where
  "begin_run request correlation now c =
     bnd (create_run (sr_case_id request) (sr_graph_version request) correlation (sr_actor_ref request) now) (\<lambda>run.
     andthen (workflow_audit (wr_case_id run) (wr_workflow_id run) ''WORKFLOW_STARTED'' (wr_state_version run) correlation
       [(''graph_version'', VStr (wr_graph_version run)), (''current_node'', VStr (wr_current_node run)),
        (''checkpoint_seq'', VInt (wr_checkpoint_seq run))] now)
     (let st = initial_state c (wr_workflow_id run) (sr_graph_version request) (wr_state_version run) correlation
            [(''actor_ref'', VStr (sr_actor_ref request))]
      in bnd (append_checkpoint run st ''start'' ''RUNNING'' None []
           (telemetry_dict (wr_case_id run) (wr_workflow_id run) (sr_graph_version request) ''start'' (wr_state_version run)
              correlation ''RUNNING'' 0 1 0 0) correlation now) (\<lambda>(run1, _). ret (run1, st))))"

definition start_body :: "services \<Rightarrow> start_request \<Rightarrow> string \<Rightarrow> string \<Rightarrow> string \<Rightarrow> (string, pyval) dict app" where
  "start_body sv request key correlation fingerprint = bnd (get_case (sr_case_id request)) (\<lambda>c.
     andthen (require (sr_graph_version request \<in> set known_graphs) WorkflowConflict)
     (andthen (require (ca_status (cr_case c) = case_status_text Submitted) WorkflowConflict)
     (bnd utc_now (\<lambda>now. rename_exc audit_failure (transact (
       bnd (begin_run request correlation now c) (\<lambda>(run, st).
       bnd (advance_workflow sv run st correlation utc_now) (\<lambda>(run', final, ck).
       bnd utc_now (\<lambda>later.
       andthen (workflow_audit (wr_case_id run') (wr_workflow_id run') (audit_event_type (ws_status final))
         (wr_state_version run') correlation
         (outcome_metadata run' final ck @ [(''side_effect_keys'', VStrs (ck_side_effects ck))]) later)
       (let response = dump_workflow_response (to_workflow_response run' (Some ck))
        in andthen (idem_add (start_operation (sr_case_id request)) key fingerprint (wr_case_id run') (VDict response) 202
             correlation now) (ret response)))))))))))"

definition answered :: "(string, pyval) dict \<times> bool \<Rightarrow> (string, pyval) dict" where
  "answered r = (if snd r then dict_set (fst r) ''replayed'' (VBool True) else fst r)"

definition start_workflow :: "services \<Rightarrow> start_request \<Rightarrow> string \<Rightarrow> string \<Rightarrow> (string, pyval) dict app" where
  "start_workflow sv request key correlation =
     bnd (idempotent (start_operation (sr_case_id request)) key (fingerprint_request (dump_start_request request))
       (start_body sv request key correlation)) (\<lambda>r. ret (answered r))"

definition resume_operation :: "string \<Rightarrow> string" where
  "resume_operation wid = WORKFLOW_RESUME_OPERATION @ '':'' @ wid"

text \<open>The control graph accepts only a re-evaluation linked to the latest evaluation.\<close>

definition resume_guard :: "run_row \<Rightarrow> wf_state \<Rightarrow> resume_request \<Rightarrow> unit app" where
  "resume_guard run st request = (if \<not> is_control (wr_graph_version run) then ret () else
     andthen (require (rm_resume_payload request = []) WorkflowConflict)
     (case rm_reevaluation request of
        None \<Rightarrow> require (ws_control_evaluation_id st \<in> {None, Some []}) WorkflowConflict
      | Some q \<Rightarrow> andthen (require (ws_control_evaluation_id st = Some (rq_prior_evaluation_id q)) WorkflowConflict)
          (bnd (get_evaluation (wr_workflow_id run) (rq_prior_evaluation_id q)) (\<lambda>_. ret ()))))"

definition resume_payload_of :: "resume_request \<Rightarrow> (string, pyval) dict" where
  "resume_payload_of request = foldl (\<lambda>d (k, v). dict_set d k v) (rm_resume_payload request)
     ([(''resume_reason'', VStr (rm_resume_reason request)), (''actor_ref'', VStr (rm_actor_ref request))] @
      (case rm_reevaluation request of None \<Rightarrow> [] | Some q \<Rightarrow> [(''reevaluation'', dump_reevaluation q)]))"

definition resumed_state :: "run_row \<Rightarrow> checkpoint_row \<Rightarrow> case_response \<Rightarrow> string \<Rightarrow> resume_request \<Rightarrow> wf_state" where
  "resumed_state run latest c correlation request = (ck_state latest)\<lparr>ws_case := Some (dump_case_response c),
     ws_state_version := wr_state_version run, ws_correlation_id := correlation,
     ws_resume := Some (resume_payload_of request), ws_side_effects := ck_side_effects latest\<rparr>"

definition reopen_run :: "string \<Rightarrow> resume_request \<Rightarrow> int \<Rightarrow> string \<Rightarrow> (run_row \<times> wf_state) app" where
  "reopen_run wid request expected correlation = bnd (compare_state_version wid expected) (\<lambda>run.
     andthen (require (wr_graph_version run \<in> set known_graphs) WorkflowConflict)
     (bnd (latest_checkpoint (wr_workflow_id run)) (\<lambda>latest. case latest of
        None \<Rightarrow> raise WorkflowConflict
      | Some ck \<Rightarrow> bnd (get_case (wr_case_id run)) (\<lambda>c. andthen (resume_guard run (ck_state ck) request)
          (ret (run, resumed_state run ck c correlation request))))))"

definition resume_body :: "services \<Rightarrow> string \<Rightarrow> resume_request \<Rightarrow> string \<Rightarrow> int \<Rightarrow> string \<Rightarrow> string \<Rightarrow>
    (string, pyval) dict app" where
  "resume_body sv wid request key expected correlation fingerprint =
     bnd utc_now (\<lambda>now. rename_exc audit_failure (transact (
       bnd (reopen_run wid request expected correlation) (\<lambda>(run, st).
       bnd (advance_workflow sv run st correlation (ret now)) (\<lambda>(run', final, ck).
       andthen (workflow_audit (wr_case_id run') (wr_workflow_id run') ''WORKFLOW_RESUMED'' (wr_state_version run')
         correlation (outcome_metadata run' final ck) now)
       (let response = dump_workflow_response (to_workflow_response run' (Some ck))
        in andthen (idem_add (resume_operation wid) key fingerprint (wr_case_id run') (VDict response) 202
             correlation now) (ret response)))))))"

definition resume_workflow :: "services \<Rightarrow> string \<Rightarrow> resume_request \<Rightarrow> string \<Rightarrow> int \<Rightarrow> string \<Rightarrow>
    (string, pyval) dict app" where
  "resume_workflow sv wid request key expected correlation =
     bnd (idempotent (resume_operation wid) key (fingerprint_request (dump_resume_request request))
       (resume_body sv wid request key expected correlation)) (\<lambda>r. ret (answered r))"

end
