(* ===== verification/ControlKept.thy ===== *)
theory ControlKept
  imports ControlFlow
begin

text \<open>
  What the control nodes keep: the identity of the run, and every property of the store that survives
  the rows they add (evaluations, stage results, review requests, fulfilments, audit events).
\<close>

section \<open>The state\<close>

lemma kind_active: "kind_status k \<in> set ACTIVE_STATUSES"
  by (cases k) simp_all

lemma kept_waiting [kept_intros]: "kept a st \<Longrightarrow> kept a (waiting_state k rs st)"
  unfolding waiting_state_def by (intro kept_intros kind_active)

lemma record_stage_run:
  assumes "record_stage sg v st e w = (Inr st', w')"
  obtains eid rid h where "st' = summarize (stage_text sg) (stage_summary eid rid h v) st"
  using assms unfolding record_stage_def by (auto simp: ret_run elim!: bnd_InrE andthen_InrE intro: that)

lemma kept_record_stage: "record_stage sg v st e w = (Inr st', w') \<Longrightarrow> kept a st' = kept a st"
  by (erule record_stage_run) simp

lemma wait_for_run: "wait_for k rs items st e w = (Inr st', w') \<Longrightarrow>
    st' = waiting_state k rs st \<and> (\<exists>w1. open_review k rs items e w = (Inr (), w1) \<and> w' = w1)"
  by (auto simp: wait_for_def ret_run elim!: andthen_InrE)

lemma kept_wait_for: "wait_for k rs items st e w = (Inr st', w') \<Longrightarrow> kept a st \<Longrightarrow> kept a st'"
  by (auto dest: wait_for_run intro: kept_intros)

lemma kept_announce:
  assumes "announce st again errors ev e w = (Inr st', w')"
  shows "kept st st'"
proof -
  have "kept st (summarize k v (st\<lparr>ws_control_evaluation_id := i\<rparr>))" for k v i
    by (simp add: kept_def same_run_def summarize_def)
  with assms show ?thesis unfolding announce_def Let_def
    by (elim andthen_InrE) (auto simp: ret_run split: if_splits elim: kept_wait_for)
qed

lemma kept_prepare: "prepare bank st e w = (Inr st', w') \<Longrightarrow> kept st st'"
  unfolding prepare_def by (elim bnd_InrE andthen_InrE, clarsimp split: prod.splits)
    (elim bnd_InrE andthen_InrE, clarsimp split: prod.splits, elim bnd_InrE andthen_InrE, rule kept_announce)

lemma kept_evidence_stage: "evidence_stage st e w = (Inr st', w') \<Longrightarrow> kept st st'"
  unfolding evidence_stage_def
  by (elim bnd_InrE) (auto simp: ret_run kept_record_stage split: if_splits option.splits
      elim!: andthen_InrE intro: kept_wait_for)

lemma kept_policy_stage: "policy_stage rv st e w = (Inr st', w') \<Longrightarrow> kept st st'"
  unfolding policy_stage_def Let_def
  by (elim bnd_InrE, clarsimp split: prod.splits, elim bnd_InrE)
    (auto simp: ret_run kept_record_stage split: if_splits intro: kept_wait_for)

lemma kept_rules_stage: "rules_stage st e w = (Inr st', w') \<Longrightarrow> kept st st'"
  unfolding rules_stage_def
  by (elim bnd_InrE) (auto simp: ret_run kept_record_stage split: if_splits intro: kept_wait_for)

lemma kept_confidence_stage: "confidence_stage st e w = (Inr st', w') \<Longrightarrow> kept st st'"
  unfolding confidence_stage_def Let_def
  by (elim bnd_InrE) (auto simp: ret_run kept_record_stage split: if_splits intro: kept_wait_for)

lemma kept_finish: "finish st e w = (Inr st', w') \<Longrightarrow> kept st st'"
  unfolding finish_def by (elim bnd_InrE) (auto simp: ret_run intro: kept_intros)

interpretation control_graph: kept_nodes
  "\<lparr>gc_classify = c, gc_retrieve = r, gc_control = Some (control_graph_nodes bank retrieve)\<rparr>" for c r bank retrieve
  by unfold_locales (auto simp: control_graph_nodes_def intro: kept_prepare kept_evidence_stage kept_policy_stage
      kept_rules_stage kept_confidence_stage kept_finish)

section \<open>The store\<close>

text \<open>A property that survives the rows the nodes add: any audit event, review request or fulfilment, an
  evaluation whose hashes match its contents, a stage result with its hash.\<close>

definition stage_intact :: "(string \<Rightarrow> string) \<Rightarrow> stage_row \<Rightarrow> bool" where
  "stage_intact sha r \<longleftrightarrow> digest sha (dump_stage (sg_result r)) = Inr (sg_result_hash r)"

definition row_closed :: "(env \<Rightarrow> store \<Rightarrow> bool) \<Rightarrow> bool" where
  "row_closed Q \<longleftrightarrow> (\<forall>e s r. Q e s \<longrightarrow> Q e (audits_update (\<lambda>t. t @ [r]) s)) \<and>
     (\<forall>e s r. Q e s \<longrightarrow> Q e (policy_audits_update (\<lambda>t. t @ [r]) s)) \<and>
     (\<forall>e s r. Q e s \<longrightarrow> evaluation_intact (en_sha e) r = Inr True \<longrightarrow> key_free evaluation_key (evaluations s) r \<longrightarrow>
        Q e (evaluations_update (\<lambda>t. t @ [r]) s)) \<and>
     (\<forall>e s r. Q e s \<longrightarrow> stage_intact (en_sha e) r \<longrightarrow> key_free stage_key (stage_results s) r \<longrightarrow>
        Q e (stage_results_update (\<lambda>t. t @ [r]) s)) \<and>
     (\<forall>e s r. Q e s \<longrightarrow> Q e (reviews_update (\<lambda>t. t @ [r]) s)) \<and>
     (\<forall>e s r. Q e s \<longrightarrow> Q e (fulfillments_update (\<lambda>t. t @ [r]) s))"

lemma closed_rows [preserved]:
  assumes "row_closed Q"
  shows "maintains Q (append_row audits_update a)" "maintains Q (append_row policy_audits_update b)"
    "maintains Q (insert_row reviews reviews_update review_key rv)"
    "maintains Q (insert_row fulfillments fulfillments_update fu_request_id fu)"
  using assms unfolding row_closed_def by (auto intro!: preserves_append preserves_insert)

text \<open>The hash a computation got from \<open>digest\<close> may be used in what follows.\<close>

lemma preserves_digest_bnd:
  assumes "\<And>h. maintains (\<lambda>e s. digest (en_sha e) v = Inr h \<longrightarrow> Q e s) (f h)"
  shows "maintains Q (bnd (digest_app v) f)"
  unfolding maintains_def
proof (intro allI impI)
  fix e :: env and w :: world
  assume "Q e (db w)"
  then show "Q e (db (snd (bnd (digest_app v) f e w)))"
    using assms by (cases "digest (en_sha e) v") (auto simp: maintains_def bnd_def digest_app_def app_defs of_py_def)
qed

lemma closed_audit [preserved]: "row_closed Q \<Longrightarrow> maintains Q (audit_append ci ev ob ve me co t)"
  unfolding audit_append_def Let_def by (auto intro!: preserved)

lemma closed_digest [preserved]: "maintains Q (digest_app v)"
  unfolding digest_app_def by (auto intro!: preserved)

lemma closed_current [preserved]: "maintains Q current_row" "maintains Q current_profile" "maintains Q new_control"
  "maintains Q (stage_result eid sg)" "maintains Q (get_evaluation wid eid)" "maintains Q (profile_of cid)"
  "maintains Q (resolve sc)"
  unfolding current_row_def current_profile_def new_control_def stage_result_def get_evaluation_def verify_def
    profile_of_def resolve_def checked_profile_def
  by (auto intro!: preserved split: option.split list.split)

lemma closed_control_audit [preserved]: "row_closed Q \<Longrightarrow> maintains Q (control_audit ev d)"
  unfolding control_audit_def case_get_def by (auto intro!: preserved split: option.split)

lemma closed_add_stage [preserved]:
  assumes "row_closed Q"
  shows "maintains Q (add_stage ev sg v t)"
proof -
  have insert: "maintains (\<lambda>e s. digest (en_sha e) (dump_stage v) = Inr h \<longrightarrow> Q e s)
      (insert_row stage_results stage_results_update stage_key r)"
    if "sg_result r = v" "sg_result_hash r = h" for h r
    using assms that unfolding row_closed_def stage_intact_def by (intro preserves_insert) auto
  show ?thesis unfolding add_stage_def
    by (intro preserves_bnd preserves_case_option preserves_digest_bnd) (auto intro!: preserved insert)
qed

lemma closed_record [preserved]: "row_closed Q \<Longrightarrow> maintains Q (record_stage sg v st)"
  unfolding record_stage_def by (auto intro!: preserved)

lemma closed_wait [preserved]: "row_closed Q \<Longrightarrow> maintains Q (wait_for k rs items st)"
  unfolding wait_for_def open_review_def by (auto intro!: preserved split: option.split)

lemma preserves_case_prod [preserved]: "(\<And>a b. maintains Q (f a b)) \<Longrightarrow> maintains Q (case x of (a, b) \<Rightarrow> f a b)"
  by (cases x) simp

text \<open>The frozen evaluation carries the hashes of its own parts.\<close>

lemma closed_freeze:
  assumes "row_closed Q"
  shows "maintains Q (freeze st cid p again facts items cl ch)"
proof -
  have insert: "maintains (\<lambda>e s. digest (en_sha e) (dump_bundle b) = Inr bh \<longrightarrow> digest (en_sha e) (VDict facts) = Inr fh \<longrightarrow>
      digest (en_sha e) (VList (map (dump_item False) items)) = Inr eh \<longrightarrow> digest (en_sha e) cl = Inr clh \<longrightarrow>
      digest (en_sha e) (inputs_json facts items cl ch) = Inr ih \<longrightarrow> Q e s)
      (insert_row evaluations evaluations_update evaluation_key r)"
    if "el_bundle r = b" "el_bundle_hash r = bh" "row_inputs r = inputs_json facts items cl ch" "el_facts r = facts"
      "el_evidence r = items" "el_classification r = cl" "inputs_hash b = ih" "eb_facts_hash b = fh" "evidence_hash b = eh"
      "classification_hash b = clh" for b bh fh eh clh ih r
    using assms that unfolding row_closed_def evaluation_intact_def hash_is_def by (intro preserves_insert) auto
  show ?thesis unfolding freeze_def Let_def
    by (intro preserves_bnd preserves_digest_bnd preserves_andthen insert)
      (auto intro!: preserved simp: row_inputs_def frozen_bundle_def split: option.split)
qed

lemma closed_prepare:
  assumes "row_closed Q"
  shows "maintains Q (prepare bank st)"
proof -
  have "maintains Q (requested_reevaluation st)" "maintains Q (select_profile again c facts)" for again c facts
    unfolding requested_reevaluation_def select_profile_def or_error_def Let_def
    by (auto intro!: preserved split: option.split)
  moreover have "maintains Q (freeze st cid p again facts items cl ch)" for cid p again facts items cl ch
    using assms by (rule closed_freeze)
  moreover have "maintains Q (announce st again errors ev)" for again errors ev
    unfolding announce_def Let_def using assms by (auto intro!: preserved split: option.split)
  ultimately show ?thesis unfolding prepare_def by (intro preserved) (auto intro!: preserved split: option.split)
qed

lemma closed_evidence_stage: "row_closed Q \<Longrightarrow> maintains Q (evidence_stage st)"
  unfolding evidence_stage_def fulfill_prior_def fulfill_def by (auto intro!: preserved split: option.split)

lemma readonly_maintains: "readonly m \<Longrightarrow> maintains Q m"
  by (simp add: readonly_def maintains_def)

lemma closed_eligibility [preserved]: "maintains Q (evaluate_eligibility corpus q profile)"
  unfolding evaluate_eligibility_def by (auto intro!: preserved)

lemma closed_policy_stage:
  assumes "row_closed Q" and "\<And>q c p. maintains Q (retrieve q c p)"
  shows "maintains Q (policy_stage retrieve st)"
proof -
  have val: "maintains Q (validate_policy d)" for d
    unfolding validate_policy_def by (auto intro!: preserved)
  moreover have "maintains Q (pinned_policy d)" for d
    unfolding pinned_policy_def by (auto intro!: preserved val split: option.split)
  moreover have "maintains Q (fresh_policy retrieve)"
    unfolding fresh_policy_def retrieved_policy_def source_hashes_def Let_def
    by (auto intro!: preserved val assms(2) split: option.split if_splits)
  moreover have "maintains Q (prior_policy ev)" for ev
    unfolding prior_policy_def by (auto intro!: preserved split: option.split stage_value.split)
  ultimately show ?thesis unfolding policy_stage_def Let_def using assms(1) by (auto intro!: preserved)
qed

lemma closed_stored [preserved]: "maintains Q (stored_policy ev)" "maintains Q (stored_evidence ev)" "maintains Q (stored_rules ev)"
  unfolding stored_policy_def stored_evidence_def stored_rules_def
  by (auto intro!: preserved split: option.split stage_value.split)

lemma closed_rules_stage: "row_closed Q \<Longrightarrow> maintains Q (rules_stage st)"
  unfolding rules_stage_def by (auto intro!: preserved)

lemma closed_confidence_stage: "row_closed Q \<Longrightarrow> maintains Q (confidence_stage st)"
  unfolding confidence_stage_def Let_def by (auto intro!: preserved)

lemma closed_finish: "maintains Q (finish st)"
  unfolding finish_def by (auto intro!: preserved)

section \<open>The graph\<close>

lemma closed_record_node [preserved]: "maintains Q (record_node n s st)" "maintains Q (authorize_node_operation a b)"
  unfolding record_node_def authorize_node_operation_def by (auto intro!: preserved)

definition graph_maintains :: "(env \<Rightarrow> store \<Rightarrow> bool) \<Rightarrow> graph_config \<Rightarrow> bool" where
  "graph_maintains Q g \<longleftrightarrow> (\<forall>st. maintains Q (gc_classify g st)) \<and> (\<forall>st. maintains Q (gc_retrieve g st)) \<and>
     (\<forall>n \<in> set_option (gc_control g). \<forall>st. maintains Q (cn_prepare n st) \<and> maintains Q (cn_evidence n st) \<and>
        maintains Q (cn_policy n st) \<and> maintains Q (cn_rules n st) \<and> maintains Q (cn_confidence n st) \<and>
        maintains Q (cn_finish n st))"

lemma closed_step: "graph_maintains Q g \<Longrightarrow> maintains Q (node_step g n st)"
  unfolding graph_maintains_def
  by (cases n) (auto simp: intake_node_def classification_node_def context_node_def evidence_node_def policy_node_def
      rules_node_def confidence_node_def stop_node_def legacy_context_def legacy_evidence_def Let_def
      intro!: preserved split: option.split)

lemma closed_run: "graph_maintains Q g \<Longrightarrow> maintains Q (run_from g n st)"
proof (induction g n st rule: run_from.induct)
  case (1 g n st)
  have "maintains Q (case next_node g n st' of None \<Rightarrow> ret st' | Some m \<Rightarrow> run_from g m st')" for st'
    using 1 by (cases "next_node g n st'") simp_all
  then show ?case by (subst run_from.simps) (intro preserves_bnd closed_step 1(2))
qed

lemma control_maintains:
  assumes "row_closed Q" and "\<And>st. maintains Q (c st)" and "\<And>st. maintains Q (r st)"
    and "\<And>q co p. maintains Q (retrieve q co p)"
  shows "graph_maintains Q \<lparr>gc_classify = c, gc_retrieve = r, gc_control = Some (control_graph_nodes bank retrieve)\<rparr>"
  using assms by (simp add: graph_maintains_def control_graph_nodes_def closed_prepare closed_evidence_stage
      closed_policy_stage closed_rules_stage closed_confidence_stage closed_finish)

end
