(* ===== verification/WorkflowSafety.thy ===== *)
theory WorkflowSafety
  imports WorkflowSvc ControlKept
begin

text \<open>
  What a start and a resume keep: they are idempotent operations that leave nothing behind when they fail,
  the graph keeps the identity of the run, and the invariants of cases, of runs with their checkpoints and
  of the frozen evaluations survive both.
\<close>

section \<open>Idempotent operations\<close>

text \<open>A computation that leaves the store alone when it raises.\<close>

definition rolls_back :: "'a app \<Rightarrow> bool" where
  "rolls_back m \<longleftrightarrow> (\<forall>e w x w'. m e w = (Inl x, w') \<longrightarrow> db w' = db w)"

lemma rolls_back_transact [intro!]: "rolls_back (transact m)"
  by (auto simp: rolls_back_def dest: transact_rollback)

lemma rolls_back_rename [intro!]: "rolls_back m \<Longrightarrow> rolls_back (rename_exc h m)"
  unfolding rolls_back_def rename_exc_def by (auto split: prod.splits sum.splits)

lemma rolls_back_bnd [intro!]: "readonly m \<Longrightarrow> (\<And>a. rolls_back (f a)) \<Longrightarrow> rolls_back (bnd m f)"
  unfolding rolls_back_def readonly_def bnd_def by (auto split: prod.splits sum.splits) (metis snd_conv)+

lemma rolls_back_andthen [intro!]: "readonly m \<Longrightarrow> rolls_back n \<Longrightarrow> rolls_back (andthen m n)"
  unfolding andthen_def by blast

lemma rolls_backD: "rolls_back m \<Longrightarrow> m e w = (Inl x, w') \<Longrightarrow> db w' = db w"
  by (simp add: rolls_back_def)

lemma start_body_records:
  assumes "start_body sv q key corr f e w = (Inr d, w')"
  shows "recorded (start_operation (sr_case_id q)) key f d (db w')"
  using assms unfolding start_body_def Let_def
  by (auto elim!: bnd_InrE andthen_InrE simp: transact_run rename_run ret_run split: prod.splits) (rule recorded_add)

lemma start_body_rollback: "rolls_back (start_body sv q key corr f)"
  unfolding start_body_def by (auto simp: readonly_get_case)

lemma resume_body_records:
  assumes "resume_body sv wid q key v corr f e w = (Inr d, w')"
  shows "recorded (resume_operation wid) key f d (db w')"
  using assms unfolding resume_body_def Let_def
  by (auto elim!: bnd_InrE andthen_InrE simp: transact_run rename_run ret_run split: prod.splits) (rule recorded_add)

lemma resume_body_rollback: "rolls_back (resume_body sv wid q key v corr f)"
  unfolding resume_body_def by auto

interpretation starting: idempotent_body "start_operation (sr_case_id request)" key
  "fingerprint_request (dump_start_request request)" "start_body sv request key correlation"
  for sv request key correlation
  by unfold_locales (rule start_body_records, assumption, rule rolls_backD [OF start_body_rollback])

interpretation resuming: idempotent_body "resume_operation wid" key
  "fingerprint_request (dump_resume_request request)" "resume_body sv wid request key expected correlation"
  for sv wid request key expected correlation
  by unfold_locales (rule resume_body_records, assumption, rule rolls_backD [OF resume_body_rollback])

section \<open>The graph of the service\<close>

text \<open>The model providers answer over the network; they have no access to the database.\<close>

definition offline :: "services \<Rightarrow> bool" where
  "offline sv \<longleftrightarrow> (\<forall>q. readonly (sv_provider sv q)) \<and> (\<forall>q. readonly (sv_fallback sv q))"

lemma deterministic_offline: "readonly (deterministic_provider a b q)"
  unfolding deterministic_provider_def Let_def by (auto intro!: readonly_bnd simp: Let_def split: prod.split)

lemma closed_policy_audit [preserved]: "row_closed Q \<Longrightarrow> maintains Q (policy_audit ev ac sr de co t ru do2 ve ck me)"
  unfolding policy_audit_def policy_audit_append_def Let_def by (auto intro!: preserved)

lemma closed_retrieve [preserved]: "row_closed Q \<Longrightarrow> maintains Q (retrieve scores q co p)"
  unfolding retrieve_def retrieve_from_def abstain_def answer_def retrieval_audit_def active_corpus_def Let_def
  by (auto intro!: preserved split: option.split)

lemma closed_classify: "offline sv \<Longrightarrow> maintains Q (classify_dispute sv st)"
  unfolding classify_dispute_def offline_def
  by (intro preserves_bnd preserves_classify readonly_maintains) auto

lemma closed_retrieve_policy: "row_closed Q \<Longrightarrow> maintains Q (retrieve_policy sv st)"
  unfolding retrieve_policy_def active_corpus_def by (auto intro!: preserved split: option.split)

lemma service_graph_maintains: "row_closed Q \<Longrightarrow> offline sv \<Longrightarrow> graph_maintains Q (service_graph sv control)"
  using control_maintains [of Q "classify_dispute sv" "retrieve_policy sv" "retrieve (sv_scores sv)" "sv_bank sv"]
  by (cases control) (auto simp: service_graph_def graph_maintains_def closed_classify closed_retrieve_policy closed_retrieve)

lemma closed_execute [preserved]:
  assumes "row_closed Q" and "offline sv"
  shows "maintains Q (execute_graph sv st)"
  unfolding execute_graph_def invoke_graph_def
  using closed_run [OF service_graph_maintains [OF assms]] by (auto intro!: preserved)

lemma service_graph_kept: "kept_nodes (service_graph sv control)"
  by (cases control) (simp_all add: service_graph_def control_graph.kept_nodes_axioms legacy_graph.kept_nodes_axioms)

lemma execute_kept:
  assumes "execute_graph sv st e w = (Inr r, w')" and "ws_status st \<in> set ACTIVE_STATUSES"
  shows "same_run st r \<and> ws_status r \<in> set ACTIVE_STATUSES \<and>
    (distinct (ws_side_effects st) \<longrightarrow> distinct (ws_side_effects r)) \<and> set (ws_side_effects st) \<subseteq> set (ws_side_effects r)"
proof -
  have fresh: "kept (fresh_control_state st) r' \<Longrightarrow> kept st r'" for r'
    using assms(2) by (auto simp: kept_def same_run_def fresh_control_state_def)
  have "\<exists>r'. kept st r' \<and> (r = r' \<or> r = r'\<lparr>ws_case := None, ws_resume := None\<rparr>)"
    using assms(1) kept_nodes.run_kept [OF service_graph_kept] fresh
    unfolding execute_graph_def invoke_graph_def
    by (auto simp: ret_run elim!: bnd_InrE andthen_InrE split: if_splits) blast+
  then show ?thesis using assms(2) by (auto simp: kept_def same_run_def)
qed

section \<open>The invariant of the service\<close>

definition control_inv :: "env \<Rightarrow> store \<Rightarrow> bool" where
  "control_inv e s \<longleftrightarrow> (\<forall>r \<in> set (evaluations s). evaluation_intact (en_sha e) r = Inr True) \<and>
     (\<forall>r \<in> set (stage_results s). stage_intact (en_sha e) r) \<and>
     distinct (map evaluation_key (evaluations s)) \<and> distinct (map stage_key (stage_results s))"

definition runs_owned :: "store \<Rightarrow> bool" where
  "runs_owned s \<longleftrightarrow> wr_case_id ` set (runs s) \<subseteq> ca_case_id ` set (cases s)"

definition service_inv :: "env \<Rightarrow> store \<Rightarrow> bool" where
  "service_inv e s \<longleftrightarrow> case_inv s \<and> workflow_inv s \<and> runs_owned s \<and> control_inv e s"

lemma service_inv_empty: "service_inv e empty_store"
  by (simp add: service_inv_def case_inv_empty workflow_inv_empty runs_owned_def control_inv_def)
    (simp add: empty_store_def)

lemma row_closed_conj: "row_closed Q \<Longrightarrow> row_closed R \<Longrightarrow> row_closed (\<lambda>e s. Q e s \<and> R e s)"
  by (simp add: row_closed_def)

lemma closed_case_inv: "row_closed (\<lambda>_. case_inv)"
  unfolding row_closed_def by (intro conjI allI impI; erule case_inv_same; simp add: subset_insertI)

lemma closed_workflow_inv: "row_closed (\<lambda>_. workflow_inv)"
  unfolding row_closed_def
  by (intro conjI allI impI) (simp_all add: workflow_inv_def run_consistent_def run_checkpoints_def)

lemma closed_runs_owned: "row_closed (\<lambda>_. runs_owned)"
  by (simp add: row_closed_def runs_owned_def)

lemma closed_control_inv: "row_closed control_inv"
  unfolding row_closed_def control_inv_def by (intro conjI allI impI) (auto simp: key_free_def)

lemma closed_service_inv: "row_closed service_inv"
  using closed_case_inv closed_workflow_inv closed_runs_owned closed_control_inv
  by (simp add: service_inv_def [abs_def] row_closed_conj)

lemma closed_workflow_part: "row_closed (\<lambda>_ s. workflow_part s = x)"
  by (simp add: row_closed_def workflow_part_def)

lemma maintainsD: "maintains Q m \<Longrightarrow> m e w = (r, w') \<Longrightarrow> Q e (db w) \<Longrightarrow> Q e (db w')"
  by (metis maintains_def snd_conv)

lemma closed_workflow_audit [preserved]: "row_closed Q \<Longrightarrow> maintains Q (workflow_audit ci wid ev v co d t)"
  unfolding workflow_audit_def case_get_def by (auto intro!: preserved split: option.split)

lemma workflow_audit_run:
  assumes "workflow_audit ci wid ev v co d t e w = (Inr u, w')" and "service_inv e (db w)"
  shows "service_inv e (db w') \<and> workflow_part (db w') = workflow_part (db w)"
  using maintainsD [OF closed_workflow_audit [OF closed_service_inv] assms]
    maintainsD [OF closed_workflow_audit [OF closed_workflow_part] assms(1), of "workflow_part (db w)"] by simp

lemma append_checkpoint_service:
  assumes inv: "service_inv e (db w)" and mem: "run \<in> set (runs (db w))" and active: "status \<in> set ACTIVE_STATUSES"
    and mirror: "mirrors run status node st"
    and app: "append_checkpoint run st node status reason effects tel corr now e w = (Inr (run', c), w')"
  shows "service_inv e (db w') \<and> run' \<in> set (runs (db w'))"
proof -
  note rows = append_checkpoint_run [OF app]
  have wf: "workflow_inv (db w') \<and> run' \<in> set (runs (db w'))"
    using inv by (intro append_checkpoint_inv [OF _ mem active mirror app]) (simp add: service_inv_def)
  have "case_inv (db w')"
    by (rule case_inv_same [of "db w"]) (use inv in \<open>simp_all add: service_inv_def rows(1)\<close>)
  moreover have "control_inv e (db w')" using inv by (simp add: service_inv_def control_inv_def rows(1))
  moreover have "runs_owned (db w')"
  proof -
    obtain tel' where "run' = advance_run status node reason tel' now run" using rows(2) by blast
    then have "wr_case_id run' = wr_case_id run" by simp
    then show ?thesis using inv mem by (auto simp: service_inv_def runs_owned_def rows(1) set_update_where)
  qed
  ultimately show ?thesis using wf by (simp add: service_inv_def)
qed

text \<open>The state a run is executed from belongs to that run.\<close>

definition state_of_run :: "run_row \<Rightarrow> wf_state \<Rightarrow> bool" where
  "state_of_run run st \<longleftrightarrow> ws_workflow_id st = wr_workflow_id run \<and> ws_case_id st = wr_case_id run \<and>
     ws_graph_version st = wr_graph_version run \<and> ws_status st \<in> set ACTIVE_STATUSES"

lemma advance_inv:
  assumes inv: "service_inv e (db w)" and mem: "run \<in> set (runs (db w))" and st: "state_of_run run st"
    and off: "offline sv" and clock: "readonly clock"
    and adv: "advance_workflow sv run st corr clock e w = (Inr (run', final, c), w')"
  shows "service_inv e (db w') \<and> run' \<in> set (runs (db w'))"
proof -
  from adv obtain st1 w1 u w2 ms w3 now w4 where exec: "execute_graph sv st e w = (Inr st1, w1)"
    and "validate_state (st1\<lparr>ws_state_version := wr_state_version run\<rparr>) e w1 = (Inr u, w2)"
    and "elapsed_ms e w2 = (Inr ms, w3)" and "clock e w3 = (Inr now, w4)"
    and app: "append_checkpoint run (st1\<lparr>ws_state_version := wr_state_version run\<rparr>) (ws_current_node st1) (ws_status st1)
      (interrupt_reason (ws_interrupt st1)) (ws_side_effects st1)
      (telemetry_from_state (st1\<lparr>ws_state_version := wr_state_version run\<rparr>) (ws_status st1) (ws_current_node st1)
        (wr_checkpoint_seq run + 1) ms) corr now e w4 = (Inr (run', c), w')"
    unfolding advance_workflow_def Let_def
    by (elim bnd_InrE andthen_InrE) (auto simp: ret_run split: prod.splits)
  then have same: "db w4 = db w1"
    using clock by (auto simp: validate_state_def rename_run app_simps elim!: bnd_InrE dest: readonly_run)
  have "maintains service_inv (execute_graph sv st)" and
    "maintains (\<lambda>_ s. workflow_part s = workflow_part (db w)) (execute_graph sv st)"
    by (rule closed_execute [OF closed_service_inv off], rule closed_execute [OF closed_workflow_part off])
  then have inv1: "service_inv e (db w1)" and part: "workflow_part (db w1) = workflow_part (db w)"
    using exec inv maintainsD by fastforce+
  have "same_run st st1 \<and> ws_status st1 \<in> set ACTIVE_STATUSES"
    using execute_kept [OF exec] st by (simp add: state_of_run_def)
  then show ?thesis
    using inv1 part mem st
    by (intro append_checkpoint_service [OF _ _ _ _ app])
      (auto simp: same state_of_run_def same_run_def mirrors_def workflow_part_def)
qed

end
