(* ===== verification/History.thy ===== *)
theory History
  imports WorkflowSafety
begin

text \<open>
  Starting and resuming a workflow keep the invariant of the service (cases, runs with their checkpoints, frozen
  evaluations): the idempotent bodies and the rows they add, and the inversion lemmas of \<open>bnd\<close> they are taken
  apart with.
\<close>

section \<open>Starting and resuming keep the invariant\<close>

lemma bnd_InrE2:
  assumes "bnd m (\<lambda>(a, b). f a b) e w = (Inr y, w'')"
  obtains a b w' where "m e w = (Inr (a, b), w')" and "f a b e w' = (Inr y, w'')"
  using assms by (auto elim: bnd_InrE)

lemma bnd_InrE3:
  assumes "bnd m (\<lambda>(a, b, c). f a b c) e w = (Inr y, w'')"
  obtains a b c w' where "m e w = (Inr (a, b, c), w')" and "f a b c e w' = (Inr y, w'')"
  using assms by (auto elim: bnd_InrE)

lemma require_InrD: "require b x e w = (Inr u, w') \<Longrightarrow> b \<and> w' = w"
  by (simp add: require_run)

lemma idem_add_service:
  assumes "service_inv e (db w)" and "idem_add o1 k f c (VDict d) st corr now e w = (Inr u, w')"
  shows "service_inv e (db w')"
proof -
  obtain r where db: "db w' = idempotency_update (\<lambda>t. t @ [r]) (db w)"
    using assms(2) by (auto simp: idem_add_def app_simps)
  have "case_inv (db w')" using case_inv_idem_add assms by (auto simp: service_inv_def)
  moreover have "workflow_inv (db w') = workflow_inv (db w)" by (rule workflow_inv_part) (simp add: workflow_part_def db)
  ultimately show ?thesis using assms(1) by (simp add: service_inv_def runs_owned_def control_inv_def db)
qed

lemma begin_run_inv:
  assumes inv: "service_inv e (db w)" and known: "sr_graph_version q \<in> set known_graphs"
    and c: "row_by ca_case_id (sr_case_id q) (cases (db w)) = Some (cr_case c)"
    and run: "begin_run q corr now c e w = (Inr (run, st), w')"
  shows "service_inv e (db w') \<and> run \<in> set (runs (db w')) \<and> state_of_run run st"
proof -
  from run obtain run0 w1 u w2 ck where
    new: "create_run (sr_case_id q) (sr_graph_version q) corr (sr_actor_ref q) now e w = (Inr run0, w1)"
    and aud: "workflow_audit (wr_case_id run0) (wr_workflow_id run0) ''WORKFLOW_STARTED'' (wr_state_version run0) corr
       [(''graph_version'', VStr (wr_graph_version run0)), (''current_node'', VStr (wr_current_node run0)),
        (''checkpoint_seq'', VInt (wr_checkpoint_seq run0))] now e w1 = (Inr u, w2)"
    and st: "st = initial_state c (wr_workflow_id run0) (sr_graph_version q) (wr_state_version run0) corr
            [(''actor_ref'', VStr (sr_actor_ref q))]"
    and app: "append_checkpoint run0 st ''start'' ''RUNNING'' None []
           (telemetry_dict (wr_case_id run0) (wr_workflow_id run0) (sr_graph_version q) ''start'' (wr_state_version run0)
              corr ''RUNNING'' 0 1 0 0) corr now e w2 = (Inr (run, ck), w')"
    unfolding begin_run_def Let_def by (elim bnd_InrE andthen_InrE) (auto simp: ret_run split: prod.splits)
  have "workflow_inv (db w)" using inv by (simp add: service_inv_def)
  note created = create_run_inv [OF this new]
  have db1: "db w1 = runs_update (\<lambda>t. t @ [run0]) (db w)"
    using new by (auto simp: create_run_def active_for_case_def app_simps Let_def)
  have case_mem: "sr_case_id q \<in> ca_case_id ` set (cases (db w))" using row_by_Some [OF c] by (auto intro: rev_image_eqI)
  have "case_inv (db w1)"
    by (rule case_inv_same [of "db w"]) (use inv in \<open>simp_all add: service_inv_def db1\<close>)
  then have inv1: "service_inv e (db w1)"
    using inv created case_mem by (auto simp: service_inv_def runs_owned_def control_inv_def db1)
  note audited = workflow_audit_run [OF aud inv1]
  have graph: "sr_graph_version q \<noteq> []" using known by (auto simp: known_graphs_def GRAPH_VERSION_def CONTROL_GRAPH_VERSION_def)
  have cid: "ca_case_id (cr_case c) = sr_case_id q" using row_by_Some [OF c] by simp
  have mir: "mirrors run0 ''RUNNING'' ''start'' st" and of_run: "state_of_run run0 st"
    using created graph cid by (simp_all add: mirrors_def state_of_run_def st initial_state_def)
  have "service_inv e (db w') \<and> run \<in> set (runs (db w'))"
    using audited created(2)
    by (intro append_checkpoint_service [OF _ _ _ mir app]) (auto simp: workflow_part_def)
  moreover obtain tel' where "run = advance_run ''RUNNING'' ''start'' None tel' now run0"
    using append_checkpoint_run(2) [OF app] by blast
  ultimately show ?thesis using of_run by (simp add: state_of_run_def)
qed

text \<open>What follows a graph run: the audit event and the recorded response.\<close>

lemma outcome_inv:
  assumes "service_inv e (db w)" and "workflow_audit ci wid ev v corr d now e w = (Inr u, w1)"
    and "idem_add o1 k f c (VDict resp) status corr t e w1 = (Inr u', w')"
  shows "service_inv e (db w')"
  using workflow_audit_run [OF assms(2,1)] idem_add_service [OF _ assms(3)] by blast

lemma start_body_run:
  assumes "start_body sv q key corr f e w = (Inr d, w')"
  obtains c w1 now w2 run st w3 run' final ck w4 later w5 u w6 u' where
    "get_case (sr_case_id q) e w = (Inr c, w1)" "sr_graph_version q \<in> set known_graphs"
    "ca_status (cr_case c) = case_status_text Submitted"
    "utc_now e w1 = (Inr now, w2)" "begin_run q corr now c e w2 = (Inr (run, st), w3)"
    "advance_workflow sv run st corr utc_now e w3 = (Inr (run', final, ck), w4)" "utc_now e w4 = (Inr later, w5)"
    "workflow_audit (wr_case_id run') (wr_workflow_id run') (audit_event_type (ws_status final)) (wr_state_version run') corr
       (outcome_metadata run' final ck @ [(''side_effect_keys'', VStrs (ck_side_effects ck))]) later e w5 = (Inr u, w6)"
    "idem_add (start_operation (sr_case_id q)) key f (wr_case_id run')
       (VDict (dump_workflow_response (to_workflow_response run' (Some ck)))) 202 corr now e w6 = (Inr u', w')"
    "d = dump_workflow_response (to_workflow_response run' (Some ck))"
  using assms unfolding start_body_def Let_def
  by (elim bnd_InrE andthen_InrE, unfold rename_run transact_run, elim bnd_InrE3 bnd_InrE2 bnd_InrE andthen_InrE,
      unfold ret_run require_run, elim conjE, hypsubst) (rule that; assumption)

lemma start_body_inv:
  assumes off: "offline sv"
  shows "maintains service_inv (start_body sv q key corr f)"
  unfolding maintains_def
proof (intro allI impI)
  fix e :: env and w :: world
  assume inv: "service_inv e (db w)"
  show "service_inv e (db (snd (start_body sv q key corr f e w)))"
  proof (cases "start_body sv q key corr f e w")
    case (Pair r w')
    show ?thesis
    proof (cases r)
      case (Inl x)
      then show ?thesis using rolls_backD [OF start_body_rollback] Pair inv by (metis snd_conv)
    next
      case (Inr d)
      with Pair have "start_body sv q key corr f e w = (Inr d, w')" by simp
      then obtain c w1 now w2 run st w3 run' final ck w4 later w5 u w6 u' where
        c: "get_case (sr_case_id q) e w = (Inr c, w1)" and known: "sr_graph_version q \<in> set known_graphs"
        and now: "utc_now e w1 = (Inr now, w2)" and starts: "begin_run q corr now c e w2 = (Inr (run, st), w3)"
        and adv: "advance_workflow sv run st corr utc_now e w3 = (Inr (run', final, ck), w4)"
        and later: "utc_now e w4 = (Inr later, w5)"
        and aud: "workflow_audit (wr_case_id run') (wr_workflow_id run') (audit_event_type (ws_status final))
           (wr_state_version run') corr
           (outcome_metadata run' final ck @ [(''side_effect_keys'', VStrs (ck_side_effects ck))]) later e w5 = (Inr u, w6)"
        and add: "idem_add (start_operation (sr_case_id q)) key f (wr_case_id run')
           (VDict (dump_workflow_response (to_workflow_response run' (Some ck)))) 202 corr now e w6 = (Inr u', w')"
        by (rule start_body_run) 
      have "w1 = w" and row: "row_by ca_case_id (sr_case_id q) (cases (db w)) = Some (cr_case c)"
        using get_case_run [OF c] by auto
      moreover have "db w2 = db w1" "db w5 = db w4" using now later by (simp_all add: utc_now_run)
      ultimately have "service_inv e (db w3) \<and> run \<in> set (runs (db w3)) \<and> state_of_run run st"
        using inv by (intro begin_run_inv [OF _ known _ starts]) simp_all
      then have "service_inv e (db w4)" using advance_inv [OF _ _ _ off _ adv] by simp
      then show ?thesis using outcome_inv [OF _ aud add] Pair \<open>db w5 = db w4\<close> by simp
    qed
  qed
qed

lemma latest_checkpoint_of_run:
  assumes inv: "workflow_inv s" and mem: "r \<in> set (runs s)"
    and latest: "first_row (sort_key (\<lambda>c. - ck_seq c) (run_checkpoints (wr_workflow_id r) s)) = Some c"
  shows "state_of_run r (ck_state c)"
proof -
  let ?cs = "run_checkpoints (wr_workflow_id r) s"
  from first_row_mem [OF latest] have c: "c \<in> set ?cs" by simp
  have con: "run_consistent s r" using inv mem by (simp add: workflow_inv_def)
  have top: "\<forall>x \<in> set ?cs. ck_seq x \<le> ck_seq c"
  proof -
    obtain ys where srt: "sort_key (\<lambda>c. - ck_seq c) ?cs = c # ys" using latest by (auto simp: first_row_def split: list.splits)
    have "sorted (map (\<lambda>c. - ck_seq c) (c # ys))" unfolding srt [symmetric] by simp
    moreover have "set ?cs = set (c # ys)" unfolding srt [symmetric] by simp
    ultimately show ?thesis by auto
  qed
  have "ck_seq ` set ?cs = {1..wr_checkpoint_seq r}"
    using con by (metis run_consistent_def list.set_map set_upto)
  moreover have "ck_seq c \<in> ck_seq ` set ?cs" using c by simp
  ultimately have "ck_seq c \<le> wr_checkpoint_seq r" "wr_checkpoint_seq r \<in> ck_seq ` set ?cs" by auto
  with top have "ck_seq c = wr_checkpoint_seq r" by fastforce
  then show ?thesis using con c
    by (auto simp: run_consistent_def checkpoint_consistent_def mirrors_def state_of_run_def)
qed

lemma readonly_guard: "readonly (resume_guard run st q)"
  unfolding resume_guard_def get_evaluation_def verify_def
  by (auto intro!: readonly_bnd simp: andthen_def split: option.split)

lemma reopen_run_run:
  assumes open': "reopen_run wid q v corr e w = (Inr (run, st), w')" and inv: "workflow_inv (db w)"
  shows "db w' = db w \<and> run \<in> set (runs (db w)) \<and> wr_workflow_id run = wid \<and> wr_state_version run = v \<and>
    state_of_run run st"
proof -
  from open' obtain ck w1 c w2 u where row: "row_by wr_workflow_id wid (runs (db w)) = Some run"
    and version: "wr_state_version run = v"
    and latest: "first_row (sort_key (\<lambda>c. - ck_seq c) (run_checkpoints (wr_workflow_id run) (db w))) = Some ck"
    and "w1 = w" and c: "get_case (wr_case_id run) e w1 = (Inr c, w2)"
    and guard: "resume_guard run (ck_state ck) q e w2 = (Inr u, w')" and st: "st = resumed_state run ck c corr q"
    unfolding reopen_run_def compare_state_version_def get_run_def latest_checkpoint_def
    by (auto simp: app_simps split: option.splits)
  have "run \<in> set (runs (db w))" and wid: "wr_workflow_id run = wid" using row_by_Some [OF row] by auto
  moreover from latest_checkpoint_of_run [OF inv this(1) latest] have "state_of_run run st"
    by (simp add: state_of_run_def st resumed_state_def)
  moreover have "db w' = db w"
    using get_case_run [OF c] \<open>w1 = w\<close> readonly_run [OF readonly_guard guard] by simp
  ultimately show ?thesis using version by simp
qed

lemma resume_body_run:
  assumes "resume_body sv wid q key v corr f e w = (Inr d, w')"
  obtains now w1 run st w2 run' final ck w3 u w4 u' where
    "utc_now e w = (Inr now, w1)" "reopen_run wid q v corr e w1 = (Inr (run, st), w2)"
    "advance_workflow sv run st corr (ret now) e w2 = (Inr (run', final, ck), w3)"
    "workflow_audit (wr_case_id run') (wr_workflow_id run') ''WORKFLOW_RESUMED'' (wr_state_version run') corr
       (outcome_metadata run' final ck) now e w3 = (Inr u, w4)"
    "idem_add (resume_operation wid) key f (wr_case_id run')
       (VDict (dump_workflow_response (to_workflow_response run' (Some ck)))) 202 corr now e w4 = (Inr u', w')"
    "d = dump_workflow_response (to_workflow_response run' (Some ck))"
  using assms unfolding resume_body_def Let_def
  by (elim bnd_InrE, unfold rename_run transact_run, elim bnd_InrE3 bnd_InrE2 andthen_InrE,
      unfold ret_run, elim conjE, hypsubst) (rule that; assumption)

lemma resume_body_inv:
  assumes off: "offline sv"
  shows "maintains service_inv (resume_body sv wid q key v corr f)"
  unfolding maintains_def
proof (intro allI impI)
  fix e :: env and w :: world
  assume inv: "service_inv e (db w)"
  show "service_inv e (db (snd (resume_body sv wid q key v corr f e w)))"
  proof (cases "resume_body sv wid q key v corr f e w")
    case (Pair r w')
    show ?thesis
    proof (cases r)
      case (Inl x)
      then show ?thesis using rolls_backD [OF resume_body_rollback] Pair inv by (metis snd_conv)
    next
      case (Inr d)
      with Pair have "resume_body sv wid q key v corr f e w = (Inr d, w')" by simp
      then obtain now w1 run st w2 run' final ck w3 u w4 u' where
        now: "utc_now e w = (Inr now, w1)" and open': "reopen_run wid q v corr e w1 = (Inr (run, st), w2)"
        and adv: "advance_workflow sv run st corr (ret now) e w2 = (Inr (run', final, ck), w3)"
        and aud: "workflow_audit (wr_case_id run') (wr_workflow_id run') ''WORKFLOW_RESUMED'' (wr_state_version run') corr
           (outcome_metadata run' final ck) now e w3 = (Inr u, w4)"
        and add: "idem_add (resume_operation wid) key f (wr_case_id run')
           (VDict (dump_workflow_response (to_workflow_response run' (Some ck)))) 202 corr now e w4 = (Inr u', w')"
        by (rule resume_body_run)
      have same1: "db w1 = db w" using now by (simp add: utc_now_run)
      have reopened: "db w2 = db w \<and> run \<in> set (runs (db w)) \<and> state_of_run run st"
        using reopen_run_run [OF open'] inv same1 by (simp add: service_inv_def)
      then have "service_inv e (db w3)" using inv by (intro advance_inv [OF _ _ _ off _ adv, THEN conjunct1]) auto
      then show ?thesis using outcome_inv [OF _ aud add] Pair by simp
    qed
  qed
qed

end
