(* ===== verification/ServiceCalls.thy ===== *)
theory ServiceCalls
  imports History
begin

text \<open>
  The calls of a client as one datatype, \<open>serve\<close>, and the worlds they lead to, \<open>reaches\<close>.  The closure
  conditions \<open>case_closed\<close>, \<open>flow_closed\<close> and \<open>policy_closed\<close> say which rows a property must tolerate to survive
  the calls of one service; the properties of histories follow from them.
\<close>

section \<open>Calls\<close>

datatype call = CreateCase create_case_request string string
  | RegisterEvidence string evidence_in string int string
  | StartWorkflow start_request string string
  | ResumeWorkflow string resume_request string int string
  | IngestPolicy ingestion_request string
  | ReindexPolicy ingestion_request string
  | PromotePolicy promotion_request string
  | SearchPolicy retrieval_request string "eligibility_profile option"
  | EvaluateSearch retrieval_config string string

definition silent :: "'a app \<Rightarrow> (string, pyval) dict app" where
  "silent m = bnd m (\<lambda>_. ret [])"

fun serve :: "services \<Rightarrow> call \<Rightarrow> (string, pyval) dict app" where
  "serve sv (CreateCase q key corr) = bnd (create_case (sv_bank sv) q key corr) (\<lambda>(d, _). ret d)"
| "serve sv (RegisterEvidence cid ev key v corr) = register_evidence cid ev key v corr"
| "serve sv (StartWorkflow q key corr) = start_workflow sv q key corr"
| "serve sv (ResumeWorkflow wid q key v corr) = resume_workflow sv wid q key v corr"
| "serve sv (IngestPolicy q corr) = silent (ingest q corr)"
| "serve sv (ReindexPolicy q corr) = silent (create_reindex_run q corr)"
| "serve sv (PromotePolicy q corr) = silent (promote q corr)"
| "serve sv (SearchPolicy q corr p) = silent (retrieve (sv_scores sv) q corr p)"
| "serve sv (EvaluateSearch cfg actor corr) = silent (evaluate_retrieval (sv_scores sv) cfg actor corr)"

inductive reaches :: "services \<Rightarrow> (string \<Rightarrow> string) \<Rightarrow> world \<Rightarrow> world \<Rightarrow> bool" for sv sha where
  here: "reaches sv sha w w"
| later: "reaches sv sha w w' \<Longrightarrow> en_sha e = sha \<Longrightarrow> serve sv call e w' = (r, w'') \<Longrightarrow> reaches sv sha w w''"

section \<open>What a property must tolerate\<close>

definition bump :: "int \<Rightarrow> case_row \<Rightarrow> case_row" where
  "bump now c = c\<lparr>ca_state_version := ca_state_version c + 1, ca_updated_at := now\<rparr>"

definition recount :: "int \<Rightarrow> idempotency_row \<Rightarrow> idempotency_row" where
  "recount t r = r\<lparr>id_replay_count := id_replay_count r + 1, id_last_replayed_at := Some t\<rparr>"

definition count_closed :: "(env \<Rightarrow> store \<Rightarrow> bool) \<Rightarrow> bool" where
  "count_closed Q \<longleftrightarrow> (\<forall>e s p t. Q e s \<longrightarrow> Q e (idempotency_update (update_where p (recount t)) s))"

definition idem_closed :: "(env \<Rightarrow> store \<Rightarrow> bool) \<Rightarrow> bool" where
  "idem_closed Q \<longleftrightarrow> count_closed Q \<and>
     (\<forall>e s r. Q e s \<longrightarrow> key_free idempotency_key (idempotency s) r \<longrightarrow> Q e (idempotency_update (\<lambda>t. t @ [r]) s))"

definition case_closed :: "(env \<Rightarrow> store \<Rightarrow> bool) \<Rightarrow> bool" where
  "case_closed Q \<longleftrightarrow> idem_closed Q \<and> (\<forall>e s r. Q e s \<longrightarrow> Q e (cases_update (\<lambda>t. t @ [r]) s)) \<and>
     (\<forall>e s p t. Q e s \<longrightarrow> Q e (cases_update (update_where p (bump t)) s)) \<and>
     (\<forall>e s r. Q e s \<longrightarrow> Q e (evidence_rows_update (\<lambda>t. t @ [r]) s)) \<and>
     (\<forall>e s r. Q e s \<longrightarrow> Q e (contexts_update (\<lambda>t. t @ [r]) s)) \<and>
     (\<forall>e s r. Q e s \<longrightarrow> Q e (audits_update (\<lambda>t. t @ [r]) s)) \<and>
     (\<forall>e s r. Q e s \<longrightarrow> Q e (timeline_update (\<lambda>t. t @ [r]) s))"

definition flow_closed :: "(env \<Rightarrow> store \<Rightarrow> bool) \<Rightarrow> bool" where
  "flow_closed Q \<longleftrightarrow> row_closed Q \<and> idem_closed Q \<and> (\<forall>e s r. Q e s \<longrightarrow> Q e (runs_update (\<lambda>t. t @ [r]) s)) \<and>
     (\<forall>e s r. Q e s \<longrightarrow> Q e (runs_update (update_where (\<lambda>x. wr_workflow_id x = wr_workflow_id r) (\<lambda>_. r)) s)) \<and>
     (\<forall>e s c. Q e s \<longrightarrow> Q e (checkpoints_update (\<lambda>t. t @ [c]) s))"

definition completed :: "string \<Rightarrow> pyval list \<Rightarrow> (string, pyval) dict \<Rightarrow> int \<Rightarrow> ingestion_row \<Rightarrow> ingestion_row" where
  "completed status errors tel t r = r\<lparr>ig_status := status, ig_validation_errors := errors, ig_telemetry := tel,
     ig_completed_at := Some t\<rparr>"

definition retired :: "corpus_row \<Rightarrow> corpus_row" where
  "retired c = c\<lparr>co_is_active := False\<rparr>"

definition policy_closed :: "(env \<Rightarrow> store \<Rightarrow> bool) \<Rightarrow> bool" where
  "policy_closed Q \<longleftrightarrow> (\<forall>e s r. Q e s \<longrightarrow> Q e (ingestions_update (\<lambda>t. t @ [r]) s)) \<and>
     (\<forall>e s p st er tm n. Q e s \<longrightarrow> Q e (ingestions_update (update_where p (completed st er tm n)) s)) \<and>
     (\<forall>e s r. Q e s \<longrightarrow> Q e (documents_update (\<lambda>t. t @ [r]) s)) \<and> (\<forall>e s r. Q e s \<longrightarrow> Q e (chunks_update (\<lambda>t. t @ [r]) s)) \<and>
     (\<forall>e s r. Q e s \<longrightarrow> Q e (corpora_update (\<lambda>t. t @ [r]) s)) \<and>
     (\<forall>e s p. Q e s \<longrightarrow> Q e (corpora_update (update_where p retired) s)) \<and>
     (\<forall>e s r. Q e s \<longrightarrow> Q e (policy_evaluations_update (\<lambda>t. t @ [r]) s)) \<and>
     (\<forall>e s r. Q e s \<longrightarrow> Q e (policy_audits_update (\<lambda>t. t @ [r]) s))"

lemma closed_replay:
  assumes "count_closed Q"
  shows "maintains Q (replay operation key f)"
  using assms unfolding replay_def idem_get_def mark_replayed_def stored_response_def count_closed_def recount_def
  by (auto intro!: preserved preserves_change split: option.split pyval.split)

lemma closed_idempotent:
  assumes "count_closed Q" and "\<And>f. maintains Q (body f)"
  shows "maintains Q (idempotent operation key fp body)"
  unfolding idempotent_def using assms
  by (intro preserves_bnd closed_replay) (auto intro!: preserved split: option.split)

lemma closed_idem_add [preserved]: "idem_closed Q \<Longrightarrow> maintains Q (idem_add o1 k fp ci re st co t)"
  unfolding idem_add_def idem_closed_def by (auto intro!: preserves_insert)

section \<open>Cases\<close>

lemma case_rows [preserved]:
  assumes "case_closed Q"
  shows "maintains Q (insert_row cases cases_update ca_case_id c)" "maintains Q (append_row evidence_rows_update ev)"
    "maintains Q (append_row contexts_update cx)" "maintains Q (append_row audits_update au)"
    "maintains Q (append_row timeline_update tm)"
    "maintains Q (change_rows cases_update p (\<lambda>c. c\<lparr>ca_state_version := ca_state_version c + 1, ca_updated_at := now\<rparr>))"
  using assms unfolding case_closed_def bump_def by (auto intro!: preserves_append preserves_insert preserves_change)

lemma closed_get_case [preserved]: "maintains Q (get_case cid)"
  by (rule readonly_maintains [OF readonly_get_case])

lemma closed_record_evidence [preserved]: "case_closed Q \<Longrightarrow> maintains Q (record_evidence c v corr now ev)"
  unfolding record_evidence_def add_evidence_def append_evidence_registered_def audit_append_def timeline_add_def Let_def
  by (auto intro!: preserved)

lemma closed_create_body: "case_closed Q \<Longrightarrow> maintains Q (create_case_body bank q key corr f)"
  unfolding create_case_body_def add_case_def add_results_def add_result_def append_case_created_def
    audit_append_def timeline_case_created_def timeline_add_def Let_def
  by (auto intro!: preserved simp: case_closed_def [of Q])

lemma case_closed_count: "case_closed Q \<Longrightarrow> count_closed Q" "flow_closed Q \<Longrightarrow> count_closed Q"
  by (simp_all add: case_closed_def flow_closed_def idem_closed_def)

lemma closed_create_case: "count_closed Q \<Longrightarrow> (\<And>f. maintains Q (create_case_body bank q key corr f)) \<Longrightarrow>
    maintains Q (create_case bank q key corr)"
  unfolding create_case_def by (rule closed_idempotent)

lemma closed_register_body: "case_closed Q \<Longrightarrow> maintains Q (register_body cid ev key v corr f)"
  unfolding register_body_def case_get_def increment_version_def Let_def
  by (auto intro!: preserved closed_idem_add simp: case_closed_def [of Q] split: option.split)

lemma closed_register: "count_closed Q \<Longrightarrow> (\<And>f. maintains Q (register_body cid ev key v corr f)) \<Longrightarrow>
    maintains Q (register_evidence cid ev key v corr)"
  unfolding register_evidence_def by (intro preserves_bnd closed_idempotent preserves_case_prod) auto

section \<open>Workflows\<close>

lemma flow_rows [preserved]:
  assumes "flow_closed Q"
  shows "maintains Q (insert_row runs runs_update wr_workflow_id r)"
    "wr_workflow_id r' = i \<Longrightarrow> maintains Q (change_rows runs_update (\<lambda>x. wr_workflow_id x = i) (\<lambda>_. r'))"
    "maintains Q (insert_row checkpoints checkpoints_update checkpoint_key c)"
  using assms unfolding flow_closed_def by (auto intro!: preserves_insert preserves_change)

lemma closed_append_checkpoint [preserved]:
  "flow_closed Q \<Longrightarrow> maintains Q (append_checkpoint run st node status reason effects tel corr now)"
  unfolding append_checkpoint_def Let_def by (auto intro!: preserved simp: advance_run_def)

lemma closed_validate_state [preserved]: "maintains Q (validate_state st)"
  unfolding validate_state_def by (auto intro!: preserved)

lemma closed_advance [preserved]:
  "flow_closed Q \<Longrightarrow> offline sv \<Longrightarrow> maintains Q clock \<Longrightarrow> maintains Q (advance_workflow sv run st corr clock)"
  unfolding advance_workflow_def Let_def by (auto intro!: preserved simp: flow_closed_def [of Q])

lemma closed_begin_run [preserved]: "flow_closed Q \<Longrightarrow> maintains Q (begin_run q corr now c)"
  unfolding begin_run_def create_run_def active_for_case_def Let_def
  by (auto intro!: preserved simp: flow_closed_def [of Q])

lemma closed_reopen [preserved]: "maintains Q (reopen_run wid q v corr)"
  unfolding reopen_run_def compare_state_version_def get_run_def latest_checkpoint_def
  by (auto intro!: preserved readonly_maintains [OF readonly_guard] split: option.split)

lemma closed_bodies:
  assumes "flow_closed Q" and "offline sv"
  shows "maintains Q (start_body sv q key corr f)" "maintains Q (resume_body sv wid rq key v corr f)"
  unfolding start_body_def resume_body_def Let_def using assms
  by (auto intro!: preserved simp: flow_closed_def [of Q])

lemma closed_start: "count_closed Q \<Longrightarrow> (\<And>f. maintains Q (start_body sv q key corr f)) \<Longrightarrow>
    maintains Q (start_workflow sv q key corr)"
  unfolding start_workflow_def by (intro preserves_bnd closed_idempotent) auto

lemma closed_resume: "count_closed Q \<Longrightarrow> (\<And>f. maintains Q (resume_body sv wid q key v corr f)) \<Longrightarrow>
    maintains Q (resume_workflow sv wid q key v corr)"
  unfolding resume_workflow_def by (intro preserves_bnd closed_idempotent) auto

section \<open>Policies\<close>

lemma policy_rows [preserved]:
  assumes "policy_closed Q"
  shows "maintains Q (insert_row ingestions ingestions_update ig_run_id i)"
    "maintains Q (change_rows ingestions_update p (\<lambda>r. r\<lparr>ig_status := st, ig_validation_errors := er,
       ig_telemetry := tm, ig_completed_at := Some n\<rparr>))"
    "maintains Q (insert_row documents documents_update document_key d)"
    "maintains Q (insert_row chunks chunks_update ch_chunk_id c)"
    "maintains Q (change_rows corpora_update p' (\<lambda>c. c\<lparr>co_is_active := False\<rparr>))"
    "maintains Q (insert_row corpora corpora_update co_corpus_version k)"
    "maintains Q (append_row policy_evaluations_update pe)" "maintains Q (append_row policy_audits_update pa)"
  using assms unfolding policy_closed_def completed_def retired_def by (auto intro!: preserves_append preserves_insert preserves_change)

lemma policy_closed_audit [preserved]: "policy_closed Q \<Longrightarrow> maintains Q (policy_audit ev ac sr de co t ru do2 ve ck me)"
  unfolding policy_audit_def policy_audit_append_def Let_def by (auto intro!: preserved)

lemma policy_closed_ingest [preserved]: "policy_closed Q \<Longrightarrow> maintains Q (ingest q corr)"
  unfolding ingest_def validate_admin_actor_def reject_documents_def accept_documents_def create_ingestion_def
    complete_ingestion_def ingest_document_def add_document_def store_chunk_def add_chunk_def ingestion_view_def
    get_ingestion_def Let_def
  by (auto intro!: preserved split: option.split)

lemma policy_closed_reindex [preserved]: "policy_closed Q \<Longrightarrow> maintains Q (create_reindex_run q corr)"
  unfolding create_reindex_run_def ingestion_view_def get_ingestion_def by (auto intro!: preserved split: option.split)

lemma policy_closed_promote [preserved]: "policy_closed Q \<Longrightarrow> maintains Q (promote q corr)"
  unfolding promote_def validate_admin_actor_def evaluate_run_def grant_promotion_def deny_promotion_def promote_corpus_def
    add_policy_evaluation_def promotion_response_def active_corpus_def get_ingestion_def Let_def
  by (auto intro!: preserved split: option.split)

lemma policy_closed_retrieve [preserved]: "policy_closed Q \<Longrightarrow> maintains Q (retrieve scores q corr p)"
  unfolding retrieve_def retrieve_from_def abstain_def answer_def retrieval_audit_def active_corpus_def Let_def
  by (auto intro!: preserved split: option.split)

lemma policy_closed_evaluate [preserved]: "policy_closed Q \<Longrightarrow> maintains Q (evaluate_retrieval scores cfg actor corr)"
  unfolding evaluate_retrieval_def add_policy_evaluation_def active_corpus_def Let_def
  by (auto intro!: preserved split: option.split)

text \<open>A property that tolerates everything survives every call.\<close>

lemma closed_serve:
  assumes "case_closed Q" and "flow_closed Q" and "policy_closed Q" and "offline sv"
  shows "maintains Q (serve sv call)"
  using assms case_closed_count [of Q]
  by (cases call) (auto simp: silent_def intro!: preserved closed_create_case closed_register closed_start closed_resume
      closed_create_body closed_register_body closed_bodies)

end
