(* ===== verification/ServiceHistory.thy ===== *)
theory ServiceHistory
  imports ServiceCalls
begin

text \<open>
  What holds in every world the calls of the clients lead to: the invariant of the service, and the tables
  that only grow.
\<close>

section \<open>The invariant\<close>

lemma maintains_conj: "maintains P m \<Longrightarrow> maintains Q m \<Longrightarrow> maintains (\<lambda>e s. P e s \<and> Q e s) m"
  by (simp add: maintains_def)

lemma counters_service_inv: "count_closed service_inv"
  using case_inv_counters
  unfolding count_closed_def counter_blind_def recount_def service_inv_def runs_owned_def control_inv_def
    workflow_inv_def run_consistent_def run_checkpoints_def
  by simp

definition flow_inv :: "env \<Rightarrow> store \<Rightarrow> bool" where
  "flow_inv e s \<longleftrightarrow> workflow_inv s \<and> runs_owned s \<and> control_inv e s"

lemma service_inv_split: "service_inv = (\<lambda>e s. case_inv s \<and> flow_inv e s)"
  by (intro ext) (simp add: service_inv_def flow_inv_def)

lemma bumped_ids: "ca_case_id ` set (update_where p (bump t) cs) = ca_case_id ` set cs"
  by (metis bump_def case_row.simps case_row.surjective list.set_map update_where_keys)

lemma flow_inv_case_closed: "case_closed flow_inv"
  unfolding case_closed_def idem_closed_def count_closed_def flow_inv_def runs_owned_def control_inv_def
    workflow_inv_def run_consistent_def run_checkpoints_def
  by (auto simp: bumped_ids)

lemma service_inv_policy_closed: "policy_closed service_inv"
  unfolding policy_closed_def
  by (intro conjI allI impI; simp add: service_inv_def runs_owned_def control_inv_def workflow_inv_def run_consistent_def
    run_checkpoints_def; elim conjE; erule case_inv_same; simp)

lemma case_bodies_inv:
  "maintains service_inv (create_case_body bank q key corr f)" "maintains service_inv (register_body cid ev key v corr f)"
  unfolding service_inv_split
  by (rule maintains_conj create_body_inv register_body_inv closed_create_body closed_register_body flow_inv_case_closed)+

lemma serve_inv: "offline sv \<Longrightarrow> maintains service_inv (serve sv call)"
  by (cases call) (auto simp: silent_def intro!: preserved closed_create_case closed_register closed_start closed_resume
      counters_service_inv case_bodies_inv start_body_inv resume_body_inv service_inv_policy_closed)

lemma service_inv_sha: "en_sha e = en_sha e' \<Longrightarrow> service_inv e s = service_inv e' s"
  by (simp add: service_inv_def control_inv_def)

lemma reaches_inv:
  assumes "reaches sv sha w w'" and "offline sv" and "\<And>e. en_sha e = sha \<Longrightarrow> service_inv e (db w)"
  shows "en_sha e = sha \<Longrightarrow> service_inv e (db w')"
  using assms(1,3)
proof (induction arbitrary: e)
  case (later w w' e0 call r w'')
  then have "service_inv e0 (db w'')"
    using maintainsD [OF serve_inv [OF assms(2)] later.hyps(3)] by blast
  then show ?case using later.hyps(2) later.prems(1) service_inv_sha by metis
qed simp

end
