(* ===== verification/Growth.thy ===== *)
theory Growth
  imports ServiceHistory "HOL-Library.Sublist"
begin

text \<open>
  The tables only grow.  \<open>grown R xs ys\<close>: every row of \<open>xs\<close> is still at its place in \<open>ys\<close>, changed at most as
  \<open>R\<close> allows; with equality it is the prefix order.  \<open>grows s s'\<close> says it of every table, with the few
  columns an update may touch.
\<close>

section \<open>Growing lists\<close>

definition grown :: "('r \<Rightarrow> 'r \<Rightarrow> bool) \<Rightarrow> 'r list \<Rightarrow> 'r list \<Rightarrow> bool" where
  "grown R xs ys \<longleftrightarrow> length xs \<le> length ys \<and> (\<forall>i < length xs. R (xs ! i) (ys ! i))"

lemma grown_refl: "(\<And>x. R x x) \<Longrightarrow> grown R xs xs"
  by (simp add: grown_def)

lemma grown_snoc: "grown R xs ys \<Longrightarrow> grown R xs (ys @ [y])"
  by (auto simp: grown_def nth_append)

lemma grown_change:
  assumes "grown R xs ys" and "\<And>x y. R x y \<Longrightarrow> p y \<Longrightarrow> R x (f y)"
  shows "grown R xs (update_where p f ys)"
  using assms by (auto simp: grown_def update_where_def)

lemma grown_mem: "grown R xs ys \<Longrightarrow> x \<in> set xs \<Longrightarrow> \<exists>y \<in> set ys. R x y"
  by (metis grown_def in_set_conv_nth order_less_le_trans)

lemma grown_prefix: "grown (=) xs ys \<longleftrightarrow> prefix xs ys"
  unfolding grown_def
  by (auto simp: prefix_def list_eq_iff_nth_eq nth_append intro!: exI [of _ "drop (length xs) ys"])

lemma grown_filter: "grown (=) xs ys \<Longrightarrow> grown (=) (filter p xs) (filter p ys)"
  by (auto simp: grown_prefix prefix_def)

section \<open>Growing stores\<close>

definition case_after :: "case_row \<Rightarrow> case_row \<Rightarrow> bool" where
  "case_after c c' \<longleftrightarrow> (\<exists>v t. ca_state_version c \<le> v \<and> c' = c\<lparr>ca_state_version := v, ca_updated_at := t\<rparr>)"

definition record_after :: "idempotency_row \<Rightarrow> idempotency_row \<Rightarrow> bool" where
  "record_after r r' \<longleftrightarrow> (\<exists>n t. r' = r\<lparr>id_replay_count := n, id_last_replayed_at := t\<rparr>)"

definition run_after :: "run_row \<Rightarrow> run_row \<Rightarrow> bool" where
  "run_after r r' \<longleftrightarrow> wr_workflow_id r' = wr_workflow_id r"

definition ingestion_after :: "ingestion_row \<Rightarrow> ingestion_row \<Rightarrow> bool" where
  "ingestion_after r r' \<longleftrightarrow> r' = r \<or> (\<exists>st er tm n. r' = completed st er tm n r)"

definition corpus_after :: "corpus_row \<Rightarrow> corpus_row \<Rightarrow> bool" where
  "corpus_after c c' \<longleftrightarrow> c' = c \<or> c' = retired c"

definition grows :: "store \<Rightarrow> store \<Rightarrow> bool" where
  "grows s s' \<longleftrightarrow> configs s' = configs s \<and> grown case_after (cases s) (cases s') \<and> grown record_after (idempotency s) (idempotency s') \<and>
     grown run_after (runs s) (runs s') \<and> grown ingestion_after (ingestions s) (ingestions s') \<and>
     grown corpus_after (corpora s) (corpora s') \<and>
     prefix (evidence_rows s) (evidence_rows s') \<and> prefix (contexts s) (contexts s') \<and>
     prefix (audits s) (audits s') \<and> prefix (timeline s) (timeline s') \<and> prefix (checkpoints s) (checkpoints s') \<and>
     prefix (evaluations s) (evaluations s') \<and> prefix (stage_results s) (stage_results s') \<and>
     prefix (reviews s) (reviews s') \<and> prefix (fulfillments s) (fulfillments s') \<and>
     prefix (documents s) (documents s') \<and> prefix (chunks s) (chunks s') \<and>
     prefix (policy_evaluations s) (policy_evaluations s') \<and> prefix (policy_audits s) (policy_audits s')"

lemmas after_defs = case_after_def record_after_def run_after_def ingestion_after_def corpus_after_def bump_def
  recount_def completed_def retired_def

lemma case_after_refl [simp]: "case_after c c"
  unfolding case_after_def by (intro exI [of _ "ca_state_version c"] exI [of _ "ca_updated_at c"]) simp

lemma record_after_refl [simp]: "record_after i i"
  unfolding record_after_def by (intro exI [of _ "id_replay_count i"] exI [of _ "id_last_replayed_at i"]) simp

lemma after_refl [simp]: "run_after r r" "ingestion_after g g" "corpus_after k k"
  by (simp_all add: run_after_def ingestion_after_def corpus_after_def)

lemma after_step:
  "case_after c c' \<Longrightarrow> case_after c (bump t c')" "record_after i i' \<Longrightarrow> record_after i (recount t i')"
  "ingestion_after g g' \<Longrightarrow> ingestion_after g (completed st er tm n g')" "corpus_after k k' \<Longrightarrow> corpus_after k (retired k')"
proof -
  show "case_after c c' \<Longrightarrow> case_after c (bump t c')"
    by (force simp: case_after_def bump_def intro: exI [of _ "ca_state_version c' + 1"] exI [of _ t])
  show "record_after i i' \<Longrightarrow> record_after i (recount t i')"
    by (auto simp: record_after_def recount_def intro!: exI [of _ "id_replay_count i' + 1"] exI [of _ "Some t"])
  show "ingestion_after g g' \<Longrightarrow> ingestion_after g (completed st er tm n g')"
    by (auto simp: ingestion_after_def completed_def intro!: exI [of _ st] exI [of _ er] exI [of _ tm] exI [of _ n])
  show "corpus_after k k' \<Longrightarrow> corpus_after k (retired k')" by (auto simp: corpus_after_def retired_def)
qed

lemma grows_refl: "grows s s"
  by (simp add: grows_def grown_refl)

lemma grows_changes:
  "grown case_after xs cs \<Longrightarrow> grown case_after xs (update_where p (bump t) cs)"
  "grown record_after is rs \<Longrightarrow> grown record_after is (update_where q (recount t) rs)"
  "grown run_after us vs \<Longrightarrow> grown run_after us (update_where (\<lambda>x. wr_workflow_id x = wr_workflow_id r) (\<lambda>_. r) vs)"
  "grown ingestion_after gs hs \<Longrightarrow> grown ingestion_after gs (update_where a (completed st er tm n) hs)"
  "grown corpus_after ks ls \<Longrightarrow> grown corpus_after ks (update_where b retired ls)"
  by (erule grown_change; simp add: after_step run_after_def)+

lemma closed_grows:
  shows "case_closed (\<lambda>_. grows s0)" and "flow_closed (\<lambda>_. grows s0)" and "policy_closed (\<lambda>_. grows s0)"
  unfolding case_closed_def flow_closed_def row_closed_def idem_closed_def count_closed_def policy_closed_def grows_def
  by (intro conjI allI impI; elim conjE; simp add: grown_snoc grows_changes)+

lemma serve_grows: "offline sv \<Longrightarrow> serve sv call e w = (r, w') \<Longrightarrow> grows (db w) (db w')"
  by (rule maintainsD [OF closed_serve [OF closed_grows] _ grows_refl])

lemma reaches_grows:
  assumes "reaches sv sha w w'" and "offline sv" and "grows s0 (db w)"
  shows "grows s0 (db w')"
  using assms(1,3)
proof induction
  case (later w w' e call r w'')
  then show ?case using maintainsD [OF closed_serve [OF closed_grows assms(2)] later.hyps(3)] by simp
qed

end
