(* ===== verification/Retries.thy ===== *)
theory Retries
  imports Growth
begin

text \<open>
  Retries across a history: an answered request is answered again without a second effect, a key cannot be
  used for another request, and a call that fails changes nothing.
\<close>

section \<open>Requests\<close>

fun request_of :: "call \<Rightarrow> (string \<times> string \<times> pyval) option" where
  "request_of (CreateCase q key _) = Some (CREATE_CASE_OPERATION, key, dump_create_case q)"
| "request_of (RegisterEvidence cid ev key _ _) = Some (evidence_operation cid, key, dump_evidence_in ev)"
| "request_of (StartWorkflow q key _) = Some (start_operation (sr_case_id q), key, dump_start_request q)"
| "request_of (ResumeWorkflow wid q key _ _) = Some (resume_operation wid, key, dump_resume_request q)"
| "request_of _ = None"

definition mark_replay :: "(string, pyval) dict \<Rightarrow> (string, pyval) dict" where
  "mark_replay d = dict_set d ''replayed'' (VBool True)"

text \<open>Two answers that differ at most in the flag that says the answer is a replay.\<close>

definition same_answer :: "(string, pyval) dict \<Rightarrow> (string, pyval) dict \<Rightarrow> bool" where
  "same_answer d d' \<longleftrightarrow> mark_replay d = mark_replay d'"

definition history :: "services \<Rightarrow> (string \<Rightarrow> string) \<Rightarrow> world \<Rightarrow> bool" where
  "history sv sha w \<longleftrightarrow> (\<exists>w0. db w0 = empty_store \<and> reaches sv sha w0 w)"

lemma history_inv:
  assumes "history sv sha w" and "offline sv" and "en_sha e = sha"
  shows "service_inv e (db w)"
proof -
  from assms(1) obtain w0 where "db w0 = empty_store" and path: "reaches sv sha w0 w" by (auto simp: history_def)
  then have "service_inv e0 (db w0)" for e0 by (simp add: service_inv_empty)
  then show ?thesis by (rule reaches_inv [OF path assms(2) _ assms(3)])
qed

lemma mark_replay_idem: "mark_replay (mark_replay d) = mark_replay d"
  unfolding mark_replay_def by (induction d) auto

lemma answered_marks: "answered (d, True) = mark_replay d" "answered (d, False) = d"
  by (simp_all add: answered_def mark_replay_def)

lemma recorded_grows:
  assumes "grown record_after (idempotency s) (idempotency s')" and "recorded op key f d s"
  shows "recorded op key f d s'"
proof -
  from assms(2) obtain r where "row_by idempotency_key (op, key) (idempotency s) = Some r"
    and r: "id_fingerprint r = f" "id_response r = Some (VDict d)" by (auto simp: recorded_def)
  then obtain i where i: "i < length (idempotency s)" "idempotency_key (idempotency s ! i) = (op, key)"
    "r = idempotency s ! i" "\<forall>j < i. idempotency_key (idempotency s ! j) \<noteq> (op, key)"
    by (auto simp: row_by_def find_Some_iff)
  have after: "record_after (idempotency s ! j) (idempotency s' ! j)" if "j \<le> i" for j
    using assms(1) i(1) that by (simp add: grown_def)
  have key: "idempotency_key (idempotency s' ! j) = idempotency_key (idempotency s ! j)" if "j \<le> i" for j
    using after [OF that] by (auto simp: record_after_def idempotency_key_def)
  have "i < length (idempotency s')" using assms(1) i(1) by (simp add: grown_def)
  then have "row_by idempotency_key (op, key) (idempotency s') = Some (idempotency s' ! i)"
    unfolding row_by_def find_Some_iff using i key by (intro exI [of _ i]) auto
  then show ?thesis using after [of i] i(3) r by (auto simp: recorded_def record_after_def)
qed

lemma counters_grow: "same_but_counters s s' \<Longrightarrow> grown record_after (idempotency s) (idempotency s')"
  unfolding same_but_counters_def using after_step(2) by (auto intro!: grown_change simp: grown_refl recount_def)

section \<open>One protocol for four operations\<close>

definition protocol :: "string \<Rightarrow> string \<Rightarrow> pyval \<Rightarrow> (string, pyval) dict app \<Rightarrow> bool" where
  "protocol op key p m \<longleftrightarrow> (\<exists>body flag. idempotent_body op key body \<and>
     m = bnd (idempotent op key (fingerprint_request p) body)
       (\<lambda>r. ret (if snd r \<and> flag then mark_replay (fst r) else fst r)))"

lemma serve_protocol:
  assumes "request_of call = Some (op, key, p)"
  shows "protocol op key p (serve sv call)"
  using assms
proof (cases call)
  case (CreateCase q k corr)
  with assms show ?thesis unfolding protocol_def mark_replay_def
    by (intro exI [of _ "create_case_body (sv_bank sv) q k corr"] exI [of _ False])
      (auto simp: create_case_def split_def intro: creation.idempotent_body_axioms)
next
  case (RegisterEvidence cid ev k v corr)
  with assms show ?thesis unfolding protocol_def mark_replay_def
    by (intro exI [of _ "register_body cid ev k v corr"] exI [of _ True])
      (auto simp: register_evidence_def split_def intro: registration.idempotent_body_axioms)
next
  case (StartWorkflow q k corr)
  with assms show ?thesis unfolding protocol_def mark_replay_def
    by (intro exI [of _ "start_body sv q k corr"] exI [of _ True])
      (auto simp: start_workflow_def answered_def intro: starting.idempotent_body_axioms)
next
  case (ResumeWorkflow wid q k v corr)
  with assms show ?thesis unfolding protocol_def mark_replay_def
    by (intro exI [of _ "resume_body sv wid q k v corr"] exI [of _ True])
      (auto simp: resume_workflow_def answered_def intro: resuming.idempotent_body_axioms)
qed auto

lemma protocol_records:
  assumes "protocol op key p m" and "m e w = (Inr d, w')"
  shows "\<exists>d0. recorded op key (fingerprint_request p e) d0 (db w') \<and> same_answer d d0"
proof -
  from assms obtain body d1 again where body: "idempotent_body op key body"
    and inner: "idempotent op key (fingerprint_request p) body e w = (Inr (d1, again), w')" and d: "d = d1 \<or> d = mark_replay d1"
    by (auto simp: protocol_def ret_run elim!: bnd_InrE split: if_splits)
  have "recorded op key (fingerprint_request p e) d1 (db w')"
    using idempotent_body.records [OF body inner] counters_grow recorded_grows by (cases again) blast+
  then show ?thesis using d mark_replay_idem by (auto simp: same_answer_def)
qed

lemma protocol_replays:
  assumes "protocol op key p m" and "recorded op key (fingerprint_request p e) d (db w)"
  shows "\<exists>d' w'. m e w = (Inr d', w') \<and> same_answer d d' \<and> same_but_counters (db w) (db w')"
proof -
  from assms(1) obtain body flag where body: "idempotent_body op key body"
    and m: "m = bnd (idempotent op key (fingerprint_request p) body)
      (\<lambda>r. ret (if snd r \<and> flag then mark_replay (fst r) else fst r))" unfolding protocol_def by blast
  from idempotent_body.replays [OF body, of "fingerprint_request p", OF assms(2)] show ?thesis
    by (auto simp: m bnd_def ret_def same_answer_def mark_replay_idem)
qed

lemma protocol_conflicts:
  assumes "protocol op key p m" and "recorded op key f d (db w)" and "fingerprint_request p e \<noteq> f"
  shows "m e w = (Inl IdempotencyConflict, w)"
proof -
  from assms(1) obtain body flag where body: "idempotent_body op key body"
    and m: "m = bnd (idempotent op key (fingerprint_request p) body)
      (\<lambda>r. ret (if snd r \<and> flag then mark_replay (fst r) else fst r))" unfolding protocol_def by blast
  from idempotent_body.conflicts [OF body assms(2), of "fingerprint_request p", OF assms(3)] show ?thesis by (simp add: m bnd_def)
qed

lemma protocol_atomic:
  assumes "protocol op key p m" and "records_complete (db w)" and "m e w = (Inl x, w')"
  shows "db w' = db w"
proof -
  from assms(1) obtain body flag where body: "idempotent_body op key body"
    and m: "m = bnd (idempotent op key (fingerprint_request p) body)
      (\<lambda>r. ret (if snd r \<and> flag then mark_replay (fst r) else fst r))" unfolding protocol_def by blast
  have "idempotent op key (fingerprint_request p) body e w = (Inl x, w')"
    using assms(3) by (auto simp: m bnd_def ret_def split: prod.splits sum.splits)
  then show ?thesis by (rule idempotent_body.atomic [OF body assms(2)])
qed

end
