(* ===== verification/Wp.thy ===== *)
theory Wp
  imports CaseSvc PilotWorld
begin

text \<open>
  Weakest preconditions for computations that must return: \<open>wp m Q\<close> holds where \<open>m\<close> returns and its result
  satisfies \<open>Q\<close>.  Then the liveness of the case operations: with an unused key, a bank that answers and an
  audit trail that can be written, a case is created and evidence is registered.
\<close>

section \<open>Weakest preconditions\<close>

definition wp :: "'a app \<Rightarrow> ('a \<Rightarrow> world \<Rightarrow> bool) \<Rightarrow> env \<Rightarrow> world \<Rightarrow> bool" where
  "wp m Q e w \<longleftrightarrow> (case m e w of (Inl x, w') \<Rightarrow> False | (Inr a, w') \<Rightarrow> Q a w')"

named_theorems wps \<open>weakest preconditions\<close>

lemma wp_iff: "wp m Q e w \<longleftrightarrow> (\<exists>a w'. m e w = (Inr a, w') \<and> Q a w')"
  by (auto simp: wp_def split: prod.splits sum.splits)

lemma wp_mono: "wp m Q e w \<Longrightarrow> (\<And>a w'. Q a w' \<Longrightarrow> R a w') \<Longrightarrow> wp m R e w"
  by (auto simp: wp_iff)

lemma wp_pure [wps]: "wp (ret x) Q e = Q x" "wp (raise err) Qr e = (\<lambda>_. False)" "wp (ask f) Qf e = Qf (f e)"
  "wp (look g) Qg e = (\<lambda>w. Qg (g (db w)) w)" "wp (modify h) Qu e = (\<lambda>w. Qu () (w\<lparr>db := h (db w)\<rparr>))"
  "wp uuid4 Qs e = (\<lambda>w. Qs (en_uuid e (ids_used w)) (w\<lparr>ids_used := Suc (ids_used w)\<rparr>))"
  "wp utc_now Qi e = (\<lambda>w. Qi (en_clock e (ticks w)) (w\<lparr>ticks := Suc (ticks w)\<rparr>))"
  "wp elapsed_ms Qi e = (\<lambda>w. Qi (en_latency e (ticks w)) (w\<lparr>ticks := Suc (ticks w)\<rparr>))"
  "wp (require b err) Qu e = (\<lambda>w. b \<and> Qu () w)" "wp (of_py (Inr x)) Q e = Q x"
  by (auto simp: wp_def app_defs require_def of_py_def fun_eq_iff)

lemma wp_bnd [wps]: "wp (bnd m f) Q e = wp m (\<lambda>a. wp (f a) Q e) e"
  by (auto simp: wp_def bnd_def fun_eq_iff split: prod.splits sum.splits)

lemma wp_andthen [wps]: "wp (andthen m n) Q e = wp m (\<lambda>_. wp n Q e) e"
  by (simp add: andthen_def wp_bnd)

lemma wp_transact [wps]: "wp (transact m) Q e = wp m Q e"
  by (auto simp: wp_iff transact_run fun_eq_iff)

lemma wp_rename [wps]: "wp (rename_exc h m) Q e = wp m Q e"
  by (auto simp: wp_iff rename_run fun_eq_iff)

lemma wp_rows [wps]:
  "wp (insert_row rows upd key r) Q e = (\<lambda>w. key_free key (rows (db w)) r \<and> Q () (w\<lparr>db := upd (\<lambda>t. t @ [r]) (db w)\<rparr>))"
  "wp (append_row upd2 r2) Q e = (\<lambda>w. Q () (w\<lparr>db := upd2 (\<lambda>t. t @ [r2]) (db w)\<rparr>))"
  "wp (change_rows upd3 p f) Q e = (\<lambda>w. Q () (w\<lparr>db := upd3 (update_where p f) (db w)\<rparr>))"
  by (simp_all add: insert_row_def append_row_def change_rows_def wps)

lemma wp_memory [wps]: "wp (recall f) Q e = (\<lambda>w. Q (f (memory w)) w)"
  "wp (memorize k) Qu e = (\<lambda>w. Qu () (w\<lparr>memory := k (memory w)\<rparr>))"
  by (auto simp: wp_def recall_def memorize_def fun_eq_iff)

lemma wp_replay_none:
  "row_by idempotency_key (op1, key) (idempotency (db w)) = None \<Longrightarrow> wp (replay op1 key f) Q e w = Q None w"
  using replay_none [of op1 key f e w w] by (auto simp: wp_def)

lemma wp_each:
  assumes "\<And>x w. I w \<Longrightarrow> wp (f x) (\<lambda>_. I) e w"
  shows "I w \<Longrightarrow> wp (each f xs) (\<lambda>_. I) e w"
proof (induction xs arbitrary: w)
  case (Cons x xs)
  then show ?case using wp_mono [OF assms [OF Cons.prems]] by (simp add: wps)
qed (simp add: wps)

lemma wp_collect:
  assumes "\<And>x w. I w \<Longrightarrow> wp (f x) (\<lambda>_. I) e w"
  shows "I w \<Longrightarrow> wp (collect f xs) (\<lambda>_. I) e w"
proof (induction xs arbitrary: w)
  case (Cons x xs)
  have "wp (collect f xs) (\<lambda>_. I) e w' \<Longrightarrow> wp (bnd (collect f xs) (\<lambda>ys. ret (y # ys))) (\<lambda>_. I) e w'" for y w'
    by (simp add: wps)
  then show ?case using wp_mono [OF assms [OF Cons.prems]] Cons.IH by (simp add: wps)
qed (simp add: wps)

section \<open>Creating a case\<close>

text \<open>The tables the steps of the creation after the case row leave alone.\<close>

definition case_tables :: "case_row list \<Rightarrow> idempotency_row list \<Rightarrow> world \<Rightarrow> bool" where
  "case_tables cs is w \<longleftrightarrow> cases (db w) = cs \<and> idempotency (db w) = is"

lemma wp_results: "case_tables cs is w \<Longrightarrow> wp (add_results ci corr rs) (\<lambda>_. case_tables cs is) e w"
  unfolding add_results_def by (rule wp_each) (auto simp: add_result_def wps case_tables_def)

lemma wp_record_evidence:
  "\<not> en_audit_fails e \<Longrightarrow> case_tables cs is w \<Longrightarrow> wp (record_evidence c v corr now ev) (\<lambda>_. case_tables cs is) e w"
  by (simp add: record_evidence_def add_evidence_def append_evidence_registered_def audit_append_def timeline_add_def
      wps case_tables_def Let_def)

lemma wp_get_case: "row_by ca_case_id ci (cases (db w)) = Some c \<Longrightarrow> wp (get_case ci) (\<lambda>r w'. w' = w \<and> cr_case r = c) e w"
  by (simp add: get_case_def case_get_def to_response_def replay_count_for_case_def wps)

lemma wp_created:
  assumes "\<not> en_audit_fails e" and "row_by ca_case_id ci cs = None" and "ca_case_id c = ci"
    and "row_by idempotency_key (CREATE_CASE_OPERATION, key) is = None" and "case_tables (cs @ [c]) is w"
  shows "wp (bnd (append_case_created c now) (\<lambda>a.
     bnd (timeline_case_created c a now) (\<lambda>_.
     bnd (collect (record_evidence c (ca_state_version c) corr now) evs) (\<lambda>_.
     bnd (get_case ci) (\<lambda>response.
     andthen (idem_add CREATE_CASE_OPERATION key f ci (VDict (dump_case_response response)) 201 corr now)
     (ret (dump_case_response response))))))) (\<lambda>_ w'. \<exists>r. idempotency_key r = (CREATE_CASE_OPERATION, key) \<and> case_tables (cs @ [c]) (is @ [r]) w') e w"
proof -
  have last: "wp (bnd (get_case ci) (\<lambda>response.
     andthen (idem_add CREATE_CASE_OPERATION key f ci (VDict (dump_case_response response)) 201 corr now)
     (ret (dump_case_response response)))) (\<lambda>_ w'. \<exists>r. idempotency_key r = (CREATE_CASE_OPERATION, key) \<and> case_tables (cs @ [c]) (is @ [r]) w') e w'"
    if "case_tables (cs @ [c]) is w'" for w'
  proof -
    have "row_by ca_case_id ci (cases (db w')) = Some c" using that assms(2,3) by (simp add: case_tables_def row_by_snoc)
    then show ?thesis unfolding wp_bnd
      by (rule wp_mono [OF wp_get_case])
        (use that assms(4) in \<open>auto simp: wps idem_add_def case_tables_def key_free_def row_by_None idempotency_key_def\<close>)
  qed
  have "case_tables (cs @ [c]) is w' \<Longrightarrow> wp (collect (record_evidence c (ca_state_version c) corr now) evs)
      (\<lambda>_. case_tables (cs @ [c]) is) e w'" for w'
    by (rule wp_collect) (rule wp_record_evidence [OF assms(1)])
  then have "case_tables (cs @ [c]) is w' \<Longrightarrow> wp (bnd (collect (record_evidence c (ca_state_version c) corr now) evs)
     (\<lambda>_. bnd (get_case ci) (\<lambda>response.
     andthen (idem_add CREATE_CASE_OPERATION key f ci (VDict (dump_case_response response)) 201 corr now)
     (ret (dump_case_response response))))) (\<lambda>_ w'. \<exists>r. idempotency_key r = (CREATE_CASE_OPERATION, key) \<and> case_tables (cs @ [c]) (is @ [r]) w') e w'" for w'
    unfolding wp_bnd [of "collect _ _"] using last by (blast intro: wp_mono)
  then show ?thesis
    using assms(1,5)
    by (simp add: append_case_created_def timeline_case_created_def audit_append_def timeline_add_def Let_def
        wp_bnd [of "audit_append _ _ _ _ _ _ _"] wp_bnd [of "append_row _ _"] wps case_tables_def)
qed

lemma wp_create_case:
  assumes bank: "collect_context bank (VStr (cq_customer_ref q)) (VOpt VStr (cq_account_ref q)) (VStr (cq_transaction_ref q))
      = Inr rs"
    and audit: "\<not> en_audit_fails e" and key: "row_by idempotency_key (CREATE_CASE_OPERATION, key) (idempotency (db w)) = None"
    and fresh: "row_by ca_case_id (en_uuid e (ids_used w)) (cases (db w)) = None"
  shows "wp (create_case bank q key corr) (\<lambda>(d, again) w'. \<not> again \<and> (\<exists>c r. case_tables (cases (db w) @ [c])
      (idempotency (db w) @ [r]) w' \<and> idempotency_key r = (CREATE_CASE_OPERATION, key) \<and> ca_case_id c = en_uuid e (ids_used w) \<and> ca_state_version c = 1 \<and>
      ca_status c = case_status_text Submitted \<and> ca_customer_ref c = cq_customer_ref q \<and>
      ca_transaction_ref c = cq_transaction_ref q \<and> ca_description c = cq_description q)) e w"
proof -
  define now where "now = en_clock e (ticks w)"
  define c where "c = \<lparr>ca_case_id = en_uuid e (ids_used w), ca_customer_ref = cq_customer_ref q, ca_account_ref = cq_account_ref q,
       ca_transaction_ref = cq_transaction_ref q, ca_channel = channel_text (cq_channel q),
       ca_channel_metadata = cq_channel_metadata q,
       ca_dispute_type = dispute_type_text (cq_dispute_type q), ca_description = cq_description q,
       ca_status = case_status_text Submitted, ca_correlation_id = corr, ca_state_version = 1,
       ca_submitted_at = Aware (case cq_submitted_at q of None \<Rightarrow> now | Some t \<Rightarrow> t),
       ca_opened_at = now, ca_closed_at = None, ca_created_at = now, ca_updated_at = now\<rparr>"
  let ?ci = "en_uuid e (ids_used w)" and ?f = "fingerprint_request (dump_create_case q) e"
  let ?tail = "bnd (append_case_created c now) (\<lambda>a.
     bnd (timeline_case_created c a now) (\<lambda>_.
     bnd (collect (record_evidence c (ca_state_version c) corr now) (cq_evidence q)) (\<lambda>_.
     bnd (get_case ?ci) (\<lambda>response.
     andthen (idem_add CREATE_CASE_OPERATION key ?f ?ci (VDict (dump_case_response response)) 201 corr now)
     (ret (dump_case_response response))))))"
  let ?Q = "\<lambda>_ w'. \<exists>r. idempotency_key r = (CREATE_CASE_OPERATION, key) \<and> case_tables (cases (db w) @ [c]) (idempotency (db w) @ [r]) w'"
  have c: "ca_case_id c = ?ci" "ca_state_version c = 1" "ca_status c = case_status_text Submitted"
    "ca_customer_ref c = cq_customer_ref q" "ca_transaction_ref c = cq_transaction_ref q" "ca_description c = cq_description q"
    by (simp_all add: c_def)
  have rest: "wp (andthen (add_results ?ci corr rs) ?tail) ?Q e w'"
    if "case_tables (cases (db w) @ [c]) (idempotency (db w)) w'" for w'
    unfolding wp_andthen by (rule wp_mono [OF wp_results [OF that]], rule wp_created [OF audit fresh c(1) key])
  have add: "wp (add_case q corr now) (\<lambda>c' w'. c' = c \<and> case_tables (cases (db w) @ [c]) (idempotency (db w)) w') e
      (w\<lparr>ticks := Suc (ticks w)\<rparr>)"
    using fresh by (simp add: add_case_def wps Let_def key_free_def row_by_None case_tables_def c_def)
  have "wp (create_case_body bank q key corr ?f) ?Q e w"
    unfolding create_case_body_def wp_bnd [of utc_now] wp_pure wp_transact now_def [symmetric] wp_bnd [of "add_case _ _ _"] bank
    by (rule wp_mono [OF add]) (use rest c(1) in \<open>simp add: wp_bnd [of "of_py _"] wp_pure\<close>)
  then show ?thesis
    unfolding create_case_def idempotent_def replay_def idem_get_def
    using key c by (auto simp: wps elim!: wp_mono)
qed

section \<open>Registering evidence\<close>

lemma one_version:
  assumes "distinct (map ca_case_id cs)" and "row_by ca_case_id ci cs = Some c" and "ca_state_version c = v"
  shows "length (filter (\<lambda>c. ca_case_id c = ci \<and> ca_state_version c = v) cs) = 1"
  using assms
proof (induction cs)
  case (Cons x cs)
  then show ?case by (auto simp: row_by_def filter_empty_conv rev_image_eqI split: if_splits)
qed (simp add: row_by_def)

lemma wp_register_evidence:
  assumes audit: "\<not> en_audit_fails e" and row: "row_by ca_case_id ci (cases (db w)) = Some c"
    and ids: "distinct (map ca_case_id (cases (db w)))"
    and key: "row_by idempotency_key (evidence_operation ci, key) (idempotency (db w)) = None"
  shows "wp (register_evidence ci ev key (ca_state_version c) corr) (\<lambda>d w'. \<exists>t r.
      idempotency_key r = (evidence_operation ci, key) \<and> case_tables (update_where (\<lambda>x. ca_case_id x = ci \<and> ca_state_version x = ca_state_version c)
        (\<lambda>x. x\<lparr>ca_state_version := ca_state_version x + 1, ca_updated_at := t\<rparr>) (cases (db w)))
      (idempotency (db w) @ [r]) w') e w"
proof -
  let ?v = "ca_state_version c" and ?f = "fingerprint_request (dump_evidence_in ev) e" and ?now = "en_clock e (ticks w)"
  let ?cs = "update_where (\<lambda>x. ca_case_id x = ci \<and> ca_state_version x = ?v)
        (\<lambda>x. x\<lparr>ca_state_version := ca_state_version x + 1, ca_updated_at := ?now\<rparr>) (cases (db w))"
  have up: "wp (increment_version ci ?v ?now) (\<lambda>_. case_tables ?cs (idempotency (db w))) e (w\<lparr>ticks := Suc (ticks w)\<rparr>)"
    using one_version [OF ids row refl] by (simp add: increment_version_def wps Let_def case_tables_def)
  have rec: "wp (bnd (record_evidence c v' corr ?now ev) (\<lambda>r. andthen (idem_add (evidence_operation ci) key ?f ci
      (VDict (dump_registration r v' False)) 201 corr ?now) (ret (dump_registration r v' False))))
      (\<lambda>_ w'. \<exists>r. idempotency_key r = (evidence_operation ci, key) \<and> case_tables ?cs (idempotency (db w) @ [r]) w') e w'"
    if "case_tables ?cs (idempotency (db w)) w'" for v' w'
    unfolding wp_bnd
    by (rule wp_mono [OF wp_record_evidence [OF audit that]])
      (use key in \<open>auto simp: wps idem_add_def case_tables_def key_free_def row_by_None idempotency_key_def\<close>)
  have "wp (register_body ci ev key ?v corr ?f) (\<lambda>_ w'. \<exists>r. idempotency_key r = (evidence_operation ci, key) \<and> case_tables ?cs (idempotency (db w) @ [r]) w') e w"
    unfolding register_body_def case_get_def wp_bnd [of "look _"] wp_pure row option.case wp_bnd [of utc_now] wp_transact
      wp_bnd [of "increment_version _ _ _"]
    by (rule wp_mono [OF up rec])
  then show ?thesis
    unfolding register_evidence_def idempotent_def replay_def idem_get_def
    using key by (auto simp: wps elim!: wp_mono)
qed

lemma stale_register:
  assumes "row_by ca_case_id ci (cases (db w)) = Some c" and "ca_state_version c \<noteq> v"
    and "distinct (map ca_case_id (cases (db w)))"
    and "row_by idempotency_key (evidence_operation ci, key) (idempotency (db w)) = None"
  shows "\<exists>w'. register_evidence ci ev key v corr e w = (Inl OptimisticLock, w') \<and> db w' = db w"
proof -
  have "x = c" if "x \<in> set (cases (db w))" "ca_case_id x = ci" for x
    using that assms(1,3) row_by_unique by fastforce
  then have "filter (\<lambda>c. ca_case_id c = ci \<and> ca_state_version c = v) (cases (db w)) = []"
    using assms(2) by (auto simp: filter_empty_conv)
  then show ?thesis
    using assms(1,4)
    by (simp add: register_evidence_def idempotent_def replay_def idem_get_def register_body_def case_get_def
        increment_version_def change_rows_def app_eval Let_def bnd_def andthen_def transact_def app_defs require_def)
qed

end
