(* ===== verification/PilotCalls.thy ===== *)
theory PilotCalls
  imports Retries Wp
begin

text \<open>A concrete service and its first calls, for the examples: the synthetic bank and the deterministic model.\<close>

definition pilot_services :: services where
  "pilot_services = \<lparr>sv_ai = pilot_ai, sv_route = default_route pilot_ai,
     sv_provider = deterministic_provider ''normal'' ''deterministic-local'',
     sv_fallback = deterministic_provider ''normal'' ''deterministic-fallback'',
     sv_bank = synthetic_bank (synth_env_at (\<lambda>s. s) 63871286400000000 (Aware 63871286400000000)),
     sv_scores = (\<lambda>q v c. (Dec False 9 (-1), Dec False 9 (-1))), sv_local_utc = (\<lambda>t. t)\<rparr>"

definition pilot_create :: create_case_request where
  "pilot_create = \<lparr>cq_customer_ref = ''cust_1001'', cq_account_ref = Some ''acct_2001'', cq_transaction_ref = ''txn_3001'',
     cq_channel = Web, cq_channel_metadata = VDict [], cq_description = ''I was charged twice for one purchase.'',
     cq_dispute_type = DuplicateCard, cq_submitted_at = None, cq_evidence = []\<rparr>"

definition pilot_evidence :: evidence_in where
  "pilot_evidence = \<lparr>ei_evidence_type = Receipt, ei_file_name = ''receipt.pdf'', ei_object_ref = None,
     ei_content_type = ''application/pdf'', ei_size_bytes = 1024, ei_checksum_sha256 = replicate 64 CHR ''a'',
     ei_source = ''customer'', ei_uploader_ref = ''cust_1001''\<rparr>"

definition pilot_opening :: call where
  "pilot_opening = CreateCase pilot_create ''key-1'' ''corr-1''"

lemma pilot_first_id: "en_uuid pilot_env 0 = ''id-0''"
  by code_simp

lemma pilot_offline: "offline pilot_services"
  by (simp add: offline_def pilot_services_def deterministic_offline)

lemma pilot_history: "history pilot_services (\<lambda>s. s) pilot_world"
  unfolding history_def by (intro exI [of _ pilot_world]) (simp add: reaches.here)

lemma pilot_sha: "en_sha pilot_env = (\<lambda>s. s)"
  by (simp add: pilot_env_def)

lemma history_step: "history sv (en_sha e) w \<Longrightarrow> serve sv call e w = (r, w') \<Longrightarrow> history sv (en_sha e) w'"
  unfolding history_def by (blast intro: reaches.later)

lemma pilot_context:
  "\<exists>rs. collect_context (sv_bank pilot_services) (VStr (cq_customer_ref pilot_create))
     (VOpt VStr (cq_account_ref pilot_create)) (VStr (cq_transaction_ref pilot_create)) = Inr rs"
proof -
  have "\<not> isl (collect_context (sv_bank pilot_services) (VStr (cq_customer_ref pilot_create))
     (VOpt VStr (cq_account_ref pilot_create)) (VStr (cq_transaction_ref pilot_create)))"
    by code_simp
  then show ?thesis by (metis sum.collapse(2))
qed

text \<open>The case is created, and evidence can be registered for it.\<close>

lemma pilot_created:
  obtains d w c r where "serve pilot_services pilot_opening pilot_env pilot_world = (Inr d, w)"
    and "history pilot_services (\<lambda>s. s) w" and "cases (db w) = [c]" and "idempotency (db w) = [r]"
    and "ca_case_id c = ''id-0''" and "ca_state_version c = 1" and "idempotency_key r = (CREATE_CASE_OPERATION, ''key-1'')"
proof -
  obtain rs where rs: "collect_context (sv_bank pilot_services) (VStr (cq_customer_ref pilot_create))
      (VOpt VStr (cq_account_ref pilot_create)) (VStr (cq_transaction_ref pilot_create)) = Inr rs"
    using pilot_context ..
  have "wp (create_case (sv_bank pilot_services) pilot_create ''key-1'' ''corr-1'') (\<lambda>(d, again) w'. \<not> again \<and>
      (\<exists>c r. case_tables (cases (db pilot_world) @ [c]) (idempotency (db pilot_world) @ [r]) w' \<and>
      idempotency_key r = (CREATE_CASE_OPERATION, ''key-1'') \<and>
      ca_case_id c = en_uuid pilot_env (ids_used pilot_world) \<and> ca_state_version c = 1 \<and>
      ca_status c = case_status_text Submitted \<and> ca_customer_ref c = cq_customer_ref pilot_create \<and>
      ca_transaction_ref c = cq_transaction_ref pilot_create \<and> ca_description c = cq_description pilot_create)) pilot_env pilot_world"
    by (rule wp_create_case [OF rs]) (simp_all add: empty_store_def row_by_def)
  then obtain d w c r where run: "create_case (sv_bank pilot_services) pilot_create ''key-1'' ''corr-1'' pilot_env pilot_world
      = (Inr (d, False), w)" and tabs: "case_tables [c] [r] w" and key: "idempotency_key r = (CREATE_CASE_OPERATION, ''key-1'')"
    and c: "ca_case_id c = en_uuid pilot_env 0" "ca_state_version c = 1"
    by (auto simp: wp_iff empty_store_def)
  have "serve pilot_services pilot_opening pilot_env pilot_world = (Inr d, w)"
    by (simp add: pilot_opening_def bnd_def run ret_def)
  moreover from history_step [OF _ this] have "history pilot_services (\<lambda>s. s) w" using pilot_history by (simp add: pilot_sha)
  ultimately show thesis
    using that tabs key c pilot_first_id by (simp add: case_tables_def)
qed

end
