(* ===== verification/PilotRun.thy ===== *)
theory PilotRun
  imports PilotCalls
begin

text \<open>A service whose kill switch is on, over a bank of one record: a case is created and a workflow is started on the
  control graph, which stops for manual classification.  The facts the examples of the run properties rest on.\<close>

definition pilot_record :: provider_record where
  "pilot_record = \<lparr>provider_name = ''bank'', record_type = ''transaction'', source_record_ref = ''ref'',
     pr_facts = [(''merchant_ref'', VStr ''m''), (''settlement_ref'', VStr ''s''), (''refund_ref'', VStr ''r'')],
     response_hash = ''hash'', source_version = ''v1'', retrieved_at = Aware 0, pr_source_as_of = None\<rparr>"

definition pilot_bank :: banking where
  "pilot_bank = \<lparr>get_customer = \<lambda>_. Inr pilot_record, get_account = \<lambda>_ _. Inr pilot_record, get_transaction = \<lambda>_. Inr pilot_record,
     get_merchant = \<lambda>_. Inr pilot_record, get_settlement = \<lambda>_. Inr pilot_record, get_refund = \<lambda>_. Inr pilot_record\<rparr>"

definition pilot_closed :: services where
  "pilot_closed = pilot_services\<lparr>sv_ai := pilot_ai\<lparr>ai_kill_switch := True\<rparr>, sv_bank := pilot_bank\<rparr>"

definition opened :: "case_row \<Rightarrow> bool" where
  "opened c \<longleftrightarrow> ca_case_id c = ''id-0'' \<and> ca_status c = case_status_text Submitted \<and>
     ca_description c = cq_description pilot_create \<and> ca_transaction_ref c = cq_transaction_ref pilot_create \<and>
     ca_channel c = ''web'' \<and> ca_dispute_type c = ''duplicate_card_transaction''"

lemma pilot_open:
  "wp (create_case pilot_bank pilot_create ''key-1'' ''corr-1'') (\<lambda>d w. runs (db w) = [] \<and> checkpoints (db w) = [] \<and>
     evidence_rows (db w) = [] \<and> ids_used w = 9 \<and> (\<exists>c r. cases (db w) = [c] \<and> idempotency (db w) = [r] \<and>
       id_operation r = CREATE_CASE_OPERATION \<and> id_case_id r = Some ''id-0'' \<and> opened c)) pilot_env pilot_world"
  by (simp add: create_case_def idempotent_def replay_def idem_get_def create_case_body_def pilot_bank_def collect_context_def
      add_case_def add_results_def add_result_def append_case_created_def timeline_case_created_def audit_append_def
      timeline_add_def get_case_def case_get_def to_response_def replay_count_for_case_def idem_add_def pilot_create_def
      pilot_record_def opened_def idempotency_key_def wps Let_def row_by_def key_free_def empty_store_def pilot_first_id)

text \<open>The workflow is started, and its run stops before the first control stage.\<close>

definition pilot_start :: start_request where
  "pilot_start = \<lparr>sr_case_id = ''id-0'', sr_actor_ref = ''analyst'', sr_graph_version = CONTROL_GRAPH_VERSION\<rparr>"

definition one_run :: "store \<Rightarrow> bool" where
  "one_run s \<longleftrightarrow> (\<exists>r k1 k2. runs s = [r] \<and> checkpoints s = [k1, k2] \<and>
     wr_status r = ''WAITING_MANUAL_CLASSIFICATION'' \<and> ck_workflow_id k1 = wr_workflow_id r \<and> ck_workflow_id k2 = wr_workflow_id r)"

lemma pilot_class_input:
  assumes "opened (cr_case c)" and "cr_evidence c = []" and "ws_case st = Some (dump_case_response c)"
    and "ws_correlation_id st = ''corr''"
  shows "class_input_of st = Inr \<lparr>ci_case_id = Some (ws_case_id st), ci_workflow_id = Some (ws_workflow_id st),
    ci_description = cq_description pilot_create, ci_hint = Some DuplicateCard, ci_channel = Some Web,
    ci_transaction_ref = Some ''txn_3001'', ci_evidence_count = 0, ci_correlation_id = ''corr''\<rparr>"
  using assms by (simp add: class_input_of_def state_case_def dump_case_response_def summary_entries_def opened_def
      pilot_create_def read_enum_def dict_get_def sized_def py_str_def)

lemma pilot_dump:
  assumes "opened (cr_case c)"
  shows "map_of (dump_case_response c) ''status'' = Some (VStr ''Submitted'')"
    "map_of (dump_case_response c) ''dispute_type'' = Some (VStr ''duplicate_card_transaction'')"
    "map_of (dump_case_response c) ''transaction_ref'' = Some (VStr ''txn_3001'')"
  using assms by (simp_all add: dump_case_response_def summary_entries_def opened_def pilot_create_def)

definition pilot_stopped :: wf_state where
  "pilot_stopped = \<lparr>ws_control_evaluation_id = None, ws_schema_version = ''1.0'', ws_case_id = ''id-0'', ws_workflow_id = ''id-9'',
     ws_graph_version = CONTROL_GRAPH_VERSION, ws_state_version = 1, ws_correlation_id = ''corr'', ws_current_node = ''classification'',
     ws_status = ''WAITING_MANUAL_CLASSIFICATION'', ws_interrupt = interrupt_with ''manual_classification''
       ''Classification requires authorized manual review before continuation.'' [''authorized_manual_classification''],
     ws_summaries = [(''intake'', VDict [(''case_id'', VStr ''id-0''), (''case_status'', VStr ''Submitted''),
         (''dispute_type'', VStr ''duplicate_card_transaction''), (''transaction_ref'', VStr ''txn_3001'')]),
       (''classification'', VDict [(''category'', VNone), (''confidence'', VNone), (''threshold'', VFloat (Finite (Dec False 70 (- 2)))),
         (''accepted'', VBool False), (''reason'', VStr ''ai_kill_switch''),
         (''telemetry'', VDict [(''capability'', VStr ''classification''), (''case_id'', VStr ''id-0''), (''workflow_id'', VStr ''id-9''),
            (''correlation_id'', VStr ''corr''), (''provider_route_ref'', VStr ''deterministic-local''),
            (''prompt_version'', VStr ''classification-router-v1''), (''schema_version'', VStr ''classification-output-v1''),
            (''latency_ms'', VInt 1), (''token_usage'', VDict []), (''attempt_count'', VInt 0), (''fallback_used'', VBool False),
            (''kill_switch_enabled'', VBool True), (''status'', VStr ''bypassed''), (''failure_reason'', VStr ''ai_kill_switch'')]),
         (''evaluation_metadata'', VDict (evaluation_metadata None None))])],
     ws_side_effects = [], ws_telemetry = map (\<lambda>n. VDict [(''node_name'', VStr n), (''status'', VStr ''completed''), (''attempt_count'', VInt 1),
       (''latency_ms'', VInt 1), (''case_id'', VStr ''id-0''), (''workflow_id'', VStr ''id-9''), (''graph_version'', VStr CONTROL_GRAPH_VERSION),
       (''state_version'', VInt 1), (''correlation_id'', VStr ''corr'')]) [''intake'', ''classification''],
     ws_errors = [], ws_case = None, ws_resume = None\<rparr>"

lemma pilot_stopped_valid: "length (py_str (VDict (state_entries (pilot_stopped\<lparr>ws_state_version := 2\<rparr>)))) \<le> 20000"
proof -
  have "length (show_int n) = 1" if "n \<in> {0, 1, 2}" for n using that by (elim insertE emptyE; hypsubst; code_simp)
  moreover have "length (float_repr (Finite (Dec False 70 (- 2)))) = 3" by code_simp
  ultimately show ?thesis
    by (simp add: pilot_stopped_def state_entries_def py_str_def evaluation_metadata_def interrupt_with_def CONTROL_GRAPH_VERSION_def repr_string_def
      repr_char_def Let_def VOpt_def VStrs_def del: float_repr.simps)
qed

lemma pilot_executes:
  assumes "opened (cr_case c)" and "cr_evidence c = []"
  shows "wp (execute_graph pilot_closed
      (initial_state c ''id-9'' CONTROL_GRAPH_VERSION 1 ''corr'' [(''actor_ref'', VStr ''analyst'')]))
    (\<lambda>r w'. db w' = db w \<and> ids_used w' = ids_used w \<and> r = pilot_stopped) pilot_env w"
proof -
  note input = pilot_class_input [OF assms]
  have allowed: "dict_get ALLOWED_NODE_OPERATIONS ''intake'' [] = [''case.read'']"
    "''classification.model_gateway'' \<in> set (dict_get ALLOWED_NODE_OPERATIONS ''classification'' [])"
    by (simp_all add: ALLOWED_NODE_OPERATIONS_def dict_get_def)
  have named: "CONTROL_GRAPH_VERSION \<noteq> []" "ca_case_id (cr_case c) = ''id-0''"
    using assms(1) by (simp_all add: CONTROL_GRAPH_VERSION_def opened_def)
  show ?thesis
    using named allowed
    apply (simp add: execute_graph_def initial_state_def is_control_def new_control_def fresh_control_state_def invoke_graph_def
        service_graph_def run_from.simps [of _ Intake] run_from.simps [of _ Classification] intake_node_def
        classification_node_def classify_dispute_def input pilot_dump [OF assms(1)] dict_get_def authorize_node_operation_def
        state_case_def record_node_def summarize_def cached_classification_def classification_key_def next_node_def
        unless_def wps Let_def)
    apply (simp add: pilot_closed_def pilot_services_def classify_def input_text_def classification_request_def text_or_def
        sized_def show_nat.simps pilot_create_def invoke_classification_def failure_response_def gateway_telemetry_of_def
        wps pilot_ai_def default_route_def apply_decision_def classification_summary_def pause_def summarize_def
        dump_gateway_telemetry_def Let_def)
    by (simp add: pilot_stopped_def pilot_env_def VOpt_def)
qed

lemma pilot_validated: "\<exists>d. validate_workflow_state_payload (state_entries (pilot_stopped\<lparr>ws_state_version := 2\<rparr>)) = Inr d"
proof -
  have "\<not> list_ex (\<lambda>k. k \<in> set forbidden_keys) (collect_keys (VDict (state_entries (pilot_stopped\<lparr>ws_state_version := 2\<rparr>))))"
    by code_simp
  then show ?thesis using pilot_stopped_valid by (simp add: validate_workflow_state_payload_def)
qed

lemma wp_pilot_validated: "wp (validate_state (pilot_stopped\<lparr>ws_state_version := 2\<rparr>)) Q e w = Q () w"
  using pilot_validated by (auto simp: validate_state_def wps)

lemma pilot_starts:
  assumes "opened c" and "cases (db w) = [c]" and "idempotency (db w) = [r]" and op: "id_operation r = CREATE_CASE_OPERATION"
    and "id_case_id r = Some ''id-0''" and "runs (db w) = []" and "checkpoints (db w) = []" and "evidence_rows (db w) = []"
    and "ids_used w = 9"
  shows "wp (start_workflow pilot_closed pilot_start ''key-2'' ''corr'') (\<lambda>d w'. one_run (db w')) pilot_env w"
proof -
  have other: "start_operation ''id-0'' \<noteq> CREATE_CASE_OPERATION" by code_simp
  then have key: "row_by idempotency_key (start_operation ''id-0'', k) [r] = None" for k
    using op by (simp add: row_by_def idempotency_key_def)
  have id: "ca_case_id c = ''id-0''" "ca_status c = case_status_text Submitted" "en_uuid pilot_env 9 = ''id-9''"
    using assms(1) by (simp_all add: opened_def) (code_simp)
  then have row: "row_by ca_case_id ''id-0'' [c] = Some c" by (simp add: row_by_def)
  show ?thesis
    apply (simp add: start_workflow_def idempotent_def start_body_def begin_run_def create_run_def active_for_case_def
        get_case_def case_get_def to_response_def replay_count_for_case_def workflow_audit_def audit_append_def pilot_start_def
        known_graphs_def append_checkpoint_def advance_workflow_def key id row assms wp_replay_none wps Let_def key_free_def
        one_run_def case_evidence_def first_row_def checkpoint_key_def)
    apply (rule wp_mono [OF pilot_executes])
      apply (simp_all add: assms)
    apply (simp add: wp_pilot_validated wps assms row id key key_free_def checkpoint_key_def idempotency_key_def idem_add_def
        advance_run_def update_where_def Let_def row_by_snoc other)
    by (simp add: pilot_stopped_def)
qed

lemma pilot_closed_offline: "offline pilot_closed"
  using pilot_offline by (simp add: pilot_closed_def offline_def)

lemma pilot_started:
  obtains w where "history pilot_closed (\<lambda>s. s) w" and "one_run (db w)"
proof -
  obtain d w1 c r where create: "create_case pilot_bank pilot_create ''key-1'' ''corr-1'' pilot_env pilot_world = (Inr d, w1)"
    and w1: "runs (db w1) = []" "checkpoints (db w1) = []" "evidence_rows (db w1) = []" "ids_used w1 = 9"
      "cases (db w1) = [c]" "idempotency (db w1) = [r]" "id_operation r = CREATE_CASE_OPERATION"
      "id_case_id r = Some ''id-0''" "opened c"
    using pilot_open by (auto simp: wp_iff)
  from pilot_starts [OF w1(9,5,6,7,8,1,2,3,4)] obtain d' w2
    where start: "start_workflow pilot_closed pilot_start ''key-2'' ''corr'' pilot_env w1 = (Inr d', w2)" and one: "one_run (db w2)"
    by (auto simp: wp_iff)
  have "reaches pilot_closed (\<lambda>s. s) pilot_world w1"
    by (rule reaches.later [OF reaches.here pilot_sha, of _ "CreateCase pilot_create ''key-1'' ''corr-1''"])
      (simp add: bnd_def create ret_def pilot_closed_def split_def)
  from reaches.later [OF this pilot_sha, of "StartWorkflow pilot_start ''key-2'' ''corr''"] start
  have "reaches pilot_closed (\<lambda>s. s) pilot_world w2" by simp
  then have "history pilot_closed (\<lambda>s. s) w2" unfolding history_def by (intro exI [of _ pilot_world]) simp
  with one that show thesis by blast
qed

end
