(* ===== verification/ServiceProps.thy ===== *)
theory ServiceProps
  imports PilotRun
begin

text \<open>The properties of the service as a whole: what holds after any sequence of calls.\<close>

section \<open>Invariants of every history\<close>

text \<open>C21: After any sequence of calls, case identifiers are unique, every case is in the status it was created in
  with a version of at least one, every evidence row belongs to a case, and each case and each evidence row has its
  audit event and the timeline entry that points to that event.\<close>

theorem history_cases_sound:
  assumes "history sv sha w" and "offline sv"
  shows "distinct (map ca_case_id (cases (db w))) \<and>
    (\<forall>c \<in> set (cases (db w)). 1 \<le> ca_state_version c \<and> ca_status c = case_status_text Submitted \<and>
      trail ''CASE_CREATED'' (ca_case_id c) (ca_case_id c) (db w)) \<and>
    (\<forall>v \<in> set (evidence_rows (db w)). ed_case_id v \<in> ca_case_id ` set (cases (db w)) \<and>
      trail ''EVIDENCE_METADATA_REGISTERED'' (ed_case_id v) (ed_evidence_id v) (db w))"
  using history_inv [OF assms, of "\<lparr>en_sha = sha, en_uuid = \<lambda>_. [], en_clock = \<lambda>_. 0, en_latency = \<lambda>_. 0, en_app_env = [],
      en_sqlite = False, en_audit_fails = False, en_policy_audit_fails = False\<rparr>"]
  by (simp add: service_inv_def case_inv_def cases_sound_def owned_evidence_def traced_def)

lemma history_cases_sound_witness: "\<exists>w c. history pilot_services (\<lambda>s. s) w \<and> cases (db w) = [c] \<and>
    trail ''CASE_CREATED'' ''id-0'' ''id-0'' (db w)"
  by (rule pilot_created) (use history_cases_sound pilot_offline in fastforce)

text \<open>C22: After any sequence of calls, every run belongs to a case, no case has two runs, the checkpoints of a run are
  numbered from one without gaps, each carries the state it stores and the version one above its number, and the
  newest one has the status, the node and the interrupt reason of the run.\<close>

theorem history_runs_mirror_checkpoints:
  assumes "history sv sha w" and "offline sv"
  shows "distinct (map wr_workflow_id (runs (db w))) \<and> distinct (map wr_case_id (runs (db w))) \<and>
    (\<forall>r \<in> set (runs (db w)). wr_case_id r \<in> ca_case_id ` set (cases (db w)) \<and>
      wr_state_version r = wr_checkpoint_seq r + 1 \<and>
      map ck_seq (run_checkpoints (wr_workflow_id r) (db w)) = [1..wr_checkpoint_seq r] \<and>
      (\<forall>k \<in> set (run_checkpoints (wr_workflow_id r) (db w)). ck_state_version k = ck_seq k + 1 \<and>
        ws_status (ck_state k) = ck_status k \<and> ws_current_node (ck_state k) = ck_current_node k \<and>
        ws_workflow_id (ck_state k) = wr_workflow_id r \<and> ws_case_id (ck_state k) = wr_case_id r \<and>
        (ck_seq k = wr_checkpoint_seq r \<longrightarrow> ck_status k = wr_status r \<and> ck_current_node k = wr_current_node r \<and>
          ck_interrupt_reason k = wr_interrupt_reason r)))"
  using history_inv [OF assms, of "\<lparr>en_sha = sha, en_uuid = \<lambda>_. [], en_clock = \<lambda>_. 0, en_latency = \<lambda>_. 0, en_app_env = [],
      en_sqlite = False, en_audit_fails = False, en_policy_audit_fails = False\<rparr>"]
  by (auto simp: service_inv_def workflow_inv_def runs_owned_def run_consistent_def checkpoint_consistent_def mirrors_def)

lemma history_runs_mirror_checkpoints_witness:
  "\<exists>w r k1 k2. history pilot_closed (\<lambda>s. s) w \<and> runs (db w) = [r] \<and> checkpoints (db w) = [k1, k2] \<and> wr_state_version r = 3 \<and>
     wr_status r = ''WAITING_MANUAL_CLASSIFICATION'' \<and> ck_status k2 = wr_status r \<and> wr_case_id r \<in> ca_case_id ` set (cases (db w))"
proof -
  obtain w where past: "history pilot_closed (\<lambda>s. s) w" and "one_run (db w)" by (rule pilot_started)
  then obtain r k1 k2 where rows: "runs (db w) = [r]" "checkpoints (db w) = [k1, k2]" "wr_status r = ''WAITING_MANUAL_CLASSIFICATION''"
    and own: "run_checkpoints (wr_workflow_id r) (db w) = [k1, k2]" by (auto simp: one_run_def run_checkpoints_def)
  note sound = history_runs_mirror_checkpoints [OF past pilot_closed_offline]
  then have seqs: "[ck_seq k1, ck_seq k2] = [1..wr_checkpoint_seq r]" using rows own by auto
  then have "length [1..wr_checkpoint_seq r] = 2" by (metis length_Cons list.size(3) numeral_2_eq_2)
  then have "wr_checkpoint_seq r = 2" by simp
  moreover from this seqs have "ck_seq k2 = 2" by (simp add: upto.simps)
  ultimately show ?thesis
    using sound rows own past by (intro exI [of _ w] exI [of _ r] exI [of _ k1] exI [of _ k2]) auto
qed



text \<open>C24: A key answers one request only: after a request was answered under a key, a request of the same operation
  with the same key and another fingerprint is refused as a conflict and nothing at all changes.\<close>

theorem key_reuse_conflicts:
  assumes "request_of call = Some (operation, key, payload)" and "serve sv call e w = (Inr d, w1)"
    and "offline sv" and "reaches sv (en_sha e) w1 w2"
    and "request_of other = Some (operation, key, payload')"
    and "fingerprint_request payload' e' \<noteq> fingerprint_request payload e"
  shows "serve sv other e' w2 = (Inl IdempotencyConflict, w2)"
proof -
  obtain d0 where "recorded operation key (fingerprint_request payload e) d0 (db w1)"
    using protocol_records [OF serve_protocol [OF assms(1)] assms(2)] by blast
  moreover have "grown record_after (idempotency (db w1)) (idempotency (db w2))"
    using reaches_grows [OF assms(4,3) grows_refl] by (simp add: grows_def)
  ultimately have "recorded operation key (fingerprint_request payload e) d0 (db w2)" by (rule recorded_grows [rotated])
  from protocol_conflicts [OF serve_protocol [OF assms(5)] this assms(6)] show ?thesis .
qed

lemma key_reuse_conflicts_witness: "\<exists>d w. serve pilot_services pilot_opening pilot_env pilot_world = (Inr d, w) \<and>
    serve pilot_services (CreateCase (pilot_create\<lparr>cq_channel := Mobile\<rparr>) ''key-1'' ''corr-2'') pilot_env w =
      (Inl IdempotencyConflict, w)"
proof (rule pilot_created)
  fix d w
  assume run: "serve pilot_services pilot_opening pilot_env pilot_world = (Inr d, w)"
  have "dumps_compact (dump_create_case (pilot_create\<lparr>cq_channel := Mobile\<rparr>)) \<noteq> dumps_compact (dump_create_case pilot_create)"
    by code_simp
  then have "fingerprint_request (dump_create_case (pilot_create\<lparr>cq_channel := Mobile\<rparr>)) pilot_env \<noteq>
      fingerprint_request (dump_create_case pilot_create) pilot_env" by (simp add: fingerprint_request_def)
  from key_reuse_conflicts [OF _ run pilot_offline reaches.here _ this, of CREATE_CASE_OPERATION "''key-1''"
      "CreateCase (pilot_create\<lparr>cq_channel := Mobile\<rparr>) ''key-1'' ''corr-2''"]
  have "serve pilot_services (CreateCase (pilot_create\<lparr>cq_channel := Mobile\<rparr>) ''key-1'' ''corr-2'') pilot_env w =
      (Inl IdempotencyConflict, w)"
    by (simp only: pilot_opening_def request_of.simps)
  with run show ?thesis by blast
qed

text \<open>C25: A request that fails leaves no trace: whatever exception a case or workflow call raises, at whatever point,
  every table is as it was.\<close>

theorem failed_requests_leave_no_trace:
  assumes "history sv (en_sha e) w" and "offline sv" and "request_of call \<noteq> None" and "serve sv call e w = (Inl x, w')"
  shows "db w' = db w"
  using protocol_atomic [OF serve_protocol _ assms(4)] assms(3) history_inv [OF assms(1,2) refl]
  by (auto simp: service_inv_def case_inv_def)

lemma failed_requests_leave_no_trace_witness:
  "\<exists>w w'. serve pilot_services (RegisterEvidence ''id-9'' pilot_evidence ''key-2'' 1 ''corr-2'') pilot_env w = (Inl CaseNotFound, w') \<and>
     db w' = db w \<and> cases (db w) \<noteq> []"
proof (rule pilot_created)
  fix d w c r
  assume "history pilot_services (\<lambda>s. s) w" and tabs: "cases (db w) = [c]" "idempotency (db w) = [r]"
    and ids: "ca_case_id c = ''id-0''" "idempotency_key r = (CREATE_CASE_OPERATION, ''key-1'')"
  then have past: "history pilot_services (en_sha pilot_env) w" by (simp add: pilot_sha)
  have run: "serve pilot_services (RegisterEvidence ''id-9'' pilot_evidence ''key-2'' 1 ''corr-2'') pilot_env w = (Inl CaseNotFound, w)"
    using tabs ids by (simp add: register_evidence_def idempotent_def replay_def idem_get_def register_body_def case_get_def
        row_by_def CREATE_CASE_OPERATION_def evidence_operation_def app_eval)
  from failed_requests_leave_no_trace [OF past pilot_offline _ run] show ?thesis
    by (intro exI [of _ w]) (use run tabs in simp)
qed

text \<open>C26: Nothing is rewritten: along any sequence of calls the audit trail, the timeline, evidence, provider context,
  checkpoints, frozen evaluations, stage results, review requests, documents, chunks and policy audits only grow at the
  end; control configurations do not change; of a case only the version (never down) and the time of the update change,
  of a run not its identity, of an idempotency record only the counters, of a corpus only that it is retired.\<close>

theorem history_append_only:
  assumes "reaches sv sha w w'" and "offline sv"
  shows "grows (db w) (db w')"
  by (rule reaches_grows [OF assms grows_refl])

lemma history_append_only_witness: "\<exists>(w :: world) c. cases (db w) = [c] \<and> grows (db pilot_world) (db w)"
proof (rule pilot_created)
  fix d w c
  assume run: "serve pilot_services pilot_opening pilot_env pilot_world = (Inr d, w)" and c: "cases (db w) = [c]"
  have "reaches pilot_services (\<lambda>s. s) pilot_world w" by (rule reaches.later [OF reaches.here pilot_sha run])
  from history_append_only [OF this pilot_offline] show ?thesis using c by (intro exI [of _ w] exI [of _ c]) simp
qed

section \<open>Lost updates and frozen records\<close>

lemma grown_case:
  assumes "grows s s'" and "row_by ca_case_id ci (cases s) = Some c" and "distinct (map ca_case_id (cases s'))"
  shows "\<exists>c'. row_by ca_case_id ci (cases s') = Some c' \<and> case_after c c'"
proof -
  have "c \<in> set (cases s)" "ca_case_id c = ci" using row_by_Some [OF assms(2)] by auto
  then obtain c' where c': "c' \<in> set (cases s')" "case_after c c'"
    using grown_mem assms(1) by (fastforce simp: grows_def)
  then have "ca_case_id c' = ci" using \<open>ca_case_id c = ci\<close> by (auto simp: case_after_def)
  then show ?thesis using row_by_unique [OF assms(3) c'(1)] c'(2) by auto
qed

lemma history_reaches: "history sv sha w \<Longrightarrow> reaches sv sha w w' \<Longrightarrow> history sv sha w'"
proof (rule rev_mp, assumption, erule reaches.induct)
  fix w w' e call r w''
  assume "history sv sha w \<longrightarrow> history sv sha w'" and "en_sha e = sha" and "serve sv call e w' = (r, w'')"
  then show "history sv sha w \<longrightarrow> history sv sha w''" using history_step by blast
qed simp

lemma registered_version:
  assumes inv: "case_inv (db w)" and key: "row_by idempotency_key (evidence_operation ci, key) (idempotency (db w)) = None"
    and run: "register_evidence ci ev key v corr e w = (Inr d, w')"
  shows "\<exists>c'. row_by ca_case_id ci (cases (db w')) = Some c' \<and> ca_state_version c' = v + 1"
proof -
  from run obtain f d' where "register_body ci ev key v corr f e w = (Inr d', w')"
    using key replay_none [of "evidence_operation ci" key _ e w]
    by (auto simp: register_evidence_def idempotent_def ask_run ret_run replay_def idem_get_def look_run elim!: bnd_InrE)
  then show ?thesis
  proof (rule register_body_run)
    fix c now w1 v' w2 r w3 u
    assume row: "row_by ca_case_id ci (cases (db w)) = Some c" and same: "db w1 = db w"
      and up: "increment_version ci v now e w1 = (Inr v', w2)" and rec: "record_evidence c v' corr now ev e w2 = (Inr r, w3)"
      and add: "idem_add (evidence_operation ci) key f ci (VDict (dump_registration r v' False)) 201 corr now e w3 = (Inr u, w')"
    let ?p = "\<lambda>c. ca_case_id c = ci \<and> ca_state_version c = v"
    let ?f = "\<lambda>c. c\<lparr>ca_state_version := ca_state_version c + 1, ca_updated_at := now\<rparr>"
    have ids: "distinct (map ca_case_id (cases (db w)))" using inv by (simp add: case_inv_def cases_sound_def)
    have "cases (db w3) = cases (db w2)" using rec by (rule record_evidence_run)
    then have cs: "cases (db w') = update_where ?p ?f (cases (db w))"
      using add increment_run(3) [OF up] same by (auto simp: idem_add_def app_simps)
    have "filter ?p (cases (db w)) \<noteq> []" using increment_run(2) [OF up] same by auto
    then obtain x where x: "x \<in> set (cases (db w))" "ca_case_id x = ci" "ca_state_version x = v"
      by (auto simp: filter_empty_conv)
    have "?f x \<in> set (cases (db w'))" using x unfolding cs set_update_where by (intro image_eqI [of _ _ x]) simp_all
    moreover have "map ca_case_id (cases (db w')) = map ca_case_id (cases (db w))" unfolding cs by (rule update_where_keys) simp
    ultimately have "row_by ca_case_id ci (cases (db w')) = Some (?f x)"
      using row_by_unique [of ca_case_id "cases (db w')" "?f x"] ids x(2) by simp
    then show ?thesis using x(3) by simp
  qed
qed

text \<open>C27: No update of a case is lost: once evidence was registered against a version of a case, no later
  registration against that version succeeds under a new key; it is refused with the optimistic lock error and
  leaves no trace.\<close>

theorem stale_registration_refused:
  assumes "history sv (en_sha e) w" and "offline sv"
    and "row_by idempotency_key (evidence_operation ci, key) (idempotency (db w)) = None"
    and "serve sv (RegisterEvidence ci ev key v corr) e w = (Inr d, w1)" and "reaches sv (en_sha e) w1 w2"
    and "en_sha e' = en_sha e" and "row_by idempotency_key (evidence_operation ci, key') (idempotency (db w2)) = None"
  shows "\<exists>w3. serve sv (RegisterEvidence ci ev' key' v corr') e' w2 = (Inl OptimisticLock, w3) \<and> db w3 = db w2"
proof -
  have past: "history sv (en_sha e) w1" "history sv (en_sha e) w2"
    using history_step [OF assms(1,4)] history_reaches [OF _ assms(5)] by blast+
  have inv: "case_inv (db w)" "distinct (map ca_case_id (cases (db w2)))"
    using history_inv [OF assms(1,2) refl] history_inv [OF past(2) assms(2) refl]
    by (simp_all add: service_inv_def case_inv_def cases_sound_def)
  obtain c where c: "row_by ca_case_id ci (cases (db w1)) = Some c" "ca_state_version c = v + 1"
    using registered_version [OF inv(1) assms(3) assms(4) [unfolded serve.simps]] by blast
  obtain c' where "row_by ca_case_id ci (cases (db w2)) = Some c'" and "case_after c c'"
    using grown_case [OF reaches_grows [OF assms(5,2) grows_refl] c(1) inv(2)] by blast
  then show ?thesis
    using stale_register [OF _ _ inv(2) assms(7), of c' v ev' corr' e'] c(2) by (auto simp: case_after_def)
qed

lemma stale_registration_refused_witness:
  "\<exists>(w :: world) w1 d w3. serve pilot_services (RegisterEvidence ''id-0'' pilot_evidence ''key-2'' 1 ''corr-2'') pilot_env w = (Inr d, w1) \<and>
    serve pilot_services (RegisterEvidence ''id-0'' pilot_evidence ''key-3'' 1 ''corr-3'') pilot_env w1 = (Inl OptimisticLock, w3) \<and>
    db w3 = db w1"
proof (rule pilot_created)
  fix d w c r
  assume "history pilot_services (\<lambda>s. s) w" and tabs: "cases (db w) = [c]" "idempotency (db w) = [r]"
    and ids: "ca_case_id c = ''id-0''" "ca_state_version c = 1" "idempotency_key r = (CREATE_CASE_OPERATION, ''key-1'')"
  then have past: "history pilot_services (en_sha pilot_env) w" by (simp add: pilot_sha)
  have new: "row_by idempotency_key (evidence_operation ''id-0'', k) [r] = None" for k
    using ids by (simp add: row_by_def CREATE_CASE_OPERATION_def evidence_operation_def)
  have "wp (register_evidence ''id-0'' pilot_evidence ''key-2'' (ca_state_version c) ''corr-2'') (\<lambda>d w'. \<exists>t r.
      idempotency_key r = (evidence_operation ''id-0'', ''key-2'') \<and>
      case_tables (update_where (\<lambda>x. ca_case_id x = ''id-0'' \<and> ca_state_version x = ca_state_version c)
        (\<lambda>x. x\<lparr>ca_state_version := ca_state_version x + 1, ca_updated_at := t\<rparr>) (cases (db w)))
      (idempotency (db w) @ [r]) w') pilot_env w"
    by (rule wp_register_evidence) (use tabs ids new in \<open>simp_all add: row_by_def\<close>)
  then obtain d1 w1 r' where run: "serve pilot_services (RegisterEvidence ''id-0'' pilot_evidence ''key-2'' 1 ''corr-2'') pilot_env w = (Inr d1, w1)"
    and rows: "idempotency (db w1) = [r, r']" "idempotency_key r' = (evidence_operation ''id-0'', ''key-2'')"
    using ids tabs by (auto simp: wp_iff case_tables_def)
  have "row_by idempotency_key (evidence_operation ''id-0'', ''key-2'') (idempotency (db w)) = None"
    and "row_by idempotency_key (evidence_operation ''id-0'', ''key-3'') (idempotency (db w1)) = None"
    using new [of "''key-2''"] new [of "''key-3''"] rows tabs by (simp_all add: row_by_def split: if_splits)
  from stale_registration_refused [OF past pilot_offline this(1) run reaches.here refl this(2), of pilot_evidence "''corr-3''"]
  show ?thesis using run by blast
qed

text \<open>Frozen rows are found again in every later store.\<close>

lemma find_prefix: "prefix xs ys \<Longrightarrow> find p xs = Some x \<Longrightarrow> find p ys = Some x"
  by (auto simp: prefix_def find_Some_iff nth_append)



end
