(* ===== verification/RunProps.thy ===== *)
theory RunProps
  imports ServiceProps
begin

text \<open>The properties of workflow runs: lost updates, the order of the stages, what a pause means.\<close>

section \<open>Versions of a run only grow\<close>

lemma checkpoints_grow: "prefix (checkpoints s) (checkpoints s') \<Longrightarrow> prefix (run_checkpoints wid s) (run_checkpoints wid s')"
  by (auto simp: run_checkpoints_def prefix_def)

lemma run_version_grows:
  assumes "workflow_inv s" and "workflow_inv s'" and "grows s s'" and "row_by wr_workflow_id wid (runs s) = Some r"
  shows "\<exists>r'. row_by wr_workflow_id wid (runs s') = Some r' \<and> wr_state_version r \<le> wr_state_version r'"
proof -
  have r: "r \<in> set (runs s)" "wr_workflow_id r = wid" using row_by_Some [OF assms(4)] by auto
  then obtain r' where r': "r' \<in> set (runs s')" "wr_workflow_id r' = wid"
    using assms(3) grown_mem [of run_after "runs s" "runs s'" r] by (auto simp: grows_def run_after_def)
  have "run_consistent s r" "run_consistent s' r'" using assms(1,2) r r' by (auto simp: workflow_inv_def)
  then have "map ck_seq (run_checkpoints wid s) = [1..wr_checkpoint_seq r]" "map ck_seq (run_checkpoints wid s') = [1..wr_checkpoint_seq r']"
    and versions: "wr_state_version r = wr_checkpoint_seq r + 1" "wr_state_version r' = wr_checkpoint_seq r' + 1"
    "0 \<le> wr_checkpoint_seq r" "0 \<le> wr_checkpoint_seq r'"
    using r r' by (auto simp: run_consistent_def)
  then have "length (run_checkpoints wid s) = nat (wr_checkpoint_seq r)" "length (run_checkpoints wid s') = nat (wr_checkpoint_seq r')"
    by (metis diff_add_cancel length_map length_upto)+
  moreover have "prefix (run_checkpoints wid s) (run_checkpoints wid s')"
    using assms(3) by (intro checkpoints_grow) (simp add: grows_def)
  then have "length (run_checkpoints wid s) \<le> length (run_checkpoints wid s')" by (rule prefix_length_le)
  ultimately have "wr_state_version r \<le> wr_state_version r'" using versions by linarith
  moreover have "row_by wr_workflow_id wid (runs s') = Some r'"
    using row_by_unique [of wr_workflow_id "runs s'" r'] assms(2) r' by (simp add: workflow_inv_def)
  ultimately show ?thesis by blast
qed

lemma stale_resume:
  assumes "row_by wr_workflow_id wid (runs (db w)) = Some r" and "wr_state_version r \<noteq> v"
    and "row_by idempotency_key (resume_operation wid, key) (idempotency (db w)) = None"
  shows "\<exists>w'. resume_workflow sv wid q key v corr e w = (Inl WorkflowConflict, w') \<and> db w' = db w"
  using assms
  by (simp add: resume_workflow_def idempotent_def replay_def idem_get_def resume_body_def reopen_run_def
      compare_state_version_def get_run_def Let_def bnd_def andthen_def transact_def rename_exc_def audit_failure_def app_defs
      require_def)

text \<open>C32: No update of a run is lost: a version of a run that was left behind cannot be resumed any more, whatever
  happened since; a new request against it is refused as a conflict and leaves no trace.\<close>

theorem stale_resume_refused:
  assumes "service_inv e (db w)" and "offline sv" and "row_by wr_workflow_id wid (runs (db w)) = Some r"
    and "v < wr_state_version r" and "reaches sv (en_sha e) w w'" and "en_sha e' = en_sha e"
    and "row_by idempotency_key (resume_operation wid, key) (idempotency (db w')) = None"
  shows "\<exists>w''. serve sv (ResumeWorkflow wid q key v corr) e' w' = (Inl WorkflowConflict, w'') \<and> db w'' = db w'"
proof -
  have "service_inv e0 (db w)" if "en_sha e0 = en_sha e" for e0 using assms(1) that service_inv_sha by blast
  then have "service_inv e (db w')" by (rule reaches_inv [OF assms(5,2) _ refl])
  then have "workflow_inv (db w)" "workflow_inv (db w')" using assms(1) by (simp_all add: service_inv_def)
  from run_version_grows [OF this reaches_grows [OF assms(5,2) grows_refl] assms(3)]
  obtain r' where "row_by wr_workflow_id wid (runs (db w')) = Some r'" and "wr_state_version r \<le> wr_state_version r'" by blast
  then show ?thesis using stale_resume [of wid w' r' v key sv q corr e'] assms(4,7) by simp
qed

text \<open>A service with one paused run, for the examples.\<close>

definition paused_state :: wf_state where
  "paused_state = \<lparr>ws_control_evaluation_id = None, ws_schema_version = ''1.0'', ws_case_id = ''case'', ws_workflow_id = ''wf'',
     ws_graph_version = GRAPH_VERSION, ws_state_version = 1, ws_correlation_id = ''corr'', ws_current_node = ''start'',
     ws_status = ''RUNNING'', ws_interrupt = [], ws_summaries = [], ws_side_effects = [], ws_telemetry = [],
     ws_errors = [], ws_case = None, ws_resume = None\<rparr>"

definition paused_store :: store where
  "paused_store = empty_store\<lparr>
     cases := [\<lparr>ca_case_id = ''case'', ca_customer_ref = ''cust'', ca_account_ref = None, ca_transaction_ref = ''txn'',
       ca_channel = ''web'', ca_channel_metadata = VDict [], ca_dispute_type = ''duplicate_card_transaction'',
       ca_description = ''twice'', ca_status = case_status_text Submitted, ca_correlation_id = ''corr'', ca_state_version = 1,
       ca_submitted_at = Aware 0, ca_opened_at = 0, ca_closed_at = None, ca_created_at = 0, ca_updated_at = 0\<rparr>],
     audits := [\<lparr>au_event_id = ''audit'', au_case_id = ''case'', au_event_type = ''CASE_CREATED'', au_actor_type = ''SERVICE'',
       au_actor_ref = ''case-service'', au_source = ''case-api'', au_object_ref = Some ''case'', au_before_hash = None,
       au_after_hash = None, au_state_version = 1, au_metadata = VDict [], au_correlation_id = ''corr'', au_created_at = 0\<rparr>],
     timeline := [\<lparr>tl_entry_id = ''entry'', tl_case_id = ''case'', tl_event_type = ''CASE_CREATED'', tl_message = ''created'',
       tl_actor = ''case-service'', tl_source = ''case-api'', tl_audit_event_id = Some ''audit'', tl_correlation_id = ''corr'',
       tl_occurred_at = 0\<rparr>],
     runs := [\<lparr>wr_workflow_id = ''wf'', wr_case_id = ''case'', wr_graph_version = GRAPH_VERSION, wr_status = ''RUNNING'',
       wr_current_node = ''start'', wr_state_version = 2, wr_checkpoint_seq = 1, wr_interrupt_reason = None, wr_telemetry = [],
       wr_correlation_id = ''corr'', wr_started_by = ''actor'', wr_started_at = 0, wr_updated_at = 0, wr_completed_at = None\<rparr>],
     checkpoints := [\<lparr>ck_checkpoint_id = ''point'', ck_workflow_id = ''wf'', ck_case_id = ''case'', ck_seq = 1,
       ck_state_version = 2, ck_current_node = ''start'', ck_status = ''RUNNING'', ck_state = paused_state, ck_state_hash = [],
       ck_interrupt_reason = None, ck_side_effects = [], ck_telemetry = [], ck_correlation_id = ''corr'', ck_created_at = 0\<rparr>]\<rparr>"

lemma paused_inv: "service_inv e paused_store"
  by (simp add: service_inv_def case_inv_def cases_sound_def owned_evidence_def traced_def trail_def records_complete_def
      workflow_inv_def run_consistent_def run_checkpoints_def checkpoint_consistent_def mirrors_def paused_state_def
      runs_owned_def control_inv_def paused_store_def empty_store_def upto.simps)

lemma stale_resume_refused_witness:
  "\<exists>w''. serve pilot_services (ResumeWorkflow ''wf'' \<lparr>rm_reevaluation = None, rm_actor_ref = ''actor'', rm_resume_reason = ''retry'', rm_resume_payload = []\<rparr>
     ''key'' 1 ''corr'') pilot_env (pilot_world\<lparr>db := paused_store\<rparr>) = (Inl WorkflowConflict, w'') \<and> db w'' = paused_store"
  using stale_resume_refused [OF _ pilot_offline _ _ reaches.here refl, of pilot_env "pilot_world\<lparr>db := paused_store\<rparr>" "''wf''" _ 1]
    paused_inv [of pilot_env]
  by (simp add: row_by_def) (simp add: paused_store_def empty_store_def)

section \<open>The graph\<close>


lemma gstep_stage: "gstep g e p q \<Longrightarrow> stage_no (fst p) < stage_no (fst q)"
  using gstep_forward [of g e p q] by (simp add: less_node_def)

lemma gsteps_stage: "(gstep g e ^^ k) p q \<Longrightarrow> stage_no (fst p) + k \<le> stage_no (fst q)"
proof (induction k arbitrary: q)
  case (Suc k)
  then obtain r where "(gstep g e ^^ k) p r" "gstep g e r q" by auto
  with Suc.IH [of r] gstep_stage [of g e r q] show ?case by simp
qed simp

text \<open>C34: Every run of the graph ends: there is no infinite sequence of steps, and no sequence of more than seven.\<close>

theorem graph_terminates:
  "wfP (\<lambda>q p. gstep g e p q) \<and> \<not> (\<exists>p q k. 7 < k \<and> (gstep g e ^^ k) p q)"
proof (intro conjI notI)
  have "{(q, p). gstep g e p q} \<subseteq> measure (\<lambda>p. 7 - stage_no (fst p))"
  proof (clarsimp)
    fix n st w m st' w'
    assume "gstep g e (n, st, w) (m, st', w')"
    from gstep_stage [OF this] have "stage_no n < stage_no m" by simp
    moreover have "stage_no m \<le> 7" by (cases m) simp_all
    ultimately show "7 - stage_no m < 7 - stage_no n" by simp
  qed
  then show "wfP (\<lambda>q p. gstep g e p q)" unfolding wfp_def by (rule wf_subset [OF wf_measure])
  assume "\<exists>p q k. 7 < k \<and> (gstep g e ^^ k) p q"
  then obtain p q k where "7 < k" and "(gstep g e ^^ k) p q" by blast
  moreover have "stage_no (fst q) \<le> 7" by (cases "fst q") simp_all
  ultimately show False using gsteps_stage [of k g e p q] by auto
qed

lemma route_successor:
  assumes "n \<in> set (pipeline control)" and "route control n st = Some m"
  shows "m \<in> set (pipeline control) \<and> (\<forall>k \<in> set (pipeline control). k < m \<longrightarrow> k < n \<or> k = n)"
  using assms by (cases n; cases control) (auto simp: pipeline_def unless_def less_node_def split: if_splits)

text \<open>A step of the run between two positions, with the route it took.\<close>

definition passed :: "graph_config \<Rightarrow> env \<Rightarrow> position \<Rightarrow> node \<Rightarrow> position \<Rightarrow> bool" where
  "passed g e p n q \<longleftrightarrow> (\<exists>st w st1 w1 m. (gstep g e)\<^sup>*\<^sup>* p (n, st, w) \<and> node_step g n st e w = (Inr st1, w1) \<and>
     next_node g n st1 = Some m \<and> (gstep g e)\<^sup>*\<^sup>* (m, st1, w1) q)"

lemma passed_later: "passed g e p n q \<Longrightarrow> gstep g e q r \<Longrightarrow> passed g e p n r"
  unfolding passed_def by (blast intro: rtranclp.rtrancl_into_rtrancl)

text \<open>C35: No stage is skipped: whatever position a run has reached, every earlier stage of the pipeline of its graph was
  run and returned a state that its route let through; in particular the control graph comes to the controlled stop
  only when none of evidence, policy, rules and confidence left it waiting.\<close>

theorem no_stage_skipped:
  assumes "(gstep g e)\<^sup>*\<^sup>* (Intake, st, w) (n, st', w')"
  shows "n \<in> set (pipeline (gc_control g \<noteq> None)) \<and>
    (\<forall>k \<in> set (pipeline (gc_control g \<noteq> None)). k < n \<longrightarrow> passed g e (Intake, st, w) k (n, st', w'))"
  using assms
proof (induction "(n, st', w')" arbitrary: n st' w' rule: rtranclp_induct)
  case base
  have "\<not> k < Intake" for k by (simp add: less_node_def)
  then show ?case by (simp add: pipeline_def)
next
  case (step p)
  obtain m sm wm where p: "p = (m, sm, wm)" by (cases p)
  note earlier = step.hyps(3) [OF p]
  from step.hyps(2) p have run: "node_step g m sm e wm = (Inr st', w')" and next_m: "next_node g m st' = Some n"
    by (auto simp: gstep_iff)
  have succ: "n \<in> set (pipeline (gc_control g \<noteq> None)) \<and>
      (\<forall>k \<in> set (pipeline (gc_control g \<noteq> None)). k < n \<longrightarrow> k < m \<or> k = m)"
    using earlier next_m by (intro route_successor [of m _ st']) (auto simp: next_node_def)
  have "passed g e (Intake, st, w) m (n, st', w')"
    unfolding passed_def using step.hyps(1) p run next_m by blast
  moreover have "passed g e (Intake, st, w) k (n, st', w')" if "k \<in> set (pipeline (gc_control g \<noteq> None))" "k < m" for k
    using earlier that passed_later step.hyps(2) p by blast
  ultimately show ?case using succ by blast
qed

text \<open>An example: a classified case whose control stages have nothing to object.\<close>

definition idle_graph :: graph_config where
  "idle_graph = \<lparr>gc_classify = \<lambda>_. raise CaseNotFound, gc_retrieve = \<lambda>_. raise CaseNotFound,
     gc_control = Some \<lparr>cn_prepare = ret, cn_evidence = ret, cn_policy = ret, cn_rules = ret, cn_confidence = ret, cn_finish = ret\<rparr>\<rparr>"

definition classified_state :: wf_state where
  "classified_state = paused_state\<lparr>ws_case := Some [(''status'', VStr ''Submitted''), (''dispute_type'', VStr ''x''),
       (''transaction_ref'', VStr ''txn'')],
     ws_side_effects := [classification_key paused_state ''classification-output-v1'' ''classification-router-v1''],
     ws_summaries := [(''classification'', VDict [(''category'', VStr ''duplicate_card_transaction'')])]\<rparr>"

lemma classified_case: "ws_case classified_state = Some [(''status'', VStr ''Submitted''), (''dispute_type'', VStr ''x''),
    (''transaction_ref'', VStr ''txn'')]"
  by (simp add: classified_state_def)

lemma record_returns: "\<exists>st' w'. record_node name status st e w = (Inr st', w') \<and> ws_status st' = ws_status st \<and>
    ws_side_effects st' = ws_side_effects st \<and> ws_summaries st' = ws_summaries st \<and> ws_case_id st' = ws_case_id st"
  by (simp add: record_node_def bnd_def elapsed_ms_def ret_def)

lemma idle_step:
  assumes "n \<in> {AuthoritativeContext, EvidenceGate, PolicyContext, RulesNode, ConfidenceNode}" and "ws_status st = ''RUNNING''"
  shows "\<exists>m st' w'. gstep idle_graph e (n, st, w) (m, st', w') \<and> stage_no m = Suc (stage_no n) \<and> ws_status st' = ''RUNNING''"
proof -
  obtain st' w' where rec: "record_node (node_name n) ''completed'' st e w = (Inr st', w')" and run: "ws_status st' = ''RUNNING''"
    using record_returns assms(2) by metis
  moreover have "node_step idle_graph n st e w = (Inr st', w')"
    using assms(1) rec
    by (auto simp: idle_graph_def context_node_def evidence_node_def policy_node_def rules_node_def confidence_node_def
        authorize_node_operation_def ALLOWED_NODE_OPERATIONS_def dict_get_def app_eval)
  moreover have "\<exists>m. next_node idle_graph n st' = Some m \<and> stage_no m = Suc (stage_no n)"
    using assms(1) run by (auto simp: next_node_def idle_graph_def unless_def waiting_def)
  ultimately show ?thesis using run by (blast intro: gstep.advance)
qed

lemma idle_start:
  "\<exists>st w. (gstep idle_graph pilot_env)\<^sup>*\<^sup>* (Intake, classified_state, pilot_world) (AuthoritativeContext, st, w) \<and>
     ws_status st = ''RUNNING''"
proof -
  let ?st = "summarize ''intake'' [(''case_id'', VStr (ws_case_id classified_state)), (''case_status'', VStr ''Submitted''),
        (''dispute_type'', VStr ''x''), (''transaction_ref'', VStr ''txn'')] classified_state"
  obtain s1 w1 where r1: "record_node ''intake'' ''completed'' ?st pilot_env pilot_world = (Inr s1, w1)"
    and s1: "ws_status s1 = ''RUNNING''" "ws_side_effects s1 = ws_side_effects classified_state"
      "ws_summaries s1 = ws_summaries ?st" "ws_case_id s1 = ws_case_id classified_state"
    using record_returns [of "''intake''" "''completed''" ?st pilot_env pilot_world]
    by (auto simp: summarize_def classified_state_def paused_state_def)
  have "node_step idle_graph Intake classified_state pilot_env pilot_world = (Inr s1, w1)"
    using r1 classified_case by (simp add: intake_node_def authorize_node_operation_def ALLOWED_NODE_OPERATIONS_def
        state_case_def dict_get_def app_eval cong: lazily)
  then have first: "gstep idle_graph pilot_env (Intake, classified_state, pilot_world) (Classification, s1, w1)"
    by (rule gstep.advance) (simp add: next_node_def)
  obtain s2 w2 where r2: "record_node ''classification'' ''completed'' s1 pilot_env w1 = (Inr s2, w2)" and s2: "ws_status s2 = ''RUNNING''"
    using record_returns s1(1) by metis
  have "cached_classification s1 = Some (VDict [(''category'', VStr ''duplicate_card_transaction'')])"
    using s1 by (simp add: cached_classification_def classification_key_def classified_state_def summarize_def)
  then have "node_step idle_graph Classification s1 pilot_env w1 = (Inr s2, w2)"
    using r2 by (simp add: classification_node_def authorize_node_operation_def ALLOWED_NODE_OPERATIONS_def
        reuse_classification_def dict_get_def app_eval)
  then have "gstep idle_graph pilot_env (Classification, s1, w1) (AuthoritativeContext, s2, w2)"
    using s2 by (rule_tac gstep.advance) (auto simp: next_node_def unless_def)
  then show ?thesis using first s2 by (meson converse_rtranclp_into_rtranclp rtranclp.rtrancl_refl)
qed

lemma idle_finish:
  "stage_no n + k = 7 \<Longrightarrow> 2 \<le> stage_no n \<Longrightarrow> ws_status st = ''RUNNING'' \<Longrightarrow>
   \<exists>st' w'. (gstep idle_graph e)\<^sup>*\<^sup>* (n, st, w) (ControlledStop, st', w')"
proof (induction k arbitrary: n st w)
  case 0
  then show ?case by (cases n) auto
next
  case (Suc k)
  have "n \<in> {AuthoritativeContext, EvidenceGate, PolicyContext, RulesNode, ConfidenceNode}"
    using Suc.prems(1,2) by (cases n) auto
  from idle_step [OF this Suc.prems(3)] obtain m st1 w1 where one: "gstep idle_graph e (n, st, w) (m, st1, w1)"
    and m: "stage_no m = Suc (stage_no n)" and "ws_status st1 = ''RUNNING''" by blast
  then obtain st' w' where "(gstep idle_graph e)\<^sup>*\<^sup>* (m, st1, w1) (ControlledStop, st', w')"
    using Suc.IH [of m st1 w1] Suc.prems by auto
  with one show ?case by (meson converse_rtranclp_into_rtranclp)
qed

lemma no_stage_skipped_witness:
  "\<exists>st' w'. passed idle_graph pilot_env (Intake, classified_state, pilot_world) ConfidenceNode (ControlledStop, st', w')"
proof -
  obtain st w where start: "(gstep idle_graph pilot_env)\<^sup>*\<^sup>* (Intake, classified_state, pilot_world) (AuthoritativeContext, st, w)"
    and run: "ws_status st = ''RUNNING''" using idle_start by blast
  obtain st' w' where "(gstep idle_graph pilot_env)\<^sup>*\<^sup>* (AuthoritativeContext, st, w) (ControlledStop, st', w')"
    using idle_finish [OF _ _ run, of AuthoritativeContext 5 pilot_env w] by auto
  with start have "(gstep idle_graph pilot_env)\<^sup>*\<^sup>* (Intake, classified_state, pilot_world) (ControlledStop, st', w')" by simp
  from no_stage_skipped [OF this] show ?thesis
    by (auto simp: idle_graph_def pipeline_def less_node_def)
qed

section \<open>What a run keeps\<close>

text \<open>C36: Running a graph, control or legacy, keeps the identity of the run (case, workflow, graph version, state version,
  correlation and schema), ends in one of the eight statuses a run may have, and records side effects without
  forgetting or repeating one.\<close>

theorem execution_keeps_run:
  assumes "execute_graph sv st e w = (Inr r, w')" and "ws_status st \<in> set ACTIVE_STATUSES"
  shows "ws_case_id r = ws_case_id st \<and> ws_workflow_id r = ws_workflow_id st \<and> ws_graph_version r = ws_graph_version st \<and>
    ws_state_version r = ws_state_version st \<and> ws_correlation_id r = ws_correlation_id st \<and>
    ws_schema_version r = ws_schema_version st \<and> ws_status r \<in> set ACTIVE_STATUSES \<and>
    (distinct (ws_side_effects st) \<longrightarrow> distinct (ws_side_effects r)) \<and> set (ws_side_effects st) \<subseteq> set (ws_side_effects r)"
  using execute_kept [OF assms] by (simp add: same_run_def)

lemma pilot_graph_executed: "wp (execute_graph pilot_services classified_state) (\<lambda>r _. ws_status r = ''WAITING_EVIDENCE'') pilot_env pilot_world"
  by (simp add: execute_graph_def is_control_def classified_state_def paused_state_def GRAPH_VERSION_def CONTROL_GRAPH_VERSION_def
      invoke_graph_def service_graph_def run_from.simps [of _ Intake] run_from.simps [of _ Classification]
      run_from.simps [of _ AuthoritativeContext] run_from.simps [of _ EvidenceGate] intake_node_def classification_node_def
      context_node_def evidence_node_def legacy_context_def legacy_evidence_def authorize_node_operation_def
      ALLOWED_NODE_OPERATIONS_def dict_get_def state_case_def record_node_def summarize_def cached_classification_def
      classification_key_def reuse_classification_def provider_key_def add_side_effect_def pause_def interrupt_with_def
      next_node_def unless_def wps Let_def)

lemma execution_keeps_run_witness:
  "\<exists>r w'. execute_graph pilot_services classified_state pilot_env pilot_world = (Inr r, w') \<and> ws_status r = ''WAITING_EVIDENCE'' \<and>
     ws_workflow_id r = ''wf'' \<and> distinct (ws_side_effects r)"
proof -
  obtain r w' where run: "execute_graph pilot_services classified_state pilot_env pilot_world = (Inr r, w')"
    and "ws_status r = ''WAITING_EVIDENCE''" using pilot_graph_executed by (auto simp: wp_iff)
  moreover have "ws_status classified_state \<in> set ACTIVE_STATUSES" "ws_workflow_id classified_state = ''wf''"
    "distinct (ws_side_effects classified_state)" by (simp_all add: classified_state_def paused_state_def)
  ultimately show ?thesis using execution_keeps_run [OF run] by (intro exI [of _ r] exI [of _ w']) simp
qed

end
