(* ===== verification/PolicyKept.thy ===== *)
theory PolicyKept
  imports Retrieval ServiceCalls
begin

text \<open>
  What ingesting, promoting and searching keep of the policy tables (\<open>policy_inv\<close>): unique keys, sound
  documents, chunks that carry the hash of their own text, at most one active corpus.
\<close>

section \<open>Ingesting\<close>

lemma maintains_transactI:
  assumes "\<And>e w a w'. Q e (db w) \<Longrightarrow> m e w = (Inr a, w') \<Longrightarrow> Q e (db w')"
  shows "maintains Q (transact m)"
  unfolding maintains_def
proof (intro allI impI)
  fix e :: env and w :: world
  assume "Q e (db w)"
  then show "Q e (db (snd (transact m e w)))"
    using assms by (auto simp: transact_def split: prod.split sum.split)
qed

lemma no_document_errors: "document_errors i d = [] \<longleftrightarrow> di_source_type d = SrcPolicy \<and> di_status d \<in> {PolApproved, PolActive} \<and>
    (\<forall>t \<in> set_option (di_effective_to d). di_effective_from d \<le> t)"
  by (auto simp: document_errors_def not_less)

lemma validated_documents: "validate_documents ds = [] \<longleftrightarrow> (\<forall>d \<in> set ds. di_source_type d = SrcPolicy \<and>
    di_status d \<in> {PolApproved, PolActive} \<and> (\<forall>t \<in> set_option (di_effective_to d). di_effective_from d \<le> t))"
proof -
  have "(\<forall>(i, d) \<in> set (enumerate 0 ds). P d) \<longleftrightarrow> (\<forall>d \<in> snd ` set (enumerate 0 ds). P d)" for P
    by (simp add: split_def)
  moreover have "snd ` set (enumerate 0 ds) = set ds" by (metis list.set_map map_snd_enumerate)
  ultimately show ?thesis by (simp add: validate_documents_def no_document_errors case_prod_unfold)
qed

text \<open>Tables the invariant does not see, and the run table.\<close>

lemma policy_inv_same:
  "policy_inv e s \<Longrightarrow> ingestions s' = ingestions s \<Longrightarrow> documents s' = documents s \<Longrightarrow> chunks s' = chunks s \<Longrightarrow>
   corpora s' = corpora s \<Longrightarrow> policy_inv e s'"
  by (simp add: policy_inv_def documents_sound_def chunk_intact_def document_of_def)

lemma policy_inv_ingestions:
  "policy_inv e s \<Longrightarrow> distinct (map ig_run_id xs) \<Longrightarrow> policy_inv e (ingestions_update (\<lambda>_. xs) s)"
  by (simp add: policy_inv_def documents_sound_def chunk_intact_def document_of_def)

lemma create_ingestion_inv:
  assumes "policy_inv e (db w)" and "create_ingestion q src corr now e w = (Inr run, w')"
  shows "policy_inv e (db w')" and "ig_parser_version run = iq_parser_version q"
    and "ig_chunking_config_hash run = iq_chunking_config_hash q"
  using assms
  by (auto simp: create_ingestion_def app_simps Let_def key_free_def policy_inv_def documents_sound_def chunk_intact_def
      document_of_def)

lemma complete_ingestion_inv:
  "policy_inv e (db w) \<Longrightarrow> complete_ingestion run st er tm now e w = (Inr u, w') \<Longrightarrow> policy_inv e (db w')"
  by (auto simp: complete_ingestion_def app_simps change_rows_def policy_inv_def documents_sound_def chunk_intact_def
      document_of_def update_where_keys)

lemma policy_audit_core:
  "policy_audit ev ac sr de co t ru d v ck me e w = (Inr a, w') \<Longrightarrow> ingestions (db w') = ingestions (db w) \<and>
     documents (db w') = documents (db w) \<and> chunks (db w') = chunks (db w) \<and> corpora (db w') = corpora (db w)"
  by (auto simp: policy_audit_def policy_audit_append_def app_simps Let_def)

lemma upto_snoc: "map do_pk ds = [1..int (length ds)] \<Longrightarrow> do_pk d = next_pk ds \<Longrightarrow>
    map do_pk (ds @ [d]) = [1..int (length (ds @ [d]))]"
  by (simp add: next_pk_def upto_rec2)

lemma add_document_inv:
  assumes inv: "policy_inv e (db w)" and ok: "document_errors 0 d = []"
    and add: "add_document run d now e w = (Inr r, w')"
  shows "policy_inv e (db w') \<and> documents (db w') = documents (db w) @ [r] \<and>
    r = document_of_input run d (next_pk (documents (db w))) now"
proof -
  have db: "db w' = documents_update (\<lambda>t. t @ [r]) (db w)" and free: "key_free document_key (documents (db w)) r"
    and r: "r = document_of_input run d (next_pk (documents (db w))) now"
    using add by (auto simp: add_document_def app_simps)
  have "documents_sound (db w')"
    using inv ok upto_snoc [of "documents (db w)" r]
    by (auto simp: policy_inv_def documents_sound_def db r document_of_input_def no_document_errors usable_def)
  moreover have "document_of c (db w) = Some d' \<Longrightarrow> document_of c (db w') = Some d'" for c d'
    by (simp add: document_of_def db row_by_snoc)
  ultimately show ?thesis
    using inv free r by (auto simp: policy_inv_def db key_free_def chunk_intact_def)
qed

definition chunk_ok :: "(string \<Rightarrow> string) \<Rightarrow> ingestion_row \<Rightarrow> document_row \<Rightarrow> chunk_parts \<Rightarrow> bool" where
  "chunk_ok sha run d p \<longleftrightarrow> do_run_id d = ig_run_id run \<and> cp_chunk_hash p = sha (join ''|'' [do_document_id d, do_version d,
     cp_section p, do_source_checksum d, ig_parser_version run, ig_chunking_config_hash run, cp_content p])"

lemma store_chunk_inv:
  assumes inv: "policy_inv e (db w)" and doc: "d \<in> set (documents (db w))" and ok: "chunk_ok (en_sha e) run d p"
    and add: "store_chunk run d now p e w = (Inr u, w')"
  shows "policy_inv e (db w') \<and> documents (db w') = documents (db w)"
proof -
  obtain v where "key_free ch_chunk_id (chunks (db w)) (chunk_row_of run d p v (next_pk (chunks (db w))) now)"
    and "db w' = chunks_update (\<lambda>t. t @ [chunk_row_of run d p v (next_pk (chunks (db w))) now]) (db w)"
    using add by (auto simp: store_chunk_def add_chunk_def app_simps)
  moreover define c where "c = chunk_row_of run d p v (next_pk (chunks (db w))) now"
  ultimately have free: "key_free ch_chunk_id (chunks (db w)) c" and db: "db w' = chunks_update (\<lambda>t. t @ [c]) (db w)"
    by simp_all
  have "distinct (map do_pk (documents (db w)))" using inv by (simp add: policy_inv_def documents_sound_def)
  from row_by_unique [OF this doc] have "document_of c (db w') = Some d" by (simp add: document_of_def db c_def chunk_row_of_def)
  then have "chunk_intact (en_sha e) (db w') c" using ok by (simp add: chunk_intact_def c_def chunk_row_of_def chunk_ok_def)
  moreover have "chunk_intact (en_sha e) (db w) x \<Longrightarrow> chunk_intact (en_sha e) (db w') x" for x
    by (simp add: chunk_intact_def document_of_def db)
  ultimately show ?thesis
    using inv free by (auto simp: policy_inv_def documents_sound_def db key_free_def)
qed

lemma store_chunks_inv:
  "policy_inv e (db w) \<Longrightarrow> d \<in> set (documents (db w)) \<Longrightarrow> list_all (chunk_ok (en_sha e) run d) ps \<Longrightarrow>
   each (store_chunk run d now) ps e w = (Inr u, w') \<Longrightarrow> policy_inv e (db w') \<and> documents (db w') = documents (db w)"
proof (induction ps arbitrary: w)
  case (Cons p ps)
  from Cons.prems(4) obtain u1 w1 where "store_chunk run d now p e w = (Inr u1, w1)"
    and "each (store_chunk run d now) ps e w1 = (Inr u, w')" by (auto elim: andthen_InrE)
  then show ?case using store_chunk_inv [of e w d run p now u1 w1] Cons.IH [of w1] Cons.prems by simp
qed (simp add: ret_run)

lemma ingest_document_inv:
  assumes inv: "policy_inv e (db w)" and ok: "document_errors 0 d = []"
    and run: "ig_parser_version run = iq_parser_version q" "ig_chunking_config_hash run = iq_chunking_config_hash q"
    and step: "ingest_document q run corr now d e w = (Inr n, w')"
  shows "policy_inv e (db w')"
proof -
  from step obtain r w1 u w2 a where add: "add_document run d now e w = (Inr r, w1)"
    and cs: "each (store_chunk run r now) (chunk_document (en_sha e) q d) e w1 = (Inr u, w2)"
    and audit: "policy_audit ''POLICY_INGESTION_ACCEPTED'' (iq_actor_ref q) admin_source ''accepted'' corr now
        (Some (ig_run_id run)) (Some (di_document_id d)) (Some (di_version d)) (Some (di_source_checksum d))
        [(''status'', VStr (policy_status_text (di_status d))), (''source_identity'', VStr (di_source_identity d)),
         (''product'', VStr (di_product d)), (''channel'', VStr (di_channel d)),
         (''jurisdiction'', VStr (di_jurisdiction d))] e w2 = (Inr a, w')"
    by (auto simp: ingest_document_def ask_run ret_run elim!: bnd_InrE andthen_InrE)
  note added = add_document_inv [OF inv ok add]
  have "list_all (chunk_ok (en_sha e) run r) (chunk_document (en_sha e) q d)"
    using added run
    by (simp add: list_all_iff chunk_document_def chunk_ok_def chunk_section_def document_of_input_def Let_def)
  then have "policy_inv e (db w2)" using store_chunks_inv [OF _ _ _ cs] added by simp
  then show ?thesis using policy_audit_core [OF audit] by (auto intro: policy_inv_same)
qed

lemma ingest_documents_inv:
  "policy_inv e (db w) \<Longrightarrow> list_all (\<lambda>d. document_errors 0 d = []) ds \<Longrightarrow>
   ig_parser_version run = iq_parser_version q \<Longrightarrow> ig_chunking_config_hash run = iq_chunking_config_hash q \<Longrightarrow>
   collect (ingest_document q run corr now) ds e w = (Inr ns, w') \<Longrightarrow> policy_inv e (db w')"
proof (induction ds arbitrary: w ns)
  case (Cons d ds)
  from Cons.prems(5) obtain n w1 ns' where "ingest_document q run corr now d e w = (Inr n, w1)"
    and "collect (ingest_document q run corr now) ds e w1 = (Inr ns', w')" by (auto elim!: bnd_InrE simp: ret_run)
  then show ?case using ingest_document_inv [of e w d run q corr now n w1] Cons.IH [of w1] Cons.prems by simp
qed (simp add: ret_run)

lemma accept_inv:
  assumes "validate_documents (iq_documents q) = []"
  shows "maintains policy_inv (transact (accept_documents q corr now))"
proof (rule maintains_transactI)
  fix e w rid w'
  assume inv: "policy_inv e (db w)" and "accept_documents q corr now e w = (Inr rid, w')"
  then obtain run w1 ns w2 u where create: "create_ingestion q admin_source corr now e w = (Inr run, w1)"
    and docs: "collect (ingest_document q run corr now) (iq_documents q) e w1 = (Inr ns, w2)"
    and fin: "complete_ingestion run ''indexed'' [] (indexed_telemetry (length (iq_documents q)) (sum_list ns)) now e w2 = (Inr u, w')"
    by (auto simp: accept_documents_def ret_run elim!: bnd_InrE andthen_InrE)
  have "list_all (\<lambda>d. document_errors 0 d = []) (iq_documents q)"
    using assms by (simp add: validated_documents no_document_errors list_all_iff)
  then have "policy_inv e (db w2)" using ingest_documents_inv [OF _ _ _ _ docs] create_ingestion_inv [OF inv create] by simp
  then show "policy_inv e (db w')" using fin by (rule complete_ingestion_inv)
qed

lemma reject_inv: "maintains policy_inv (transact (reject_documents q corr now errors))"
proof (rule maintains_transactI)
  fix e w u w'
  assume inv: "policy_inv e (db w)" and "reject_documents q corr now errors e w = (Inr u, w')"
  then obtain run w1 u1 w2 a where create: "create_ingestion q admin_source corr now e w = (Inr run, w1)"
    and fin: "complete_ingestion run ''failed_validation'' errors
       [(''documents'', VInt (int (length (iq_documents q)))), (''chunks'', VInt 0)] now e w1 = (Inr u1, w2)"
    and audit: "policy_audit ''POLICY_INGESTION_REJECTED'' (iq_actor_ref q) admin_source ''rejected'' (ig_correlation_id run)
        now (Some (ig_run_id run)) None None None [(''validation_errors'', VList errors)] e w2 = (Inr a, w')"
    by (auto simp: reject_documents_def ret_run elim!: bnd_InrE andthen_InrE)
  have "policy_inv e (db w2)" using complete_ingestion_inv [OF _ fin] create_ingestion_inv [OF inv create] by simp
  then show "policy_inv e (db w')" using policy_audit_core [OF audit] by (auto intro: policy_inv_same)
qed

lemma readonly_view [preserved]: "maintains Q (ingestion_view rid)"
  unfolding ingestion_view_def get_ingestion_def by (auto intro!: preserved split: option.split)

lemma ingest_inv [preserved]: "maintains policy_inv (ingest q corr)"
  unfolding ingest_def validate_admin_actor_def Let_def
  by (cases "validate_documents (iq_documents q) = []")
    (simp_all add: preserves_andthen preserves_bnd accept_inv reject_inv readonly_view)

lemma policy_audit_inv [preserved]: "maintains policy_inv (policy_audit ev ac sr de co t ru d v ck me)"
  unfolding policy_audit_def policy_audit_append_def Let_def
  by (intro preserves_bnd preserves_andthen preserves_append preserves_pure) (erule policy_inv_same; simp)

lemma reindex_inv [preserved]: "maintains policy_inv (create_reindex_run q corr)"
  unfolding create_reindex_run_def
  by (intro preserves_bnd preserves_andthen ingest_inv policy_audit_inv readonly_view preserves_pure)

section \<open>Promoting\<close>

lemma evaluate_run_db:
  assumes "evaluate_run q run corr now e w = (Inr (ms, passed, ev), w')"
  shows "ms = run_metrics (all_chunks (ig_run_id run) (db w)) \<and>
    passed = (ig_status run = ''indexed'' \<and> metric_failures ms = []) \<and>
    db w' = policy_evaluations_update (\<lambda>t. t @ [ev]) (db w) \<and> pe_passed ev = passed"
  using assms by (auto simp: evaluate_run_def add_policy_evaluation_def app_simps Let_def)

lemma promote_corpus_db:
  assumes "promote_corpus rid corpus index actor corr now e w = (Inr r, w')"
  shows "co_corpus_version r \<notin> co_corpus_version ` set (corpora (db w))" and "co_is_active r" and "co_run_id r = rid"
    and "co_corpus_version r = corpus" and "co_index_version r = index"
    and "db w' = corpora_update (\<lambda>t. update_where co_is_active retired t @ [r]) (db w)"
proof -
  have keys: "map co_corpus_version (update_where co_is_active (\<lambda>c. c\<lparr>co_is_active := False\<rparr>) cs) = map co_corpus_version cs" for cs
    by (rule update_where_keys) simp
  have img: "co_corpus_version ` set (update_where co_is_active (\<lambda>c. c\<lparr>co_is_active := False\<rparr>) cs) = co_corpus_version ` set cs" for cs
    by (metis keys list.set_map)
  show "co_corpus_version r \<notin> co_corpus_version ` set (corpora (db w))" "co_is_active r" "co_run_id r = rid"
    "co_corpus_version r = corpus" "co_index_version r = index"
    "db w' = corpora_update (\<lambda>t. update_where co_is_active retired t @ [r]) (db w)"
    using assms by (auto simp: promote_corpus_def app_simps change_rows_def Let_def key_free_def img [simplified] retired_def [abs_def])
qed

lemma all_retired: "filter co_is_active (update_where co_is_active retired cs) = []"
  by (auto simp: filter_empty_conv set_update_where retired_def)

lemma grant_db:
  assumes "grant_promotion q run ms corr now e w = (Inr u, w')"
  shows "\<exists>r. co_corpus_version r \<notin> co_corpus_version ` set (corpora (db w)) \<and> co_is_active r \<and>
    co_run_id r = ig_run_id run \<and> co_corpus_version r = pq_corpus_version q \<and> co_index_version r = pq_index_version q \<and>
    corpora (db w') = update_where co_is_active retired (corpora (db w)) @ [r] \<and>
    ingestions (db w') = ingestions (db w) \<and> documents (db w') = documents (db w) \<and> chunks (db w') = chunks (db w)"
proof -
  from assms obtain r w1 a where pro: "promote_corpus (ig_run_id run) (pq_corpus_version q) (pq_index_version q)
      (pq_actor_ref q) corr now e w = (Inr r, w1)"
    and audit: "policy_audit ''POLICY_CORPUS_PROMOTED'' (pq_actor_ref q) admin_source ''promoted'' corr now
       (Some (ig_run_id run)) None None None
       [(''corpus_version'', VStr (pq_corpus_version q)), (''index_version'', VStr (pq_index_version q)),
        (''evaluation_passed'', VBool True), (''metrics'', VDict (metric_dict ms))] e w1 = (Inr a, w')"
    by (auto simp: grant_promotion_def ret_run elim!: bnd_InrE)
  from promote_corpus_db [OF pro] policy_audit_core [OF audit] show ?thesis by (intro exI [of _ r]) simp
qed

lemma deny_db:
  assumes "deny_promotion q run ms corr now e w = (Inr u, w')"
  shows "ingestions (db w') = ingestions (db w) \<and> documents (db w') = documents (db w) \<and> chunks (db w') = chunks (db w) \<and>
    corpora (db w') = corpora (db w)"
  using assms policy_audit_core by (auto simp: deny_promotion_def ret_run elim!: bnd_InrE)

lemma granted_inv:
  assumes inv: "policy_inv e s" and new: "co_corpus_version r \<notin> co_corpus_version ` set (corpora s)"
    and same: "ingestions s' = ingestions s" "documents s' = documents s" "chunks s' = chunks s"
    and cs: "corpora s' = update_where co_is_active retired (corpora s) @ [r]"
  shows "policy_inv e s'"
proof -
  have keys: "map co_corpus_version (update_where co_is_active retired cs) = map co_corpus_version cs" for cs
    by (rule update_where_keys) (simp add: retired_def)
  have img: "co_corpus_version ` set (update_where co_is_active retired (corpora s)) = co_corpus_version ` set (corpora s)"
    by (metis keys list.set_map)
  have "distinct (map co_corpus_version (corpora s'))"
    using inv new unfolding cs map_append keys distinct_append by (simp add: img policy_inv_def)
  moreover have "length (filter co_is_active (corpora s')) \<le> 1" by (simp add: cs all_retired)
  ultimately show ?thesis
    using inv by (simp add: policy_inv_def documents_sound_def chunk_intact_def document_of_def same)
qed

lemma promote_step_inv:
  "maintains policy_inv (transact (bnd (evaluate_run q run corr now) (\<lambda>(ms, passed, ev).
     andthen (if passed then grant_promotion q run ms corr now else deny_promotion q run ms corr now) (ret (passed, ev)))))"
proof (rule maintains_transactI)
  fix e w r w'
  assume inv: "policy_inv e (db w)" and "bnd (evaluate_run q run corr now) (\<lambda>(ms, passed, ev).
     andthen (if passed then grant_promotion q run ms corr now else deny_promotion q run ms corr now) (ret (passed, ev)))
     e w = (Inr r, w')"
  then obtain ms passed ev w1 u where ev: "evaluate_run q run corr now e w = (Inr (ms, passed, ev), w1)"
    and act: "(if passed then grant_promotion q run ms corr now else deny_promotion q run ms corr now) e w1 = (Inr u, w')"
    by (auto simp: ret_run elim!: bnd_InrE andthen_InrE)
  have inv1: "policy_inv e (db w1)"
    using evaluate_run_db [OF ev] inv by (auto intro: policy_inv_same)
  show "policy_inv e (db w')"
  proof (cases passed)
    case True
    with act have "grant_promotion q run ms corr now e w1 = (Inr u, w')" by simp
    from grant_db [OF this] granted_inv [OF inv1] show ?thesis by blast
  next
    case False
    with act have "deny_promotion q run ms corr now e w1 = (Inr u, w')" by simp
    from deny_db [OF this] show ?thesis using inv1 by (auto intro: policy_inv_same)
  qed
qed

lemma promote_inv [preserved]: "maintains policy_inv (promote q corr)"
  unfolding promote_def validate_admin_actor_def get_ingestion_def promotion_response_def active_corpus_def Let_def
  by (intro preserves_bnd preserves_andthen preserves_case_option preserves_case_prod promote_step_inv preserves_pure)

section \<open>The policy tables along a history\<close>

lemma policy_inv_row_closed: "row_closed policy_inv"
  unfolding row_closed_def by (intro conjI allI impI; erule policy_inv_same; simp)

lemma policy_inv_idem: "idem_closed policy_inv"
  unfolding idem_closed_def count_closed_def by (intro conjI allI impI; erule policy_inv_same; simp)

lemma policy_inv_cases: "case_closed policy_inv"
  unfolding case_closed_def
  by (intro conjI allI impI policy_inv_idem; erule policy_inv_same; simp)

lemma policy_inv_flow: "flow_closed policy_inv"
  unfolding flow_closed_def
  by (intro conjI allI impI policy_inv_idem policy_inv_row_closed; erule policy_inv_same; simp)

lemma evaluate_retrieval_inv [preserved]: "maintains policy_inv (evaluate_retrieval scores cfg actor corr)"
  unfolding evaluate_retrieval_def add_policy_evaluation_def active_corpus_def Let_def
  by (intro preserves_andthen preserves_bnd preserves_case_option closed_retrieve policy_inv_row_closed preserves_append
      preserves_pure) (erule policy_inv_same; simp)

lemma serve_policy_inv: "offline sv \<Longrightarrow> maintains policy_inv (serve sv call)"
  using policy_inv_row_closed policy_inv_cases policy_inv_flow case_closed_count [of policy_inv]
  by (cases call) (auto simp: silent_def intro!: preserves_bnd preserves_pure preserves_case_prod ingest_inv reindex_inv
      promote_inv closed_retrieve evaluate_retrieval_inv closed_create_case closed_register closed_start closed_resume
      closed_create_body closed_register_body closed_bodies)

lemma reaches_policy_inv:
  assumes "reaches sv sha w w'" and "offline sv" and "\<And>e. en_sha e = sha \<Longrightarrow> policy_inv e (db w)"
  shows "en_sha e = sha \<Longrightarrow> policy_inv e (db w')"
  using assms(1,3)
proof (induction arbitrary: e)
  case (later w w' e0 call r w'')
  then have "policy_inv e0 (db w'')"
    using maintainsD [OF serve_policy_inv [OF assms(2)] later.hyps(3)] by blast
  then show ?case using later.hyps(2) later.prems(1) by (simp add: policy_inv_def)
qed simp

end
