(* ===== verification/PolicyProps.thy ===== *)
theory PolicyProps
  imports PolicyKept PilotCalls
begin

text \<open>The properties of the policy service: what a retrieval may return and when a corpus becomes active.\<close>

section \<open>Rankings\<close>

lemma sorted_descending: "sorted_wrt (\<lambda>x y. f y \<le> f x) (descending f xs)"
proof -
  have "sorted (map f (sort_key f (rev xs)))" by (rule sorted_sort_key)
  then show ?thesis by (simp only: descending_def sorted_wrt_rev sorted_map)
qed

lemma set_descending [simp]: "set (descending f xs) = set xs" "length (descending f xs) = length xs"
  by (simp_all add: descending_def)

lemma rank_rows_shape:
  obtains rs where "rank_rows cfg rows = map (\<lambda>(i, r). (i, fused_score cfg r, r)) (enumerate 1 rs)"
    and "set rs \<subseteq> set rows" and "length rs \<le> rc_top_k cfg"
    and "sorted_wrt (\<lambda>x y. fl_val (fused_score cfg y) \<le> fl_val (fused_score cfg x)) rs"
proof (rule that)
  let ?rs = "descending (fl_val \<circ> sw_lexical) (descending (fl_val \<circ> sw_vector) (descending (ch_document_id \<circ> sw_chunk)
    (descending (ch_version \<circ> sw_chunk) (descending (ch_section \<circ> sw_chunk) rows))))"
  let ?top = "take (rc_top_k cfg) (descending (fl_val \<circ> fused_score cfg) ?rs)"
  show "rank_rows cfg rows = map (\<lambda>(i, r). (i, fused_score cfg r, r)) (enumerate 1 ?top)" by (simp add: rank_rows_def)
  show "set ?top \<subseteq> set rows" by (rule order_trans [OF set_take_subset]) simp
  show "length ?top \<le> rc_top_k cfg" by simp
  show "sorted_wrt (\<lambda>x y. fl_val (fused_score cfg y) \<le> fl_val (fused_score cfg x)) ?top"
    using sorted_descending [of "fl_val \<circ> fused_score cfg" ?rs] by (simp add: sorted_wrt_take)
qed

lemma rank_rows_ranks: "map fst (rank_rows cfg rows) = [1..<Suc (length (rank_rows cfg rows))]"
proof (rule rank_rows_shape [of cfg rows])
  fix rs
  assume shape: "rank_rows cfg rows = map (\<lambda>(i, r). (i, fused_score cfg r, r)) (enumerate 1 rs)"
  have "map fst (rank_rows cfg rows) = map fst (enumerate 1 rs)" by (simp add: shape split_def comp_def)
  then show ?thesis unfolding map_fst_enumerate by (simp add: shape)
qed

lemma rank_rows_from: "(i, f, r) \<in> set (rank_rows cfg rows) \<Longrightarrow> r \<in> set rows \<and> f = fused_score cfg r"
proof (rule rank_rows_shape [of cfg rows])
  fix rs
  assume mem: "(i, f, r) \<in> set (rank_rows cfg rows)" and sub: "set rs \<subseteq> set rows"
    and shape: "rank_rows cfg rows = map (\<lambda>(i, r). (i, fused_score cfg r, r)) (enumerate 1 rs)"
  have "snd ` set (enumerate 1 rs) = set rs" by (metis list.set_map map_snd_enumerate)
  then have "(j, r) \<in> set (enumerate 1 rs) \<Longrightarrow> r \<in> set rs" for j by force
  then show ?thesis using mem sub unfolding shape by auto
qed

lemma rank_rows_sorted: "sorted_wrt (\<lambda>x y. y \<le> x) (map (\<lambda>(_, f, _). fl_val f) (rank_rows cfg rows))"
proof (rule rank_rows_shape [of cfg rows])
  fix rs
  assume shape: "rank_rows cfg rows = map (\<lambda>(i, r). (i, fused_score cfg r, r)) (enumerate 1 rs)"
    and sorted: "sorted_wrt (\<lambda>x y. fl_val (fused_score cfg y) \<le> fl_val (fused_score cfg x)) rs"
  have "map (\<lambda>(_, f, _). fl_val f) (rank_rows cfg rows) = map (\<lambda>x. fl_val (fused_score cfg x)) (map snd (enumerate 1 rs))"
    unfolding shape map_map by (simp add: split_def comp_def)
  then have "map (\<lambda>(_, f, _). fl_val f) (rank_rows cfg rows) = map (\<lambda>x. fl_val (fused_score cfg x)) rs"
    by (simp only: map_snd_enumerate)
  then show ?thesis using sorted by (simp add: sorted_wrt_map)
qed

lemma length_rank_rows: "length (rank_rows cfg rows) \<le> rc_top_k cfg"
  by (rule rank_rows_shape [of cfg rows]) simp

lemma hybrid_from:
  "r \<in> set (hybrid_retrieve scores sqlite corpus q vector ids s) \<Longrightarrow> sw_chunk r \<in> set (chunks s) \<and>
     ch_chunk_id (sw_chunk r) \<in> set ids"
  by (auto simp: hybrid_retrieve_def hybrid_defs scored_def Let_def set_eligible split: if_splits prod.splits
      dest!: in_set_takeD)

lemma not_withheld:
  assumes "withheld cfg ranked = None"
  obtains i f r rest where "ranked = (i, f, r) # rest" and "fl_val (rc_minimum_confidence cfg) \<le> fl_val f"
    and "rc_require_citations cfg \<Longrightarrow> \<forall>(_, _, r) \<in> set ranked. cited (sw_chunk r)"
    and "\<forall>(_, g, _) \<in> set (take 1 rest). fl_val (rc_ambiguity_threshold cfg) < fl_sub (fl_val f) (fl_val g)"
proof (cases ranked)
  case (Cons x rest)
  obtain i f r where x: "x = (i, f, r)" by (cases x)
  show thesis
  proof (rule that)
    show "\<forall>(_, g, _) \<in> set (take 1 rest). fl_val (rc_ambiguity_threshold cfg) < fl_sub (fl_val f) (fl_val g)"
      using assms by (cases rest) (auto simp: Cons x withheld_def is_ambiguous_def split: if_splits)
  qed (use assms in \<open>auto simp: Cons x withheld_def not_less split: if_splits\<close>)
qed (use assms in \<open>simp add: withheld_def\<close>)

section \<open>What a retrieval answers\<close>

lemma abstain_run:
  assumes "abstain q corr now corpus el n k reason e w = (Inr r, w')"
  shows "\<not> rp_approved_context r \<and> rp_requires_review r \<and> rp_results r = [] \<and> rp_reason r = Some reason \<and>
    rp_status r = ''abstained''"
  using assms by (auto simp: abstain_def app_simps Let_def)

lemma answer_run:
  assumes "answer q corr now corpus el n best rs e w = (Inr r, w')"
  shows "rp_approved_context r \<and> \<not> rp_requires_review r \<and> rp_results r = rs \<and> rp_reason r = None \<and> rp_confidence r = best \<and>
    rp_status r = ''retrieved'' \<and> rp_corpus_version r = Some (co_corpus_version corpus)"
  using assms by (auto simp: answer_def app_simps Let_def)

text \<open>An approved answer: which corpus, which rows.\<close>

lemma approved_run:
  assumes "retrieve scores q corr profile e w = (Inr r, w')" and "rp_approved_context r"
  obtains corpus ds sqlite vector where "find co_is_active (corpora (db w)) = Some corpus"
    and "decisions corpus q profile (db w) = Inr ds"
    and "withheld (rr_config q) (rank_rows (rr_config q)
      (hybrid_retrieve scores sqlite corpus q vector (admitted_ids ds) (db w))) = None"
    and "rp_results r = map (chunk_out corpus (rr_config q)) (rank_rows (rr_config q)
      (hybrid_retrieve scores sqlite corpus q vector (admitted_ids ds) (db w)))"
    and "rp_confidence r = fst (snd (hd (rank_rows (rr_config q)
      (hybrid_retrieve scores sqlite corpus q vector (admitted_ids ds) (db w)))))"
    and "rp_corpus_version r = Some (co_corpus_version corpus)"
  using assms
  by (auto simp: retrieve_def retrieve_from_def active_corpus_def evaluate_eligibility_def app_simps Let_def
      split: option.splits if_splits dest!: abstain_run answer_run intro: that)

text \<open>The scores an answer ranks by.\<close>

definition fused_values :: "retrieval_response \<Rightarrow> rat list" where
  "fused_values r = map (\<lambda>x. fl_val (rk_fused_score x)) (rp_results r)"

definition cites :: "corpus_row \<Rightarrow> chunk_row \<Rightarrow> retrieved_chunk \<Rightarrow> bool" where
  "cites corpus c x \<longleftrightarrow> rk_chunk_id x = ch_chunk_id c \<and> rk_content x = ch_content c \<and>
     ct_document_id (rk_citation x) = ch_document_id c \<and> ct_version (rk_citation x) = ch_version c \<and>
     ct_section (rk_citation x) = ch_section c \<and> ct_chunk_id (rk_citation x) = ch_chunk_id c \<and>
     ct_chunk_hash (rk_citation x) = ch_chunk_hash c \<and> ct_run_id (rk_citation x) = co_run_id corpus \<and>
     ct_corpus_version (rk_citation x) = co_corpus_version corpus \<and> ct_index_version (rk_citation x) = co_index_version corpus"

lemma approved_ranked:
  assumes "distinct (map ch_chunk_id (chunks (db w)))" and "retrieve scores q corr profile e w = (Inr r, w')"
    and "rp_approved_context r"
  obtains corpus ranked where "find co_is_active (corpora (db w)) = Some corpus" and "withheld (rr_config q) ranked = None"
    and "rp_results r = map (chunk_out corpus (rr_config q)) ranked" and "rp_confidence r = fst (snd (hd ranked))"
    and "rp_corpus_version r = Some (co_corpus_version corpus)" and "\<exists>rows. ranked = rank_rows (rr_config q) rows"
    and "\<forall>(_, _, x) \<in> set ranked. sw_chunk x \<in> set (chunks (db w)) \<and> admissible_chunk corpus q profile (db w) (sw_chunk x)"
proof -
  from assms(2,3) obtain corpus ds sqlite vector where active: "find co_is_active (corpora (db w)) = Some corpus"
    and dec: "decisions corpus q profile (db w) = Inr ds"
    and rest: "withheld (rr_config q) (rank_rows (rr_config q)
      (hybrid_retrieve scores sqlite corpus q vector (admitted_ids ds) (db w))) = None"
    "rp_results r = map (chunk_out corpus (rr_config q)) (rank_rows (rr_config q)
      (hybrid_retrieve scores sqlite corpus q vector (admitted_ids ds) (db w)))"
    "rp_confidence r = fst (snd (hd (rank_rows (rr_config q)
      (hybrid_retrieve scores sqlite corpus q vector (admitted_ids ds) (db w)))))"
    "rp_corpus_version r = Some (co_corpus_version corpus)"
    by (rule approved_run)
  have "sw_chunk x \<in> set (chunks (db w)) \<and> admissible_chunk corpus q profile (db w) (sw_chunk x)"
    if "(i, f, x) \<in> set (rank_rows (rr_config q) (hybrid_retrieve scores sqlite corpus q vector (admitted_ids ds) (db w)))" for i f x
  proof -
    from rank_rows_from [OF that] hybrid_from have mem: "sw_chunk x \<in> set (chunks (db w))"
      and "ch_chunk_id (sw_chunk x) \<in> set (admitted_ids ds)" by blast+
    from admitted_chunk [OF assms(1) dec this(2)] obtain c where "chunk_of (ch_chunk_id (sw_chunk x)) (db w) = Some c"
      and adm: "admissible_chunk corpus q profile (db w) c" by blast
    then have "c = sw_chunk x" using row_by_unique [OF assms(1) mem] by (simp add: chunk_of_def)
    then show ?thesis using mem adm by simp
  qed
  then show thesis by (intro that [OF active rest]) auto
qed

lemma retrieve_outcome:
  assumes "retrieve scores q corr profile e w = (Inr r, w')"
  shows "(rp_requires_review r \<longleftrightarrow> \<not> rp_approved_context r) \<and>
    (\<not> rp_approved_context r \<longrightarrow> rp_results r = [] \<and> rp_reason r \<noteq> None)"
  using assms
  by (auto simp: retrieve_def retrieve_from_def active_corpus_def evaluate_eligibility_def app_simps Let_def
      split: option.splits if_splits dest!: abstain_run answer_run)

section \<open>Properties\<close>

text \<open>C29: The service either returns approved context or asks for review with a reason and returns nothing.  Approved
  context is grounded: it comes from the active corpus, holds at least one and at most the configured number of chunks,
  ranked from one in descending order of the fused score; the best score is the confidence, reaches the minimum and
  exceeds the second by more than the ambiguity threshold; every chunk is admissible for the question (indexed,
  approved, mapped, in scope and in force, with its document) and is cited with its own content, hash and versions.\<close>

theorem retrieval_grounded:
  assumes "distinct (map ch_chunk_id (chunks (db w)))" and "retrieve scores q corr profile e w = (Inr r, w')"
  shows "(rp_requires_review r \<longleftrightarrow> \<not> rp_approved_context r) \<and>
    (\<not> rp_approved_context r \<longrightarrow> rp_results r = [] \<and> rp_reason r \<noteq> None) \<and>
    (rp_approved_context r \<longrightarrow> (\<exists>corpus. find co_is_active (corpora (db w)) = Some corpus \<and>
      rp_corpus_version r = Some (co_corpus_version corpus) \<and>
      rp_results r \<noteq> [] \<and> length (rp_results r) \<le> rc_top_k (rr_config q) \<and>
      map rk_rank (rp_results r) = [1..<Suc (length (rp_results r))] \<and> sorted_wrt (\<lambda>x y. y \<le> x) (fused_values r) \<and>
      rp_confidence r = rk_fused_score (hd (rp_results r)) \<and>
      fl_val (rc_minimum_confidence (rr_config q)) \<le> fl_val (rp_confidence r) \<and>
      (\<forall>b \<in> set (take 1 (tl (fused_values r))).
        fl_val (rc_ambiguity_threshold (rr_config q)) < fl_sub (fl_val (rp_confidence r)) b) \<and>
      (\<forall>x \<in> set (rp_results r). \<exists>c \<in> set (chunks (db w)). admissible_chunk corpus q profile (db w) c \<and> cites corpus c x)))"
proof (intro conjI impI)
  assume "rp_approved_context r"
  with assms obtain corpus ranked rows where active: "find co_is_active (corpora (db w)) = Some corpus"
    and held: "withheld (rr_config q) ranked = None" and res: "rp_results r = map (chunk_out corpus (rr_config q)) ranked"
    and conf: "rp_confidence r = fst (snd (hd ranked))" and ver: "rp_corpus_version r = Some (co_corpus_version corpus)"
    and rows: "ranked = rank_rows (rr_config q) rows"
    and adm: "\<forall>(_, _, x) \<in> set ranked. sw_chunk x \<in> set (chunks (db w)) \<and> admissible_chunk corpus q profile (db w) (sw_chunk x)"
    by (rule approved_ranked) blast
  obtain i f x rest where top: "ranked = (i, f, x) # rest"
    and minimum: "fl_val (rc_minimum_confidence (rr_config q)) \<le> fl_val f"
    and margin: "\<forall>(_, g, _) \<in> set (take 1 rest). fl_val (rc_ambiguity_threshold (rr_config q)) < fl_sub (fl_val f) (fl_val g)"
    using held by (rule not_withheld)
  have fused: "fused_values r = map (\<lambda>(_, f, _). fl_val f) ranked"
    by (simp add: fused_values_def res chunk_out_def split_def comp_def Let_def)
  have "map rk_rank (rp_results r) = map fst ranked" by (simp add: res chunk_out_def split_def comp_def Let_def)
  then have ranks: "map rk_rank (rp_results r) = [1..<Suc (length (rp_results r))]"
    using rank_rows_ranks by (simp add: rows res)
  have "\<forall>b \<in> set (take 1 (tl (fused_values r))).
      fl_val (rc_ambiguity_threshold (rr_config q)) < fl_sub (fl_val (rp_confidence r)) b"
    using margin by (cases rest) (auto simp: fused top conf)
  moreover have "\<exists>c \<in> set (chunks (db w)). admissible_chunk corpus q profile (db w) c \<and> cites corpus c y"
    if mem: "y \<in> set (rp_results r)" for y
  proof -
    from mem obtain j g z where z: "(j, g, z) \<in> set ranked" and y: "y = chunk_out corpus (rr_config q) (j, g, z)"
      by (auto simp: res)
    have c: "sw_chunk z \<in> set (chunks (db w))" "admissible_chunk corpus q profile (db w) (sw_chunk z)" using adm z by auto
    then have "cites corpus (sw_chunk z) y"
      by (simp add: cites_def y chunk_out_def Let_def admissible_chunk_def chunk_selected_def)
    then show ?thesis using c by blast
  qed
  ultimately show "\<exists>corpus. find co_is_active (corpora (db w)) = Some corpus \<and>
      rp_corpus_version r = Some (co_corpus_version corpus) \<and>
      rp_results r \<noteq> [] \<and> length (rp_results r) \<le> rc_top_k (rr_config q) \<and>
      map rk_rank (rp_results r) = [1..<Suc (length (rp_results r))] \<and> sorted_wrt (\<lambda>x y. y \<le> x) (fused_values r) \<and>
      rp_confidence r = rk_fused_score (hd (rp_results r)) \<and>
      fl_val (rc_minimum_confidence (rr_config q)) \<le> fl_val (rp_confidence r) \<and>
      (\<forall>b \<in> set (take 1 (tl (fused_values r))).
        fl_val (rc_ambiguity_threshold (rr_config q)) < fl_sub (fl_val (rp_confidence r)) b) \<and>
      (\<forall>x \<in> set (rp_results r). \<exists>c \<in> set (chunks (db w)). admissible_chunk corpus q profile (db w) c \<and> cites corpus c x)"
    using active ver ranks minimum length_rank_rows [of "rr_config q" rows] rank_rows_sorted [of "rr_config q" rows]
    by (intro exI [of _ corpus]) (simp add: fused rows [symmetric] res top conf chunk_out_def Let_def)
qed (use retrieve_outcome [OF assms(2)] in simp_all)

definition pilot_corpus_world :: world where
  "pilot_corpus_world = pilot_world\<lparr>db := pilot_policies\<rparr>"

definition pilot_scores :: scoring where
  "pilot_scores q v c = (Dec False 1 0, Dec False 1 0)"

definition pilot_config :: retrieval_config where
  "pilot_config = default_config\<lparr>rc_lexical_weight := Dec False 5 (-1), rc_vector_weight := Dec False 5 (-1),
     rc_minimum_confidence := Dec False 5 (-1)\<rparr>"

definition pilot_ask :: retrieval_request where
  "pilot_ask = pilot_query\<lparr>rr_config := pilot_config\<rparr>"

lemma pilot_selected: "chunk_selected pilot_corpus 50 ''card'' ''web'' ''US'' pilot_chunk"
  "ch_run_id pilot_chunk = co_run_id pilot_corpus" "ch_chunk_id pilot_chunk = ''chunk''" "chunks pilot_policies = [pilot_chunk]"
  "corpora pilot_policies = [pilot_corpus]" "co_is_active pilot_corpus"
  by (simp_all add: chunk_selected_def pilot_chunk_def pilot_corpus_def usable_def pilot_policies_def)

lemma pilot_question: "rr_effective_date pilot_ask = 50" "rr_product pilot_ask = ''card''" "rr_channel pilot_ask = ''web''"
  "rr_jurisdiction pilot_ask = ''US''" "rr_config pilot_ask = pilot_config" "rr_actor_ref pilot_ask = ''actor''"
  by (simp_all add: pilot_ask_def pilot_query_def)

lemma pilot_decisions: "\<exists>ds. decisions pilot_corpus pilot_ask None pilot_policies = Inr ds \<and> admitted_ids ds = [''chunk'']"
proof -
  have "times_ok pilot_policies"
    by (simp add: times_ok_def pilot_policies_def pilot_chunk_def pilot_document_def)
  moreover have "admissible_chunk pilot_corpus pilot_ask None pilot_policies pilot_chunk"
    using pilot_admissible by (auto simp: admissible_chunk_def pilot_ask_def)
  ultimately show ?thesis using admissible_no_reason [of pilot_policies pilot_chunk pilot_corpus pilot_ask None]
    by (simp add: decisions_def decide_def corpus_chunks_def pilot_selected admitted_ids_def)
qed

definition pilot_hit :: scored_row where
  "pilot_hit = \<lparr>sw_chunk = pilot_chunk, sw_lexical = Dec False 1 0, sw_vector = Dec False 1 0\<rparr>"

lemma pilot_hybrid: "hybrid_retrieve pilot_scores sqlite pilot_corpus pilot_ask v [''chunk''] pilot_policies = [pilot_hit]"
  by (simp add: hybrid_retrieve_def eligible_chunks_def pilot_selected pilot_question scored_def pilot_scores_def pilot_hit_def
      hybrid_defs descending_def pilot_config_def default_config_def)

lemma pilot_fused: "fused_score pilot_config pilot_hit = Dec False 1000000 (-6)"
proof -
  have "half_even (fl_add (fl_mul (fl_val (Dec False 1 0)) (fl_val (Dec False 5 (-1))))
      (fl_mul (fl_val (Dec False 1 0)) (fl_val (Dec False 5 (-1)))) * 1000000) = 1000000" by code_simp
  then show ?thesis by (simp add: fused_score_def round_six_def pilot_config_def pilot_hit_def)
qed

lemma pilot_not_withheld: "withheld pilot_config (rank_rows pilot_config [pilot_hit]) = None"
proof -
  have "rank_rows pilot_config [pilot_hit] = [(1, Dec False 1000000 (-6), pilot_hit)]"
    using pilot_fused by (simp add: rank_rows_def descending_def pilot_config_def default_config_def)
  moreover have "dbl (5 / 10) \<le> dbl 1" by code_simp
  then have "\<not> fl_val (Dec False 1000000 (-6)) < fl_val (rc_minimum_confidence pilot_config)"
    by (simp add: fl_val_def pilot_config_def signed_def power_int_def power_divide)
  moreover have "cited pilot_chunk" by (simp add: cited_def pilot_chunk_def)
  ultimately show ?thesis by (simp add: withheld_def is_ambiguous_def pilot_hit_def)
qed

lemma pilot_answered:
  "wp (retrieve pilot_scores pilot_ask ''corr'' None) (\<lambda>r w'. rp_approved_context r) pilot_env pilot_corpus_world"
proof -
  obtain ds where ds: "decisions pilot_corpus pilot_ask None pilot_policies = Inr ds" "admitted_ids ds = [''chunk'']"
    using pilot_decisions by blast
  have db: "db pilot_corpus_world = pilot_policies" by (simp add: pilot_corpus_world_def)
  show ?thesis
    by (simp add: retrieve_def retrieve_from_def active_corpus_def evaluate_eligibility_def answer_def retrieval_audit_def
        policy_audit_def policy_audit_append_def wps Let_def db pilot_selected pilot_question ds pilot_hybrid pilot_not_withheld)
qed

lemma retrieval_grounded_witness:
  "\<exists>r w'. retrieve pilot_scores pilot_ask ''corr'' None pilot_env pilot_corpus_world = (Inr r, w') \<and> rp_approved_context r \<and>
     rp_results r \<noteq> [] \<and> fl_val (rc_minimum_confidence pilot_config) \<le> fl_val (rp_confidence r)"
proof -
  obtain r w' where run: "retrieve pilot_scores pilot_ask ''corr'' None pilot_env pilot_corpus_world = (Inr r, w')"
    and ok: "rp_approved_context r" using pilot_answered by (auto simp: wp_iff)
  have "distinct (map ch_chunk_id (chunks (db pilot_corpus_world)))" by (simp add: pilot_corpus_world_def pilot_selected)
  from retrieval_grounded [OF this run] show ?thesis
    by (intro exI [of _ r] exI [of _ w']) (use run ok in \<open>auto simp: pilot_question\<close>)
qed

section \<open>Promotion\<close>

lemma find_only: "filter p xs = [c] \<Longrightarrow> find p xs = Some c"
  by (induction xs) (auto split: if_splits)

lemma no_metric_failures:
  "metric_failures (run_metrics cs) = [] \<longleftrightarrow> cs \<noteq> [] \<and> (\<forall>c \<in> set cs. ch_document_id c \<noteq> [] \<and> ch_version c \<noteq> [] \<and>
     ch_section c \<noteq> [] \<and> ch_product c \<noteq> [] \<and> ch_channel c \<noteq> [] \<and> ch_jurisdiction c \<noteq> [] \<and> ch_status c \<in> set usable)"
  by (auto simp: metric_failures_def run_metrics_def)

definition promotable :: "string \<Rightarrow> store \<Rightarrow> bool" where
  "promotable rid s \<longleftrightarrow> (\<exists>run. row_by ig_run_id rid (ingestions s) = Some run \<and> ig_status run = ''indexed'') \<and>
     all_chunks rid s \<noteq> [] \<and> (\<forall>c \<in> set (all_chunks rid s). ch_document_id c \<noteq> [] \<and> ch_version c \<noteq> [] \<and>
       ch_section c \<noteq> [] \<and> ch_product c \<noteq> [] \<and> ch_channel c \<noteq> [] \<and> ch_jurisdiction c \<noteq> [] \<and> ch_status c \<in> set usable)"

lemma promote_run:
  assumes "promote q corr e w = (Inr out, w')"
  obtains run ms ev w2 u where "row_by ig_run_id (pq_run_id q) (ingestions (db w)) = Some run"
    and "evaluate_run q run corr (en_clock e (ticks w)) e (w\<lparr>ticks := Suc (ticks w)\<rparr>) = (Inr (ms, po_promoted out, ev), w2)"
    and "(if po_promoted out then grant_promotion q run ms corr (en_clock e (ticks w))
       else deny_promotion q run ms corr (en_clock e (ticks w))) e w2 = (Inr u, w')"
    and "po_evaluation out = ev" and "po_active out = map_option co_corpus_version (find co_is_active (corpora (db w')))"
  using assms
  by (auto simp: promote_def validate_admin_actor_def get_ingestion_def promotion_response_def active_corpus_def look_run
      utc_now_run require_run transact_run raise_run ret_run elim!: andthen_InrE bnd_InrE split: option.splits prod.splits
      intro: that)

text \<open>C30: A corpus is promoted exactly when its run was indexed and has chunks, all with complete metadata and an approved
  status.  Then the one active corpus is the promoted one; otherwise the corpora do not change.  Either way the
  evaluation is recorded with the verdict, and no document or chunk is touched.\<close>

theorem promotion_guarded:
  assumes "promote q corr e w = (Inr out, w')"
  shows "(po_promoted out \<longleftrightarrow> promotable (pq_run_id q) (db w)) \<and> pe_passed (po_evaluation out) = po_promoted out \<and>
    po_evaluation out \<in> set (policy_evaluations (db w')) \<and>
    documents (db w') = documents (db w) \<and> chunks (db w') = chunks (db w) \<and>
    (if po_promoted out then \<exists>c. filter co_is_active (corpora (db w')) = [c] \<and> co_run_id c = pq_run_id q \<and>
        co_corpus_version c = pq_corpus_version q \<and> po_active out = Some (pq_corpus_version q) \<and>
        pq_corpus_version q \<notin> co_corpus_version ` set (corpora (db w))
     else corpora (db w') = corpora (db w))"
proof -
  define now w1 where "now = en_clock e (ticks w)" and "w1 = w\<lparr>ticks := Suc (ticks w)\<rparr>"
  then have same: "db w1 = db w" by simp
  from assms obtain run ms ev w2 u where row: "row_by ig_run_id (pq_run_id q) (ingestions (db w)) = Some run"
    and eval: "evaluate_run q run corr now e w1 = (Inr (ms, po_promoted out, ev), w2)"
    and act: "(if po_promoted out then grant_promotion q run ms corr now else deny_promotion q run ms corr now) e w2 = (Inr u, w')"
    and ev: "po_evaluation out = ev" and active: "po_active out = map_option co_corpus_version (find co_is_active (corpora (db w')))"
    unfolding now_def w1_def by (rule promote_run)
  have rid: "ig_run_id run = pq_run_id q" using row_by_Some [OF row] by simp
  note evaluated = evaluate_run_db [OF eval]
  have kept: "policy_evaluations (db w') = policy_evaluations (db w2)"
    using act by (auto simp: grant_promotion_def deny_promotion_def promote_corpus_def change_rows_def policy_audit_def
        policy_audit_append_def app_simps Let_def split: if_splits)
  have verdict: "po_promoted out \<longleftrightarrow> promotable (pq_run_id q) (db w)"
    using evaluated row rid by (simp add: promotable_def no_metric_failures same)
  show ?thesis
  proof (cases "po_promoted out")
    case True
    with act have "grant_promotion q run ms corr now e w2 = (Inr u, w')" by simp
    from grant_db [OF this] obtain c where "co_corpus_version c \<notin> co_corpus_version ` set (corpora (db w2))" "co_is_active c"
      "co_run_id c = ig_run_id run" "co_corpus_version c = pq_corpus_version q"
      "corpora (db w') = update_where co_is_active retired (corpora (db w2)) @ [c]"
      "documents (db w') = documents (db w2)" "chunks (db w') = chunks (db w2)" by blast
    moreover from this have "filter co_is_active (corpora (db w')) = [c]" by (simp add: all_retired)
    moreover from this have "find co_is_active (corpora (db w')) = Some c"
      by (rule find_only)
    ultimately show ?thesis using True verdict evaluated kept ev active rid same by auto
  next
    case False
    with act have "deny_promotion q run ms corr now e w2 = (Inr u, w')" by simp
    from deny_db [OF this] show ?thesis using False verdict evaluated kept ev same by auto
  qed
qed

definition pilot_run :: ingestion_row where
  "pilot_run = \<lparr>ig_run_id = ''run'', ig_status = ''indexed'', ig_actor_ref = ''admin'', ig_source = admin_source,
     ig_parser_version = ''p'', ig_chunking_config_hash = ''c'', ig_embedding_model = ''m'', ig_embedding_config_hash = ''e'',
     ig_retrieval_index_config_hash = ''i'', ig_correlation_id = ''corr'', ig_validation_errors = [], ig_telemetry = [],
     ig_created_at = 0, ig_completed_at = Some 0\<rparr>"

definition pilot_promotion :: promotion_request where
  "pilot_promotion = \<lparr>pq_run_id = ''run'', pq_actor_ref = ''admin'', pq_corpus_version = ''corpus-2'', pq_index_version = ''idx-2''\<rparr>"

definition pilot_indexed :: world where
  "pilot_indexed = pilot_world\<lparr>db := pilot_policies\<lparr>ingestions := [pilot_run]\<rparr>\<rparr>"

lemma promotion_guarded_witness:
  "\<exists>out w'. promote pilot_promotion ''corr'' pilot_env pilot_indexed = (Inr out, w') \<and> po_promoted out \<and>
     po_active out = Some ''corpus-2''"
proof -
  have chunks: "all_chunks ''run'' (db pilot_indexed) = [pilot_chunk]"
    by (simp add: all_chunks_def run_documents_def document_chunks_def pilot_indexed_def pilot_policies_def pilot_document_def
        pilot_chunk_def)
  have ok: "promotable (pq_run_id pilot_promotion) (db pilot_indexed)"
    unfolding promotable_def using chunks
    by (simp add: pilot_promotion_def row_by_def pilot_indexed_def pilot_run_def)
      (simp add: pilot_chunk_def usable_def)
  have "wp (promote pilot_promotion ''corr'') (\<lambda>out w'. True) pilot_env pilot_indexed"
    using chunks
    by (simp add: promote_def validate_admin_actor_def get_ingestion_def evaluate_run_def add_policy_evaluation_def
        grant_promotion_def deny_promotion_def promote_corpus_def promotion_response_def active_corpus_def policy_audit_def
        policy_audit_append_def wps Let_def row_by_def pilot_promotion_def key_free_def pilot_indexed_def pilot_run_def
        pilot_policies_def pilot_corpus_def update_where_def)
  then obtain out w' where run: "promote pilot_promotion ''corr'' pilot_env pilot_indexed = (Inr out, w')" by (auto simp: wp_iff)
  from promotion_guarded [OF run] ok run show ?thesis by (intro exI [of _ out] exI [of _ w']) (auto simp: pilot_promotion_def)
qed

text \<open>C31: Ingestion and the later checks of the control graph agree: in every history each chunk carries the hash the
  control graph recomputes from its columns, and its document is there with the same checksum, product, channel,
  jurisdiction and period, approved and still a policy.\<close>

theorem ingested_chunks_verify:
  assumes "history sv sha w" and "offline sv" and "c \<in> set (chunks (db w))"
  shows "content_hash sha c = ch_chunk_hash c \<and> (\<exists>d. document_of c (db w) = Some d \<and> d \<in> set (documents (db w)) \<and>
    do_source_checksum d = ch_source_checksum c \<and> do_product d = ch_product c \<and> do_channel d = ch_channel c \<and>
    do_jurisdiction d = ch_jurisdiction c \<and> do_effective_from d = ch_effective_from c \<and>
    do_effective_to d = ch_effective_to c \<and> do_status d = ch_status c \<and> ch_status c \<in> set usable \<and>
    do_source_type d = ''approved_policy'')"
proof -
  from assms(1) obtain w0 where start: "db w0 = empty_store" and path: "reaches sv sha w0 w" by (auto simp: history_def)
  let ?e = "\<lparr>en_sha = sha, en_uuid = \<lambda>_. [], en_clock = \<lambda>_. 0, en_latency = \<lambda>_. 0, en_app_env = [],
      en_sqlite = False, en_audit_fails = False, en_policy_audit_fails = False\<rparr>"
  have "policy_inv ?e (db w)"
    by (rule reaches_policy_inv [OF path assms(2)]) (simp_all add: start policy_inv_empty)
  then have intact: "chunk_intact sha (db w) c" and docs: "documents_sound (db w)"
    using assms(3) by (simp_all add: policy_inv_def)
  then obtain d where "document_of c (db w) = Some d" "ch_status c = do_status d" "ch_product c = do_product d"
    "ch_channel c = do_channel d" "ch_jurisdiction c = do_jurisdiction d" "ch_source_checksum c = do_source_checksum d"
    "ch_effective_from c = do_effective_from d" "ch_effective_to c = do_effective_to d"
    by (auto simp: chunk_intact_def)
  moreover from document_row [OF this(1)] docs have "d \<in> set (documents (db w))" "do_status d \<in> set usable"
    "do_source_type d = ''approved_policy''" by (auto simp: documents_sound_def)
  ultimately show ?thesis using intact by (simp add: content_hash_def chunk_intact_def)
qed

definition pilot_policy :: ingestion_request where
  "pilot_policy = \<lparr>iq_documents = [\<lparr>di_document_id = ''POL-DUP'', di_version = ''1'', di_title = ''Duplicates'',
       di_status = PolApproved, di_approval_ref = ''APR-1'', di_source_identity = ''source'', di_source_checksum = ''sum'',
       di_effective_from = 10, di_effective_to = None, di_product = ''card'', di_channel = ''web'', di_jurisdiction = ''US'',
       di_source_type = SrcPolicy, di_sections = [\<lparr>si_section = ''1'', si_text = ''Duplicate charges are refunded.''\<rparr>]\<rparr>],
     iq_actor_ref = ''admin'', iq_parser_version = ''p'', iq_chunking_config_hash = ''c'', iq_embedding_model = ''m'',
     iq_embedding_config_hash = ''e'', iq_retrieval_index_config_hash = ''i''\<rparr>"

lemma pilot_ingested: "wp (ingest pilot_policy ''corr'') (\<lambda>_ w'. chunks (db w') \<noteq> []) pilot_env pilot_world"
  by (simp add: ingest_def validate_admin_actor_def pilot_policy_def validate_documents_def document_errors_def
      accept_documents_def create_ingestion_def complete_ingestion_def ingest_document_def add_document_def get_document_def
      chunk_document_def store_chunk_def add_chunk_def ingestion_view_def get_ingestion_def policy_audit_def
      policy_audit_append_def wps Let_def row_by_def key_free_def empty_store_def update_where_def)

lemma ingested_chunks_verify_witness:
  "\<exists>w c. history pilot_services (\<lambda>s. s) w \<and> c \<in> set (chunks (db w)) \<and> content_hash (\<lambda>s. s) c = ch_chunk_hash c"
proof -
  obtain out w where run: "ingest pilot_policy ''corr'' pilot_env pilot_world = (Inr out, w)" and some: "chunks (db w) \<noteq> []"
    using pilot_ingested by (auto simp: wp_iff)
  have "serve pilot_services (IngestPolicy pilot_policy ''corr'') pilot_env pilot_world = (Inr [], w)"
    by (simp add: silent_def bnd_def run ret_def)
  from history_step [OF _ this] have past: "history pilot_services (\<lambda>s. s) w" using pilot_history by (simp add: pilot_sha)
  obtain c where "c \<in> set (chunks (db w))" using some by (cases "chunks (db w)") auto
  with ingested_chunks_verify [OF past pilot_offline this] past show ?thesis by blast
qed

end
