(* ===== verification/StoreProps.thy ===== *)
theory StoreProps
  imports RunProps PolicyProps
begin

text \<open>The database schema along a history: primary keys, unique indexes and foreign keys.\<close>

lemma history_policy_inv:
  assumes "history sv sha w" and "offline sv" and "en_sha e = sha"
  shows "policy_inv e (db w)"
proof -
  from assms(1) obtain w0 where "db w0 = empty_store" and path: "reaches sv sha w0 w" by (auto simp: history_def)
  then have "policy_inv e0 (db w0)" for e0 by (simp add: policy_inv_empty)
  then show ?thesis by (rule reaches_policy_inv [OF path assms(2) _ assms(3)])
qed



end
