(* ===== verification/Replies.thy ===== *)
theory Replies
  imports ControlRepo Ingestion Retrieval
begin

text \<open>
  The response models of \<open>app/domain/schemas.py\<close> and \<open>app/domain/controls.py\<close> that the services do not store: what
  FastAPI serialises for listings, policies and control evaluations (\<open>model_dump(mode="json")\<close>).
\<close>

section \<open>Listings and errors\<close>

definition listed :: "pyval list \<Rightarrow> nat \<Rightarrow> (string, pyval) dict" where
  "listed items n = [(''items'', VList items), (''total'', VInt (int n))]"

definition dump_error :: "string \<Rightarrow> string \<Rightarrow> string \<Rightarrow> pyval list \<Rightarrow> (string, pyval) dict" where
  "dump_error code message corr details = [(''error_code'', VStr code), (''message'', VStr message),
     (''correlation_id'', VStr corr), (''details'', VList details)]"

section \<open>Ingestion\<close>

definition dump_chunk_out :: "chunk_row \<Rightarrow> pyval" where
  "dump_chunk_out c = VDict [(''chunk_id'', VStr (ch_chunk_id c)), (''document_id'', VStr (ch_document_id c)),
     (''version'', VStr (ch_version c)), (''section'', VStr (ch_section c)), (''status'', VStr (ch_status c)),
     (''effective_from'', json_pytime (ch_effective_from c)), (''effective_to'', VOpt json_pytime (ch_effective_to c)),
     (''product'', VStr (ch_product c)), (''channel'', VStr (ch_channel c)), (''jurisdiction'', VStr (ch_jurisdiction c)),
     (''content'', VStr (ch_content c)), (''source_checksum_sha256'', VStr (ch_source_checksum c)),
     (''chunk_hash'', VStr (ch_chunk_hash c)), (''parser_version'', VStr (ch_parser_version c)),
     (''chunking_config_hash'', VStr (ch_chunking_config_hash c)), (''embedding_model'', VStr (ch_embedding_model c)),
     (''embedding_config_hash'', VStr (ch_embedding_config_hash c)), (''vector_index_ready'', VBool (ch_vector_ready c)),
     (''lexical_index_ready'', VBool (ch_lexical_ready c)), (''ingestion_run_id'', VStr (ch_run_id c)),
     (''correlation_id'', VStr (ch_correlation_id c))]"

definition dump_document_out :: "document_row \<Rightarrow> chunk_row list \<Rightarrow> pyval" where
  "dump_document_out d cs = VDict [(''document_id'', VStr (do_document_id d)), (''version'', VStr (do_version d)),
     (''title'', VStr (do_title d)), (''status'', VStr (do_status d)), (''approval_ref'', VStr (do_approval_ref d)),
     (''source_identity'', VStr (do_source_identity d)), (''source_checksum_sha256'', VStr (do_source_checksum d)),
     (''effective_from'', json_pytime (do_effective_from d)), (''effective_to'', VOpt json_pytime (do_effective_to d)),
     (''product'', VStr (do_product d)), (''channel'', VStr (do_channel d)), (''jurisdiction'', VStr (do_jurisdiction d)),
     (''source_type'', VStr (do_source_type d)), (''ingestion_run_id'', VStr (do_run_id d)),
     (''correlation_id'', VStr (do_correlation_id d)), (''chunks'', VList (map dump_chunk_out cs))]"

definition dump_policy_audit :: "policy_audit_row \<Rightarrow> pyval" where
  "dump_policy_audit a = VDict [(''audit_event_id'', VStr (pa_event_id a)), (''ingestion_run_id'', VOpt VStr (pa_run_id a)),
     (''document_id'', VOpt VStr (pa_document_id a)), (''version'', VOpt VStr (pa_version a)),
     (''checksum_sha256'', VOpt VStr (pa_checksum a)), (''event_type'', VStr (pa_event_type a)),
     (''actor_ref'', VStr (pa_actor_ref a)), (''source'', VStr (pa_source a)),
     (''decision_status'', VStr (pa_decision_status a)), (''event_metadata'', VDict (pa_metadata a)),
     (''correlation_id'', VStr (pa_correlation_id a)), (''created_at'', json_time (pa_created_at a))]"

definition dump_ingestion :: "ingestion_out \<Rightarrow> (string, pyval) dict" where
  "dump_ingestion out = (let r = io_run out in [(''run_id'', VStr (ig_run_id r)), (''status'', VStr (ig_status r)),
     (''actor_ref'', VStr (ig_actor_ref r)), (''source'', VStr (ig_source r)),
     (''parser_version'', VStr (ig_parser_version r)), (''chunking_config_hash'', VStr (ig_chunking_config_hash r)),
     (''embedding_model'', VStr (ig_embedding_model r)), (''embedding_config_hash'', VStr (ig_embedding_config_hash r)),
     (''retrieval_index_config_hash'', VStr (ig_retrieval_index_config_hash r)),
     (''correlation_id'', VStr (ig_correlation_id r)), (''validation_errors'', VList (ig_validation_errors r)),
     (''telemetry'', VDict (ig_telemetry r)), (''created_at'', json_time (ig_created_at r)),
     (''completed_at'', VOpt json_time (ig_completed_at r)),
     (''documents'', VList (map (\<lambda>(d, cs). dump_document_out d cs) (io_documents out))),
     (''audit_events'', VList (map dump_policy_audit (io_audits out)))])"

section \<open>Promotion and lineage\<close>

definition dump_policy_evaluation :: "policy_evaluation_row \<Rightarrow> pyval" where
  "dump_policy_evaluation v = VDict [(''evaluation_id'', VStr (pe_evaluation_id v)), (''ingestion_run_id'', VStr (pe_run_id v)),
     (''corpus_version'', VStr (pe_corpus_version v)), (''index_version'', VStr (pe_index_version v)),
     (''passed'', VBool (pe_passed v)), (''metrics'', VDict (pe_metrics v)), (''threshold_failures'', VList (pe_failures v)),
     (''correlation_id'', VStr (pe_correlation_id v)), (''evaluated_at'', json_time (pe_evaluated_at v))]"

definition dump_promotion :: "promotion_out \<Rightarrow> (string, pyval) dict" where
  "dump_promotion p = [(''promoted'', VBool (po_promoted p)), (''corpus_version'', VStr (po_corpus_version p)),
     (''index_version'', VStr (po_index_version p)), (''ingestion_run_id'', VStr (po_run_id p)),
     (''evaluation'', dump_policy_evaluation (po_evaluation p)), (''active_corpus_version'', VOpt VStr (po_active p)),
     (''correlation_id'', VStr (po_correlation_id p))]"

definition dump_lineage :: "lineage_out \<Rightarrow> (string, pyval) dict" where
  "dump_lineage l = (let c = lo_chunk l in [(''chunk_id'', VStr (ch_chunk_id c)), (''document_id'', VStr (ch_document_id c)),
     (''version'', VStr (ch_version c)), (''section'', VStr (ch_section c)),
     (''effective_from'', json_pytime (ch_effective_from c)), (''effective_to'', VOpt json_pytime (ch_effective_to c)),
     (''ingestion_run_id'', VStr (ch_run_id c)), (''source_checksum_sha256'', VStr (ch_source_checksum c)),
     (''chunk_hash'', VStr (ch_chunk_hash c)), (''corpus_version'', VOpt VStr (lo_corpus_version l)),
     (''index_version'', VOpt VStr (lo_index_version l)), (''correlation_id'', VStr (lo_correlation_id l))])"

section \<open>Retrieval\<close>

definition dump_retrieved_chunk :: "retrieved_chunk \<Rightarrow> pyval" where
  "dump_retrieved_chunk r = VDict [(''rank'', VInt (int (rk_rank r))), (''chunk_id'', VStr (rk_chunk_id r)),
     (''content'', VStr (rk_content r)), (''lexical_score'', VFin (rk_lexical_score r)),
     (''vector_score'', VFin (rk_vector_score r)), (''fused_score'', VFin (rk_fused_score r)),
     (''reranker_mode'', VStr (rk_reranker_mode r)), (''citation'', dump_citation (rk_citation r))]"

definition dump_review_signal :: "review_signal \<Rightarrow> pyval" where
  "dump_review_signal s = VDict [(''required'', VBool (rs_required s)),
     (''reason'', VOpt (\<lambda>a. VStr (abstention_text a)) (rs_reason s)), (''message'', VOpt VStr (rs_message s))]"

definition dump_retrieval :: "retrieval_response \<Rightarrow> (string, pyval) dict" where
  "dump_retrieval r = [(''eligibility'', VDict (rp_eligibility r)), (''status'', VStr (rp_status r)),
     (''approved_context'', VBool (rp_approved_context r)), (''requires_policy_review'', VBool (rp_requires_review r)),
     (''confidence'', VFin (rp_confidence r)), (''abstention_reason'', VOpt (\<lambda>a. VStr (abstention_text a)) (rp_reason r)),
     (''policy_review'', dump_review_signal (rp_review r)), (''results'', VList (map dump_retrieved_chunk (rp_results r))),
     (''corpus_version'', VOpt VStr (rp_corpus_version r)), (''index_version'', VOpt VStr (rp_index_version r)),
     (''retrieval_config'', dump_config (rp_config r)), (''correlation_id'', VStr (rp_correlation_id r)),
     (''audit_event_id'', VStr (rp_audit_event_id r)), (''telemetry'', dump_retrieval_telemetry (rp_telemetry r))]"

definition dump_retrieval_evaluation :: "retrieval_evaluation \<Rightarrow> (string, pyval) dict" where
  "dump_retrieval_evaluation v = [(''accepted'', VBool (vo_accepted v)), (''corpus_version'', VOpt VStr (vo_corpus_version v)),
     (''index_version'', VOpt VStr (vo_index_version v)), (''retrieval_config_version'', VStr (vo_config_version v)),
     (''evaluation'', dump_policy_evaluation (vo_evaluation v)), (''correlation_id'', VStr (vo_correlation_id v))]"

section \<open>Control evaluations\<close>

text \<open>The moment of the bundle stays a value that the encoder prints.\<close>

definition dump_review_out :: "review_out \<Rightarrow> pyval" where
  "dump_review_out r = VDict [(''request_id'', VStr (ro_request_id r)), (''kind'', VStr (ro_kind r)),
     (''required_role'', VStr (ro_required_role r)), (''reasons'', VStrs (ro_reasons r)),
     (''required_items'', VStrs (ro_required_items r)), (''status'', VStr (ro_status r)),
     (''fulfilled_by'', VOpt VStr (ro_fulfilled_by r))]"

definition dump_evaluation_out :: "evaluation_out \<Rightarrow> (string, pyval) dict" where
  "dump_evaluation_out v = [(''evaluation_id'', VStr (eo_evaluation_id v)), (''bundle'', dump_bundle (eo_bundle v)),
     (''stages'', VDict (eo_stages v)), (''requests'', VList (map dump_review_out (eo_requests v)))]"

end
