(* ===== verification/Api.thy ===== *)
theory Api
  imports ServiceCalls Replies
begin

text \<open>
  \<open>app/api/v1\<close>, \<open>app/main.py\<close> and \<open>app/core/correlation.py\<close>: the HTTP routes over the services.  A request is
  what FastAPI hands to a route: the validated body, the path and the headers as they came.  A reply is the
  status, the correlation header and the body; an exception no route catches is left to the server.
\<close>

section \<open>Requests and replies\<close>

type_synonym body = "(string, pyval) dict"

datatype reply = Answered int string body | Refused int string "(string, pyval) dict"

fun reply_status :: "reply \<Rightarrow> int" where
  "reply_status (Answered s _ _) = s"
| "reply_status (Refused s _ _) = s"

text \<open>The filters of a listing, with the names of all query parameters that were sent.\<close>

record case_query =
  qy_names :: "string list"
  qy_status :: "case_status option"
  qy_customer_ref :: "string option"
  qy_transaction_ref :: "string option"
  qy_channel :: "channel option"
  qy_opened_from :: "pytime option"
  qy_opened_to :: "pytime option"

text \<open>Optional texts are headers: \<open>Idempotency-Key\<close>, \<open>If-Match\<close>, \<open>X-Control-Reader\<close>, \<open>X-Policy-Admin\<close>.\<close>

datatype http_request = PostCase create_case_request "string option" | ListCases case_query | GetCase string
  | PostEvidence string evidence_in "string option" "string option" | ListEvidence string | GetTimeline string
  | PostWorkflow start_request "string option" "string option" | GetWorkflow string
  | PostResume string resume_request "string option" "string option" "string option"
  | ListEvaluations string "string option" | GetEvaluation string string "string option"
  | PostIngestion ingestion_request "string option" | GetIngestion string "string option"
  | PostPromotion promotion_request "string option" | GetLineage string "string option"
  | PostRetrieval retrieval_request "string option" | PostRetrievalEvaluation retrieval_config string "string option"
  | GetHealth

text \<open>What the routes rest on: the services, \<open>str\<close> of an exception, the encoded validation error at a location, and the
  instant the database session's time zone gives a zoneless time.\<close>

record api =
  ap_services :: services
  ap_str :: "exc \<Rightarrow> string"
  ap_encode :: "string list \<Rightarrow> pyval"
  ap_session_utc :: "int \<Rightarrow> int"

section \<open>Correlation\<close>

definition resolve_correlation_id :: "string option \<Rightarrow> string app" where
  "resolve_correlation_id v = (case v of
     None \<Rightarrow> bnd uuid4 (\<lambda>u. ret (''corr_'' @ u))
   | Some s \<Rightarrow> if strip s \<noteq> [] then ret (strip s) else bnd uuid4 (\<lambda>u. ret (''corr_'' @ u)))"

section \<open>Refusals\<close>

record http_error =
  he_status :: int
  he_code :: string
  he_message :: string
  he_correlation :: string
  he_details :: "pyval list"

definition refusal :: "int \<Rightarrow> string \<Rightarrow> string \<Rightarrow> string \<Rightarrow> http_error" where
  "refusal status code message corr =
     \<lparr>he_status = status, he_code = code, he_message = message, he_correlation = corr, he_details = []\<rparr>"

definition error_payload :: "string \<Rightarrow> string \<Rightarrow> string \<Rightarrow> pyval list \<Rightarrow> (string, pyval) dict" where
  "error_payload code message corr details = (let p = dump_error code message corr details
     in p @ [(''detail'', VDict p)])"

definition http_exception_handler :: "string option \<Rightarrow> http_error \<Rightarrow> reply app" where
  "http_exception_handler header err = bnd (resolve_correlation_id header) (\<lambda>fresh.
     let corr = (if he_correlation err = [] then fresh else he_correlation err)
     in ret (Refused (he_status err) corr (error_payload (he_code err) (he_message err) corr (he_details err))))"

definition IDEMPOTENCY_HEADER :: "string list list" where
  "IDEMPOTENCY_HEADER = [[''header'', ''Idempotency-Key''], [''header'', ''idempotency-key'']]"

definition validation_exception_handler :: "api \<Rightarrow> string option \<Rightarrow> string list list \<Rightarrow> reply app" where
  "validation_exception_handler ap header locs = bnd (resolve_correlation_id header) (\<lambda>corr.
     let absent = list_ex (\<lambda>l. l \<in> set IDEMPOTENCY_HEADER) locs
     in ret (Refused 422 corr (error_payload (if absent then ''MISSING_IDEMPOTENCY_KEY'' else ''VALIDATION_FAILED'')
          (if absent then ''Idempotency-Key header is required.'' else ''Request validation failed.'') corr
          (map (ap_encode ap) locs))))"

text \<open>A required header with \<open>min_length=1\<close>.\<close>

definition unsent :: "string \<Rightarrow> string option \<Rightarrow> string list list" where
  "unsent name v = (if v \<in> {None, Some []} then [[''header'', name]] else [])"

text \<open>A route: the correlation is resolved, the body runs and may raise an \<open>HTTPException\<close>, and the
  exceptions the route catches become refusals.\<close>

definition route_reply :: "int \<Rightarrow> string option \<Rightarrow> (string \<Rightarrow> exc \<Rightarrow> http_error option) \<Rightarrow>
    (string \<Rightarrow> (http_error + body) app) \<Rightarrow> reply app" where
  "route_reply status header excepts m = bnd (resolve_correlation_id header) (\<lambda>corr e w.
     case m corr e w of
       (Inl x, w') \<Rightarrow> (case excepts corr x of None \<Rightarrow> (Inl x, w') | Some err \<Rightarrow> http_exception_handler header err e w')
     | (Inr (Inl err), w') \<Rightarrow> http_exception_handler header err e w'
     | (Inr (Inr b), w') \<Rightarrow> (Inr (Answered status corr b), w'))"

definition body_of :: "('a \<Rightarrow> body) \<Rightarrow> 'a app \<Rightarrow> (http_error + body) app" where
  "body_of c m = bnd m (\<lambda>a. ret (Inr (c a)))"

definition guarded :: "http_error option app \<Rightarrow> (http_error + body) app \<Rightarrow> (http_error + body) app" where
  "guarded g m = bnd g (\<lambda>denied. case denied of Some err \<Rightarrow> ret (Inl err) | None \<Rightarrow> m)"

section \<open>Cases\<close>

text \<open>The errors of a route are its \<open>except\<close> clauses; \<open>ControlConfigurationError\<close> is a \<open>ValueError\<close>, and what the bank
  does not know is the \<open>LookupError\<close> \<open>SyntheticProviderError\<close>.\<close>

definition create_case_errors :: "api \<Rightarrow> string \<Rightarrow> exc \<Rightarrow> http_error option" where
  "create_case_errors ap corr x = (case x of
     IdempotencyConflict \<Rightarrow> Some (refusal 409 ''IDEMPOTENCY_CONFLICT'' (ap_str ap x) corr)
   | Py LookupErr \<Rightarrow> Some (refusal 422 ''AUTHORITATIVE_RECORD_NOT_FOUND'' (ap_str ap x) corr)
   | AuditWrite \<Rightarrow> Some (refusal 500 ''AUDIT_APPEND_FAILED''
       ''Case creation could not be completed because audit recording failed.'' corr)
   | _ \<Rightarrow> None)"

definition post_case :: "api \<Rightarrow> create_case_request \<Rightarrow> string option \<Rightarrow> string option \<Rightarrow> reply app" where
  "post_case ap q key header = (case unsent ''Idempotency-Key'' key of
     [] \<Rightarrow> route_reply 201 header (create_case_errors ap) (\<lambda>corr.
       body_of fst (create_case (sv_bank (ap_services ap)) q (the key) corr))
   | locs \<Rightarrow> validation_exception_handler ap header locs)"

definition case_errors :: "string \<Rightarrow> exc \<Rightarrow> http_error option" where
  "case_errors corr x = (if x = CaseNotFound then Some (refusal 404 ''CASE_NOT_FOUND'' ''Case not found'' corr) else None)"

definition get_case_reply :: "string \<Rightarrow> string option \<Rightarrow> reply app" where
  "get_case_reply ci header = route_reply 200 header case_errors (\<lambda>corr. body_of dump_case_response (get_case ci))"

definition SUPPORTED_FILTERS :: "string list" where
  "SUPPORTED_FILTERS = [''status'', ''customer_ref'', ''transaction_ref'', ''channel'', ''opened_from'', ''opened_to'']"

text \<open>\<open>opened_from > opened_to\<close>: a zoned and a zoneless time cannot be compared.\<close>

fun time_after :: "pytime \<Rightarrow> pytime \<Rightarrow> bool py" where
  "time_after (Aware a) (Aware b) = Inr (b < a)"
| "time_after (Naive a) (Naive b) = Inr (b < a)"
| "time_after _ _ = Inl TypeErr"

definition reversed_period :: "case_query \<Rightarrow> bool py" where
  "reversed_period q = (case (qy_opened_from q, qy_opened_to q) of (Some a, Some b) \<Rightarrow> time_after a b | _ \<Rightarrow> Inr False)"

fun session_instant :: "(int \<Rightarrow> int) \<Rightarrow> pytime \<Rightarrow> int" where
  "session_instant f (Aware t) = t"
| "session_instant f (Naive t) = f t"

definition filter_of :: "api \<Rightarrow> case_query \<Rightarrow> case_filter" where
  "filter_of ap q = \<lparr>fl_status = map_option case_status_text (qy_status q), fl_customer_ref = qy_customer_ref q,
     fl_transaction_ref = qy_transaction_ref q, fl_channel = map_option channel_text (qy_channel q),
     fl_opened_from = map_option (session_instant (ap_session_utc ap)) (qy_opened_from q),
     fl_opened_to = map_option (session_instant (ap_session_utc ap)) (qy_opened_to q)\<rparr>"

definition list_cases_reply :: "api \<Rightarrow> case_query \<Rightarrow> string option \<Rightarrow> reply app" where
  "list_cases_reply ap q header = route_reply 200 header (\<lambda>_ _. None) (\<lambda>corr.
     let unsupported = filter (\<lambda>n. n \<notin> set SUPPORTED_FILTERS) (qy_names q) in
     if unsupported \<noteq> [] then ret (Inl (refusal 422 ''UNSUPPORTED_FILTER''
       (''Unsupported case filter(s): '' @ join '', '' (sort (remdups unsupported))) corr))
     else bnd (of_py (reversed_period q)) (\<lambda>bad.
       if bad then ret (Inl (refusal 422 ''VALIDATION_FAILED'' ''opened_from must be before or equal to opened_to'' corr))
       else body_of (\<lambda>(cs, n). listed (map VDict cs) n) (case_list (filter_of ap q))))"

definition register_errors :: "api \<Rightarrow> string \<Rightarrow> exc \<Rightarrow> http_error option" where
  "register_errors ap corr x = (case x of
     Py ValueErr \<Rightarrow> Some (refusal 422 ''INVALID_IF_MATCH'' (ap_str ap x) corr)
   | ControlConfiguration _ \<Rightarrow> Some (refusal 422 ''INVALID_IF_MATCH'' (ap_str ap x) corr)
   | CaseNotFound \<Rightarrow> Some (refusal 404 ''CASE_NOT_FOUND'' ''Case not found'' corr)
   | IdempotencyConflict \<Rightarrow> Some (refusal 409 ''IDEMPOTENCY_CONFLICT'' (ap_str ap x) corr)
   | OptimisticLock \<Rightarrow> Some (refusal 409 ''OPTIMISTIC_LOCK_CONFLICT'' (ap_str ap x) corr)
   | AuditWrite \<Rightarrow> Some (refusal 500 ''AUDIT_APPEND_FAILED''
       ''Evidence registration could not be completed because audit recording failed.'' corr)
   | _ \<Rightarrow> None)"

definition post_evidence :: "api \<Rightarrow> string \<Rightarrow> evidence_in \<Rightarrow> string option \<Rightarrow> string option \<Rightarrow> string option \<Rightarrow> reply app" where
  "post_evidence ap ci ev key if_match header = (case unsent ''Idempotency-Key'' key @ unsent ''If-Match'' if_match of
     [] \<Rightarrow> route_reply 201 header (register_errors ap) (\<lambda>corr. bnd (of_py (parse_if_match (the if_match))) (\<lambda>v.
       body_of id (register_evidence ci ev (the key) v corr)))
   | locs \<Rightarrow> validation_exception_handler ap header locs)"

definition list_evidence_reply :: "string \<Rightarrow> string option \<Rightarrow> reply app" where
  "list_evidence_reply ci header = route_reply 200 header case_errors (\<lambda>corr. body_of (case_prod listed) (list_evidence ci))"

definition get_timeline_reply :: "string \<Rightarrow> string option \<Rightarrow> reply app" where
  "get_timeline_reply ci header = route_reply 200 header case_errors (\<lambda>corr. body_of (case_prod listed) (get_timeline ci))"

section \<open>Workflows\<close>

definition require_control_reader :: "string option \<Rightarrow> string option \<Rightarrow> http_error option app" where
  "require_control_reader reader header = bnd (ask en_app_env) (\<lambda>app.
     if app \<notin> {''local'', ''test''} \<or> reader \<noteq> Some ''true'' then bnd (resolve_correlation_id header) (\<lambda>corr.
       ret (Some (refusal 403 ''CONTROL_ACCESS_DENIED'' ''Local control reader access required'' corr)))
     else ret None)"

text \<open>The guard as a dependency of the route: it runs before the route's body.\<close>

definition control_reader_only :: "string option \<Rightarrow> string option \<Rightarrow> reply app \<Rightarrow> reply app" where
  "control_reader_only reader header m = bnd (require_control_reader reader header) (\<lambda>denied. case denied of
     Some err \<Rightarrow> http_exception_handler header err | None \<Rightarrow> m)"

definition start_errors :: "api \<Rightarrow> string \<Rightarrow> exc \<Rightarrow> http_error option" where
  "start_errors ap corr x = (case x of
     CaseNotFound \<Rightarrow> Some (refusal 404 ''CASE_NOT_FOUND'' ''Case not found'' corr)
   | IdempotencyConflict \<Rightarrow> Some (refusal 409 ''IDEMPOTENCY_CONFLICT'' (ap_str ap x) corr)
   | WorkflowConflict \<Rightarrow> Some (refusal 409 ''WORKFLOW_CONFLICT'' (ap_str ap x) corr)
   | WorkflowAudit \<Rightarrow> Some (refusal 500 ''WORKFLOW_AUDIT_APPEND_FAILED'' (ap_str ap x) corr)
   | _ \<Rightarrow> None)"

definition post_workflow :: "api \<Rightarrow> start_request \<Rightarrow> string option \<Rightarrow> string option \<Rightarrow> string option \<Rightarrow> reply app" where
  "post_workflow ap q key reader header = (case unsent ''Idempotency-Key'' key of
     [] \<Rightarrow> route_reply 202 header (start_errors ap) (\<lambda>corr.
       guarded (if sr_graph_version q = CONTROL_GRAPH_VERSION then require_control_reader reader (Some corr) else ret None)
         (body_of id (start_workflow (ap_services ap) q (the key) corr)))
   | locs \<Rightarrow> validation_exception_handler ap header locs)"

definition workflow_errors :: "api \<Rightarrow> string \<Rightarrow> exc \<Rightarrow> http_error option" where
  "workflow_errors ap corr x = (case x of
     WorkflowRunNotFound \<Rightarrow> Some (refusal 404 ''WORKFLOW_NOT_FOUND'' ''Workflow not found'' corr)
   | _ \<Rightarrow> None)"

definition evaluation_errors :: "api \<Rightarrow> exc list \<Rightarrow> string \<Rightarrow> string \<Rightarrow> string \<Rightarrow> exc \<Rightarrow> http_error option" where
  "evaluation_errors ap absent code message corr x =
     (if x \<in> set absent then Some (refusal 404 code message corr)
      else case x of ControlConfiguration _ \<Rightarrow> Some (refusal 409 ''CONTROL_INTEGRITY_ERROR'' (ap_str ap x) corr)
      | _ \<Rightarrow> None)"

definition list_control_evaluations :: "api \<Rightarrow> string \<Rightarrow> string option \<Rightarrow> string option \<Rightarrow> reply app" where
  "list_control_evaluations ap wid reader header = control_reader_only reader header
     (route_reply 200 header (evaluation_errors ap [WorkflowRunNotFound] ''WORKFLOW_NOT_FOUND'' ''Workflow not found'')
       (\<lambda>corr. andthen (get_workflow wid) (body_of (\<lambda>vs. [(''items'', VList (map (VDict \<circ> dump_evaluation_out) vs))]) (list_evaluations wid))))"

text \<open>\<open>except LookupError\<close> also catches its subclass \<open>KeyError\<close>.\<close>

definition get_control_evaluation :: "api \<Rightarrow> string \<Rightarrow> string \<Rightarrow> string option \<Rightarrow> string option \<Rightarrow> reply app" where
  "get_control_evaluation ap wid eid reader header = control_reader_only reader header
     (route_reply 200 header (evaluation_errors ap [Py LookupErr, Py KeyErr] ''EVALUATION_NOT_FOUND'' ''Control evaluation not found'')
       (\<lambda>corr. body_of dump_evaluation_out (bnd (get_evaluation wid eid) evaluation_output)))"

definition get_workflow_reply :: "api \<Rightarrow> string \<Rightarrow> string option \<Rightarrow> reply app" where
  "get_workflow_reply ap wid header = route_reply 200 header (workflow_errors ap)
     (\<lambda>corr. body_of dump_workflow_response (get_workflow wid))"

definition resume_errors :: "api \<Rightarrow> string \<Rightarrow> exc \<Rightarrow> http_error option" where
  "resume_errors ap corr x = (case x of
     ControlConfiguration _ \<Rightarrow> Some (refusal 409 ''CONTROL_INTEGRITY_ERROR'' (ap_str ap x) corr)
   | Py ValueErr \<Rightarrow> Some (refusal 422 ''INVALID_IF_MATCH'' (ap_str ap x) corr)
   | IdempotencyConflict \<Rightarrow> Some (refusal 409 ''IDEMPOTENCY_CONFLICT'' (ap_str ap x) corr)
   | WorkflowRunNotFound \<Rightarrow> Some (refusal 404 ''WORKFLOW_NOT_FOUND'' ''Workflow not found'' corr)
   | WorkflowConflict \<Rightarrow> Some (refusal 409 ''WORKFLOW_CONFLICT'' (ap_str ap x) corr)
   | WorkflowAudit \<Rightarrow> Some (refusal 500 ''WORKFLOW_AUDIT_APPEND_FAILED'' (ap_str ap x) corr)
   | _ \<Rightarrow> None)"

definition post_resume :: "api \<Rightarrow> string \<Rightarrow> resume_request \<Rightarrow> string option \<Rightarrow> string option \<Rightarrow> string option \<Rightarrow>
    string option \<Rightarrow> reply app" where
  "post_resume ap wid q key if_match reader header =
     (case unsent ''Idempotency-Key'' key @ unsent ''If-Match'' if_match of
     [] \<Rightarrow> route_reply 202 header (resume_errors ap) (\<lambda>corr.
       guarded (bnd (get_workflow wid) (\<lambda>r.
           if wr_graph_version (wp_run r) = CONTROL_GRAPH_VERSION then require_control_reader reader (Some corr) else ret None))
         (bnd (of_py (parse_if_match (the if_match))) (\<lambda>v.
           body_of id (resume_workflow (ap_services ap) wid q (the key) v corr))))
   | locs \<Rightarrow> validation_exception_handler ap header locs)"

section \<open>Policies\<close>

definition require_policy_admin :: "string option \<Rightarrow> string \<Rightarrow> http_error option app" where
  "require_policy_admin token corr = ret (case token of
     None \<Rightarrow> Some (refusal 401 ''POLICY_ADMIN_AUTH_REQUIRED''
       ''X-Policy-Admin header is required for controlled policy ingestion.'' corr)
   | Some s \<Rightarrow> if s = ''true'' then None else Some (refusal 403 ''POLICY_ADMIN_FORBIDDEN''
       ''Caller is not authorized for controlled policy ingestion.'' corr))"

definition admin_route :: "int \<Rightarrow> string option \<Rightarrow> string option \<Rightarrow> (string \<Rightarrow> exc \<Rightarrow> http_error option) \<Rightarrow>
    (string \<Rightarrow> (http_error + body) app) \<Rightarrow> reply app" where
  "admin_route status token header excepts m =
     route_reply status header excepts (\<lambda>corr. guarded (require_policy_admin token corr) (m corr))"

definition ingestion_errors :: "api \<Rightarrow> string \<Rightarrow> exc \<Rightarrow> http_error option" where
  "ingestion_errors ap corr x = (case x of
     PolicyValidation errors \<Rightarrow>
       Some ((refusal 422 ''POLICY_INGESTION_VALIDATION_FAILED'' (ap_str ap x) corr)\<lparr>he_details := errors\<rparr>)
   | PolicyVersionConflict \<Rightarrow> Some (refusal 409 ''POLICY_VERSION_CONFLICT'' (ap_str ap x) corr)
   | PolicyAuthorization \<Rightarrow> Some (refusal 403 ''POLICY_ADMIN_FORBIDDEN'' (ap_str ap x) corr)
   | AuditWrite \<Rightarrow> Some (refusal 500 ''POLICY_AUDIT_APPEND_FAILED'' (ap_str ap x) corr)
   | _ \<Rightarrow> None)"

definition unknown_run :: "api \<Rightarrow> string \<Rightarrow> string \<Rightarrow> exc \<Rightarrow> http_error option" where
  "unknown_run ap code corr x = (if x = PolicyRunNotFound then Some (refusal 404 code (ap_str ap x) corr) else None)"

text \<open>The service raises no \<open>PolicyPromotionError\<close>, the third exception the route for promotions names.\<close>

definition promotion_errors :: "api \<Rightarrow> string \<Rightarrow> exc \<Rightarrow> http_error option" where
  "promotion_errors ap corr x = (case x of
     PolicyRunNotFound \<Rightarrow> Some (refusal 404 ''POLICY_RUN_NOT_FOUND'' (ap_str ap x) corr)
   | AuditWrite \<Rightarrow> Some (refusal 500 ''POLICY_AUDIT_APPEND_FAILED'' (ap_str ap x) corr)
   | _ \<Rightarrow> None)"

definition retrieval_errors :: "api \<Rightarrow> string \<Rightarrow> exc \<Rightarrow> http_error option" where
  "retrieval_errors ap corr x = (case x of
     PolicyAuthorization \<Rightarrow> Some (refusal 403 ''POLICY_ADMIN_FORBIDDEN'' (ap_str ap x) corr)
   | RetrievalAudit \<Rightarrow> Some (refusal 500 ''POLICY_AUDIT_APPEND_FAILED'' (ap_str ap x) corr)
   | _ \<Rightarrow> None)"

definition ingest_reply :: "api \<Rightarrow> ingestion_request \<Rightarrow> string option \<Rightarrow> string option \<Rightarrow> reply app" where
  "ingest_reply ap q token header = admin_route 201 token header (ingestion_errors ap)
     (\<lambda>corr. body_of dump_ingestion (ingest q corr))"

definition get_ingestion_reply :: "api \<Rightarrow> string \<Rightarrow> string option \<Rightarrow> string option \<Rightarrow> reply app" where
  "get_ingestion_reply ap rid token header = admin_route 200 token header (unknown_run ap ''POLICY_RUN_NOT_FOUND'')
     (\<lambda>corr. body_of dump_ingestion (ingestion_view rid))"

definition promote_reply :: "api \<Rightarrow> promotion_request \<Rightarrow> string option \<Rightarrow> string option \<Rightarrow> reply app" where
  "promote_reply ap q token header = admin_route 200 token header (promotion_errors ap)
     (\<lambda>corr. body_of dump_promotion (promote q corr))"

definition lineage_reply :: "api \<Rightarrow> string \<Rightarrow> string option \<Rightarrow> string option \<Rightarrow> reply app" where
  "lineage_reply ap chunk token header = admin_route 200 token header (unknown_run ap ''POLICY_CHUNK_NOT_FOUND'')
     (\<lambda>corr. body_of dump_lineage (lineage chunk corr))"

definition retrieval_reply :: "api \<Rightarrow> retrieval_request \<Rightarrow> string option \<Rightarrow> string option \<Rightarrow> reply app" where
  "retrieval_reply ap q token header = admin_route 200 token header (retrieval_errors ap)
     (\<lambda>corr. body_of dump_retrieval (retrieve (sv_scores (ap_services ap)) q corr None))"

definition retrieval_evaluation_reply :: "api \<Rightarrow> retrieval_config \<Rightarrow> string \<Rightarrow> string option \<Rightarrow> string option \<Rightarrow> reply app" where
  "retrieval_evaluation_reply ap cfg actor token header = admin_route 200 token header (retrieval_errors ap)
     (\<lambda>corr. body_of dump_retrieval_evaluation (evaluate_retrieval (sv_scores (ap_services ap)) cfg actor corr))"

section \<open>The application\<close>

text \<open>The routers of \<open>create_app\<close>; the deprecated \<open>/api/v1/disputes\<close> paths are the routes \<open>PostCase\<close> and \<open>GetCase\<close>.\<close>

fun respond :: "api \<Rightarrow> http_request \<Rightarrow> string option \<Rightarrow> reply app" where
  "respond ap (PostCase q key) h = post_case ap q key h"
| "respond ap (ListCases q) h = list_cases_reply ap q h"
| "respond ap (GetCase ci) h = get_case_reply ci h"
| "respond ap (PostEvidence ci ev key v) h = post_evidence ap ci ev key v h"
| "respond ap (ListEvidence ci) h = list_evidence_reply ci h"
| "respond ap (GetTimeline ci) h = get_timeline_reply ci h"
| "respond ap (PostWorkflow q key reader) h = post_workflow ap q key reader h"
| "respond ap (GetWorkflow wid) h = get_workflow_reply ap wid h"
| "respond ap (PostResume wid q key v reader) h = post_resume ap wid q key v reader h"
| "respond ap (ListEvaluations wid reader) h = list_control_evaluations ap wid reader h"
| "respond ap (GetEvaluation wid eid reader) h = get_control_evaluation ap wid eid reader h"
| "respond ap (PostIngestion q token) h = ingest_reply ap q token h"
| "respond ap (GetIngestion rid token) h = get_ingestion_reply ap rid token h"
| "respond ap (PostPromotion q token) h = promote_reply ap q token h"
| "respond ap (GetLineage chunk token) h = lineage_reply ap chunk token h"
| "respond ap (PostRetrieval q token) h = retrieval_reply ap q token h"
| "respond ap (PostRetrievalEvaluation cfg actor token) h = retrieval_evaluation_reply ap cfg actor token h"
| "respond ap GetHealth h = ret (Answered 200 [] [(''status'', VStr ''ok'')])"

lemmas reply_defs = get_case_reply_def list_evidence_reply_def get_timeline_reply_def get_workflow_reply_def ingest_reply_def
  get_ingestion_reply_def promote_reply_def lineage_reply_def retrieval_reply_def retrieval_evaluation_reply_def

end
