(* ===== verification/ApiCalls.thy ===== *)
theory ApiCalls
  imports Api Retries
begin

text \<open>What a route does to the store: it reads, or it is one call of a service.\<close>

section \<open>Routes\<close>

text \<open>What a route makes of the outcome of its body.\<close>

definition replied :: "int \<Rightarrow> (exc \<Rightarrow> http_error option) \<Rightarrow> string \<Rightarrow> exc + http_error + body \<Rightarrow> exc + reply \<Rightarrow> bool" where
  "replied status excepts corr x r \<longleftrightarrow> (case x of
     Inl ex \<Rightarrow> (case excepts ex of None \<Rightarrow> r = Inl ex | Some err \<Rightarrow> \<exists>k d. r = Inr (Refused (he_status err) k d))
   | Inr (Inl err) \<Rightarrow> \<exists>k d. r = Inr (Refused (he_status err) k d)
   | Inr (Inr b) \<Rightarrow> r = Inr (Answered status corr b))"

lemma resolve_run: "\<exists>corr w1. resolve_correlation_id h e w = (Inr corr, w1) \<and> db w1 = db w"
  by (auto simp: resolve_correlation_id_def app_eval split: option.split)

lemma handler_run: "\<exists>k d w'. http_exception_handler h err e w = (Inr (Refused (he_status err) k d), w') \<and> db w' = db w"
  using resolve_run [of h e w] by (auto simp: http_exception_handler_def bnd_def ret_def Let_def)

lemma validation_run: "\<exists>k d w'. validation_exception_handler ap h locs e w = (Inr (Refused 422 k d), w') \<and> db w' = db w"
  using resolve_run [of h e w] by (auto simp: validation_exception_handler_def bnd_def ret_def Let_def)

lemma route_run:
  assumes "route_reply status h excepts m e w = (r, w')"
  obtains corr w1 x w2 where "resolve_correlation_id h e w = (Inr corr, w1)" and "db w1 = db w"
    and "m corr e w1 = (x, w2)" and "db w' = db w2" and "replied status (excepts corr) corr x r"
proof -
  obtain corr w1 where res: "resolve_correlation_id h e w = (Inr corr, w1)" "db w1 = db w" using resolve_run by blast
  obtain x w2 where m: "m corr e w1 = (x, w2)" by (cases "m corr e w1")
  have "db w' = db w2 \<and> replied status (excepts corr) corr x r"
  proof (cases x)
    case (Inl ex)
    then show ?thesis using assms res m handler_run [of h "the (excepts corr ex)" e w2]
      by (auto simp: route_reply_def bnd_def replied_def split: option.splits)
  next
    case (Inr y)
    then show ?thesis using assms res m handler_run [of h "projl y" e w2]
      by (cases y) (auto simp: route_reply_def bnd_def replied_def)
  qed
  then show thesis using that res m by blast
qed

lemma replied_refusals:
  "replied s c k x r \<Longrightarrow> (\<exists>cc b. r = Inr (Answered st cc b)) \<longleftrightarrow> st = s \<and> (\<exists>b. x = Inr (Inr b))"
  by (auto simp: replied_def split: sum.splits option.splits)

section \<open>One call at most\<close>

text \<open>The call of a service that a request stands for, given its correlation.\<close>

fun call_of :: "http_request \<Rightarrow> string \<Rightarrow> call option" where
  "call_of (PostCase q (Some key)) corr = Some (CreateCase q key corr)"
| "call_of (PostEvidence ci ev (Some key) (Some v)) corr =
     (case parse_if_match v of Inl _ \<Rightarrow> None | Inr n \<Rightarrow> Some (RegisterEvidence ci ev key n corr))"
| "call_of (PostWorkflow q (Some key) _) corr = Some (StartWorkflow q key corr)"
| "call_of (PostResume wid q (Some key) (Some v) _) corr =
     (case parse_if_match v of Inl _ \<Rightarrow> None | Inr n \<Rightarrow> Some (ResumeWorkflow wid q key n corr))"
| "call_of (PostIngestion q _) corr = Some (IngestPolicy q corr)"
| "call_of (PostPromotion q _) corr = Some (PromotePolicy q corr)"
| "call_of (PostRetrieval q _) corr = Some (SearchPolicy q corr None)"
| "call_of (PostRetrievalEvaluation cfg actor _) corr = Some (EvaluateSearch cfg actor corr)"
| "call_of _ _ = None"

text \<open>Computations that only read.\<close>

abbreviation pure_read :: "'a app \<Rightarrow> bool" where
  "pure_read m \<equiv> (\<forall>s. maintains (\<lambda>_ t. t = s) m)"

lemma pure_readD: "pure_read m \<Longrightarrow> m e w = (r, w') \<Longrightarrow> db w' = db w"
  unfolding maintains_def by (metis snd_conv)

lemma reads_maintain:
  "maintains Q (case_list f)" "maintains Q (list_evidence ci)" "maintains Q (get_timeline ci)" "maintains Q (get_workflow wid)"
  "maintains Q (list_evaluations wid)" "maintains Q (bnd (get_evaluation wid eid) evaluation_output)"
  "maintains Q (ingestion_view rid)" "maintains Q (lineage chunk corr)" "maintains Q (require_control_reader reader h)"
  "maintains Q (resolve_correlation_id h)" "maintains Q (require_policy_admin token k)"
  unfolding case_list_def list_cases_def list_evidence_def require_case_def case_get_def list_evidence_rows_def get_timeline_def
    list_timeline_rows_def get_workflow_def get_run_def latest_checkpoint_def list_evaluations_def evaluation_output_def
    get_evaluation_def verify_def stage_views_def review_view_def ingestion_view_def get_ingestion_def lineage_def
    active_corpus_def require_control_reader_def resolve_correlation_id_def require_policy_admin_def Let_def digest_app_def
  by (auto intro!: preserved split: option.split)


text \<open>A body that is guarded and then a read, or a guarded call of a service.\<close>

lemma guarded_run:
  assumes "guarded g m e w = (x, w')" and "pure_read g"
  obtains w1 where "db w1 = db w" and "m e w1 = (x, w') \<or> (\<nexists>b. x = Inr (Inr b)) \<and> w' = w1"
proof -
  obtain y w1 where g: "g e w = (y, w1)" by (cases "g e w")
  then have "db w1 = db w" using pure_readD [OF assms(2)] by blast
  moreover have "m e w1 = (x, w') \<or> (\<nexists>b. x = Inr (Inr b)) \<and> w' = w1"
    using assms(1) g by (cases y) (auto simp: guarded_def bnd_def ret_def split: option.splits)
  ultimately show thesis by (rule that)
qed

lemma body_of_run:
  "body_of c m e w = (x, w') \<Longrightarrow> \<exists>y. m e w = (y, w') \<and> (\<exists>b. x = Inr (Inr b)) = (\<not> isl y)"
  by (auto simp: body_of_def bnd_def ret_def split: prod.splits sum.splits)

lemma body_of_serve:
  assumes "body_of c m e w = (x, w')" and "serve sv call = bnd m (\<lambda>a. ret (f a))"
  shows "\<exists>y. serve sv call e w = (y, w') \<and> (\<exists>b. x = Inr (Inr b)) = (\<not> isl y)"
  using body_of_run [OF assms(1)] by (auto simp: assms(2) bnd_def ret_def split: sum.splits)

lemma bnd_ret: "bnd m (\<lambda>a. ret a) = m"
  by (auto simp: bnd_def ret_def fun_eq_iff split: prod.split sum.split)

text \<open>The outcome of a request: nothing was stored, or one call ran and its success is the success of the request.\<close>

definition serves :: "services \<Rightarrow> call option \<Rightarrow> env \<Rightarrow> world \<Rightarrow> exc + http_error + body \<Rightarrow> world \<Rightarrow> bool" where
  "serves sv call e w x w' \<longleftrightarrow> db w' = db w \<and> (call \<noteq> None \<longrightarrow> (\<nexists>b. x = Inr (Inr b))) \<or>
     (\<exists>k w1 y w2. call = Some k \<and> db w1 = db w \<and> serve sv k e w1 = (y, w2) \<and> db w' = db w2 \<and> (\<exists>b. x = Inr (Inr b)) = (\<not> isl y))"

lemma serves_read: "pure_read m \<Longrightarrow> body_of c m e w = (x, w') \<Longrightarrow> serves sv None e w x w'"
  using body_of_run [of c m e w x w'] pure_readD [of m e w _ w'] by (auto simp: serves_def)

lemma serves_None: "pure_read m \<Longrightarrow> m e w = (x, w') \<Longrightarrow> serves sv None e w x w'"
  using pure_readD [of m e w x w'] by (simp add: serves_def)

lemma preserves_body [preserved]: "maintains Q m \<Longrightarrow> maintains Q (body_of c m)"
  unfolding body_of_def by (intro preserved)

lemma serves_call:
  assumes "body_of c m e w = (x, w')" and "serve sv call = bnd m (\<lambda>a. ret (f a))"
  shows "serves sv (Some call) e w x w'"
  using body_of_serve [OF assms] by (auto simp: serves_def)

lemma serves_guarded:
  assumes "guarded g m e w = (x, w')" and "pure_read g" and "\<And>w1. db w1 = db w \<Longrightarrow> m e w1 = (x, w') \<Longrightarrow> serves sv call e w1 x w'"
  shows "serves sv call e w x w'"
proof (rule guarded_run [OF assms(1,2)])
  fix w1 assume same: "db w1 = db w" and "m e w1 = (x, w') \<or> (\<nexists>b. x = Inr (Inr b)) \<and> w' = w1"
  then consider "serves sv call e w1 x w'" | "\<nexists>b. x = Inr (Inr b)" "db w' = db w" using assms(3) by auto
  then show ?thesis using same by cases (simp_all add: serves_def)
qed

lemma serves_of_py:
  assumes "bnd (of_py p) m e w = (x, w')" and "\<And>v. p = Inr v \<Longrightarrow> m v e w = (x, w') \<Longrightarrow> serves sv call e w x w'"
  shows "serves sv call e w x w'"
  using assms by (cases p) (auto simp: bnd_def of_py_def raise_def ret_def serves_def)


section \<open>The application\<close>

definition answers :: "exc + reply \<Rightarrow> bool" where
  "answers r \<longleftrightarrow> (\<exists>s c b. r = Inr (Answered s c b))"

definition performs :: "services \<Rightarrow> http_request \<Rightarrow> env \<Rightarrow> world \<Rightarrow> exc + reply \<Rightarrow> world \<Rightarrow> bool" where
  "performs sv rq e w r w' \<longleftrightarrow> db w' = db w \<and> (answers r \<longrightarrow> (\<forall>corr. call_of rq corr = None)) \<or>
     (\<exists>corr k w1 y w2. call_of rq corr = Some k \<and> db w1 = db w \<and> serve sv k e w1 = (y, w2) \<and> db w' = db w2 \<and>
       (answers r \<longleftrightarrow> \<not> isl y))"

lemma call_of_None: "call_of rq corr = None \<Longrightarrow> call_of rq corr' = None"
  by (induction rq corr rule: call_of.induct) (auto split: sum.splits)

lemma replied_answers: "replied s c k x r \<Longrightarrow> answers r \<longleftrightarrow> (\<exists>b. x = Inr (Inr b))"
  by (auto simp: replied_def answers_def split: sum.splits option.splits)

lemma route_performs:
  assumes "route_reply s h c m e w = (r, w')"
    and "\<And>corr w1 x w2. m corr e w1 = (x, w2) \<Longrightarrow> serves sv (call_of rq corr) e w1 x w2"
  shows "performs sv rq e w r w'"
proof (rule route_run [OF assms(1)])
  fix corr w1 x w2
  assume "db w1 = db w" and body: "m corr e w1 = (x, w2)" and "db w' = db w2" and "replied s (c corr) corr x r"
  note facts = this(1,3) replied_answers [OF this(4)]
  from assms(2) [OF body] consider "db w2 = db w1" "call_of rq corr \<noteq> None \<longrightarrow> (\<nexists>b. x = Inr (Inr b))"
    | k w3 y w4 where "call_of rq corr = Some k" "db w3 = db w1" "serve sv k e w3 = (y, w4)" "db w2 = db w4"
        "(\<exists>b. x = Inr (Inr b)) = (\<not> isl y)"
    unfolding serves_def by blast
  then show ?thesis
  proof cases
    case 1
    then show ?thesis using facts call_of_None [of rq corr] by (auto simp: performs_def)
  next
    case (2 k w3 y w4)
    then show ?thesis using facts unfolding performs_def by metis
  qed
qed

lemma refused_performs: "db w' = db w \<Longrightarrow> r = Inr (Refused s k d) \<Longrightarrow> performs sv rq e w r w'"
  by (simp add: performs_def answers_def)

lemma validation_performs: "validation_exception_handler ap h locs e w = (r, w') \<Longrightarrow> performs sv rq e w r w'"
  using validation_run [of ap h locs e w] refused_performs by fastforce

lemma reader_performs:
  assumes "control_reader_only reader h m e w = (r, w')" and "\<And>w1. db w1 = db w \<Longrightarrow> m e w1 = (r, w') \<Longrightarrow> performs sv rq e w1 r w'"
  shows "performs sv rq e w r w'"
proof -
  obtain y w1 where g: "require_control_reader reader h e w = (y, w1)" by (cases "require_control_reader reader h e w")
  then have same: "db w1 = db w" using pure_readD [of "require_control_reader reader h"] reads_maintain(9) by blast
  show ?thesis
  proof (cases y)
    case (Inl ex)
    then show ?thesis using assms(1) g same by (auto simp: control_reader_only_def bnd_def performs_def answers_def)
  next
    case (Inr denied)
    show ?thesis
    proof (cases denied)
      case None
      then show ?thesis using assms g same Inr by (auto simp: control_reader_only_def bnd_def performs_def)
    next
      case (Some err)
      then show ?thesis using assms(1) g same Inr handler_run [of h err e w1]
        by (auto simp: control_reader_only_def bnd_def performs_def answers_def)
    qed
  qed
qed

lemma admin_performs:
  assumes "admin_route s token h c m e w = (r, w')"
    and "\<And>corr w1 x w2. m corr e w1 = (x, w2) \<Longrightarrow> serves sv (call_of rq corr) e w1 x w2"
  shows "performs sv rq e w r w'"
  using assms(1) unfolding admin_route_def
  by (rule route_performs) (rule serves_guarded, assumption, simp add: reads_maintain, rule assms(2))

lemma serve_shapes:
  "serve sv (CreateCase q key corr) = bnd (create_case (sv_bank sv) q key corr) (\<lambda>a. ret (fst a))"
  "serve sv (RegisterEvidence ci ev key v corr) = bnd (register_evidence ci ev key v corr) (\<lambda>a. ret a)"
  "serve sv (StartWorkflow sq key corr) = bnd (start_workflow sv sq key corr) (\<lambda>a. ret a)"
  "serve sv (ResumeWorkflow wid rq key v corr) = bnd (resume_workflow sv wid rq key v corr) (\<lambda>a. ret a)"
  "serve sv (IngestPolicy iq corr) = bnd (ingest iq corr) (\<lambda>_. ret [])"
  "serve sv (PromotePolicy pq corr) = bnd (promote pq corr) (\<lambda>_. ret [])"
  "serve sv (SearchPolicy tq corr p) = bnd (retrieve (sv_scores sv) tq corr p) (\<lambda>_. ret [])"
  "serve sv (EvaluateSearch cfg actor corr) = bnd (evaluate_retrieval (sv_scores sv) cfg actor corr) (\<lambda>_. ret [])"
  by (simp_all add: bnd_ret silent_def split_def)

lemmas serves_calls = serve_shapes [THEN serves_call [rotated]]

lemma sent: "unsent name v = [] \<longleftrightarrow> (\<exists>s. v = Some s \<and> s \<noteq> [])"
  by (auto simp: unsent_def)

lemma writes_perform:
  "post_case ap q key h e w = (r, w') \<Longrightarrow> performs (ap_services ap) (PostCase q key) e w r w'"
  "post_evidence ap ci ev key v h e w = (r, w') \<Longrightarrow> performs (ap_services ap) (PostEvidence ci ev key v) e w r w'"
  "post_workflow ap sq key reader h e w = (r, w') \<Longrightarrow> performs (ap_services ap) (PostWorkflow sq key reader) e w r w'"
  "post_resume ap wid mq key v reader h e w = (r, w') \<Longrightarrow> performs (ap_services ap) (PostResume wid mq key v reader) e w r w'"
proof -
  show "performs (ap_services ap) (PostCase q key) e w r w'" if "post_case ap q key h e w = (r, w')"
    using that unfolding post_case_def
    by (cases "unsent ''Idempotency-Key'' key")
      (auto simp: sent intro: validation_performs serves_calls elim!: route_performs)
  show "performs (ap_services ap) (PostEvidence ci ev key v) e w r w'" if "post_evidence ap ci ev key v h e w = (r, w')"
    using that unfolding post_evidence_def
    by (cases "unsent ''Idempotency-Key'' key @ unsent ''If-Match'' v")
      (auto simp: sent intro: validation_performs serves_calls elim!: route_performs serves_of_py)
  show "performs (ap_services ap) (PostWorkflow sq key reader) e w r w'" if "post_workflow ap sq key reader h e w = (r, w')"
    using that unfolding post_workflow_def
    by (cases "unsent ''Idempotency-Key'' key")
      (auto simp: sent reads_maintain intro: validation_performs serves_calls elim!: route_performs serves_guarded split: if_splits)
  show "performs (ap_services ap) (PostResume wid mq key v reader) e w r w'"
    if "post_resume ap wid mq key v reader h e w = (r, w')"
    using that unfolding post_resume_def
    by (cases "unsent ''Idempotency-Key'' key @ unsent ''If-Match'' v")
      (auto simp: sent reads_maintain intro!: preserved intro: validation_performs serves_calls elim!: route_performs serves_guarded serves_of_py)
qed


lemma reads_perform:
  assumes "route_reply st h c m e w = (r, w')" and "m = (\<lambda>corr. body_of b (n corr))" and "\<And>Q corr. maintains Q (n corr)"
    and "\<And>corr. call_of rq corr = None"
  shows "performs sv rq e w r w'"
  using assms(1)
proof (rule route_performs)
  fix corr w1 x w2
  assume "m corr e w1 = (x, w2)"
  then show "serves sv (call_of rq corr) e w1 x w2"
    using serves_read [of "n corr" b e w1 x w2] assms(2-4) by simp
qed

lemma list_performs:
  assumes "list_cases_reply ap q h e w = (r, w')"
  shows "performs sv (ListCases q) e w r w'"
  using assms unfolding list_cases_reply_def Let_def
  by (rule route_performs) (auto intro!: preserved reads_maintain elim!: serves_None [rotated])

lemma respond_performs: "respond ap rq h e w = (r, w') \<Longrightarrow> performs (ap_services ap) rq e w r w'"
proof (cases rq)
  case GetHealth
  then show "respond ap rq h e w = (r, w') \<Longrightarrow> ?thesis" by (auto simp: ret_def performs_def)
next
  case (ListEvaluations wid reader)
  then show "respond ap rq h e w = (r, w') \<Longrightarrow> ?thesis"
    by (auto simp: list_control_evaluations_def intro!: preserved reads_maintain elim!: reader_performs route_performs serves_None [rotated])
next
  case (GetEvaluation wid eid reader)
  then show "respond ap rq h e w = (r, w') \<Longrightarrow> ?thesis"
    by (auto simp: get_control_evaluation_def intro!: reads_maintain elim!: reader_performs reads_perform)
next
  case (GetIngestion rid token)
  then show "respond ap rq h e w = (r, w') \<Longrightarrow> ?thesis"
    by (auto simp: reply_defs reads_maintain elim!: admin_performs serves_read [rotated])
next
  case (GetLineage chunk token)
  then show "respond ap rq h e w = (r, w') \<Longrightarrow> ?thesis"
    by (auto simp: reply_defs reads_maintain elim!: admin_performs serves_read [rotated])
qed (auto simp: reply_defs intro: writes_perform list_performs serves_calls reads_maintain closed_get_case elim!: admin_performs reads_perform)

end
