(* ===== verification/ApiProps.thy ===== *)
theory ApiProps
  imports ApiCalls StoreProps
begin

text \<open>The properties of the HTTP interface: a request is at most one call of a service, refusals leave no trace, and
  the headers that guard policies and controls are checked before anything is read or stored.\<close>

section \<open>Requests and calls\<close>

text \<open>C38: The HTTP interface adds nothing to the services: a request either leaves every table as it is, and is then not
  answered unless it only reads, or it acts on the tables exactly as the one call of a service it stands for, and is
  answered exactly when that call succeeds.\<close>

theorem requests_refine_calls:
  assumes "respond ap rq h e w = (r, w')"
  shows "db w' = db w \<and> ((\<exists>s c b. r = Inr (Answered s c b)) \<longrightarrow> (\<forall>corr. call_of rq corr = None)) \<or>
    (\<exists>corr k w1 y w2. call_of rq corr = Some k \<and> db w1 = db w \<and> serve (ap_services ap) k e w1 = (y, w2) \<and>
      db w' = db w2 \<and> ((\<exists>s c b. r = Inr (Answered s c b)) \<longleftrightarrow> \<not> isl y))"
  using respond_performs [OF assms] by (simp add: performs_def answers_def)

text \<open>The interface over the pilot services.\<close>

definition pilot_api :: api where
  "pilot_api = \<lparr>ap_services = pilot_services, ap_str = \<lambda>_. ''error'', ap_encode = \<lambda>_. VNone, ap_session_utc = \<lambda>t. t\<rparr>"

lemma pilot_posted:
  obtains d w c r where "respond pilot_api (PostCase pilot_create (Some ''key-1'')) (Some ''corr-1'') pilot_env pilot_world =
      (Inr (Answered 201 ''corr-1'' d), w)"
    and "cases (db w) = [c]" and "idempotency (db w) = [r]" and "idempotency_key r = (CREATE_CASE_OPERATION, ''key-1'')"
    and "ca_case_id c = ''id-0''"
proof (rule pilot_created)
  fix d w c r
  assume run: "serve pilot_services pilot_opening pilot_env pilot_world = (Inr d, w)"
    and rows: "cases (db w) = [c]" "idempotency (db w) = [r]" "ca_case_id c = ''id-0''"
      "idempotency_key r = (CREATE_CASE_OPERATION, ''key-1'')"
  from run obtain again where "create_case (sv_bank pilot_services) pilot_create ''key-1'' ''corr-1'' pilot_env pilot_world
      = (Inr (d, again), w)"
    by (auto simp: pilot_opening_def bnd_def ret_def split: prod.splits sum.splits)
  moreover have "strip ''corr-1'' = ''corr-1''" by code_simp
  ultimately have "respond pilot_api (PostCase pilot_create (Some ''key-1'')) (Some ''corr-1'') pilot_env pilot_world =
      (Inr (Answered 201 ''corr-1'' d), w)"
    by (simp add: post_case_def unsent_def route_reply_def resolve_correlation_id_def body_of_def pilot_api_def app_eval)
  with rows that show thesis by blast
qed

lemma requests_refine_calls_witness:
  "\<exists>(w :: world) d c k w1 y w2. respond pilot_api (PostCase pilot_create (Some ''key-1'')) (Some ''corr-1'') pilot_env pilot_world =
     (Inr (Answered 201 ''corr-1'' d), w) \<and> cases (db w) = [c] \<and> db w1 = empty_store \<and>
     serve pilot_services k pilot_env w1 = (y, w2) \<and> \<not> isl y \<and> db w = db w2"
proof (rule pilot_posted)
  fix d w c
  assume run: "respond pilot_api (PostCase pilot_create (Some ''key-1'')) (Some ''corr-1'') pilot_env pilot_world =
      (Inr (Answered 201 ''corr-1'' d), w)" and c: "cases (db w) = [c]"
  from requests_refine_calls [OF run] obtain k w1 y w2 where "db w1 = db pilot_world"
    "serve (ap_services pilot_api) k pilot_env w1 = (y, w2)" "db w = db w2" "\<not> isl y" by (auto simp del: serve.simps)
  then show ?thesis using run c
    by (intro exI [of _ w] exI [of _ d] exI [of _ c] exI [of _ k] exI [of _ w1] exI [of _ y] exI [of _ w2])
      (simp add: pilot_api_def)
qed

section \<open>Histories of requests\<close>

inductive http_reaches :: "api \<Rightarrow> (string \<Rightarrow> string) \<Rightarrow> world \<Rightarrow> world \<Rightarrow> bool" for ap sha where
  start: "http_reaches ap sha w w"
| request: "http_reaches ap sha w w' \<Longrightarrow> en_sha e = sha \<Longrightarrow> respond ap rq h e w' = (r, w'') \<Longrightarrow> http_reaches ap sha w w''"

text \<open>What every call of a service keeps, every request keeps.\<close>

lemma respond_maintains:
  assumes "\<And>call. maintains Q (serve (ap_services ap) call)"
  shows "maintains Q (respond ap rq h)"
  unfolding maintains_def
proof (intro allI impI)
  fix e :: env and w :: world
  assume start: "Q e (db w)"
  obtain r w' where run: "respond ap rq h e w = (r, w')" by (cases "respond ap rq h e w")
  from respond_performs [OF this] consider "db w' = db w"
    | k w1 y w2 where "db w1 = db w" "serve (ap_services ap) k e w1 = (y, w2)" "db w' = db w2"
    unfolding performs_def by blast
  then have "Q e (db w')"
  proof cases
    case (2 k w1 y w2)
    then show ?thesis using start maintainsD [OF assms] by simp
  qed (simp add: start)
  then show "Q e (db (snd (respond ap rq h e w)))" by (simp add: run)
qed

lemma http_inv:
  assumes "http_reaches ap sha w w'" and "offline (ap_services ap)" and "db w = empty_store" and "en_sha e = sha"
  shows "service_inv e (db w')"
  using assms(1,3,4)
proof (induction arbitrary: e)
  case (request w w' e0 rq h r w'')
  then have "service_inv e0 (db w')" by blast
  from maintainsD [OF respond_maintains [OF serve_inv [OF assms(2)]] request.hyps(3) this]
  show ?case using request.hyps(2) request.prems(2) service_inv_sha by metis
qed (simp add: service_inv_empty)

text \<open>C39: A case or workflow request that is not answered leaves no trace: whatever was requested before, a refusal and an
  exception the server reports leave every table as it was.\<close>

theorem refused_requests_leave_no_trace:
  assumes "http_reaches ap (en_sha e) w0 w" and "db w0 = empty_store" and "offline (ap_services ap)"
    and "\<forall>corr call. call_of rq corr = Some call \<longrightarrow> request_of call \<noteq> None"
    and "respond ap rq h e w = (r, w')" and "\<nexists>s c b. r = Inr (Answered s c b)"
  shows "db w' = db w"
proof -
  from respond_performs [OF assms(5)] assms(6) consider "db w' = db w"
    | corr k w1 x w2 where "call_of rq corr = Some k" "db w1 = db w" "serve (ap_services ap) k e w1 = (Inl x, w2)" "db w' = db w2"
    unfolding performs_def answers_def by (metis isl_def)
  then show ?thesis
  proof cases
    case (2 corr k w1 x w2)
    then have "request_of k \<noteq> None" and complete: "records_complete (db w1)"
      using assms(4) http_inv [OF assms(1,3,2) refl] by (auto simp: service_inv_def case_inv_def)
    then obtain op key p where "request_of k = Some (op, key, p)" by auto
    from protocol_atomic [OF serve_protocol [OF this] complete 2(3)] show ?thesis using 2 by simp
  qed
qed

lemma refused_requests_leave_no_trace_witness:
  "\<exists>w w' k d. respond pilot_api (PostEvidence ''id-9'' pilot_evidence (Some ''key-2'') (Some ''1'')) (Some ''corr-2'') pilot_env w =
     (Inr (Refused 404 k d), w') \<and> db w' = db w \<and> cases (db w) \<noteq> []"
proof (rule pilot_posted)
  fix d w c r
  assume run: "respond pilot_api (PostCase pilot_create (Some ''key-1'')) (Some ''corr-1'') pilot_env pilot_world =
      (Inr (Answered 201 ''corr-1'' d), w)"
    and tabs: "cases (db w) = [c]" "idempotency (db w) = [r]" and ids: "idempotency_key r = (CREATE_CASE_OPERATION, ''key-1'')"
      "ca_case_id c = ''id-0''"
  have past: "http_reaches pilot_api (en_sha pilot_env) pilot_world w"
    by (rule http_reaches.request [OF http_reaches.start refl run])
  have texts: "strip ''corr-2'' = ''corr-2''" "parse_if_match ''1'' = Inr 1" by code_simp+
  have none: "register_evidence ''id-9'' pilot_evidence ''key-2'' 1 ''corr-2'' pilot_env w = (Inl CaseNotFound, w)"
    using tabs ids by (simp add: register_evidence_def idempotent_def replay_def idem_get_def register_body_def case_get_def
        row_by_def CREATE_CASE_OPERATION_def evidence_operation_def app_eval)
  obtain k d' w' where refused: "respond pilot_api (PostEvidence ''id-9'' pilot_evidence (Some ''key-2'') (Some ''1'')) (Some ''corr-2'')
      pilot_env w = (Inr (Refused 404 k d'), w')"
    by (simp add: post_evidence_def unsent_def route_reply_def resolve_correlation_id_def body_of_def register_errors_def
        http_exception_handler_def refusal_def texts none app_eval Let_def ret_def)
  have "db w' = db w"
    by (rule refused_requests_leave_no_trace [OF past _ _ _ refused]) (simp_all add: pilot_api_def pilot_offline texts)
  have "cases (db w) \<noteq> []" using tabs(1) by simp
  with refused \<open>db w' = db w\<close> show ?thesis by blast
qed

section \<open>Access\<close>

fun admin_token :: "http_request \<Rightarrow> string option option" where
  "admin_token (PostIngestion q token) = Some token"
| "admin_token (GetIngestion rid token) = Some token"
| "admin_token (PostPromotion q token) = Some token"
| "admin_token (GetLineage chunk token) = Some token"
| "admin_token (PostRetrieval q token) = Some token"
| "admin_token (PostRetrievalEvaluation cfg actor token) = Some token"
| "admin_token _ = None"

text \<open>The requests that touch the controls, with the header they carry.\<close>

fun control_reader :: "store \<Rightarrow> http_request \<Rightarrow> string option option" where
  "control_reader s (ListEvaluations wid reader) = Some reader"
| "control_reader s (GetEvaluation wid eid reader) = Some reader"
| "control_reader s (PostWorkflow q key reader) = (if sr_graph_version q = CONTROL_GRAPH_VERSION \<and>
     key \<notin> {None, Some []} then Some reader else None)"
| "control_reader s (PostResume wid q key v reader) = (case row_by wr_workflow_id wid (runs s) of None \<Rightarrow> None
   | Some run \<Rightarrow> if wr_graph_version run = CONTROL_GRAPH_VERSION \<and> key \<notin> {None, Some []} \<and> v \<notin> {None, Some []}
       then Some reader else None)"
| "control_reader s _ = None"

lemma reader_denied:
  assumes "en_app_env e \<notin> {''local'', ''test''} \<or> reader \<noteq> Some ''true''"
  shows "\<exists>err w1. require_control_reader reader h e w = (Inr (Some err), w1) \<and> he_status err = 403 \<and> db w1 = db w"
  using assms resolve_run [of h e w] by (auto simp: require_control_reader_def bnd_def ret_def ask_def refusal_def)

lemma route_denied:
  assumes "\<And>corr w1. db w1 = db w \<Longrightarrow> \<exists>err w2. m corr e w1 = (Inr (Inl err), w2) \<and> he_status err = s \<and> db w2 = db w"
    and "route_reply st h c m e w = (r, w')"
  shows "\<exists>k d. r = Inr (Refused s k d) \<and> db w' = db w"
proof (rule route_run [OF assms(2)])
  fix corr w1 x w2
  assume "db w1 = db w" and "m corr e w1 = (x, w2)" and "db w' = db w2" and "replied st (c corr) corr x r"
  then show ?thesis using assms(1) [of w1 corr] by (auto simp: replied_def)
qed

lemma guarded_denied: "g e w = (Inr (Some err), w1) \<Longrightarrow> guarded g m e w = (Inr (Inl err), w1)"
  by (simp add: guarded_def bnd_def ret_def)

lemma admin_denied:
  assumes "token \<noteq> Some ''true''" and "admin_route st token h c m e w = (r, w')"
  shows "\<exists>k d. r = Inr (Refused (if token = None then 401 else 403) k d) \<and> db w' = db w"
  using assms unfolding admin_route_def
  by (elim route_denied [rotated]) (auto simp: guarded_def require_policy_admin_def refusal_def app_eval split: option.split)

lemma admin_routes:
  assumes "admin_token rq = Some token"
  obtains st c m where "respond ap rq h = admin_route st token h c m"
  using assms by (cases rq) (auto simp: reply_defs)

lemma reader_only_denied:
  assumes "en_app_env e \<notin> {''local'', ''test''} \<or> reader \<noteq> Some ''true''" and "control_reader_only reader h m e w = (r, w')"
  shows "\<exists>k d. r = Inr (Refused 403 k d) \<and> db w' = db w"
proof -
  from reader_denied [OF assms(1)] obtain err w1 where "require_control_reader reader h e w = (Inr (Some err), w1)"
    and "he_status err = 403" "db w1 = db w" by blast
  then show ?thesis using assms(2) handler_run [of h err e w1] by (auto simp: control_reader_only_def bnd_def)
qed

lemma workflow_denied:
  assumes "en_app_env e \<notin> {''local'', ''test''} \<or> reader \<noteq> Some ''true''" and "sr_graph_version q = CONTROL_GRAPH_VERSION"
    and "key \<notin> {None, Some []}" and "post_workflow ap q key reader h e w = (r, w')"
  shows "\<exists>k d. r = Inr (Refused 403 k d) \<and> db w' = db w"
  using assms(4)
proof -
  have sent_key: "unsent ''Idempotency-Key'' key = []" using assms(3) by (simp add: unsent_def)
  show ?thesis using assms(4) unfolding post_workflow_def sent_key list.case
  proof (elim route_denied [rotated])
    fix corr and w1 :: world
    assume same: "db w1 = db w"
    from reader_denied [OF assms(1), of "Some corr" w1] obtain err w2
      where "require_control_reader reader (Some corr) e w1 = (Inr (Some err), w2)" and err: "he_status err = 403" "db w2 = db w1"
      by blast
    then show "\<exists>err w2. guarded (if sr_graph_version q = CONTROL_GRAPH_VERSION then require_control_reader reader (Some corr) else ret None)
        (body_of id (start_workflow (ap_services ap) q (the key) corr)) e w1 = (Inr (Inl err), w2) \<and>
        he_status err = 403 \<and> db w2 = db w"
      using assms(2) same guarded_denied by (intro exI [of _ err] exI [of _ w2]) simp
  qed
qed

lemma resume_denied:
  assumes "en_app_env e \<notin> {''local'', ''test''} \<or> reader \<noteq> Some ''true''" and "row_by wr_workflow_id wid (runs (db w)) = Some run"
    and "wr_graph_version run = CONTROL_GRAPH_VERSION" and "key \<notin> {None, Some []}" and "v \<notin> {None, Some []}"
    and "post_resume ap wid q key v reader h e w = (r, w')"
  shows "\<exists>k d. r = Inr (Refused 403 k d) \<and> db w' = db w"
proof -
  have sent_both: "unsent ''Idempotency-Key'' key @ unsent ''If-Match'' v = []" using assms(4,5) by (simp add: unsent_def)
  let ?g = "\<lambda>corr. bnd (get_workflow wid) (\<lambda>r. if wr_graph_version (wp_run r) = CONTROL_GRAPH_VERSION
      then require_control_reader reader (Some corr) else ret None)"
  have denied: "\<exists>err w2. ?g corr e w1 = (Inr (Some err), w2) \<and> he_status err = 403 \<and> db w2 = db w" if "db w1 = db w" for corr w1
    using reader_denied [OF assms(1), of "Some corr" w1] assms(2,3) that
    by (auto simp: get_workflow_def get_run_def latest_checkpoint_def to_workflow_response_def app_eval)
  show ?thesis using assms(6) unfolding post_resume_def sent_both list.case
  proof (elim route_denied [rotated])
    fix corr and w1 :: world
    assume "db w1 = db w"
    from denied [OF this, of corr] obtain err w2 where "?g corr e w1 = (Inr (Some err), w2)" "he_status err = 403" "db w2 = db w"
      by blast
    then show "\<exists>err w2. guarded (?g corr) (bnd (of_py (parse_if_match (the v))) (\<lambda>n.
           body_of id (resume_workflow (ap_services ap) wid q (the key) n corr))) e w1 = (Inr (Inl err), w2) \<and>
        he_status err = 403 \<and> db w2 = db w"
      using guarded_denied by (intro exI [of _ err] exI [of _ w2]) simp
  qed
qed



end
