(* ===== verification/Regression.thy ===== *)
theory Regression
  imports ControlRepo Confidence
begin

text \<open>
  \<open>app/control_regression.py\<close>: the golden regression a profile must pass before the registry accepts it.  The dataset
  of the golden cases, a JSON file, is an argument; so is \<open>validates\<close>, whether pydantic accepts a
  dump as a \<open>ControlProfile\<close>.
\<close>

section \<open>The golden inputs\<close>

definition golden_account :: pyval where
  "golden_account = VDict [(''customer_ref'', VStr ''customer-a''), (''account_ref'', VStr ''account-a''),
     (''status'', VStr ''active''), (''product'', VStr ''card'')]"

definition golden_transaction :: "string \<Rightarrow> string \<Rightarrow> (string, pyval) dict" where
  "golden_transaction name ref =
     [(name, VDict [(''transaction_ref'', VStr ref), (''account_ref'', VStr ''account-a''),
        (''merchant_ref'', VStr ''merchant-a''), (''currency'', VStr ''USD''), (''amount'', VStr ''49.99''),
        (''authorized_at'', VStr ''2026-01-01T00:00:00Z'')]),
      (name @ ''_settlement'', VDict [(''transaction_ref'', VStr ref), (''status'', VStr ''settled'')]),
      (name @ ''_refund'', VDict [(''transaction_ref'', VStr ref), (''status'', VStr ''not_refunded''),
        (''amount'', VStr ''0.00''), (''currency'', VStr ''USD'')])]"

definition golden_inputs :: "(string, pyval) dict" where
  "golden_inputs = [(''facts'', VDict ([(''customer_ref'', VStr ''customer-a''),
       (''dispute_type'', VStr ''duplicate_card_transaction''), (''submitted_at'', VStr ''2026-01-02T00:00:00Z''),
       (''account'', golden_account), (''references'', VStrs [''provider:txn-a:v1'', ''provider:txn-b:v1''])] @
       golden_transaction ''disputed'' ''txn-a'' @ golden_transaction ''candidate'' ''txn-b'')),
     (''signals'', VDict [(''classification'', VStr ''0.9''), (''policy'', VStr ''0.8'')])]"

section \<open>Changing a value at a dotted path\<close>

fun split_dots :: "string \<Rightarrow> string \<Rightarrow> string list" where
  "split_dots acc [] = [rev acc]"
| "split_dots acc (c # cs) = (if c = CHR ''.'' then rev acc # split_dots [] cs else split_dots (c # acc) cs)"

text \<open>\<open>int(part)\<close> for a list, without sign or underscores; a wrong index is an \<open>IndexError\<close>, a \<open>LookupError\<close>.\<close>

definition list_index :: "pyval list \<Rightarrow> string \<Rightarrow> nat py" where
  "list_index xs part = (let s = strip part in
     if s = [] \<or> \<not> list_all is_digit s then Inl ValueErr
     else if read_nat s < length xs then Inr (read_nat s) else Inl LookupErr)"

text \<open>\<open>target[part]\<close>, and the update of \<open>target\<close> in which that child is changed.\<close>

fun child :: "pyval \<Rightarrow> string \<Rightarrow> pyval py" where
  "child (VList xs) part = rmap (\<lambda>i. xs ! i) (list_index xs part)"
| "child v part = getitem v part"

fun with_child :: "pyval \<Rightarrow> string \<Rightarrow> pyval \<Rightarrow> pyval py" where
  "with_child (VList xs) part v = rmap (\<lambda>i. VList (xs[i := v])) (list_index xs part)"
| "with_child (VDict d) part v = Inr (VDict (dict_set d part v))"
| "with_child _ part v = Inl TypeErr"

text \<open>The last part is assigned as a key, which a list refuses.\<close>

fun set_path :: "string list \<Rightarrow> pyval \<Rightarrow> pyval \<Rightarrow> pyval py" where
  "set_path [] v t = Inl LookupErr"
| "set_path [k] v t = (case t of VDict d \<Rightarrow> Inr (VDict (dict_set d k v)) | _ \<Rightarrow> Inl TypeErr)"
| "set_path (k # k' # ks) v t = rbind (child t k) (\<lambda>c. rbind (set_path (k' # ks) v c) (with_child t k))"

text \<open>The changes of a case only pass through dictionaries: a list is indexed by text there, a \<open>TypeError\<close>.\<close>

fun set_key_path :: "string list \<Rightarrow> pyval \<Rightarrow> pyval \<Rightarrow> pyval py" where
  "set_key_path [] v t = Inl LookupErr"
| "set_key_path [k] v t = (case t of VDict d \<Rightarrow> Inr (VDict (dict_set d k v)) | _ \<Rightarrow> Inl TypeErr)"
| "set_key_path (k # k' # ks) v t = rbind (getitem t k) (\<lambda>c. rbind (set_key_path (k' # ks) v c) (with_child t k))"

fun dict_items :: "pyval \<Rightarrow> (string, pyval) dict py" where
  "dict_items (VDict d) = Inr d"
| "dict_items _ = Inl TypeErr"

definition changed_inputs :: "pyval \<Rightarrow> pyval py" where
  "changed_inputs changes = rbind (dict_items changes) (\<lambda>d.
     rfold (\<lambda>(path, v) t. set_key_path (split_dots [] path) v t) d (VDict golden_inputs))"

section \<open>Evidence of a case\<close>

definition golden_at :: int where
  "golden_at = day_number 2026 1 2 * us_per_day"

definition golden_item :: "(string \<Rightarrow> string) \<Rightarrow> (string, pyval) dict \<Rightarrow> evidence_requirement \<Rightarrow> evidence_item py" where
  "golden_item sha c r = (case req_kinds r of [] \<Rightarrow> Inl LookupErr | k # _ \<Rightarrow>
     rmap (\<lambda>h. \<lparr>reference = requirement_id r, ev_kind = k, checksum = h, ev_state = Validated,
       source_as_of = Some (if truthy (dict_get c ''stale'' VNone) then golden_at - 2 * us_per_day else golden_at),
       subject = None, attributes = []\<rparr>) (digest sha (VStr (requirement_id r))))"

definition golden_items :: "(string \<Rightarrow> string) \<Rightarrow> control_profile \<Rightarrow> (string, pyval) dict \<Rightarrow> evidence_item list py" where
  "golden_items sha p c = rtraverse (golden_item sha c)
     (filter (\<lambda>r. \<not> py_eq (VStr (requirement_id r)) (dict_get c ''remove_evidence'' VNone)) (requirements (cp_evidence p)))"

definition with_conflict :: "evidence_item list \<Rightarrow> evidence_item list py" where
  "with_conflict items = (case items of [] \<Rightarrow> Inl LookupErr
   | i # rest \<Rightarrow> let j = i\<lparr>subject := Some ''same-record'', attributes := [(''currency'', ''USD'')]\<rparr>
       in Inr (j # rest @ [j\<lparr>reference := ''conflicting-record'', attributes := [(''currency'', ''EUR'')]\<rparr>]))"

definition golden_evidence ::
  "(string \<Rightarrow> string) \<Rightarrow> control_profile \<Rightarrow> (string, pyval) dict \<Rightarrow> evidence_assessment py" where
  "golden_evidence sha p c = rbind (golden_items sha p c) (\<lambda>items.
     rbind (assess sha (cp_evidence p) items (Aware golden_at)) (\<lambda>a.
     if truthy (dict_get c ''conflict'' VNone)
     then rbind (with_conflict items) (\<lambda>items'. assess sha (cp_evidence p) items' (Aware golden_at))
     else Inr a))"

section \<open>Rules of a case\<close>

text \<open>\<open>FailingEngine\<close>: every handler raises a \<open>RuntimeError\<close>, so a rule in force that applies ends in an error.\<close>

definition failing_rule ::
  "string \<Rightarrow> (string, pyval) dict \<Rightarrow> int \<Rightarrow> rule_definition \<Rightarrow> rule_result py" where
  "failing_rule version facts t rule =
     (let (out, reason) = (if \<not> rule_effective rule t then (RuleError, ''RULE_VERSION_NOT_EFFECTIVE'')
        else if \<not> rule_applies rule facts then (NotApplicable, ''RULE_NOT_APPLICABLE'')
        else (RuleError, ''RULE_EXECUTION_ERROR'')) in
      rmap (\<lambda>refs. \<lparr>rr_rule_id = rd_rule_id rule, rr_version = rd_version rule, outcome = out,
         reason_code = reason, rr_mandatory = rd_mandatory rule, fact_refs = refs,
         rr_policy_refs = rd_policy_refs rule, config_ref = version\<rparr>) (sorted_refs facts))"

definition failing_execute ::
  "(string \<Rightarrow> string) \<Rightarrow> rule_set \<Rightarrow> (string, pyval) dict \<Rightarrow> evidence_assessment \<Rightarrow> string list \<Rightarrow> pytime \<Rightarrow>
    rule_execution py" where
  "failing_execute sha ruleset facts evidence policy_refs as_of =
     rbind (utc as_of) (\<lambda>t.
     rbind (rtraverse (failing_rule (rs_version ruleset) facts t) (sort_key rd_order (rs_rules ruleset))) (\<lambda>rs.
     rbind (digest sha (execution_input facts evidence policy_refs t)) (\<lambda>h.
       let blk = is_blocked evidence rs in
       Inr \<lparr>ruleset_version = rs_version ruleset, facts_hash = h, results = rs,
            candidate = candidate_of blk rs, blocked = blk\<rparr>)))"

fun text_value :: "pyval \<Rightarrow> string py" where
  "text_value (VStr s) = Inr s"
| "text_value _ = Inl TypeErr"

definition golden_refs :: "(string, pyval) dict \<Rightarrow> string list py" where
  "golden_refs c = rbind (iterate (dict_get c ''policy_refs'' (VStrs [''POL-DUP-CARD-CONTROLS:2026.09''])))
     (rtraverse text_value)"

definition golden_rules :: "(string \<Rightarrow> string) \<Rightarrow> control_profile \<Rightarrow> (string, pyval) dict \<Rightarrow> (string, pyval) dict \<Rightarrow>
    evidence_assessment \<Rightarrow> rule_execution py" where
  "golden_rules sha p c facts a = rbind (golden_refs c) (\<lambda>refs.
     (if truthy (dict_get c ''rule_exception'' VNone) then failing_execute else execute)
       sha (cp_rules p) facts a refs (Aware golden_at))"

section \<open>Confidence of a case\<close>

definition golden_signals :: "(string, pyval) dict \<Rightarrow> evidence_assessment \<Rightarrow> rule_execution \<Rightarrow> (string, pyval) dict py" where
  "golden_signals signals a x = rmap (\<lambda>certainty. foldl (\<lambda>d (k, v). dict_set d k v) signals
     [(''evidence'', VDec (Finite (ea_score a))), (''rules'', certainty),
      (''conflicts'', VInt (if conflicting a \<noteq> [] then 1 else 0)), (''tools'', VInt 0)]) (rule_certainty x)"

definition golden_gates :: "evidence_assessment \<Rightarrow> rule_execution \<Rightarrow> string list" where
  "golden_gates a x = (if blocked x then [''RULE_REVIEW''] else []) @
     (if mandatory_complete a then [] else [''MANDATORY_EVIDENCE_INCOMPLETE''])"

definition golden_confidence :: "control_profile \<Rightarrow> (string, pyval) dict \<Rightarrow> evidence_assessment \<Rightarrow> rule_execution \<Rightarrow>
    confidence_evaluation py" where
  "golden_confidence p signals a x = rbind (golden_signals signals a x) (\<lambda>s.
     evaluate_confidence (cp_confidence p) s (map (\<lambda>(k, _). (k, ''golden:record-v1'')) s) (golden_gates a x))"

section \<open>The verdict\<close>

definition actual_values :: "evidence_assessment \<Rightarrow> rule_execution \<Rightarrow> confidence_evaluation \<Rightarrow> (string, pyval) dict" where
  "actual_values a x y = [(''candidate'', VStr (disposition_text (candidate x))),
     (''mandatory_complete'', VBool (mandatory_complete a)), (''score'', VStr (dec_str (Finite (ce_score y)))),
     (''ready'', VBool (ready y))]"

definition mismatches :: "pyval \<Rightarrow> (string, pyval) dict \<Rightarrow> (string, pyval) dict \<Rightarrow> pyval list" where
  "mismatches cid c actual = concat (map (\<lambda>(k, v). case map_of c k of None \<Rightarrow> []
     | Some expected \<Rightarrow> if py_eq expected v then [] else [VDict [(''scenario'', cid), (''field'', VStr k),
         (''expected'', expected), (''actual'', v)]]) actual)"

definition run_case :: "(string \<Rightarrow> string) \<Rightarrow> control_profile \<Rightarrow> (string, pyval) dict \<Rightarrow> pyval list py" where
  "run_case sha p c = rbind (getitem (VDict c) ''changes'') (\<lambda>changes. rbind (changed_inputs changes) (\<lambda>inputs.
     rbind (golden_evidence sha p c) (\<lambda>a.
     rbind (rbind (getitem inputs ''facts'') dict_items) (\<lambda>facts. rbind (golden_rules sha p c facts a) (\<lambda>x.
     rbind (rbind (getitem inputs ''signals'') dict_items) (\<lambda>signals. rbind (golden_confidence p signals a x) (\<lambda>y.
     let actual = actual_values a x y in
     if mismatches VNone c actual \<noteq> [] then rmap (\<lambda>cid. mismatches cid c actual) (getitem (VDict c) ''id'')
     else Inr [])))))))"

text \<open>A case whose configuration must be refused; the dump holds times and decimals as values, where the JSON mode writes
  texts, and \<open>validates\<close> speaks of this dump.\<close>

definition run_invalid :: "(pyval \<Rightarrow> bool) \<Rightarrow> control_profile \<Rightarrow> (string, pyval) dict \<Rightarrow> pyval \<Rightarrow> pyval list py" where
  "run_invalid validates p c change = rbind (rbind (getitem change ''path'') text_value) (\<lambda>path.
     rbind (getitem change ''value'') (\<lambda>v. rbind (set_path (split_dots [] path) v (dump_profile p)) (\<lambda>dump.
     if validates dump then rmap (\<lambda>cid. [VDict [(''scenario'', cid), (''expected'', VStr ''invalid configuration'')]])
       (getitem (VDict c) ''id'')
     else Inr [])))"

definition check_case :: "(string \<Rightarrow> string) \<Rightarrow> (pyval \<Rightarrow> bool) \<Rightarrow> control_profile \<Rightarrow> pyval \<Rightarrow> pyval list py" where
  "check_case sha validates p v = rbind (dict_items v) (\<lambda>c. case map_of c ''invalid_config'' of
     Some change \<Rightarrow> run_invalid validates p c change
   | None \<Rightarrow> run_case sha p c)"

definition evaluate_profile ::
  "(string \<Rightarrow> string) \<Rightarrow> (pyval \<Rightarrow> bool) \<Rightarrow> pyval \<Rightarrow> control_profile \<Rightarrow> (string, pyval) dict py" where
  "evaluate_profile sha validates dataset p = rbind (rbind (getitem dataset ''cases'') iterate) (\<lambda>cs.
     rbind (rmap concat (rtraverse (check_case sha validates p) cs)) (\<lambda>failures.
     rbind (getitem dataset ''dataset_version'') (\<lambda>version. rbind (digest sha dataset) (\<lambda>h.
     rmap (\<lambda>ph. [(''dataset_version'', version), (''dataset_hash'', VStr h), (''profile_hash'', VStr ph),
        (''scenario_count'', VInt (int (length cs))), (''passed'', VBool (failures = [])), (''failures'', VList failures)])
       (digest sha (dump_profile p))))))"

text \<open>The registry as it is wired: the regression is this one.\<close>

definition register_control :: "(pyval \<Rightarrow> bool) \<Rightarrow> pyval \<Rightarrow> control_profile \<Rightarrow> string \<Rightarrow> config_row app" where
  "register_control validates dataset p actor = bnd (ask en_sha) (\<lambda>sha.
     register_profile (evaluate_profile sha validates dataset) p actor)"

end
