(* ===== verification/SqliteScores.thy ===== *)
theory SqliteScores
  imports Retrieval
begin

text \<open>
  The scores \<open>PolicyRepository._sqlite_hybrid_retrieve\<close> computes where the database has no full-text search and no
  vectors: the share of the query's terms a chunk contains, and the cosine of the two embeddings.  Floats
  are the rationals of \<open>PyFloat\<close>; \<open>sum\<close> is the compensated sum of Python 3.12, the version the project demands.
\<close>

section \<open>Terms\<close>

definition term_char :: "char \<Rightarrow> bool" where
  "term_char c \<longleftrightarrow> is_lower c \<or> is_digit c"

text \<open>\<open>re.findall(r"[a-z0-9]+", text)\<close>.\<close>

fun find_terms :: "string \<Rightarrow> string \<Rightarrow> string list" where
  "find_terms acc [] = (if acc = [] then [] else [rev acc])"
| "find_terms acc (c # cs) = (if term_char c then find_terms (c # acc) cs
     else if acc = [] then find_terms [] cs else rev acc # find_terms [] cs)"

definition terms_of :: "string \<Rightarrow> string list" where
  "terms_of s = remdups (filter (\<lambda>t. 2 < length t) (find_terms [] (lower s)))"

definition lexical_share :: "string \<Rightarrow> string \<Rightarrow> rat" where
  "lexical_share query content = (let q = terms_of query; c = terms_of content in
     if q = [] then 0 else dbl (of_nat (length (filter (\<lambda>t. t \<in> set c) q)) / of_nat (length q)))"

section \<open>Vectors\<close>

fun split_commas :: "string \<Rightarrow> string \<Rightarrow> string list" where
  "split_commas acc [] = [rev acc]"
| "split_commas acc (c # cs) = (if c = CHR '','' then rev acc # split_commas [] cs else split_commas (c # acc) cs)"

definition without_brackets :: "string \<Rightarrow> string" where
  "without_brackets s = (let t = (if s \<noteq> [] \<and> hd s = CHR ''['' then tl s else s)
     in if t \<noteq> [] \<and> last t = CHR '']'' then butlast t else t)"

text \<open>\<open>float(item)\<close> for the plain decimals \<open>_format_vector\<close> writes: an optional sign, digits, a point, digits.\<close>

definition read_float :: "string \<Rightarrow> rat py" where
  "read_float s = (let t = strip s; neg = (t \<noteq> [] \<and> hd t = CHR ''-''); u = (if neg then tl t else t);
       whole = takeWhile is_digit u; rest = dropWhile is_digit u;
       frac = (case rest of [] \<Rightarrow> [] | _ # ds \<Rightarrow> ds)
     in if whole = [] \<or> (rest \<noteq> [] \<and> hd rest \<noteq> CHR ''.'') \<or> \<not> list_all is_digit frac then Inl ValueErr
        else let x = of_nat (read_nat (whole @ frac)) / 10 ^ length frac in Inr (dbl (if neg then - x else x)))"

definition parse_vector :: "string \<Rightarrow> rat list py" where
  "parse_vector s = (let t = without_brackets (strip s) in if t = [] then Inr [] else rtraverse read_float (split_commas [] t))"

text \<open>\<open>sum\<close>: the running sum and the correction it collects, added at the end.\<close>

definition sum_step :: "rat \<Rightarrow> rat \<times> rat \<Rightarrow> rat \<times> rat" where
  "sum_step x = (\<lambda>(total_sum, c). let t = fl_add total_sum x in
     (t, fl_add c (if \<bar>x\<bar> \<le> \<bar>total_sum\<bar> then fl_add (fl_sub total_sum t) x else fl_add (fl_sub x t) total_sum)))"

definition float_sum :: "rat list \<Rightarrow> rat" where
  "float_sum xs = (let (s, c) = fold sum_step xs (0, 0) in fl_add s c)"

text \<open>The integer square root by bisection on the bits, and the square root rounded once: beyond 58 bits, a remainder
  counts as half a unit, which no tie of the rounding can be.\<close>

fun isqrt_bits :: "nat \<Rightarrow> int \<Rightarrow> int \<Rightarrow> int" where
  "isqrt_bits 0 n r = r"
| "isqrt_bits (Suc k) n r = (let r' = r + 2 ^ k in isqrt_bits k n (if r' * r' \<le> n then r' else r))"

definition fl_sqrt :: "rat \<Rightarrow> rat" where
  "fl_sqrt x = (if x \<le> 0 then 0 else
     let k = 58 - lead_bit x div 2; n = \<lfloor>x * two_to (2 * k)\<rfloor>; r = isqrt_bits 60 n 0
     in dbl ((of_int r + (if of_int (r * r) = x * two_to (2 * k) then 0 else 1 / 2)) * two_to (- k)))"

definition dot_product :: "rat list \<Rightarrow> rat list \<Rightarrow> rat" where
  "dot_product a b = float_sum (map (\<lambda>(x, y). fl_mul x y) (zip a b))"

definition cosine :: "rat list \<Rightarrow> rat list \<Rightarrow> rat" where
  "cosine a b = (if a = [] \<or> b = [] \<or> length a \<noteq> length b then 0
     else let na = fl_sqrt (dot_product a a); nb = fl_sqrt (dot_product b b) in
       if na = 0 \<or> nb = 0 then 0 else max 0 (min 1 (dbl (dot_product a b / fl_mul na nb))))"

section \<open>The scores\<close>

definition sqlite_row :: "string \<Rightarrow> rat list \<Rightarrow> chunk_row \<Rightarrow> (dec \<times> dec) py" where
  "sqlite_row query vector c = rmap (\<lambda>v. (round_six (lexical_share query (ch_content c)), round_six (cosine vector v)))
     (parse_vector (ch_embedding_vector c))"

text \<open>As a scoring function; a vector that cannot be read, which the service never stores, scores nothing.\<close>

definition sqlite_scores :: scoring where
  "sqlite_scores query vector c = (case rbind (parse_vector vector) (\<lambda>v. sqlite_row query v c) of
     Inl _ \<Rightarrow> (zero_score, zero_score) | Inr s \<Rightarrow> s)"

end
