(* ===== verification/Spec2Isabelle.thy ===== *)
theory Spec2Isabelle
  imports PilotRules StoreProps ApiProps Regression SqliteScores
begin

text \<open>
  DisputeIQ: a service for card disputes.  A client opens a case, registers evidence and starts a workflow; the workflow
  walks a graph that classifies the dispute, gathers evidence, asks the controlled policies and runs versioned rules,
  pauses where a person has to act and is resumed with the version it stopped at.  All paths below are relative to
  \<open>src/backend\<close>.

  \<^bold>\<open>The host language.\<close>  \<open>Prelude\<close>: exceptions as values of \<open>exc\<close>, fallible computations as sums, dictionaries as
  association lists, \<open>sorted(set(...))\<close>.  \<open>PyTime\<close>, \<open>PyDecimal\<close>, \<open>PyFloat\<close>, \<open>PyVal\<close>: aware and naive timestamps, decimals
  in the default context, binary64 floats as the decimals they print as, dynamically typed values and their JSON text.
  \<open>JsonText\<close>: the printed text of a value determines the value, hence \<open>canonical\<close> and \<open>digest\<close> do.  Where the code
  handles machine numbers it handles Python's unbounded integers, so the model uses \<open>int\<close>.

  \<^bold>\<open>The pure controls.\<close>  \<open>Controls\<close> (\<open>app/domain/controls.py\<close>): the contracts, their validators and dumps.  \<open>Evidence\<close>
  (\<open>app/services/evidence_completeness.py\<close>), \<open>Rules\<close> (\<open>rules_engine.py\<close>), \<open>Confidence\<close> (\<open>case_confidence.py\<close>), \<open>Providers\<close>
  (\<open>app/adapters/synthetic_providers.py\<close>, \<open>control_context.py\<close>), \<open>Regression\<close> (\<open>app/control_regression.py\<close>).  \<open>RuleSafety\<close>
  and \<open>PilotRules\<close> hold the properties of the engine and its run on the pilot profile.

  \<^bold>\<open>The stateful services.\<close>  \<open>Store\<close> has a record per table of \<open>app/adapters/models.py\<close> and the database as the record of
  all tables.  An operation is a function \<open>env \<Rightarrow> world \<Rightarrow> (exc + 'a) \<times> world\<close> (\<open>Session\<close>): the environment holds
  the settings and the hash function, the world the store, the supply of identifiers, the clock and the object that
  walks the control stages.  Effects are sequenced with \<open>bnd\<close>; \<open>transact\<close> is
  the block \<open>with db.begin_nested()\<close> and its commit: it undoes the writes of a computation that raises.  \<open>Tables\<close> states the contract of a
  table with a key as a locale and is interpreted for every table with a primary key or a unique index.
    \<^item> Repositories (\<open>app/adapters/repositories.py\<close>, \<open>control_repository.py\<close>): \<open>CaseRepos\<close>, \<open>WorkflowRepo\<close>,
      \<open>PolicyRepos\<close>, \<open>ControlRepo\<close>; the scores of the SQLite fallback in \<open>SqliteScores\<close>.
    \<^item> Requests and responses (\<open>app/domain/schemas.py\<close>): \<open>Schemas\<close>, \<open>PolicySchemas\<close>, \<open>Replies\<close>.
    \<^item> Cases (\<open>app/services/case_service.py\<close>): \<open>Idempotency\<close> states the protocol of the four idempotent operations, \<open>CaseSvc\<close>
      the operations.
    \<^item> Policies: \<open>Ingestion\<close> (\<open>policy_ingestion.py\<close>), \<open>Eligibility\<close> (\<open>policy_eligibility.py\<close>), \<open>Retrieval\<close>
      (\<open>policy_retrieval.py\<close> and \<open>hybrid_retrieve\<close>).
    \<^item> Workflows: \<open>Gateway\<close> (\<open>model_gateway.py\<close>, \<open>classification.py\<close>), \<open>Graph\<close> (\<open>workflow_graph.py\<close>), \<open>ControlFlow\<close>
      (\<open>control_workflow.py\<close>), \<open>WorkflowSvc\<close> (\<open>workflow_service.py\<close>).
    \<^item> HTTP (\<open>app/api/v1\<close>, \<open>app/main.py\<close>, \<open>app/core/correlation.py\<close>): \<open>Api\<close>; a request is a value of
      \<open>http_request\<close>, an except clause a function from exceptions to error bodies, \<open>respond\<close> one route per constructor.

  \<^bold>\<open>Histories.\<close>  \<open>ServiceCalls\<close> collects the calls in the datatype \<open>call\<close>, \<open>serve\<close> performs one, \<open>reaches\<close> is what any
  sequence of calls leads to; concurrent clients are the interleavings of their calls, each of which is one transaction.
  \<open>ControlKept\<close>, \<open>WorkflowSafety\<close>, \<open>History\<close>, \<open>PolicyKept\<close> prove of every operation what it keeps (\<open>maintains\<close>,
  collected in \<open>preserved\<close>), \<open>ServiceHistory\<close> of every history; \<open>Growth\<close> compares two points of a history, \<open>Retries\<close> two calls
  with one key, \<open>ApiCalls\<close> a request with the call it stands for.  \<open>Wp\<close> is a weakest-precondition calculus for runs
  that must return; \<open>PilotWorld\<close>, \<open>PilotCalls\<close>, \<open>PilotRun\<close> are the concrete worlds of the examples.

  \<^bold>\<open>What is proved.\<close>
    \<^item> Rules, evidence, confidence (C1 to C13): what a supported disposition implies about the transactions; the gate opens
      exactly for complete, unconflicted evidence; order independence; totality; the decimal score refines the rational one.
    \<^item> Providers, schemas, gateway, eligibility (C14 to C20): acquisitions are sound and possible; headers read
      back; no forbidden key is stored; no provider can have an unsupported decision accepted; exactly the admissible chunks.
    \<^item> The service (C21 to C28, C37): the invariants of cases, runs and the schema in every history, replay and conflict of
      keys, atomic failures, append-only tables, no lost update of a case, frozen records.
    \<^item> Policies (C29 to C31): grounded answers, guarded promotion, chunks that verify.
    \<^item> Runs (C32 to C36): stale resumes, the recursive run and the step relation agree, termination, no stage is skipped.
    \<^item> HTTP (C38 to C40): requests refine calls, refusals leave no trace, access is checked first.

  \<^bold>\<open>Bounds.\<close>  The only loop of the code whose end is not structural is the walk over the graph: \<open>run_from\<close> terminates
  because every route leads forward, and \<open>graph_terminates\<close> bounds it by seven steps.  Nothing is given fuel.  A retry loop of the gateway makes
  at most two attempts.  Limits of the code (20000 characters of state, 2000 of a query, header and column sizes the
  validators check) are in the validators; the widths of columns that only the database checks are not.

  \<^bold>\<open>Arguments of the model.\<close>  The hash function, the tables of the bank and its adapters, the model providers,
  PostgreSQL's lexical and vector scores (\<open>scores\<close>), the texts of library exceptions and the time zone of a database
  session.  No property assumes more of them than its statement says: \<open>offline\<close> asks the model
  providers not to write to the store, as a provider has no session to write with.

  \<^bold>\<open>Not modelled.\<close>
    \<^item> FastAPI's routing and pydantic's parsing of JSON bodies: a request arrives as the record its schema describes, and the
      validators of the schema are definitions.  The parsing of a UUID is the identity on its text.
    \<^item> The SQL the repositories generate, isolation anomalies below one transaction, and the triggers of the migrations:
      that no call rewrites a frozen row is proved of the code.
    \<^item> The readers of fixtures (\<open>control_fixture_loader.py\<close>, \<open>policy_fixture_loader.py\<close>), the smoke and evaluation
      scripts, the migrations, the creation of the engine, the reading of the environment, logging: I/O around the
      operations above.
\<close>

end
